(* ===== verification/Py_Prelude.thy ===== *)
theory Py_Prelude
  imports Complex_Main "HOL-Library.Multiset"
begin

text \<open>
  Python semantics shared by every component of the ONNX importer model
  (\<open>src/python/tvm/relay/frontend/onnx.py\<close>):
  \<^item> a Python \<open>dict\<close> keeps its keys in first-insertion order; assigning an
    existing key updates it in place, \<open>pop\<close> removes it, and a re-insertion after
    \<open>pop\<close> moves the key to the end.  It is modelled as an association list
    \<open>('k, 'v) pydict\<close> with distinct keys; \<open>map_of\<close> reads it;
  \<^item> list indexing \<open>xs[i]\<close> with Python's negative indices, \<open>None\<close> standing for
    \<open>IndexError\<close>;
  \<^item> \<open>str.strip()\<close> on ASCII whitespace.
  The lemmas are collected in the named theorem set \<open>pydict_simps\<close>, which the
  component proofs pass to \<open>simp\<close> and \<open>auto\<close>.
\<close>

named_theorems pydict_simps "lookup and key-order facts of the Python dict model"

type_synonym ('k, 'v) pydict = "('k \<times> 'v) list"

subsection \<open>Ordered dictionaries\<close>

text \<open>\<open>d[k] = v\<close>: update in place when \<open>k\<close> is present, append otherwise.\<close>

fun dict_set :: "('k, 'v) pydict \<Rightarrow> 'k \<Rightarrow> 'v \<Rightarrow> ('k, 'v) pydict" where
  "dict_set [] k v = [(k, v)]"
| "dict_set ((a, b) # d) k v = (if a = k then (k, v) # d else (a, b) # dict_set d k v)"

text \<open>\<open>d.pop(k)\<close> (the caller checks membership first, as the importer does).\<close>

definition dict_pop :: "('k, 'v) pydict \<Rightarrow> 'k \<Rightarrow> ('k, 'v) pydict" where
  "dict_pop d k = filter (\<lambda>(a, _). a \<noteq> k) d"

text \<open>\<open>d1.update(d2)\<close>: the entries of \<open>d2\<close> assigned in \<open>d2\<close>'s order.\<close>

definition dict_update :: "('k, 'v) pydict \<Rightarrow> ('k, 'v) pydict \<Rightarrow> ('k, 'v) pydict" where
  "dict_update d1 d2 = foldl (\<lambda>d (k, v). dict_set d k v) d1 d2"

abbreviation dict_keys :: "('k, 'v) pydict \<Rightarrow> 'k list" where
  "dict_keys d \<equiv> map fst d"

abbreviation dict_wf :: "('k, 'v) pydict \<Rightarrow> bool" where
  "dict_wf d \<equiv> distinct (dict_keys d)"

subsection \<open>Python lists\<close>

text \<open>\<open>xs[i]\<close> for an int index: negative indices count from the end.\<close>

definition py_nth :: "'a list \<Rightarrow> int \<Rightarrow> 'a option" where
  "py_nth xs i =
     (let pos = (if 0 \<le> i then i else i + int (length xs))
      in if pos < 0 \<or> int (length xs) \<le> pos then None else Some (xs ! nat pos))"

text \<open>\<open>s.strip()\<close> with the ASCII whitespace characters.\<close>

definition py_space :: "char \<Rightarrow> bool" where
  "py_space c \<longleftrightarrow> c \<in> set [CHR '' '', CHR 0x09, CHR 0x0A, CHR 0x0B, CHR 0x0C, CHR 0x0D]"

definition py_strip :: "string \<Rightarrow> string" where
  "py_strip s = rev (dropWhile py_space (rev (dropWhile py_space s)))"

text \<open>\<open>needle in hay\<close> for two strings: a substring test.\<close>

fun py_in_str :: "string \<Rightarrow> string \<Rightarrow> bool" where
  "py_in_str needle [] = (needle = [])"
| "py_in_str needle (c # cs) = (take (length needle) (c # cs) = needle \<or> py_in_str needle cs)"

subsection \<open>Lemmas on dictionaries\<close>

lemma map_of_dict_set [simp, pydict_simps]:
  "map_of (dict_set d k v) = (map_of d)(k \<mapsto> v)"
  by (induction d k v rule: dict_set.induct) (auto simp: fun_eq_iff)

lemma keys_dict_set [pydict_simps]:
  "dict_keys (dict_set d k v) = (if k \<in> set (dict_keys d) then dict_keys d else dict_keys d @ [k])"
  by (induction d k v rule: dict_set.induct) auto

lemma set_keys_dict_set [simp, pydict_simps]:
  "fst ` set (dict_set d k v) = insert k (fst ` set d)"
  by (induction d k v rule: dict_set.induct) auto

lemma dict_wf_dict_set [simp, pydict_simps]: "dict_wf d \<Longrightarrow> dict_wf (dict_set d k v)"
  by (simp add: keys_dict_set)

lemma map_of_dict_pop [simp, pydict_simps]:
  "map_of (dict_pop d k) = (map_of d)(k := None)"
  by (induction d) (auto simp: dict_pop_def fun_eq_iff)

lemma keys_dict_pop [simp, pydict_simps]:
  "dict_keys (dict_pop d k) = filter (\<lambda>a. a \<noteq> k) (dict_keys d)"
  by (induction d) (auto simp: dict_pop_def)

lemma dict_wf_dict_pop [simp, pydict_simps]: "dict_wf d \<Longrightarrow> dict_wf (dict_pop d k)"
  by simp

lemma map_of_dict_update [simp, pydict_simps]:
  "dict_wf d2 \<Longrightarrow> map_of (dict_update d1 d2) = map_of d1 ++ map_of d2"
proof (induction d2 rule: rev_induct)
  case Nil
  then show ?case by (simp add: dict_update_def)
next
  case (snoc kv d2)
  obtain a b where kv: "kv = (a, b)" by fastforce
  with snoc.prems have "map_of d2 a = None" by (auto simp: map_of_eq_None_iff)
  with snoc kv show ?case
    by (auto simp: dict_update_def fun_eq_iff map_add_def split: option.splits)
qed

lemma set_keys_dict_update [simp, pydict_simps]:
  "fst ` set (dict_update d1 d2) = fst ` set d1 \<union> fst ` set d2"
proof (induction d2 arbitrary: d1 rule: rev_induct)
  case Nil
  then show ?case by (simp add: dict_update_def)
next
  case (snoc kv d2)
  then show ?case by (cases kv) (auto simp: dict_update_def)
qed

lemma dict_wf_dict_update [simp, pydict_simps]:
  "dict_wf d1 \<Longrightarrow> dict_wf (dict_update d1 d2)"
proof (induction d2 arbitrary: d1 rule: rev_induct)
  case Nil
  then show ?case by (simp add: dict_update_def)
next
  case (snoc kv d2)
  then show ?case by (cases kv) (simp add: dict_update_def)
qed

lemma set_keys_dict_pop [simp, pydict_simps]: "fst ` set (dict_pop d k) = fst ` set d - {k}"
  by (auto simp: dict_pop_def)

text \<open>Assigning a new key appends it.\<close>

lemma dict_set_new [pydict_simps]: "k \<notin> fst ` set d \<Longrightarrow> dict_set d k v = d @ [(k, v)]"
  by (induction d k v rule: dict_set.induct) auto

text \<open>Assigning the last key again replaces its value in place.\<close>

lemma dict_set_last [pydict_simps]: "k \<notin> fst ` set d \<Longrightarrow> dict_set (d @ [(k, v)]) k w = d @ [(k, w)]"
  by (induction d) auto

lemma dict_set_existing_keys [pydict_simps]:
  "k \<in> set (dict_keys d) \<Longrightarrow> dict_keys (dict_set d k v) = dict_keys d"
  by (simp add: keys_dict_set)

text \<open>Re-inserting a popped key moves it to the end of the key order.\<close>

lemma keys_pop_reinsert [pydict_simps]:
  "dict_keys (dict_set (dict_pop d k) k v) = filter (\<lambda>a. a \<noteq> k) (dict_keys d) @ [k]"
  by (simp add: keys_dict_set)

subsection \<open>Lemmas on lists and strings\<close>

lemma py_nth_nonneg [simp]:
  "0 \<le> i \<Longrightarrow> py_nth xs i = (if i < int (length xs) then Some (xs ! nat i) else None)"
  by (simp add: py_nth_def)

lemma py_nth_minus_one [simp]:
  "py_nth xs (-1) = (if xs = [] then None else Some (last xs))"
  by (cases xs rule: rev_cases) (auto simp: py_nth_def nth_append)

lemma py_nth_int: "py_nth xs (int i) = (if i < length xs then Some (xs ! i) else None)"
  by (simp add: py_nth_def)

lemma py_nth_last_of_prefix:
  assumes "xs \<noteq> []"
  shows "py_nth (xs @ ys) (int (length xs) - 1) = Some (last xs)"
proof -
  from assms obtain n where n: "length xs = Suc n" by (cases xs) auto
  then have "int (length xs) - 1 = int n" and "length xs - 1 = n" by simp_all
  with n assms show ?thesis by (simp add: py_nth_def nth_append last_conv_nth)
qed

text \<open>Selecting the indices of a mask \<open>[i < len(xs) and P(xs[i]) for i in range(n)]\<close>,
  and a filter as a selection of indices.\<close>

lemma filter_upt_prefix:
  assumes "length xs \<le> n"
  shows "filter (\<lambda>i. map (\<lambda>i. i < length xs \<and> P (xs ! i)) [0..<n] ! i) [0..<n]
           = filter (\<lambda>i. P (xs ! i)) [0..<length xs]"
proof -
  have 1: "filter (\<lambda>i. map (\<lambda>i. i < length xs \<and> P (xs ! i)) [0..<n] ! i) [0..<n]
          = filter (\<lambda>i. i < length xs \<and> P (xs ! i)) [0..<n]"
    by (rule filter_cong) auto
  have split: "[0..<n] = [0..<length xs] @ [length xs..<n]"
    using assms by (metis le_add_diff_inverse upt_add_eq_append zero_le)
  have 2: "filter (\<lambda>i. i < length xs \<and> P (xs ! i)) [0..<n] = filter (\<lambda>i. P (xs ! i)) [0..<length xs]"
    unfolding split filter_append by (auto intro!: filter_cong simp: filter_empty_conv)
  from 1 2 show ?thesis by simp
qed

lemma filter_conv_indices: "filter P xs = map (\<lambda>i. xs ! i) (filter (\<lambda>i. P (xs ! i)) [0..<length xs])"
proof -
  have "filter P xs = filter P (map (\<lambda>i. xs ! i) [0..<length xs])" by (simp add: map_nth)
  then show ?thesis by (simp add: filter_map comp_def)
qed

subsection \<open>Sorting with an inserted element\<close>

text \<open>\<open>sorted(xs + [x])\<close> splits into the elements below \<open>x\<close>, every copy of \<open>x\<close>
  (the inserted one included) and the elements above.\<close>

lemma sort_snoc_split:
  fixes x :: "'a::linorder"
  shows "sort (xs @ [x]) =
     filter (\<lambda>v. v < x) (sort xs) @ replicate (Suc (count (mset xs) x)) x @ filter (\<lambda>v. x < v) (sort xs)"
proof (rule properties_for_sort)
  have "filter_mset (\<lambda>v. v < x) (mset xs) + (replicate_mset (count (mset xs) x) x
          + filter_mset (\<lambda>v. x < v) (mset xs)) = mset xs"
    by (rule multiset_eqI) auto
  then show "mset (filter (\<lambda>v. v < x) (sort xs) @ replicate (Suc (count (mset xs) x)) x @
                      filter (\<lambda>v. x < v) (sort xs)) = mset (xs @ [x])"
    by (simp add: mset_filter)
next
  show "sorted (filter (\<lambda>v. v < x) (sort xs) @ replicate (Suc (count (mset xs) x)) x @
                 filter (\<lambda>v. x < v) (sort xs))"
    by (auto simp: sorted_append sorted_wrt_filter)
qed

text \<open>The largest index holding \<open>x\<close> in a list whose only copies of \<open>x\<close> form one block.\<close>

lemma max_index_block:
  assumes "\<forall>a \<in> set A. a \<noteq> x" "\<forall>d \<in> set D. d \<noteq> x" "0 < n"
  shows "Max (set (filter (\<lambda>i. (A @ replicate n x @ D) ! i = x) [0..<length (A @ replicate n x @ D)]))
           = length A + n - 1"
proof -
  let ?V = "A @ replicate n x @ D"
  have at: "?V ! i = x \<longleftrightarrow> length A \<le> i \<and> i < length A + n" if "i < length ?V" for i
  proof -
    consider "i < length A" | "length A \<le> i" "i < length A + n" | "length A + n \<le> i"
      by linarith
    then show ?thesis
    proof cases
      case 1
      then have "A ! i \<in> set A" by simp
      with 1 assms(1) show ?thesis by (auto simp: nth_append)
    next
      case 2
      then have "i - length A < n" by linarith
      with 2 show ?thesis by (simp add: nth_append)
    next
      case 3
      with that have "D ! (i - length A - n) \<in> set D" by simp
      with 3 assms(2) show ?thesis by (auto simp: nth_append)
    qed
  qed
  have "set (filter (\<lambda>i. ?V ! i = x) [0..<length ?V]) = {length A ..< length A + n}"
    using at by auto
  moreover have "Max {length A ..< length A + n} = length A + n - 1"
    using assms(3) by (intro Max_eqI) auto
  ultimately show ?thesis by simp
qed

lemma sorted_last_Max:
  assumes "sorted xs" "xs \<noteq> []"
  shows "last xs = Max (set xs)"
proof -
  from assms(2) obtain ys y where xs: "xs = ys @ [y]" by (cases xs rule: rev_cases) auto
  with assms(1) have "\<forall>z \<in> set xs. z \<le> y" by (auto simp: sorted_append)
  with xs show ?thesis by (intro Max_eqI[symmetric]) auto
qed

end
