(* ===== verification/Onnx_Model.thy ===== *)
theory Onnx_Model
  imports Py_Prelude
begin

text \<open>
  The data the importer reads and writes.
  \<^item> \<open>error\<close>: the exceptions the importer raises, each a constructor, so that every
    \<open>raise\<close> and failed \<open>assert\<close> of \<open>onnx.py\<close> is an \<open>Inl\<close> branch of a result.
  \<^item> The ONNX protobuf messages read by \<open>GraphProto.from_onnx\<close>: \<open>onnx_graph\<close>,
    \<open>onnx_node\<close>, \<open>attr_proto\<close> (one optional field per protobuf field),
    \<open>tensor_proto\<close> and \<open>value_info\<close>.  Graphs nest inside attributes
    (the bodies of \<open>If\<close> and \<open>Loop\<close>), so the messages are one mutually recursive
    datatype.
  \<^item> The Relay values the importer produces: \<open>ndarray\<close> (a materialised tensor),
    \<open>expr\<close> (Relay expressions: variables, constants, operator calls, tuples,
    conditionals and the while loop of \<open>relay.loops.while_loop\<close>), and
    \<open>conv_out\<close>, a converter's result, either one expression or a
    \<open>TupleWrapper\<close> of a given arity.
  Floats are modelled as \<open>real\<close> and tensor elements as \<open>int\<close>: the importer only
  moves them around, it never computes with them.
\<close>

text \<open>The exceptions: \<open>NotImplementedError\<close>, \<open>tvm.error.OpNotImplemented\<close>
  (naming every unsupported operator), \<open>ValueError\<close>, a failed \<open>assert\<close>,
  \<open>KeyError\<close>, \<open>IndexError\<close>, \<open>TypeError\<close>, the three
  \<open>tvm.error.OpAttribute*\<close> errors, an attribute whose renamed target is also present,
  \<open>FuelExhausted\<close>, subgraph nesting deeper than the fuel given, and
  \<open>ZeroDivisionError\<close>.\<close>

datatype error =
    NotImplementedErr string
  | OpNotImplemented "string set"
  | ValueErr string
  | AssertionErr string
  | KeyErr string
  | IndexErr
  | TypeErr string
  | OpAttributeInvalid string
  | OpAttributeRequired string
  | OpAttributeUnImplemented string
  | AttributeConflict string
  | FuelExhausted
  | ZeroDivErr

type_synonym 'a result = "error + 'a"

text \<open>Sequencing of fallible steps: the first error is propagated.\<close>

definition rbind :: "'a result \<Rightarrow> ('a \<Rightarrow> 'b result) \<Rightarrow> 'b result" where
  "rbind m f = (case m of Inl e \<Rightarrow> Inl e | Inr x \<Rightarrow> f x)"

subsection \<open>ONNX protobuf messages\<close>

datatype dim_proto = DimProto (dim_value: int) (dim_param: string)

datatype tensor_proto =
  TensorProto (tp_name: string) (tp_dims: "int list") (tp_data_type: int) (tp_vals: "int list")

datatype value_info =
  ValueInfo (vi_name: string) (vi_elem_type: int) (vi_dims: "dim_proto list")

datatype onnx_graph =
    Graph (g_node: "onnx_node list") (g_initializer: "tensor_proto list")
          (g_input: "value_info list") (g_output: "value_info list")
and onnx_node =
    Node (n_op_type: string) (n_input: "string list") (n_output: "string list")
         (n_attribute: "attr_proto list") (n_name: string)
and attr_proto =
    AttrProto (a_name: string)
      (a_f: "real option") (a_i: "int option") (a_s: "string option") (a_g: "onnx_graph option")
      (a_floats: "real list") (a_ints: "int list") (a_strings: "string list")
      (a_t: "tensor_proto option") (a_tensors: "tensor_proto list") (a_graphs: "onnx_graph list")

text \<open>Python values: keyword arguments of Relay operator constructors, and the values
  converters store in the attribute dict.\<close>

datatype pyval =
    PInt int | PFloat real | PStr string | PBool bool | PTuple "pyval list" | PNone
  | PGraph onnx_graph | PTensor tensor_proto

text \<open>Python truthiness (\<open>bool(v)\<close>).\<close>

fun py_truthy :: "pyval \<Rightarrow> bool" where
  "py_truthy (PInt i) = (i \<noteq> 0)"
| "py_truthy (PFloat r) = (r \<noteq> 0)"
| "py_truthy (PStr s) = (s \<noteq> [])"
| "py_truthy (PBool b) = b"
| "py_truthy (PTuple vs) = (vs \<noteq> [])"
| "py_truthy PNone = False"
| "py_truthy (PGraph _) = True"
| "py_truthy (PTensor _) = True"

text \<open>A parsed attribute value: one constructor per protobuf field \<open>_parse_attr\<close> reads,
  \<open>ACustom\<close> for the \<open>tvm_custom\<close> entry the importer adds to every node, and
  \<open>APy\<close> for any other Python value a converter stores in the dict.  Bytes and
  \<open>str\<close> are both strings: \<open>.decode("utf-8")\<close> is the identity on them.\<close>

datatype attr_value =
    AFloat real | AInt int | ABytes string | AGraph onnx_graph
  | AFloats "real list" | AInts "int list" | AStrings "string list"
  | ATensor tensor_proto | ATensors "tensor_proto list"
  | ACustom string nat | APy pyval

type_synonym attr_dict = "(string, attr_value) pydict"

subsection \<open>Relay values\<close>

datatype dim = Dim int | AnyDim

record ndarray =
  nd_shape :: "int list"
  nd_dtype :: string
  nd_data :: "int list"

text \<open>An ONNX attribute value passed on as a keyword argument.\<close>

fun to_pyval :: "attr_value \<Rightarrow> pyval" where
  "to_pyval (AFloat r) = PFloat r"
| "to_pyval (AInt i) = PInt i"
| "to_pyval (ABytes s) = PStr s"
| "to_pyval (AGraph g) = PGraph g"
| "to_pyval (AFloats rs) = PTuple (map PFloat rs)"
| "to_pyval (AInts is) = PTuple (map PInt is)"
| "to_pyval (AStrings ss) = PTuple (map PStr ss)"
| "to_pyval (ATensor t) = PTensor t"
| "to_pyval (ATensors ts) = PTuple (map PTensor ts)"
| "to_pyval (ACustom n k) = PTuple [PStr n, PInt (int k)]"
| "to_pyval (APy v) = v"

text \<open>Relay expressions: \<open>relay.var(name_hint, shape, dtype)\<close>, \<open>relay.const(array)\<close>,
  operator calls with keyword arguments, tuples, projections, \<open>relay.If\<close>, and the
  while loop with its loop variables, condition, body results and initial values.\<close>

datatype expr =
    Var string "dim list" "string option"
  | Const ndarray
  | Call string "expr list" "(string \<times> pyval) list"
  | Tuple "expr list"
  | TupleGetItem expr nat
  | IfE expr expr expr
  | WhileLoop "expr list" expr "expr list" "expr list"

text \<open>\<open>TupleWrapper(tup, n)\<close> or a single expression.\<close>

datatype conv_out = Single expr | Wrapped expr nat

fun out_len :: "conv_out \<Rightarrow> nat" where
  "out_len (Single _) = 1"
| "out_len (Wrapped _ n) = n"

fun out_astuple :: "conv_out \<Rightarrow> expr" where
  "out_astuple (Single e) = e"
| "out_astuple (Wrapped e _) = e"

text \<open>\<open>op[i]\<close> on a \<open>TupleWrapper\<close> is \<open>TupleGetItem(tup, i)\<close>.\<close>

definition wrapper_item :: "expr \<Rightarrow> nat \<Rightarrow> expr" where
  "wrapper_item tup i = TupleGetItem tup i"

text \<open>The free variables of an expression (\<open>relay.analysis.free_vars\<close>): the
  variables of the loop are bound in its condition and body.\<close>

fun free_vars :: "expr \<Rightarrow> expr list"
and free_vars_list :: "expr list \<Rightarrow> expr list" where
  "free_vars (Var n s t) = [Var n s t]"
| "free_vars (Const _) = []"
| "free_vars (Call _ args _) = free_vars_list args"
| "free_vars (Tuple es) = free_vars_list es"
| "free_vars (TupleGetItem e _) = free_vars e"
| "free_vars (IfE c t e) = remdups (free_vars c @ free_vars t @ free_vars e)"
| "free_vars (WhileLoop vs c body inits) =
     remdups (filter (\<lambda>v. v \<notin> set vs) (free_vars c @ free_vars_list body) @ free_vars_list inits)"
| "free_vars_list [] = []"
| "free_vars_list (e # es) = remdups (free_vars e @ free_vars_list es)"

subsection \<open>Reading declared values: \<open>get_type\<close>, \<open>get_info\<close>\<close>

text \<open>\<open>onnx.mapping.TENSOR_TYPE_TO_NP_TYPE\<close> (the ONNX element type codes).\<close>

definition tensor_type_to_np :: "(int, string) pydict" where
  "tensor_type_to_np =
     [(1, ''float32''), (2, ''uint8''), (3, ''int8''), (4, ''uint16''), (5, ''int16''),
      (6, ''int32''), (7, ''int64''), (8, ''object''), (9, ''bool''), (10, ''float16''),
      (11, ''float64''), (12, ''uint32''), (13, ''uint64''), (14, ''complex64''),
      (15, ''complex128'')]"

definition get_type :: "int \<Rightarrow> string result" where
  "get_type elem_type =
     (case map_of tensor_type_to_np elem_type of
        Some t \<Rightarrow> Inr t
      | None \<Rightarrow> Inl (KeyErr ''elem_type''))"

text \<open>A dimension of value 0 (unset) becomes \<open>relay.Any()\<close> and is named by its
  \<open>dim_param\<close>; the shape name list records the parameter name or the value.\<close>

datatype shape_name = DimName string | DimVal int

definition get_info :: "value_info \<Rightarrow> (string \<times> dim list \<times> string option \<times> shape_name list) result" where
  "get_info vi =
     (let dims = vi_dims vi;
          shape = map (\<lambda>d. if dim_value d = 0 then AnyDim else Dim (dim_value d)) dims;
          shape_name = map (\<lambda>d. if dim_value d = 0 then DimName (dim_param d) else DimVal (dim_value d)) dims
      in if vi_elem_type vi \<noteq> 0
         then (case get_type (vi_elem_type vi) of
                 Inl e \<Rightarrow> Inl e
               | Inr t \<Rightarrow> Inr (vi_name vi, shape, Some t, shape_name))
         else Inr (vi_name vi, shape, None, shape_name))"

subsection \<open>\<open>onnx_input\<close>: a list that answers \<open>None\<close> past its end\<close>

text \<open>\<open>onnx_input.__getitem__\<close> with an int index: \<open>list(self)[item]\<close> when
  \<open>item < len(self)\<close> (so a negative index counts from the end, and raises
  \<open>IndexError\<close> below \<open>-len\<close>), otherwise \<open>None\<close>.  The list holds
  \<open>expr option\<close> values: an omitted input is \<open>None\<close> already.\<close>

definition onnx_input_get :: "expr option list \<Rightarrow> int \<Rightarrow> expr option result" where
  "onnx_input_get xs i =
     (if i < int (length xs)
      then (case py_nth xs i of Some v \<Rightarrow> Inr v | None \<Rightarrow> Inl IndexErr)
      else Inr None)"

text \<open>A slice \<open>inputs[a:b]\<close> (non-negative bounds, \<open>b\<close> defaulting to the length):
  it reads \<open>self[i]\<close> for every \<open>i\<close> in \<open>range(b)[a:]\<close>, so it pads with \<open>None\<close>
  past the end of the list.\<close>

definition onnx_input_slice :: "expr option list \<Rightarrow> nat \<Rightarrow> nat option \<Rightarrow> expr option list" where
  "onnx_input_slice xs a stop =
     (let b = (case stop of None \<Rightarrow> length xs | Some b \<Rightarrow> b)
      in map (\<lambda>i. if i < length xs then xs ! i else None) [a..<b])"

subsection \<open>Lemmas\<close>

lemma rbind_simps [simp]: "rbind (Inl e) f = Inl e" "rbind (Inr x) f = f x"
  by (simp_all add: rbind_def)

lemma rbind_eq_Inr [simp]: "rbind m f = Inr y \<longleftrightarrow> (\<exists>x. m = Inr x \<and> f x = Inr y)"
  by (cases m) simp_all

end
