(* ===== verification/Registry.thy ===== *)
theory Registry
  imports Attr_Cvt
begin

text \<open>
  The Versioned Operator Registry: \<open>OnnxOpConverter.get_converter\<close>, the conversion
  rule versions of each converter class (its \<open>_impl_vN\<close> methods, inherited ones
  included, as \<open>dir(cls)\<close> lists them), and \<open>_get_convert_map(opset)\<close>, which
  maps each ONNX operator name to a \<open>Renamer\<close>, an \<open>AttrCvt\<close> or the rule
  \<open>get_converter\<close> selects from a class.
  \<open>get_converter\<close> is translated literally: the requested opset is appended to the
  registered versions, the list is sorted, and the rule taken is the element just
  before the last copy of the opset, read with Python indexing, so that index \<open>-1\<close>
  is the last element.  Its lemmas show that it returns the largest registered
  version not above the opset (a refinement of the specification's \<open>resolve\<close>),
  and that an opset below every registered version selects the newest rule instead of
  failing.  \<open>get_convert_map\<close> is shown never to fail, at any opset.
\<close>

subsection \<open>\<open>get_converter\<close>\<close>

definition get_converter :: "string \<Rightarrow> int list \<Rightarrow> int \<Rightarrow> int result" where
  "get_converter cls impls opset =
     (let versions = sort (impls @ [opset]);
          idx = Max (set (filter (\<lambda>i. versions ! i = opset) [0..<length versions]))
      in case py_nth versions (int idx - 1) of
           None \<Rightarrow> Inl IndexErr
         | Some version \<Rightarrow>
             if version \<in> set impls then Inr version
             else Inl (NotImplementedErr (''opset version of '' @ cls @ '' not implemented'')))"

text \<open>The specification's contract (section 4.1): the largest registered version not above
  the requested one, \<open>UnsupportedVersion\<close> when there is none.\<close>

definition resolve_spec :: "int list \<Rightarrow> int \<Rightarrow> int option" where
  "resolve_spec impls r = (if \<exists>v \<in> set impls. v \<le> r then Some (Max {v \<in> set impls. v \<le> r}) else None)"

subsection \<open>The registry tables\<close>

text \<open>The rule versions of every converter class that \<open>_get_convert_map\<close> names.\<close>

definition class_versions :: "(string, int list) pydict" where
  "class_versions =
     [(''Absolute'', [1]),
      (''Add'', [1]),
      (''AveragePool'', [1]),
      (''QLinearAveragePool'', [1]),
      (''BatchNorm'', [1]),
      (''InstanceNorm'', [1]),
      (''Conv'', [1]),
      (''ConvTranspose'', [1, 11]),
      (''GlobalAveragePool'', [1]),
      (''QLinearGlobalAveragePool'', [1]),
      (''GlobalMaxPool'', [1]),
      (''Div'', [1]),
      (''Elu'', [1]),
      (''Gemm'', [1]),
      (''MatMul'', [1]),
      (''Mod'', [1]),
      (''MaxPool'', [1]),
      (''MaxUnpool'', [11]),
      (''LpPool'', [1]),
      (''GlobalLpPool'', [1]),
      (''Mul'', [1]),
      (''Pad'', [1, 2, 11]),
      (''ParametricSoftPlus'', [1]),
      (''Pow'', [13]),
      (''Prelu'', [1]),
      (''Reciprocal'', [1]),
      (''Flatten'', [1]),
      (''Reshape'', [1, 5]),
      (''DepthToSpace'', [11]),
      (''SpaceToDepth'', [1]),
      (''Concat'', [1]),
      (''Scale'', [1]),
      (''Selu'', [1]),
      (''ScaledTanh'', [1]),
      (''Shrink'', [9]),
      (''Softsign'', [1]),
      (''Sub'', [1]),
      (''Sum'', [1]),
      (''Affine'', [1]),
      (''ThresholdedRelu'', [1]),
      (''Upsample'', [9]),
      (''Shape'', [1]),
      (''CumSum'', [1]),
      (''Cast'', [1, 5]),
      (''Unsqueeze'', [1, 13]),
      (''Squeeze'', [1, 13]),
      (''Split'', [1]),
      (''Slice'', [1, 10]),
      (''Gather'', [1]),
      (''GatherElements'', [1]),
      (''GatherND'', [1, 12]),
      (''Compress'', [11]),
      (''Scatter'', [1]),
      (''ScatterND'', [11]),
      (''EyeLike'', [9]),
      (''LRN'', [1]),
      (''Maximum'', [1]),
      (''Minimum'', [1]),
      (''Mean'', [1]),
      (''HardSigmoid'', [1]),
      (''ReduceMax'', [1, 12]),
      (''ReduceMin'', [1, 12]),
      (''ReduceSum'', [1, 12]),
      (''ReduceMean'', [1, 12]),
      (''ReduceProd'', [1, 12]),
      (''ReduceLogSumExp'', [1, 12]),
      (''ReduceSumSquare'', [1]),
      (''ReduceL1'', [1]),
      (''ReduceL2'', [1]),
      (''ReduceLogSum'', [1]),
      (''ArgMax'', [13]),
      (''ArgMin'', [13]),
      (''Softmax'', [1, 13]),
      (''LogSoftmax'', [1, 13]),
      (''Hardmax'', [1, 13]),
      (''OneHot'', [9]),
      (''ConstantOfShape'', [9]),
      (''Constant'', [9]),
      (''Sign'', [1]),
      (''Equal'', [1]),
      (''Not'', [1]),
      (''And'', [1]),
      (''Tile'', [1, 6]),
      (''Erf'', [1]),
      (''Where'', [9]),
      (''Or'', [1, 7]),
      (''Expand'', [8]),
      (''LSTM'', [7]),
      (''GRU'', [7]),
      (''Resize'', [10, 11, 13]),
      (''NonZero'', [9]),
      (''ReverseSequence'', [10]),
      (''TopK'', [1]),
      (''Range'', [1]),
      (''IsInf'', [10]),
      (''Celu'', [12]),
      (''MaxRoiPool'', [1]),
      (''RoiAlign'', [1]),
      (''Clip'', [1, 11]),
      (''Softplus'', [1]),
      (''Loop'', [11]),
      (''If'', [1]),
      (''NonMaxSuppression'', [10]),
      (''ATen'', [1]),
      (''QuantizeLinear'', [10, 13]),
      (''DequantizeLinear'', [10, 13]),
      (''DynamicQuantizeLinear'', [11]),
      (''QLinearConv'', [10]),
      (''QLinearAdd'', [10]),
      (''QLinearMatMul'', [10]),
      (''QLinearMul'', [10]),
      (''QLinearLeakyRelu'', [10]),
      (''QLinearSigmoid'', [10]),
      (''QLinearConcat'', [1]),
      (''ConvInteger'', [10]),
      (''BitShift'', [11]),
      (''Unique'', [11]),
      (''Einsum'', [12]),
      (''RandomUniform'', [1]),
      (''RandomNormal'', [1]),
      (''RandomNormalLike'', [1]),
      (''NegativeLogLikelihoodLoss'', [13]),
      (''SoftmaxCrossEntropyLoss'', [13]),
      (''Adagrad'', [1]),
      (''Adam'', [1]),
      (''Momentum'', [1])]"

datatype cmap_entry = ERenamer string | ECvt attr_cvt | EClass string

definition convert_map_entries :: "(string, cmap_entry) pydict" where
  "convert_map_entries =
     [(''Identity'', ERenamer ''copy''),
      (''Affine'', EClass ''Affine''),
      (''BitShift'', EClass ''BitShift''),
      (''ThresholdedRelu'', EClass ''ThresholdedRelu''),
      (''ScaledTanh'', EClass ''ScaledTanh''),
      (''ParametricSoftplus'', EClass ''ParametricSoftPlus''),
      (''Constant'', EClass ''Constant''),
      (''ConstantOfShape'', EClass ''ConstantOfShape''),
      (''FC'', ECvt ((attr_cvt_simple ''dense'')\<lparr>cvt_ignores := [''axis'', ''axis_w'']\<rparr>)),
      (''Scale'', EClass ''Scale''),
      (''Upsample'', EClass ''Upsample''),
      (''SpatialBN'', EClass ''BatchNorm''),
      (''Add'', EClass ''Add''),
      (''Sub'', EClass ''Sub''),
      (''Mul'', EClass ''Mul''),
      (''Div'', EClass ''Div''),
      (''Neg'', ERenamer ''negative''),
      (''Abs'', EClass ''Absolute''),
      (''Reciprocal'', EClass ''Reciprocal''),
      (''Floor'', ERenamer ''floor''),
      (''Ceil'', ERenamer ''ceil''),
      (''Round'', ERenamer ''round''),
      (''IsInf'', EClass ''IsInf''),
      (''IsNaN'', ERenamer ''isnan''),
      (''Sqrt'', ERenamer ''sqrt''),
      (''Relu'', ERenamer ''relu''),
      (''Celu'', EClass ''Celu''),
      (''LeakyRelu'', ERenamer ''leaky_relu''),
      (''Selu'', EClass ''Selu''),
      (''Elu'', EClass ''Elu''),
      (''Exp'', ERenamer ''exp''),
      (''Greater'', ERenamer ''greater''),
      (''GreaterOrEqual'', ERenamer ''greater_equal''),
      (''Less'', ERenamer ''less''),
      (''LessOrEqual'', ERenamer ''less_equal''),
      (''Log'', ERenamer ''log''),
      (''Acos'', ERenamer ''acos''),
      (''Acosh'', ERenamer ''acosh''),
      (''Asin'', ERenamer ''asin''),
      (''Asinh'', ERenamer ''asinh''),
      (''Atan'', ERenamer ''atan''),
      (''Atanh'', ERenamer ''atanh''),
      (''Cos'', ERenamer ''cos''),
      (''Cosh'', ERenamer ''cosh''),
      (''Sin'', ERenamer ''sin''),
      (''Sinh'', ERenamer ''sinh''),
      (''Tan'', ERenamer ''tan''),
      (''Tanh'', ERenamer ''tanh''),
      (''Pow'', EClass ''Pow''),
      (''PRelu'', EClass ''Prelu''),
      (''Sigmoid'', ERenamer ''sigmoid''),
      (''HardSigmoid'', EClass ''HardSigmoid''),
      (''Max'', EClass ''Maximum''),
      (''Min'', EClass ''Minimum''),
      (''Sum'', EClass ''Sum''),
      (''Mean'', EClass ''Mean''),
      (''Clip'', EClass ''Clip''),
      (''Softplus'', EClass ''Softplus''),
      (''Softmax'', EClass ''Softmax''),
      (''LogSoftmax'', EClass ''LogSoftmax''),
      (''OneHot'', EClass ''OneHot''),
      (''Hardmax'', EClass ''Hardmax''),
      (''Shrink'', EClass ''Shrink''),
      (''Softsign'', EClass ''Softsign''),
      (''Gemm'', EClass ''Gemm''),
      (''MatMul'', EClass ''MatMul''),
      (''Mod'', EClass ''Mod''),
      (''Xor'', ERenamer ''logical_xor''),
      (''AveragePool'', EClass ''AveragePool''),
      (''LpPool'', EClass ''LpPool''),
      (''GlobalLpPool'', EClass ''GlobalLpPool''),
      (''MaxPool'', EClass ''MaxPool''),
      (''MaxUnpool'', EClass ''MaxUnpool''),
      (''Conv'', EClass ''Conv''),
      (''ConvTranspose'', EClass ''ConvTranspose''),
      (''GlobalAveragePool'', EClass ''GlobalAveragePool''),
      (''GlobalMaxPool'', EClass ''GlobalMaxPool''),
      (''BatchNormalization'', EClass ''BatchNorm''),
      (''InstanceNormalization'', EClass ''InstanceNorm''),
      (''Dropout'', ECvt ((attr_cvt_simple ''dropout'')\<lparr>cvt_transforms := [(''ratio'', TRename ''rate'')], cvt_ignores := [''is_test'']\<rparr>)),
      (''Flatten'', EClass ''Flatten''),
      (''LRN'', EClass ''LRN''),
      (''LSTM'', EClass ''LSTM''),
      (''GRU'', EClass ''GRU''),
      (''MaxRoiPool'', EClass ''MaxRoiPool''),
      (''RoiAlign'', EClass ''RoiAlign''),
      (''NonMaxSuppression'', EClass ''NonMaxSuppression''),
      (''ReduceMax'', EClass ''ReduceMax''),
      (''ReduceMin'', EClass ''ReduceMin''),
      (''ReduceSum'', EClass ''ReduceSum''),
      (''ReduceMean'', EClass ''ReduceMean''),
      (''ReduceProd'', EClass ''ReduceProd''),
      (''ReduceLogSumExp'', EClass ''ReduceLogSumExp''),
      (''ReduceLogSum'', EClass ''ReduceLogSum''),
      (''ReduceSumSquare'', EClass ''ReduceSumSquare''),
      (''ReduceL1'', EClass ''ReduceL1''),
      (''ReduceL2'', EClass ''ReduceL2''),
      (''ArgMax'', EClass ''ArgMax''),
      (''ArgMin'', EClass ''ArgMin''),
      (''TopK'', EClass ''TopK''),
      (''Cast'', EClass ''Cast''),
      (''Reshape'', EClass ''Reshape''),
      (''Expand'', EClass ''Expand''),
      (''Concat'', EClass ''Concat''),
      (''Split'', EClass ''Split''),
      (''Slice'', EClass ''Slice''),
      (''Transpose'', ECvt ((attr_cvt_simple ''transpose'')\<lparr>cvt_transforms := [(''perm'', TRename ''axes'')]\<rparr>)),
      (''DepthToSpace'', EClass ''DepthToSpace''),
      (''SpaceToDepth'', EClass ''SpaceToDepth''),
      (''Gather'', EClass ''Gather''),
      (''GatherElements'', EClass ''GatherElements''),
      (''GatherND'', EClass ''GatherND''),
      (''Compress'', EClass ''Compress''),
      (''Size'', ECvt ((attr_cvt_simple ''ndarray_size'')\<lparr>cvt_extras := [(''dtype'', PStr ''int64'')]\<rparr>)),
      (''Scatter'', EClass ''Scatter''),
      (''ScatterElements'', EClass ''Scatter''),
      (''ScatterND'', EClass ''ScatterND''),
      (''EyeLike'', EClass ''EyeLike''),
      (''Squeeze'', EClass ''Squeeze''),
      (''Unsqueeze'', EClass ''Unsqueeze''),
      (''Pad'', EClass ''Pad''),
      (''Shape'', EClass ''Shape''),
      (''Sign'', EClass ''Sign''),
      (''Equal'', EClass ''Equal''),
      (''Not'', EClass ''Not''),
      (''And'', EClass ''And''),
      (''Tile'', EClass ''Tile''),
      (''Erf'', EClass ''Erf''),
      (''Where'', EClass ''Where''),
      (''Or'', EClass ''Or''),
      (''Resize'', EClass ''Resize''),
      (''NonZero'', EClass ''NonZero''),
      (''Range'', EClass ''Range''),
      (''CumSum'', EClass ''CumSum''),
      (''Unique'', EClass ''Unique''),
      (''Einsum'', EClass ''Einsum''),
      (''Loop'', EClass ''Loop''),
      (''If'', EClass ''If''),
      (''ATen'', EClass ''ATen''),
      (''QuantizeLinear'', EClass ''QuantizeLinear''),
      (''DequantizeLinear'', EClass ''DequantizeLinear''),
      (''DynamicQuantizeLinear'', EClass ''DynamicQuantizeLinear''),
      (''ReverseSequence'', EClass ''ReverseSequence''),
      (''QLinearConv'', EClass ''QLinearConv''),
      (''QLinearConcat'', EClass ''QLinearConcat''),
      (''QLinearAdd'', EClass ''QLinearAdd''),
      (''QLinearMatMul'', EClass ''QLinearMatMul''),
      (''QLinearMul'', EClass ''QLinearMul''),
      (''QLinearSigmoid'', EClass ''QLinearSigmoid''),
      (''ConvInteger'', EClass ''ConvInteger''),
      (''QLinearAveragePool'', EClass ''QLinearAveragePool''),
      (''QLinearGlobalAveragePool'', EClass ''QLinearGlobalAveragePool''),
      (''QLinearLeakyRelu'', EClass ''QLinearLeakyRelu''),
      (''RandomUniform'', EClass ''RandomUniform''),
      (''RandomNormal'', EClass ''RandomNormal''),
      (''RandomNormalLike'', EClass ''RandomNormalLike''),
      (''NegativeLogLikelihoodLoss'', EClass ''NegativeLogLikelihoodLoss''),
      (''SoftmaxCrossEntropyLoss'', EClass ''SoftmaxCrossEntropyLoss''),
      (''Adagrad'', EClass ''Adagrad''),
      (''Adam'', EClass ''Adam''),
      (''Momentum'', EClass ''Momentum'')]"

text \<open>A resolved conversion rule: a renamer, an \<open>AttrCvt\<close>, or the \<open>_impl_vN\<close> method
  of a class.\<close>

datatype rule = RRenamer string | RCvt attr_cvt | RImpl string int

fun resolve_entry :: "int \<Rightarrow> cmap_entry \<Rightarrow> rule result" where
  "resolve_entry opset (ERenamer n) = Inr (RRenamer n)"
| "resolve_entry opset (ECvt c) = Inr (RCvt c)"
| "resolve_entry opset (EClass c) =
     (case map_of class_versions c of
        None \<Rightarrow> Inl (NotImplementedErr c)
      | Some vs \<Rightarrow> (case get_converter c vs opset of Inl e \<Rightarrow> Inl e | Inr v \<Rightarrow> Inr (RImpl c v)))"

fun resolve_all :: "int \<Rightarrow> (string, cmap_entry) pydict \<Rightarrow> (string, rule) pydict result" where
  "resolve_all opset [] = Inr []"
| "resolve_all opset ((n, e) # es) =
     (case resolve_entry opset e of
        Inl err \<Rightarrow> Inl err
      | Inr r \<Rightarrow> (case resolve_all opset es of Inl err \<Rightarrow> Inl err | Inr m \<Rightarrow> Inr ((n, r) # m)))"

text \<open>\<open>_get_convert_map(opset)\<close>: the dict literal is evaluated entry by entry.\<close>

definition get_convert_map :: "int \<Rightarrow> (string, rule) pydict result" where
  "get_convert_map opset = resolve_all opset convert_map_entries"

text \<open>\<open>_identity_list\<close> is empty.\<close>

definition identity_list :: "string list" where
  "identity_list = []"


subsection \<open>Resolution lemmas\<close>

text \<open>The sorted list splits into the versions below the opset, the copies of the opset
  and the versions above; the opset's last copy sits at index \<open>length A + k\<close>.\<close>

lemma get_converter_blocks:
  "get_converter cls impls opset =
     (let A = filter (\<lambda>v. v < opset) (sort impls);
          k = count (mset impls) opset;
          V = A @ replicate (Suc k) opset @ filter (\<lambda>v. opset < v) (sort impls)
      in case py_nth V (int (length A + k) - 1) of
           None \<Rightarrow> Inl IndexErr
         | Some version \<Rightarrow>
             if version \<in> set impls then Inr version
             else Inl (NotImplementedErr (''opset version of '' @ cls @ '' not implemented'')))"
proof -
  have idx: "Max (set (filter (\<lambda>i. V ! i = opset) [0..<length V])) = length A + k"
    if "A = filter (\<lambda>v. v < opset) (sort impls)" "k = count (mset impls) opset"
       "V = A @ replicate (Suc k) opset @ filter (\<lambda>v. opset < v) (sort impls)" for A k V
    using max_index_block[of A opset "filter (\<lambda>v. opset < v) (sort impls)" "Suc k"] that by auto
  show ?thesis
    unfolding get_converter_def sort_snoc_split Let_def by (subst idx) simp_all
qed

lemma get_converter_latest_le:
  assumes "v \<in> set impls" and "v \<le> opset"
  shows "get_converter cls impls opset = Inr (Max {w \<in> set impls. w \<le> opset})"
proof (cases "count (mset impls) opset")
  case 0
  let ?A = "filter (\<lambda>v. v < opset) (sort impls)"
  from 0 have notin: "opset \<notin> set impls" by (simp add: count_eq_zero_iff)
  with assms have "v \<in> set ?A" by (auto simp: le_less)
  then have ne: "?A \<noteq> []" by (metis empty_iff list.set(1))
  have setA: "set ?A = {w \<in> set impls. w \<le> opset}"
    using notin by (auto simp: le_less)
  have "last ?A = Max (set ?A)"
    using ne by (intro sorted_last_Max) (simp_all add: sorted_wrt_filter)
  moreover have "last ?A \<in> set impls"
    using ne last_in_set[OF ne] by auto
  moreover have "py_nth (?A @ xs) (int (length ?A) - 1) = Some (last ?A)" for xs
    using ne by (rule py_nth_last_of_prefix)
  ultimately show ?thesis
    unfolding get_converter_blocks Let_def \<open>count (mset impls) opset = 0\<close> using setA by simp
next
  case (Suc j)
  let ?A = "filter (\<lambda>v. v < opset) (sort impls)"
  from Suc have inset: "opset \<in> set impls"
    by (metis count_eq_zero_iff nat.distinct(1) set_mset_mset)
  have "Max {w \<in> set impls. w \<le> opset} = opset"
    using inset by (intro Max_eqI) auto
  moreover have "py_nth (?A @ replicate (Suc (Suc j)) opset @ xs) (int (length ?A + Suc j) - 1) = Some opset"
    for xs
  proof -
    have "int (length ?A + Suc j) - 1 = int (length ?A + j)" by simp
    moreover have "(replicate (Suc (Suc j)) opset @ xs) ! j = opset"
      by (simp del: replicate_Suc add: nth_append)
    ultimately show ?thesis
      by (simp only: py_nth_int nth_append_length_plus) (simp del: replicate_Suc)
  qed
  ultimately show ?thesis
    unfolding get_converter_blocks Let_def \<open>count (mset impls) opset = Suc j\<close> using inset by simp
qed

lemma get_converter_below_min:
  assumes "impls \<noteq> []" and "\<forall>v \<in> set impls. opset < v"
  shows "get_converter cls impls opset = Inr (Max (set impls))"
proof -
  have A: "filter (\<lambda>v. v < opset) (sort impls) = []"
    using assms(2) by (auto simp: filter_empty_conv)
  have k: "count (mset impls) opset = 0"
    using assms(2) by (auto simp: count_eq_zero_iff)
  have D: "filter (\<lambda>v. opset < v) (sort impls) = sort impls"
    using assms(2) by (auto simp: filter_id_conv)
  have ne: "sort impls \<noteq> []"
    using assms(1) by (metis set_empty set_sort)
  have "last (sort impls) = Max (set impls)"
    using ne by (subst sorted_last_Max) auto
  moreover have "last (sort impls) \<in> set impls"
    using assms(1) by (metis last_in_set set_empty set_sort)
  ultimately show ?thesis
    using ne by (simp add: get_converter_blocks Let_def A k D)
qed


lemma get_converter_defined:
  assumes "impls \<noteq> []"
  shows "\<exists>v. get_converter cls impls opset = Inr v"
proof (cases "\<exists>v \<in> set impls. v \<le> opset")
  case True
  then show ?thesis using get_converter_latest_le by blast
next
  case False
  then have "\<forall>v \<in> set impls. opset < v" by auto
  then show ?thesis using get_converter_below_min[OF assms] by blast
qed

lemma resolve_all_keys:
  assumes "list_all (\<lambda>(n, e). \<exists>r. resolve_entry opset e = Inr r) es"
  shows "\<exists>m. resolve_all opset es = Inr m \<and> dict_keys m = dict_keys es"
  using assms by (induction opset es rule: resolve_all.induct) auto

text \<open>Every class named by the convert map has at least one rule version.\<close>

lemma convert_map_classes_registered:
  "list_all (\<lambda>(n, e). case e of
       EClass c \<Rightarrow> (case map_of class_versions c of Some vs \<Rightarrow> vs \<noteq> [] | None \<Rightarrow> False)
     | _ \<Rightarrow> True) convert_map_entries"
  by code_simp

lemma resolve_entry_defined:
  assumes "case e of EClass c \<Rightarrow> (case map_of class_versions c of Some vs \<Rightarrow> vs \<noteq> [] | None \<Rightarrow> False)
           | _ \<Rightarrow> True"
  shows "\<exists>r. resolve_entry opset e = Inr r"
proof (cases e)
  case (EClass c)
  with assms obtain vs where "map_of class_versions c = Some vs" "vs \<noteq> []"
    by (auto split: option.splits)
  with EClass show ?thesis using get_converter_defined[of vs c opset] by auto
qed simp_all

text \<open>Building the convert map never fails, at any opset, and it has one entry per operator
  name of the table.\<close>

lemma get_convert_map_ok:
  "\<exists>m. get_convert_map opset = Inr m \<and> dict_keys m = dict_keys convert_map_entries"
proof -
  have "list_all (\<lambda>(n, e). \<exists>r. resolve_entry opset e = Inr r) convert_map_entries"
    using convert_map_classes_registered
    by (rule list.pred_mono_strong) (auto intro: resolve_entry_defined)
  then show ?thesis unfolding get_convert_map_def by (rule resolve_all_keys)
qed

subsection \<open>Properties of the registry\<close>

text \<open>C1 (refinement): whenever the specification's \<open>resolve\<close> finds a rule, that is,
  some registered version is not above the requested opset, \<open>get_converter\<close> returns the
  same one: the largest registered version not above the opset.\<close>

theorem get_converter_refines_resolve:
  assumes "resolve_spec impls opset = Some v"
  shows "get_converter cls impls opset = Inr v"
  using assms get_converter_latest_le by (auto simp: resolve_spec_def split: if_splits)

text \<open>Witness: \<open>Pad\<close> has rules for versions 1, 2 and 11; at opset 10 the rule of
  version 2 is in force.\<close>

theorem get_converter_refines_resolve_witness:
  "resolve_spec [1, 2, 11] 10 = Some 2 \<and> get_converter ''Pad'' [1, 2, 11] 10 = Inr 2"
proof -
  have "{v \<in> set [1, 2, 11]. v \<le> (10::int)} = {1, 2}" by auto
  then have h: "resolve_spec [1, 2, 11] 10 = Some 2"
    by (simp add: resolve_spec_def)
  show ?thesis using h get_converter_refines_resolve[OF h, of "''Pad''"] by simp
qed

text \<open>C2 (spec/code divergence): when no registered version is at or below the requested
  opset, the specification's \<open>resolve\<close> fails with \<open>UnsupportedVersion\<close>, but
  \<open>get_converter\<close> reads index \<open>-1\<close> of the sorted list and returns the newest rule.\<close>

theorem get_converter_newest_below:
  assumes "impls \<noteq> []" and "resolve_spec impls opset = None"
  shows "get_converter cls impls opset = Inr (Max (set impls))"
proof -
  from assms(2) have "\<forall>v \<in> set impls. opset < v"
    by (auto simp: resolve_spec_def split: if_splits)
  with assms(1) show ?thesis by (rule get_converter_below_min)
qed

text \<open>Witness: \<open>Pow\<close> has only the rule of version 13; at opset 7 the specification
  fails, the code converts with \<open>_impl_v13\<close>.\<close>

theorem get_converter_newest_below_witness:
  "[13] \<noteq> ([] :: int list) \<and> resolve_spec [13] 7 = None \<and> get_converter ''Pow'' [13] 7 = Inr 13"
proof -
  have h1: "[13] \<noteq> ([] :: int list)" by simp
  have h2: "resolve_spec [13] 7 = None" by (simp add: resolve_spec_def)
  show ?thesis using h1 h2 get_converter_newest_below[OF h1 h2, of "''Pow''"] by simp
qed

text \<open>C3 (error): a class with no \<open>_impl_vN\<close> method fails with
  \<open>NotImplementedError\<close>, whatever the opset.\<close>

theorem get_converter_no_impls:
  "get_converter cls [] opset = Inl (NotImplementedErr (''opset version of '' @ cls @ '' not implemented''))"
  by (simp add: get_converter_blocks)


end
