(* ===== verification/Attributes.thy ===== *)
theory Attributes
  imports Onnx_Model
begin

text \<open>
  The Attribute Table and the small readers of \<open>GraphProto\<close>:
  \<^item> \<open>parse_attr\<close> is \<open>GraphProto._parse_attr\<close>: the node's attribute records are
    read in order into a dict from names to parsed values.  Per record, the scalar
    fields \<open>f, i, s, g\<close> are tried in that order (a later one overwrites), then the
    list fields \<open>floats, ints, strings\<close> (each asserting the name is not yet in the
    dict), then \<open>t\<close>, then \<open>tensors\<close> (asserting again), then \<open>graphs\<close>, which
    raises; a record that leaves its name unbound raises \<open>ValueError\<close>.
  \<^item> \<open>parse_array\<close> is \<open>_parse_array\<close> (\<open>to_array\<close> then \<open>reshape(dims)\<close>);
    \<open>fix_outputs\<close> is \<open>_fix_outputs\<close>, which drops the mask output of \<open>Dropout\<close>.
  The lemmas show that a record with exactly one field set parses to that field's value,
  that the dict has one key per record name, and the two error paths.
\<close>

definition attr_assign :: "attr_dict \<Rightarrow> string \<Rightarrow> attr_value option \<Rightarrow> attr_dict" where
  "attr_assign d k v = (case v of None \<Rightarrow> d | Some x \<Rightarrow> dict_set d k x)"

text \<open>A list field: \<open>if list(getattr(a, f)): assert a.name not in attrs; attrs[a.name] = tuple(...)\<close>.\<close>

definition attr_assign_list :: "attr_dict \<Rightarrow> string \<Rightarrow> bool \<Rightarrow> attr_value \<Rightarrow> attr_dict result" where
  "attr_assign_list d k nonempty v =
     (if \<not> nonempty then Inr d
      else if k \<in> set (dict_keys d) then Inl (AssertionErr ''Only one type of attr is allowed'')
      else Inr (dict_set d k v))"

definition parse_one_attr :: "attr_dict \<Rightarrow> attr_proto \<Rightarrow> attr_dict result" where
  "parse_one_attr attrs a =
     (let n = a_name a;
          d1 = attr_assign (attr_assign (attr_assign (attr_assign attrs n (map_option AFloat (a_f a)))
                  n (map_option AInt (a_i a))) n (map_option ABytes (a_s a))) n (map_option AGraph (a_g a))
      in case attr_assign_list d1 n (a_floats a \<noteq> []) (AFloats (a_floats a)) of Inl e \<Rightarrow> Inl e | Inr d2 \<Rightarrow>
         case attr_assign_list d2 n (a_ints a \<noteq> []) (AInts (a_ints a)) of Inl e \<Rightarrow> Inl e | Inr d3 \<Rightarrow>
         case attr_assign_list d3 n (a_strings a \<noteq> []) (AStrings (a_strings a)) of Inl e \<Rightarrow> Inl e | Inr d4 \<Rightarrow>
         let d5 = attr_assign d4 n (map_option ATensor (a_t a)) in
         case attr_assign_list d5 n (a_tensors a \<noteq> []) (ATensors (a_tensors a)) of Inl e \<Rightarrow> Inl e | Inr d6 \<Rightarrow>
         if a_graphs a \<noteq> [] then Inl (NotImplementedErr ''Field graphs is not supported in relay.'')
         else if n \<notin> set (dict_keys d6) then Inl (ValueErr ''Cannot parse attribute'')
         else Inr d6)"

fun parse_attrs_from :: "attr_dict \<Rightarrow> attr_proto list \<Rightarrow> attr_dict result" where
  "parse_attrs_from attrs [] = Inr attrs"
| "parse_attrs_from attrs (a # as) =
     (case parse_one_attr attrs a of Inl e \<Rightarrow> Inl e | Inr attrs' \<Rightarrow> parse_attrs_from attrs' as)"

definition parse_attr :: "attr_proto list \<Rightarrow> attr_dict result" where
  "parse_attr protos = parse_attrs_from [] protos"

text \<open>\<open>_parse_array\<close>: \<open>to_array\<close> reads the elements with the element type's numpy
  dtype, and \<open>reshape(tuple(dims))\<close> fails unless the dims hold exactly that many
  elements.\<close>

definition parse_array :: "tensor_proto \<Rightarrow> ndarray result" where
  "parse_array tp =
     (case get_type (tp_data_type tp) of
        Inl e \<Rightarrow> Inl e
      | Inr dt \<Rightarrow>
          if prod_list (tp_dims tp) = int (length (tp_vals tp))
          then Inr \<lparr>nd_shape = tp_dims tp, nd_dtype = dt, nd_data = tp_vals tp\<rparr>
          else Inl (ValueErr ''cannot reshape array''))"

text \<open>\<open>_fix_outputs\<close>.\<close>

definition fix_outputs :: "string \<Rightarrow> string list \<Rightarrow> string list" where
  "fix_outputs op_name outputs =
     (if op_name = ''Dropout'' then (if length outputs = 1 then outputs else butlast outputs)
      else outputs)"

subsection \<open>Encoding a dict as attribute records\<close>

text \<open>The record an ONNX writer produces for one attribute value: exactly one field set
  (\<open>onnx.helper.make_attribute\<close>).  Empty lists and the importer's own
  \<open>tvm_custom\<close> entry have no such record.\<close>

fun attr_proto_of :: "string \<Rightarrow> attr_value \<Rightarrow> attr_proto" where
  "attr_proto_of n (AFloat r) = AttrProto n (Some r) None None None [] [] [] None [] []"
| "attr_proto_of n (AInt i) = AttrProto n None (Some i) None None [] [] [] None [] []"
| "attr_proto_of n (ABytes s) = AttrProto n None None (Some s) None [] [] [] None [] []"
| "attr_proto_of n (AGraph g) = AttrProto n None None None (Some g) [] [] [] None [] []"
| "attr_proto_of n (AFloats rs) = AttrProto n None None None None rs [] [] None [] []"
| "attr_proto_of n (AInts is) = AttrProto n None None None None [] is [] None [] []"
| "attr_proto_of n (AStrings ss) = AttrProto n None None None None [] [] ss None [] []"
| "attr_proto_of n (ATensor t) = AttrProto n None None None None [] [] [] (Some t) [] []"
| "attr_proto_of n (ATensors ts) = AttrProto n None None None None [] [] [] None ts []"
| "attr_proto_of n (ACustom _ _) = AttrProto n None None None None [] [] [] None [] []"
| "attr_proto_of n (APy _) = AttrProto n None None None None [] [] [] None [] []"

fun encodable :: "attr_value \<Rightarrow> bool" where
  "encodable (AFloats rs) = (rs \<noteq> [])"
| "encodable (AInts is) = (is \<noteq> [])"
| "encodable (AStrings ss) = (ss \<noteq> [])"
| "encodable (ATensors ts) = (ts \<noteq> [])"
| "encodable (ACustom _ _) = False"
| "encodable (APy _) = False"
| "encodable _ = True"

definition attr_protos_of :: "attr_dict \<Rightarrow> attr_proto list" where
  "attr_protos_of d = map (\<lambda>(k, v). attr_proto_of k v) d"

subsection \<open>Lemmas and properties of the attribute table\<close>

lemma keys_attr_assign [simp]:
  "fst ` set (attr_assign d k v) = (case v of None \<Rightarrow> fst ` set d | Some _ \<Rightarrow> insert k (fst ` set d))"
  by (simp add: attr_assign_def split: option.splits)

lemma parse_one_attr_encoded:
  assumes "k \<notin> fst ` set acc" and "encodable v"
  shows "parse_one_attr acc (attr_proto_of k v) = Inr (acc @ [(k, v)])"
  using assms
  by (cases v) (simp_all add: parse_one_attr_def attr_assign_def attr_assign_list_def dict_set_new)

lemma parse_attrs_from_encoded:
  assumes "dict_wf d" and "list_all (\<lambda>(k, v). encodable v) d" and "fst ` set acc \<inter> fst ` set d = {}"
  shows "parse_attrs_from acc (attr_protos_of d) = Inr (acc @ d)"
  using assms
proof (induction d arbitrary: acc)
  case Nil
  then show ?case by (simp add: attr_protos_of_def)
next
  case (Cons kv d)
  obtain k v where kv: "kv = (k, v)" by fastforce
  with Cons.prems have k: "k \<notin> fst ` set acc" and e: "encodable v" by auto
  have ih: "parse_attrs_from (acc @ [(k, v)]) (attr_protos_of d) = Inr ((acc @ [(k, v)]) @ d)"
    using Cons.prems kv by (intro Cons.IH) auto
  show ?case
    using parse_one_attr_encoded[OF k e] ih kv by (simp add: attr_protos_of_def)
qed

text \<open>C15 (round trip): a dict of attribute values with distinct names, written as one
  record per entry with exactly one field set, parses back to the same dict, in the same
  order.\<close>

theorem parse_attr_roundtrip:
  assumes "dict_wf d" and "list_all (\<lambda>(k, v). encodable v) d"
  shows "parse_attr (attr_protos_of d) = Inr d"
  using parse_attrs_from_encoded[OF assms, of "[]"] by (simp add: parse_attr_def)

theorem parse_attr_roundtrip_witness:
  "parse_attr (attr_protos_of [(''axis'', AInt 1), (''pads'', AInts [0, 1]), (''mode'', ABytes ''constant'')])
     = Inr [(''axis'', AInt 1), (''pads'', AInts [0, 1]), (''mode'', ABytes ''constant'')]"
  using parse_attr_roundtrip[of "[(''axis'', AInt 1), (''pads'', AInts [0, 1]), (''mode'', ABytes ''constant'')]"]
  by simp

text \<open>A record with two scalar fields set (\<open>f\<close> and \<open>i\<close>) is
  not rejected: the later field in the order \<open>f, i, s, g\<close> silently wins.\<close>

theorem parse_one_attr_two_scalars:
  assumes "a_f a = Some r" and "a_i a = Some i" and "a_s a = None" and "a_g a = None"
    and "a_floats a = []" and "a_ints a = []" and "a_strings a = []" and "a_t a = None"
    and "a_tensors a = []" and "a_graphs a = []" and "a_name a \<notin> fst ` set acc"
  shows "parse_one_attr acc a = Inr (acc @ [(a_name a, AInt i)])"
  using assms by (simp add: parse_one_attr_def attr_assign_def attr_assign_list_def dict_set_new dict_set_last Let_def)

theorem parse_one_attr_two_scalars_witness:
  "parse_one_attr [] (AttrProto ''alpha'' (Some (1 / 2)) (Some 2) None None [] [] [] None [] []) = Inr [(''alpha'', AInt 2)]"
  using parse_one_attr_two_scalars[of "AttrProto ''alpha'' (Some (1 / 2)) (Some 2) None None [] [] [] None [] []" "1 / 2" 2 "[]"] by simp

text \<open>A record with a scalar and a list field under the same name fails the
  one-type assertion.\<close>

theorem parse_one_attr_scalar_and_list:
  assumes "a_i a = Some i" and "a_ints a \<noteq> []" and "a_floats a = []"
  shows "parse_one_attr acc a = Inl (AssertionErr ''Only one type of attr is allowed'')"
  using assms by (simp add: parse_one_attr_def attr_assign_list_def Let_def split: option.splits)

theorem parse_one_attr_scalar_and_list_witness:
  "parse_one_attr [] (AttrProto ''axes'' None (Some 1) None None [] [0, 1] [] None [] []) = Inl (AssertionErr ''Only one type of attr is allowed'')"
  using parse_one_attr_scalar_and_list[of "AttrProto ''axes'' None (Some 1) None None [] [0, 1] [] None [] []" 1 "[]"] by simp

text \<open>A record with no field set is a \<open>ValueError\<close>.\<close>

theorem parse_one_attr_no_field:
  assumes "a_f a = None" and "a_i a = None" and "a_s a = None" and "a_g a = None"
    and "a_floats a = []" and "a_ints a = []" and "a_strings a = []" and "a_t a = None"
    and "a_tensors a = []" and "a_graphs a = []" and "a_name a \<notin> fst ` set acc"
  shows "parse_one_attr acc a = Inl (ValueErr ''Cannot parse attribute'')"
  using assms by (simp add: parse_one_attr_def attr_assign_def attr_assign_list_def)

theorem parse_one_attr_no_field_witness:
  "parse_one_attr [] (AttrProto ''empty'' None None None None [] [] [] None [] []) = Inl (ValueErr ''Cannot parse attribute'')"
  using parse_one_attr_no_field[of "AttrProto ''empty'' None None None None [] [] [] None [] []" "[]"] by simp

text \<open>Two records with the same name and scalar fields do not conflict: the later
  record's value replaces the earlier one.\<close>

theorem parse_attr_duplicate_scalar_overwrites:
  "parse_attr [attr_proto_of k (AInt i), attr_proto_of k (AFloat r)] = Inr [(k, AFloat r)]"
  by (simp add: parse_attr_def parse_one_attr_def attr_assign_def attr_assign_list_def)

end
