(* ===== verification/Importer.thy ===== *)
theory Importer
  imports Registry Attributes
begin

text \<open>
  The Graph Importer and its Conversion Scope: \<open>GraphProto\<close> of \<open>onnx.py\<close>.
  \<^item> \<open>scope\<close> is the \<open>GraphProto\<close> object: its dicts \<open>_nodes\<close>, \<open>_params\<close>,
    \<open>_inputs\<close>, \<open>_renames\<close> as ordered dicts, its counters and configuration, the
    flag telling whether it is the outermost scope (\<open>_old_manager is None\<close>), and the
    warnings it has issued.  The scope is passed explicitly: a converter receives the
    current scope (what \<open>GraphProto.current\<close> holds while it runs) and returns it,
    possibly updated.
  \<^item> A converter (\<open>converter\<close>) also receives a \<open>sub_import\<close> function, the importer
    itself with one unit of fuel less, which the control-flow converters call on the
    bodies of \<open>If\<close> and \<open>Loop\<close>.  \<open>import_sub\<close> ties the knot by recursion on the
    fuel; running out of fuel is the error \<open>FuelExhausted\<close>.
  \<^item> \<open>env\<close> collects what the importer calls but does not define: the rules of the
    converter classes (\<open>env_impl class version\<close>) and \<open>fold_constant\<close>.
    \<open>Renamer\<close> and \<open>AttrCvt\<close> rules are applied by the model itself.
  \<^item> \<open>import_graph\<close> is \<open>from_onnx(graph, opset, get_output_expr=True)\<close>, steps
    1 to 6 of the specification: \<open>bind_initializers\<close>, \<open>bind_inputs\<close>, the check of
    the user's shapes, \<open>check_supported\<close>, \<open>convert_nodes\<close> and
    \<open>graph_outputs\<close>; \<open>assemble\<close> is step 7, and \<open>from_onnx_graph\<close> the call
    that returns the function and the parameter dict; \<open>from_onnx_model\<close> is the
    module-level \<open>from_onnx\<close>.
  \<^item> Per node, \<open>convert_node\<close> parses the attributes, gathers the inputs, adds
    \<open>tvm_custom\<close>, converts, folds, reconciles the output arity
    (\<open>reconcile_outputs\<close>), asserts it and binds the outputs (\<open>bind_outputs\<close>).
\<close>

datatype dtype_cfg = DtypeStr string | DtypeDict "(string, string) pydict"

record scope =
  sc_nodes :: "(string, expr) pydict"
  sc_params :: "(string, ndarray) pydict"
  sc_inputs :: "(string, expr) pydict"
  sc_renames :: "(string, string) pydict"
  sc_num_input :: nat
  sc_num_param :: nat
  sc_shape :: "(string, dim list) pydict"
  sc_input_names :: "string list"
  sc_dtype :: dtype_cfg
  sc_opset :: "int option"
  sc_freeze :: bool
  sc_outermost :: bool
  sc_warnings :: "string list"

text \<open>\<open>GraphProto(shape, dtype, freeze_params)\<close>, entered as the outermost scope or not.\<close>

definition new_scope :: "(string, dim list) pydict \<Rightarrow> dtype_cfg \<Rightarrow> bool \<Rightarrow> bool \<Rightarrow> scope" where
  "new_scope shape dtype freeze outermost =
     \<lparr>sc_nodes = [], sc_params = [], sc_inputs = [], sc_renames = [], sc_num_input = 0,
      sc_num_param = 0, sc_shape = shape, sc_input_names = [], sc_dtype = dtype, sc_opset = None,
      sc_freeze = freeze, sc_outermost = outermost, sc_warnings = []\<rparr>"

record relay_func =
  fn_params :: "expr list"
  fn_body :: expr

type_synonym sub_import = "scope \<Rightarrow> onnx_graph \<Rightarrow> int \<Rightarrow> (expr \<times> scope) result"
type_synonym converter =
  "sub_import \<Rightarrow> scope \<Rightarrow> expr option list \<Rightarrow> attr_dict \<Rightarrow> (conv_out \<times> scope) result"

record env =
  env_impl :: "string \<Rightarrow> int \<Rightarrow> converter"
  env_fold :: "expr \<Rightarrow> expr"

subsection \<open>Step 1: initializers\<close>

text \<open>\<open>new_var(name, shape, dtype)\<close> for a materialised tensor.\<close>

definition param_var :: "string \<Rightarrow> ndarray \<Rightarrow> expr" where
  "param_var n a = Var n (map Dim (nd_shape a)) (Some (nd_dtype a))"

definition bind_initializer :: "scope \<Rightarrow> tensor_proto \<Rightarrow> scope result" where
  "bind_initializer sc t =
     (if py_strip (tp_name t) = [] then Inl (ValueErr ''Tensor's name is required.'')
      else case parse_array t of
        Inl e \<Rightarrow> Inl e
      | Inr a \<Rightarrow>
          if sc_freeze sc then Inr (sc\<lparr>sc_nodes := dict_set (sc_nodes sc) (tp_name t) (Const a)\<rparr>)
          else Inr (sc\<lparr>sc_params := dict_set (sc_params sc) (tp_name t) a,
                       sc_nodes := dict_set (sc_nodes sc) (tp_name t) (param_var (tp_name t) a)\<rparr>))"

fun bind_initializers :: "scope \<Rightarrow> tensor_proto list \<Rightarrow> scope result" where
  "bind_initializers sc [] = Inr sc"
| "bind_initializers sc (t # ts) =
     (case bind_initializer sc t of Inl e \<Rightarrow> Inl e | Inr sc' \<Rightarrow> bind_initializers sc' ts)"

subsection \<open>Step 2: declared inputs\<close>

definition input_dtype :: "dtype_cfg \<Rightarrow> string \<Rightarrow> string option \<Rightarrow> string option" where
  "input_dtype cfg n declared =
     (case cfg of
        DtypeDict d \<Rightarrow> (case map_of d n of Some t \<Rightarrow> Some t | None \<Rightarrow> declared)
      | DtypeStr _ \<Rightarrow> declared)"

definition bind_input :: "scope \<Rightarrow> value_info \<Rightarrow> scope result" where
  "bind_input sc vi =
     (case get_info vi of
        Inl e \<Rightarrow> Inl e
      | Inr (i_name, i_shape, d_type, i_shape_name) \<Rightarrow>
          (case map_of (sc_params sc) i_name of
             Some a \<Rightarrow>
               let v = param_var i_name a in
               Inr (sc\<lparr>sc_num_param := Suc (sc_num_param sc),
                       sc_params := dict_set (dict_pop (sc_params sc) i_name) i_name a,
                       sc_nodes := dict_set (sc_nodes sc) i_name v,
                       sc_inputs := dict_set (sc_inputs sc) i_name v\<rparr>)
           | None \<Rightarrow>
               if i_name \<in> set (dict_keys (sc_nodes sc)) then Inr sc
               else
                 let shape = (case map_of (sc_shape sc) i_name of Some s \<Rightarrow> s | None \<Rightarrow> i_shape);
                     warns = (if map_of (sc_shape sc) i_name = None \<and> AnyDim \<in> set i_shape
                              then sc_warnings sc @ [''Input '' @ i_name @ '' has unknown dimension shapes'']
                              else sc_warnings sc);
                     v = Var i_name shape (input_dtype (sc_dtype sc) i_name d_type)
                 in Inr (sc\<lparr>sc_num_input := Suc (sc_num_input sc),
                            sc_input_names := sc_input_names sc @ [i_name],
                            sc_warnings := warns,
                            sc_nodes := dict_set (sc_nodes sc) i_name v,
                            sc_inputs := dict_set (sc_inputs sc) i_name v\<rparr>)))"

fun bind_inputs :: "scope \<Rightarrow> value_info list \<Rightarrow> scope result" where
  "bind_inputs sc [] = Inr sc"
| "bind_inputs sc (i # is) = (case bind_input sc i of Inl e \<Rightarrow> Inl e | Inr sc' \<Rightarrow> bind_inputs sc' is)"

text \<open>Only the outermost scope checks that every user shape names a real input.\<close>

definition check_user_shapes :: "scope \<Rightarrow> unit result" where
  "check_user_shapes sc =
     (if sc_outermost sc \<and> \<not> list_all (\<lambda>n. n \<in> set (sc_input_names sc)) (dict_keys (sc_shape sc))
      then Inl (AssertionErr ''User specified the shape for inputs that weren't found in the graph'')
      else Inr ())"

subsection \<open>Step 3: the operator check, all names at once\<close>

definition unsupported_ops :: "(string, rule) pydict \<Rightarrow> onnx_node list \<Rightarrow> string set" where
  "unsupported_ops cmap nodes =
     set (filter (\<lambda>op. op \<notin> set (dict_keys cmap) \<and> op \<noteq> ''Constant'' \<and> op \<notin> set identity_list)
            (map n_op_type nodes))"

definition check_supported :: "int \<Rightarrow> onnx_node list \<Rightarrow> unit result" where
  "check_supported opset nodes =
     (case get_convert_map opset of
        Inl e \<Rightarrow> Inl e
      | Inr cmap \<Rightarrow>
          if unsupported_ops cmap nodes \<noteq> {} then Inl (OpNotImplemented (unsupported_ops cmap nodes))
          else Inr ())"

subsection \<open>Step 4: converting one node\<close>

text \<open>An input name: \<open>self._nodes[self._renames.get(i, i)]\<close>, or \<open>None\<close> for \<open>""\<close>.\<close>

definition lookup_input :: "scope \<Rightarrow> string \<Rightarrow> expr option result" where
  "lookup_input sc i =
     (if i = [] then Inr None
      else let k = (case map_of (sc_renames sc) i of Some r \<Rightarrow> r | None \<Rightarrow> i) in
           case map_of (sc_nodes sc) k of Some e \<Rightarrow> Inr (Some e) | None \<Rightarrow> Inl (KeyErr k))"

fun gather_inputs :: "scope \<Rightarrow> string list \<Rightarrow> expr option list result" where
  "gather_inputs sc [] = Inr []"
| "gather_inputs sc (i # is) =
     (case lookup_input sc i of
        Inl e \<Rightarrow> Inl e
      | Inr x \<Rightarrow> (case gather_inputs sc is of Inl e \<Rightarrow> Inl e | Inr xs \<Rightarrow> Inr (x # xs)))"

fun apply_rule :: "env \<Rightarrow> rule \<Rightarrow> converter" where
  "apply_rule E (RRenamer n) sub sc inputs attrs =
     (case relay_args inputs of Inl e \<Rightarrow> Inl e | Inr args \<Rightarrow> Inr (Single (renamer_call n args attrs), sc))"
| "apply_rule E (RCvt c) sub sc inputs attrs =
     (case attr_cvt_call c inputs attrs of Inl e \<Rightarrow> Inl e | Inr x \<Rightarrow> Inr (Single x, sc))"
| "apply_rule E (RImpl c v) sub sc inputs attrs = env_impl E c v sub sc inputs attrs"

text \<open>\<open>_convert_operator\<close>.\<close>

definition convert_operator ::
  "env \<Rightarrow> sub_import \<Rightarrow> scope \<Rightarrow> string \<Rightarrow> expr option list \<Rightarrow> attr_dict \<Rightarrow> int \<Rightarrow> (conv_out \<times> scope) result" where
  "convert_operator E sub sc op_name inputs attrs opset =
     (case get_convert_map opset of
        Inl e \<Rightarrow> Inl e
      | Inr cmap \<Rightarrow>
          if op_name \<in> set identity_list then
            (case relay_args inputs of
               Inl e \<Rightarrow> Inl e
             | Inr args \<Rightarrow> Inr (Single (Call op_name args (map (\<lambda>(k, v). (k, to_pyval v)) attrs)), sc))
          else case map_of cmap op_name of
            Some r \<Rightarrow> apply_rule E r sub sc inputs attrs
          | None \<Rightarrow> Inl (NotImplementedErr (''Operator '' @ op_name @ '' not implemented.'')))"

text \<open>\<open>fold_constant\<close> on the converter's result; a one-element \<open>TupleWrapper\<close> is not an
  expression and cannot be folded.\<close>

definition fold_out :: "env \<Rightarrow> conv_out \<Rightarrow> conv_out result" where
  "fold_out E op =
     (case op of
        Single e \<Rightarrow> Inr (Single (env_fold E e))
      | Wrapped e n \<Rightarrow> if n = 1 then Inl (TypeErr ''fold_constant'') else Inr (Wrapped (env_fold E e) n))"

text \<open>\<open>valid_outputs\<close>: slot \<open>i\<close> is valid when the node names output \<open>i\<close>;
  naming an output past the converter's arity is an \<open>IndexError\<close>.\<close>

definition valid_mask :: "nat \<Rightarrow> string list \<Rightarrow> bool list result" where
  "valid_mask n outs =
     (if list_ex (\<lambda>nm. nm \<noteq> []) (drop n outs) then Inl IndexErr
      else Inr (map (\<lambda>i. i < length outs \<and> outs ! i \<noteq> []) [0..<n]))"

definition pick_outputs :: "expr \<Rightarrow> nat list \<Rightarrow> expr list result" where
  "pick_outputs tup idx =
     (case tup of
        Tuple flds \<Rightarrow>
          if list_all (\<lambda>i. i < length flds) idx then Inr (map (\<lambda>i. flds ! i) idx) else Inl IndexErr
      | _ \<Rightarrow> Inr (map (\<lambda>i. TupleGetItem tup i) idx))"

text \<open>The arity reconciliation for a result of more than one output.\<close>

definition reconcile_outputs :: "conv_out \<Rightarrow> string list \<Rightarrow> (conv_out \<times> string list) result" where
  "reconcile_outputs op node_output =
     (let n = out_len op in
      if n \<le> 1 then Inr (op, node_output)
      else case valid_mask n node_output of
        Inl e \<Rightarrow> Inl e
      | Inr valid \<Rightarrow>
          if list_all id valid then Inr (op, node_output)
          else case pick_outputs (out_astuple op) (filter (\<lambda>i. valid ! i) [0..<n]) of
            Inl e \<Rightarrow> Inl e
          | Inr outputs \<Rightarrow>
              let op' = (if length outputs = 1 then Single (hd outputs)
                         else if length outputs \<noteq> n then Wrapped (Tuple outputs) (length outputs)
                         else op)
              in Inr (op', filter (\<lambda>nm. nm \<noteq> []) node_output))"

fun bind_names :: "(string, expr) pydict \<Rightarrow> expr \<Rightarrow> string list \<Rightarrow> nat \<Rightarrow> (string, expr) pydict" where
  "bind_names d tup [] i = d"
| "bind_names d tup (k # ks) i = bind_names (dict_set d k (TupleGetItem tup i)) tup ks (Suc i)"

definition bind_outputs :: "scope \<Rightarrow> conv_out \<Rightarrow> string list \<Rightarrow> scope result" where
  "bind_outputs sc op names =
     (if out_len op = 1 then
        (case op of
           Single e \<Rightarrow> Inr (sc\<lparr>sc_nodes := dict_set (sc_nodes sc) (hd names) e\<rparr>)
         | Wrapped _ _ \<Rightarrow> Inl (TypeErr ''TupleWrapper''))
      else Inr (sc\<lparr>sc_nodes := bind_names (sc_nodes sc) (out_astuple op) names 0\<rparr>))"

definition convert_node :: "env \<Rightarrow> sub_import \<Rightarrow> int \<Rightarrow> scope \<Rightarrow> onnx_node \<Rightarrow> scope result" where
  "convert_node E sub opset sc nd =
     (let op_name = n_op_type nd in
      case parse_attr (n_attribute nd) of Inl e \<Rightarrow> Inl e | Inr attr \<Rightarrow>
      case gather_inputs sc (n_input nd) of Inl e \<Rightarrow> Inl e | Inr inputs \<Rightarrow>
      let node_output = fix_outputs op_name (n_output nd);
          attr' = dict_set attr ''tvm_custom'' (ACustom (n_name nd) (length node_output)) in
      case convert_operator E sub sc op_name inputs attr' opset of Inl e \<Rightarrow> Inl e | Inr (op, sc') \<Rightarrow>
      case fold_out E op of Inl e \<Rightarrow> Inl e | Inr op1 \<Rightarrow>
      case reconcile_outputs op1 node_output of Inl e \<Rightarrow> Inl e | Inr (op2, outs) \<Rightarrow>
      if length outs \<noteq> out_len op2 then Inl (AssertionErr ''Number of output mismatch'')
      else bind_outputs sc' op2 outs)"

fun convert_nodes :: "env \<Rightarrow> sub_import \<Rightarrow> int \<Rightarrow> scope \<Rightarrow> onnx_node list \<Rightarrow> scope result" where
  "convert_nodes E sub opset sc [] = Inr sc"
| "convert_nodes E sub opset sc (nd # nds) =
     (case convert_node E sub opset sc nd of Inl e \<Rightarrow> Inl e | Inr sc' \<Rightarrow> convert_nodes E sub opset sc' nds)"

subsection \<open>Steps 5 and 6: outputs and the whole graph\<close>

fun lookup_outputs :: "scope \<Rightarrow> value_info list \<Rightarrow> expr list result" where
  "lookup_outputs sc [] = Inr []"
| "lookup_outputs sc (vi # vis) =
     (case map_of (sc_nodes sc) (vi_name vi) of
        None \<Rightarrow> Inl (KeyErr (vi_name vi))
      | Some e \<Rightarrow> (case lookup_outputs sc vis of Inl err \<Rightarrow> Inl err | Inr es \<Rightarrow> Inr (e # es)))"

definition graph_outputs :: "scope \<Rightarrow> value_info list \<Rightarrow> expr result" where
  "graph_outputs sc outs =
     (case lookup_outputs sc outs of
        Inl e \<Rightarrow> Inl e
      | Inr es \<Rightarrow> Inr (if length es = 1 then hd es else Tuple es))"

definition import_graph :: "env \<Rightarrow> sub_import \<Rightarrow> scope \<Rightarrow> onnx_graph \<Rightarrow> int \<Rightarrow> (expr \<times> scope) result" where
  "import_graph E sub sc g opset =
     (case bind_initializers (sc\<lparr>sc_opset := Some opset\<rparr>) (g_initializer g) of Inl e \<Rightarrow> Inl e | Inr sc1 \<Rightarrow>
      case bind_inputs sc1 (g_input g) of Inl e \<Rightarrow> Inl e | Inr sc2 \<Rightarrow>
      case check_user_shapes sc2 of Inl e \<Rightarrow> Inl e | Inr _ \<Rightarrow>
      case check_supported opset (g_node g) of Inl e \<Rightarrow> Inl e | Inr _ \<Rightarrow>
      case convert_nodes E sub opset sc2 (g_node g) of Inl e \<Rightarrow> Inl e | Inr sc3 \<Rightarrow>
      case graph_outputs sc3 (g_output g) of Inl e \<Rightarrow> Inl e | Inr out \<Rightarrow> Inr (out, sc3))"

text \<open>The importer as its own sub-importer, one unit of fuel per level of nesting.\<close>

fun import_sub :: "nat \<Rightarrow> env \<Rightarrow> sub_import" where
  "import_sub 0 E = (\<lambda>sc g opset. Inl FuelExhausted)"
| "import_sub (Suc f) E = (\<lambda>sc g opset. import_graph E (import_sub f E) sc g opset)"

subsection \<open>Step 7: the function and its parameters\<close>

text \<open>\<open>{v: k for k, v in self._nodes.items()}[v]\<close>: the last name bound to \<open>v\<close>.\<close>

definition inv_lookup :: "(string, expr) pydict \<Rightarrow> expr \<Rightarrow> string option" where
  "inv_lookup d v = (case filter (\<lambda>(k, x). x = v) d of [] \<Rightarrow> None | kxs \<Rightarrow> Some (fst (last kxs)))"

fun add_free_params :: "(string, expr) pydict \<Rightarrow> string list \<Rightarrow> (string, expr) pydict \<Rightarrow> string list
                         \<Rightarrow> (string, expr) pydict result" where
  "add_free_params nodes free inputs [] = Inr inputs"
| "add_free_params nodes free inputs (k # ks) =
     (if k \<in> set free \<and> k \<notin> set (dict_keys inputs) then
        (case map_of nodes k of
           None \<Rightarrow> Inl (KeyErr k)
         | Some v \<Rightarrow> add_free_params nodes free (dict_set inputs k v) ks)
      else add_free_params nodes free inputs ks)"

definition assemble :: "scope \<Rightarrow> expr \<Rightarrow> (relay_func \<times> scope) result" where
  "assemble sc out =
     (case those (map (inv_lookup (sc_nodes sc)) (free_vars out)) of
        None \<Rightarrow> Inl (KeyErr ''free variable'')
      | Some free \<Rightarrow>
          (case add_free_params (sc_nodes sc) free (sc_inputs sc) (dict_keys (sc_params sc)) of
             Inl e \<Rightarrow> Inl e
           | Inr inputs \<Rightarrow>
               Inr (\<lparr>fn_params = map snd inputs, fn_body = out\<rparr>, sc\<lparr>sc_inputs := inputs\<rparr>)))"

definition from_onnx_graph ::
  "nat \<Rightarrow> env \<Rightarrow> scope \<Rightarrow> onnx_graph \<Rightarrow> int \<Rightarrow> ((relay_func \<times> (string, ndarray) pydict) \<times> scope) result" where
  "from_onnx_graph fuel E sc g opset =
     (case import_graph E (import_sub fuel E) sc g opset of
        Inl e \<Rightarrow> Inl e
      | Inr (out, sc') \<Rightarrow>
          (case assemble sc' out of
             Inl e \<Rightarrow> Inl e
           | Inr (fn, sc'') \<Rightarrow> Inr ((fn, sc_params sc''), sc'')))"

subsection \<open>The module-level \<open>from_onnx\<close>\<close>

record onnx_model =
  model_graph :: onnx_graph
  model_opset_import :: "int list"

definition from_onnx_model ::
  "nat \<Rightarrow> env \<Rightarrow> onnx_model \<Rightarrow> (string, dim list) pydict \<Rightarrow> dtype_cfg \<Rightarrow> int option \<Rightarrow> bool
    \<Rightarrow> ((relay_func \<times> (string, ndarray) pydict) \<times> scope) result" where
  "from_onnx_model fuel E model shape dtype opset freeze =
     (let opset_in_model = (case model_opset_import model of [] \<Rightarrow> 1 | v # _ \<Rightarrow> v);
          sc = new_scope shape dtype freeze True;
          (op, sc') = (case opset of
                         None \<Rightarrow> (opset_in_model, sc)
                       | Some r \<Rightarrow> (r, if r < opset_in_model
                                      then sc\<lparr>sc_warnings := [''lower opset overrides the model's'']\<rparr>
                                      else sc))
      in from_onnx_graph fuel E sc' (model_graph model) op)"


subsection \<open>The scope invariant\<close>

text \<open>Bindings are never removed: the key sets of \<open>_nodes\<close>, \<open>_params\<close> and
  \<open>_inputs\<close> only grow.  A converter environment is monotone when every class
  converter keeps this order between the scope it receives and the one it returns.
  \<open>pack_outputs\<close> is how the arity reconciliation repackages the selected outputs.\<close>

definition scope_le :: "scope \<Rightarrow> scope \<Rightarrow> bool" where
  "scope_le a b \<longleftrightarrow>
     fst ` set (sc_nodes a) \<subseteq> fst ` set (sc_nodes b) \<and>
     fst ` set (sc_params a) \<subseteq> fst ` set (sc_params b) \<and>
     fst ` set (sc_inputs a) \<subseteq> fst ` set (sc_inputs b)"

definition env_mono :: "env \<Rightarrow> bool" where
  "env_mono E \<longleftrightarrow>
     (\<forall>c v sub sc ins attrs op sc'. env_impl E c v sub sc ins attrs = Inr (op, sc') \<longrightarrow> scope_le sc sc')"

definition pack_outputs :: "expr list \<Rightarrow> conv_out" where
  "pack_outputs outs = (if length outs = 1 then Single (hd outs) else Wrapped (Tuple outs) (length outs))"

subsection \<open>Example inputs\<close>

text \<open>An environment whose class rules all fail (enough for graphs that use none), an
  \<open>int64\<close> initializer \<open>w = [3, 4]\<close>, and a graph with two unknown operators.\<close>

definition trivial_env :: env where
  "trivial_env = \<lparr>env_impl = (\<lambda>c v sub sc ins attrs. Inl (NotImplementedErr c)), env_fold = id\<rparr>"

definition w_tensor :: tensor_proto where
  "w_tensor = TensorProto ''w'' [2] 7 [3, 4]"

definition w_array :: ndarray where
  "w_array = \<lparr>nd_shape = [2], nd_dtype = ''int64'', nd_data = [3, 4]\<rparr>"

definition unsupported_graph :: onnx_graph where
  "unsupported_graph =
     Graph [Node ''Foo'' [] [''a''] [] ''n1'', Node ''Relu'' [''a''] [''b''] [] ''n2'',
            Node ''Bar'' [''b''] [''c''] [] ''n3''] [] [] [ValueInfo ''c'' 1 []]"

definition u_tensor :: tensor_proto where
  "u_tensor = TensorProto ''u'' [1] 7 [5]"

text \<open>A scope holding two declared inputs \<open>x\<close> and \<open>y\<close>.\<close>

definition xy_scope :: scope where
  "xy_scope = (new_scope [] (DtypeStr ''float32'') False True)
     \<lparr>sc_nodes := [(''x'', Var ''x'' [] None), (''y'', Var ''y'' [] None)],
      sc_inputs := [(''x'', Var ''x'' [] None), (''y'', Var ''y'' [] None)]\<rparr>"

text \<open>A scope with the declared input \<open>x\<close> and the initializer \<open>w\<close>.\<close>

definition xw_scope :: scope where
  "xw_scope = (new_scope [] (DtypeStr ''float32'') False True)
     \<lparr>sc_nodes := [(''x'', Var ''x'' [] None), (''w'', Var ''w'' [] None)],
      sc_params := [(''w'', \<lparr>nd_shape = [], nd_dtype = ''float32'', nd_data = [1]\<rparr>)],
      sc_inputs := [(''x'', Var ''x'' [] None)]\<rparr>"

subsection \<open>Lemmas and properties of the importer\<close>

text \<open>The operator check does not depend on the opset: it tests the keys of the convert
  map's table.\<close>

lemma check_supported_eq:
  "check_supported opset nodes =
     (let S = {op \<in> n_op_type ` set nodes. op \<notin> fst ` set convert_map_entries \<and> op \<noteq> ''Constant''}
      in if S = {} then Inr () else Inl (OpNotImplemented S))"
proof -
  obtain m where m: "get_convert_map opset = Inr m" "dict_keys m = dict_keys convert_map_entries"
    using get_convert_map_ok by blast
  from m(2) have "fst ` set m = fst ` set convert_map_entries" by (metis set_map)
  then have "unsupported_ops m nodes
      = {op \<in> n_op_type ` set nodes. op \<notin> fst ` set convert_map_entries \<and> op \<noteq> ''Constant''}"
    by (auto simp: unsupported_ops_def identity_list_def)
  with m(1) show ?thesis by (simp add: check_supported_def Let_def)
qed

text \<open>C4 (safety): the upfront operator check passes exactly when every node's operator is a
  key of the convert map or \<open>Constant\<close>, whatever the opset.\<close>

theorem check_supported_iff:
  "check_supported opset nodes = Inr () \<longleftrightarrow>
     (\<forall>nd \<in> set nodes. n_op_type nd \<in> fst ` set convert_map_entries \<or> n_op_type nd = ''Constant'')"
  by (auto simp: check_supported_eq Let_def)

theorem check_supported_iff_witness:
  "check_supported 13 [Node ''Relu'' [''x''] [''y''] [] ''n1'', Node ''Constant'' [] [''z''] [] ''n2'']
     = Inr ()"
proof -
  have "\<forall>nd \<in> set [Node ''Relu'' [''x''] [''y''] [] ''n1'', Node ''Constant'' [] [''z''] [] ''n2''].
          n_op_type nd \<in> fst ` set convert_map_entries \<or> n_op_type nd = ''Constant''"
    by (simp add: convert_map_entries_def)
  then show ?thesis using check_supported_iff by blast
qed

text \<open>C5 (error): once initializers and inputs are bound, a graph whose operators include
  unregistered names fails once, before any node is converted, with the set of all of them.\<close>

theorem import_graph_reports_unsupported:
  assumes "bind_initializers (sc\<lparr>sc_opset := Some opset\<rparr>) (g_initializer g) = Inr sc1"
    and "bind_inputs sc1 (g_input g) = Inr sc2"
    and "check_user_shapes sc2 = Inr ()"
    and "S = {op \<in> n_op_type ` set (g_node g). op \<notin> fst ` set convert_map_entries \<and> op \<noteq> ''Constant''}"
    and "S \<noteq> {}"
  shows "import_graph E sub sc g opset = Inl (OpNotImplemented S)"
proof -
  have "check_supported opset (g_node g) = Inl (OpNotImplemented S)"
    unfolding check_supported_eq Let_def assms(4)[symmetric] using assms(5) by simp
  with assms(1-3) show ?thesis by (simp add: import_graph_def)
qed

theorem import_graph_reports_unsupported_witness:
  "import_graph trivial_env (import_sub 1 trivial_env) (new_scope [] (DtypeStr ''float32'') False True)
     unsupported_graph 13 = Inl (OpNotImplemented {''Foo'', ''Bar''})"
proof -
  let ?sc = "new_scope [] (DtypeStr ''float32'') False True"
  have h1: "bind_initializers (?sc\<lparr>sc_opset := Some 13\<rparr>) (g_initializer unsupported_graph)
              = Inr (?sc\<lparr>sc_opset := Some 13\<rparr>)"
    by (simp add: unsupported_graph_def)
  have h2: "bind_inputs (?sc\<lparr>sc_opset := Some 13\<rparr>) (g_input unsupported_graph)
              = Inr (?sc\<lparr>sc_opset := Some 13\<rparr>)"
    by (simp add: unsupported_graph_def)
  have h3: "check_user_shapes (?sc\<lparr>sc_opset := Some 13\<rparr>) = Inr ()"
    by (simp add: check_user_shapes_def new_scope_def)
  have h4: "{''Foo'', ''Bar''} = {op \<in> n_op_type ` set (g_node unsupported_graph).
               op \<notin> fst ` set convert_map_entries \<and> op \<noteq> ''Constant''}"
    by (auto simp: unsupported_graph_def convert_map_entries_def)
  have h5: "{''Foo'', ''Bar''} \<noteq> {}" by simp
  show ?thesis using import_graph_reports_unsupported[OF h1 h2 h3 h4 h5] .
qed

text \<open>C6 (round trip): with \<open>freeze_params\<close>, a graph of one initializer whose output
  names it imports to a function without parameters returning the tensor as a constant,
  and an empty parameter dict.\<close>

theorem import_frozen_initializer:
  assumes "py_strip (tp_name t) \<noteq> []" and "parse_array t = Inr a"
  shows "\<exists>sc'. from_onnx_graph fuel E (new_scope [] dt True True)
            (Graph [] [t] [] [ValueInfo (tp_name t) et ds]) opset
          = Inr ((\<lparr>fn_params = [], fn_body = Const a\<rparr>, []), sc')"
proof -
  have cs: "check_supported opset [] = Inr ()" by (simp add: check_supported_eq)
  show ?thesis
    using assms cs
    by (simp add: from_onnx_graph_def import_graph_def bind_initializer_def new_scope_def
                  check_user_shapes_def graph_outputs_def assemble_def)
qed

theorem import_frozen_initializer_witness:
  "\<exists>sc'. from_onnx_graph 1 trivial_env (new_scope [] (DtypeStr ''float32'') True True)
          (Graph [] [w_tensor] [] [ValueInfo ''w'' 7 [DimProto 2 []]]) 13
        = Inr ((\<lparr>fn_params = [], fn_body = Const w_array\<rparr>, []), sc')"
proof -
  have h1: "py_strip (tp_name w_tensor) \<noteq> []" by (simp add: w_tensor_def py_strip_def py_space_def)
  have h2: "parse_array w_tensor = Inr w_array"
    by (simp add: w_tensor_def w_array_def parse_array_def get_type_def tensor_type_to_np_def)
  show ?thesis
    using import_frozen_initializer[OF h1 h2, of 1 trivial_env "DtypeStr ''float32''" 7 "[DimProto 2 []]" 13]
    by (simp add: w_tensor_def)
qed

text \<open>Without \<open>freeze_params\<close>, the same graph imports to the identity
  function of one parameter, the initializer's variable, and the parameter dict holds the
  tensor under its name.\<close>

theorem import_param_initializer:
  assumes "py_strip (tp_name t) \<noteq> []" and "parse_array t = Inr a"
  shows "\<exists>sc'. from_onnx_graph fuel E (new_scope [] dt False True)
            (Graph [] [t] [] [ValueInfo (tp_name t) et ds]) opset
          = Inr ((\<lparr>fn_params = [param_var (tp_name t) a], fn_body = param_var (tp_name t) a\<rparr>,
                  [(tp_name t, a)]), sc')"
proof -
  have cs: "check_supported opset [] = Inr ()" by (simp add: check_supported_eq)
  show ?thesis
    using assms cs
    by (simp add: from_onnx_graph_def import_graph_def bind_initializer_def new_scope_def
                  check_user_shapes_def graph_outputs_def assemble_def param_var_def inv_lookup_def)
qed

theorem import_param_initializer_witness:
  "\<exists>sc'. from_onnx_graph 1 trivial_env (new_scope [] (DtypeStr ''float32'') False True)
          (Graph [] [w_tensor] [] [ValueInfo ''w'' 7 [DimProto 2 []]]) 13
        = Inr ((\<lparr>fn_params = [param_var ''w'' w_array], fn_body = param_var ''w'' w_array\<rparr>,
                [(''w'', w_array)]), sc')"
proof -
  have h1: "py_strip (tp_name w_tensor) \<noteq> []" by (simp add: w_tensor_def py_strip_def py_space_def)
  have h2: "parse_array w_tensor = Inr w_array"
    by (simp add: w_tensor_def w_array_def parse_array_def get_type_def tensor_type_to_np_def)
  show ?thesis
    using import_param_initializer[OF h1 h2, of 1 trivial_env "DtypeStr ''float32''" 7 "[DimProto 2 []]" 13]
    by (simp add: w_tensor_def)
qed

subsection \<open>Scope monotonicity\<close>

text \<open>Each stage of the import only adds bindings; the converters of the table
  (renamers and \<open>AttrCvt\<close>s) return the scope they were given, and class converters are
  assumed monotone (\<open>env_mono\<close>).\<close>

lemma scope_le_refl [simp]: "scope_le a a"
  by (simp add: scope_le_def)

lemma scope_le_trans: "scope_le a b \<Longrightarrow> scope_le b c \<Longrightarrow> scope_le a c"
  unfolding scope_le_def by (meson subset_trans)

lemma scope_le_nodesD: "scope_le a b \<Longrightarrow> k \<in> fst ` set (sc_nodes a) \<Longrightarrow> k \<in> fst ` set (sc_nodes b)"
  unfolding scope_le_def by (meson subsetD)

lemma scope_le_paramsD: "scope_le a b \<Longrightarrow> k \<in> fst ` set (sc_params a) \<Longrightarrow> k \<in> fst ` set (sc_params b)"
  unfolding scope_le_def by (meson subsetD)

lemma bind_initializer_le:
  assumes "bind_initializer sc t = Inr sc'"
  shows "scope_le sc sc'"
proof -
  from assms obtain a where
    "sc' = (if sc_freeze sc then sc\<lparr>sc_nodes := dict_set (sc_nodes sc) (tp_name t) (Const a)\<rparr>
            else sc\<lparr>sc_params := dict_set (sc_params sc) (tp_name t) a,
                    sc_nodes := dict_set (sc_nodes sc) (tp_name t) (param_var (tp_name t) a)\<rparr>)"
    by (auto simp: bind_initializer_def split: if_splits sum.splits)
  then show ?thesis by (simp add: scope_le_def subset_insertI)
qed

lemma bind_initializer_binds:
  "bind_initializer sc t = Inr sc' \<Longrightarrow>
     tp_name t \<in> fst ` set (sc_nodes sc') \<and> (\<not> sc_freeze sc \<longrightarrow> tp_name t \<in> fst ` set (sc_params sc'))"
  by (auto simp: bind_initializer_def split: if_splits sum.splits)

lemma bind_initializer_freeze: "bind_initializer sc t = Inr sc' \<Longrightarrow> sc_freeze sc' = sc_freeze sc"
  by (auto simp: bind_initializer_def split: if_splits sum.splits)

lemma bind_initializers_le:
  "bind_initializers sc ts = Inr sc' \<Longrightarrow>
     scope_le sc sc' \<and> (\<forall>t \<in> set ts. tp_name t \<in> fst ` set (sc_nodes sc')
        \<and> (\<not> sc_freeze sc \<longrightarrow> tp_name t \<in> fst ` set (sc_params sc')))"
proof (induction sc ts rule: bind_initializers.induct)
  case (1 sc)
  then show ?case by simp
next
  case (2 sc t ts)
  then obtain sc1 where b: "bind_initializer sc t = Inr sc1" and r: "bind_initializers sc1 ts = Inr sc'"
    by (auto split: sum.splits)
  from "2.IH"[OF b r] have ih1: "scope_le sc1 sc'" and ih2: "\<forall>t \<in> set ts. tp_name t \<in> fst ` set (sc_nodes sc')
        \<and> (\<not> sc_freeze sc1 \<longrightarrow> tp_name t \<in> fst ` set (sc_params sc'))" by simp_all
  have le: "scope_le sc sc1" using b by (rule bind_initializer_le)
  have fr: "sc_freeze sc1 = sc_freeze sc" using b by (rule bind_initializer_freeze)
  have "tp_name t \<in> fst ` set (sc_nodes sc')"
    using bind_initializer_binds[OF b] scope_le_nodesD[OF ih1] by blast
  moreover have "\<not> sc_freeze sc \<longrightarrow> tp_name t \<in> fst ` set (sc_params sc')"
    using bind_initializer_binds[OF b] scope_le_paramsD[OF ih1] by blast
  ultimately show ?case using ih2 fr scope_le_trans[OF le ih1] by simp
qed

lemma bind_input_le:
  assumes "bind_input sc vi = Inr sc'"
  shows "scope_le sc sc' \<and> vi_name vi \<in> fst ` set (sc_nodes sc')"
proof -
  from assms obtain sh d sn where gi: "get_info vi = Inr (vi_name vi, sh, d, sn)"
    by (auto simp: bind_input_def get_info_def Let_def split: sum.splits if_splits)
  show ?thesis
  proof (cases "map_of (sc_params sc) (vi_name vi)")
    case (Some a)
    with assms gi have "sc' = sc\<lparr>sc_num_param := Suc (sc_num_param sc),
        sc_params := dict_set (dict_pop (sc_params sc) (vi_name vi)) (vi_name vi) a,
        sc_nodes := dict_set (sc_nodes sc) (vi_name vi) (param_var (vi_name vi) a),
        sc_inputs := dict_set (sc_inputs sc) (vi_name vi) (param_var (vi_name vi) a)\<rparr>"
      by (simp add: bind_input_def Let_def)
    then show ?thesis by (simp add: scope_le_def subset_insertI)
  next
    case None
    show ?thesis
    proof (cases "vi_name vi \<in> fst ` set (sc_nodes sc)")
      case True
      with None assms gi have "sc' = sc" by (simp add: bind_input_def)
      with True show ?thesis by simp
    next
      case False
      with None assms gi obtain v w where "sc' = sc\<lparr>sc_num_input := Suc (sc_num_input sc),
                  sc_input_names := sc_input_names sc @ [vi_name vi], sc_warnings := w,
                  sc_nodes := dict_set (sc_nodes sc) (vi_name vi) v,
                  sc_inputs := dict_set (sc_inputs sc) (vi_name vi) v\<rparr>"
        by (auto simp: bind_input_def Let_def)
      then show ?thesis by (simp add: scope_le_def subset_insertI)
    qed
  qed
qed

lemma bind_inputs_le:
  "bind_inputs sc vis = Inr sc' \<Longrightarrow> scope_le sc sc' \<and> (\<forall>vi \<in> set vis. vi_name vi \<in> fst ` set (sc_nodes sc'))"
proof (induction sc vis rule: bind_inputs.induct)
  case (1 sc)
  then show ?case by simp
next
  case (2 sc vi vis)
  then obtain sc1 where b: "bind_input sc vi = Inr sc1" and r: "bind_inputs sc1 vis = Inr sc'"
    by (auto split: sum.splits)
  from "2.IH"[OF b r] have ih1: "scope_le sc1 sc'"
    and ih2: "\<forall>vi \<in> set vis. vi_name vi \<in> fst ` set (sc_nodes sc')" by simp_all
  from bind_input_le[OF b] have le: "scope_le sc sc1" and v: "vi_name vi \<in> fst ` set (sc_nodes sc1)"
    by simp_all
  from v have "vi_name vi \<in> fst ` set (sc_nodes sc')" by (rule scope_le_nodesD[OF ih1])
  with ih2 scope_le_trans[OF le ih1] show ?case by simp
qed


lemma bind_names_keys: "fst ` set (bind_names d tup ks i) = fst ` set d \<union> set ks"
  by (induction d tup ks i rule: bind_names.induct) auto

lemma bind_outputs_le:
  assumes "bind_outputs sc op names = Inr sc'"
  shows "scope_le sc sc'"
proof (cases "out_len op = 1")
  case True
  with assms obtain e where "sc' = sc\<lparr>sc_nodes := dict_set (sc_nodes sc) (hd names) e\<rparr>"
    by (auto simp: bind_outputs_def split: conv_out.splits)
  then show ?thesis by (simp add: scope_le_def subset_insertI)
next
  case False
  with assms have "sc' = sc\<lparr>sc_nodes := bind_names (sc_nodes sc) (out_astuple op) names 0\<rparr>"
    by (simp add: bind_outputs_def)
  then show ?thesis by (simp add: scope_le_def bind_names_keys)
qed

lemma apply_rule_le:
  "env_mono E \<Longrightarrow> apply_rule E r sub sc ins attrs = Inr (op, sc') \<Longrightarrow> scope_le sc sc'"
  by (cases r) (auto simp: env_mono_def split: sum.splits)

lemma convert_operator_le:
  "env_mono E \<Longrightarrow> convert_operator E sub sc op_name ins attrs opset = Inr (op, sc') \<Longrightarrow> scope_le sc sc'"
  by (auto simp: convert_operator_def identity_list_def split: sum.splits option.splits dest: apply_rule_le)

lemma convert_node_le:
  assumes "env_mono E" and "convert_node E sub opset sc nd = Inr sc'"
  shows "scope_le sc sc'"
proof -
  from assms(2) obtain ins attrs op sc1 op2 outs where
    c: "convert_operator E sub sc (n_op_type nd) ins attrs opset = Inr (op, sc1)" and
    b: "bind_outputs sc1 op2 outs = Inr sc'"
    by (auto simp: convert_node_def Let_def split: sum.splits prod.splits if_splits)
  from convert_operator_le[OF assms(1) c] bind_outputs_le[OF b] show ?thesis
    by (rule scope_le_trans)
qed

lemma convert_nodes_le:
  "env_mono E \<Longrightarrow> convert_nodes E sub opset sc nds = Inr sc' \<Longrightarrow> scope_le sc sc'"
proof (induction E sub opset sc nds rule: convert_nodes.induct)
  case (1 E sub opset sc)
  then show ?case by simp
next
  case (2 E sub opset sc nd nds)
  then obtain sc1 where c: "convert_node E sub opset sc nd = Inr sc1"
    and r: "convert_nodes E sub opset sc1 nds = Inr sc'" by (auto split: sum.splits)
  from convert_node_le[OF "2.prems"(1) c] "2.IH"[OF c "2.prems"(1) r] show ?case
    by (rule scope_le_trans)
qed

text \<open>Stages of a successful import.\<close>

lemma import_graph_stages:
  assumes "import_graph E sub sc g opset = Inr (out, sc')"
  shows "\<exists>sc1 sc2. bind_initializers (sc\<lparr>sc_opset := Some opset\<rparr>) (g_initializer g) = Inr sc1
           \<and> bind_inputs sc1 (g_input g) = Inr sc2
           \<and> convert_nodes E sub opset sc2 (g_node g) = Inr sc'
           \<and> graph_outputs sc' (g_output g) = Inr out"
  using assms by (auto simp: import_graph_def split: sum.splits)

lemma env_mono_trivial_env: "env_mono trivial_env"
  by (simp add: env_mono_def trivial_env_def)

text \<open>C8 (invariant): a successful import keeps every binding of the scope it started from,
  binds every initializer as a node (and, unless parameters are frozen, as a parameter) and
  every declared input as a node, provided the class converters are monotone.\<close>

theorem import_graph_keeps_bindings:
  assumes "import_graph E sub sc g opset = Inr (out, sc')" and "env_mono E"
  shows "scope_le sc sc'
         \<and> (\<forall>t \<in> set (g_initializer g). tp_name t \<in> fst ` set (sc_nodes sc')
               \<and> (\<not> sc_freeze sc \<longrightarrow> tp_name t \<in> fst ` set (sc_params sc')))
         \<and> (\<forall>vi \<in> set (g_input g). vi_name vi \<in> fst ` set (sc_nodes sc'))"
proof -
  from import_graph_stages[OF assms(1)] obtain sc1 sc2 where
    s1: "bind_initializers (sc\<lparr>sc_opset := Some opset\<rparr>) (g_initializer g) = Inr sc1" and
    s2: "bind_inputs sc1 (g_input g) = Inr sc2" and
    s3: "convert_nodes E sub opset sc2 (g_node g) = Inr sc'" by blast
  from bind_initializers_le[OF s1] have
    i1: "scope_le (sc\<lparr>sc_opset := Some opset\<rparr>) sc1"
    "\<forall>t \<in> set (g_initializer g). tp_name t \<in> fst ` set (sc_nodes sc1)
        \<and> (\<not> sc_freeze sc \<longrightarrow> tp_name t \<in> fst ` set (sc_params sc1))" by simp_all
  from bind_inputs_le[OF s2] have
    i2: "scope_le sc1 sc2" "\<forall>vi \<in> set (g_input g). vi_name vi \<in> fst ` set (sc_nodes sc2)" by simp_all
  from convert_nodes_le[OF assms(2) s3] have i3: "scope_le sc2 sc'" .
  have i0: "scope_le sc (sc\<lparr>sc_opset := Some opset\<rparr>)" by (simp add: scope_le_def)
  have l13: "scope_le sc1 sc'" using i2(1) i3 by (rule scope_le_trans)
  have "scope_le sc sc'" using scope_le_trans[OF scope_le_trans[OF i0 i1(1)] l13] .
  moreover have "\<forall>t \<in> set (g_initializer g). tp_name t \<in> fst ` set (sc_nodes sc')
               \<and> (\<not> sc_freeze sc \<longrightarrow> tp_name t \<in> fst ` set (sc_params sc'))"
    using i1(2) scope_le_nodesD[OF l13] scope_le_paramsD[OF l13] by blast
  moreover have "\<forall>vi \<in> set (g_input g). vi_name vi \<in> fst ` set (sc_nodes sc')"
    using i2(2) scope_le_nodesD[OF i3] by blast
  ultimately show ?thesis by blast
qed

theorem import_graph_keeps_bindings_witness:
  "\<exists>out sc'. import_graph trivial_env (import_sub 1 trivial_env) (new_scope [] (DtypeStr ''float32'') False True)
      (Graph [] [w_tensor] [] [ValueInfo ''w'' 7 [DimProto 2 []]]) 13 = Inr (out, sc')
    \<and> ''w'' \<in> fst ` set (sc_nodes sc') \<and> ''w'' \<in> fst ` set (sc_params sc')"
proof -
  have cs: "check_supported 13 [] = Inr ()" by (simp add: check_supported_eq)
  have "\<exists>out sc'. import_graph trivial_env (import_sub 1 trivial_env) (new_scope [] (DtypeStr ''float32'') False True)
      (Graph [] [w_tensor] [] [ValueInfo ''w'' 7 [DimProto 2 []]]) 13 = Inr (out, sc')"
    using cs
    by (simp add: import_graph_def bind_initializer_def new_scope_def w_tensor_def parse_array_def get_type_def
          tensor_type_to_np_def py_strip_def py_space_def check_user_shapes_def graph_outputs_def)
  then obtain out sc' where r: "import_graph trivial_env (import_sub 1 trivial_env)
      (new_scope [] (DtypeStr ''float32'') False True)
      (Graph [] [w_tensor] [] [ValueInfo ''w'' 7 [DimProto 2 []]]) 13 = Inr (out, sc')" by blast
  from import_graph_keeps_bindings[OF r env_mono_trivial_env] r show ?thesis
    by (auto simp: new_scope_def w_tensor_def)
qed

subsection \<open>Output arity reconciliation\<close>

text \<open>C9 (functional): when a converter returns more outputs than the node names (some
  names empty or missing), the outputs at the named positions are selected, in order,
  repackaged as one expression or a smaller tuple, and paired with the non-empty names.\<close>

theorem reconcile_outputs_named_slots:
  assumes "1 < out_len op" and "length names \<le> out_len op"
    and "[] \<in> set names \<or> length names < out_len op"
    and "pick_outputs (out_astuple op) (filter (\<lambda>i. names ! i \<noteq> []) [0..<length names]) = Inr outs"
  shows "reconcile_outputs op names = Inr (pack_outputs outs, filter (\<lambda>nm. nm \<noteq> []) names)
         \<and> out_len (pack_outputs outs) = length (filter (\<lambda>nm. nm \<noteq> []) names)"
proof -
  let ?n = "out_len op"
  let ?idx = "filter (\<lambda>i. names ! i \<noteq> []) [0..<length names]"
  have mask: "valid_mask ?n names = Inr (map (\<lambda>i. i < length names \<and> names ! i \<noteq> []) [0..<?n])"
    using assms(2) by (simp add: valid_mask_def)
  have notall: "\<not> list_all id (map (\<lambda>i. i < length names \<and> names ! i \<noteq> []) [0..<?n])"
    using assms(2,3) by (auto simp: list_all_iff in_set_conv_nth)
  have sel: "filter (\<lambda>i. map (\<lambda>i. i < length names \<and> names ! i \<noteq> []) [0..<?n] ! i) [0..<?n] = ?idx"
    using filter_upt_prefix[OF assms(2), of "\<lambda>nm. nm \<noteq> []"] .
  have len_outs: "length outs = length ?idx"
    using assms(4) by (auto simp: pick_outputs_def split: expr.splits if_splits)
  have cnt: "length ?idx = length (filter (\<lambda>nm. nm \<noteq> []) names)"
    by (subst filter_conv_indices[of "\<lambda>nm. nm \<noteq> []" names]) simp
  have lt: "length ?idx < ?n"
  proof -
    have "length ?idx \<le> length names" by (metis length_filter_le length_upt minus_nat.diff_0)
    moreover have "length ?idx < length names" if "length names = ?n"
    proof -
      from that assms(3) obtain i where "i < length names" "names ! i = []"
        by (auto simp: in_set_conv_nth)
      then have "length ?idx < length [0..<length names]"
        by (intro length_filter_less) auto
      then show ?thesis by simp
    qed
    ultimately show ?thesis using assms(2) by linarith
  qed
  have "reconcile_outputs op names = Inr (pack_outputs outs, filter (\<lambda>nm. nm \<noteq> []) names)"
    using assms(1) mask notall sel assms(4) len_outs lt
    by (simp add: reconcile_outputs_def pack_outputs_def Let_def)
  moreover have "out_len (pack_outputs outs) = length (filter (\<lambda>nm. nm \<noteq> []) names)"
    using len_outs cnt by (simp add: pack_outputs_def)
  ultimately show ?thesis by blast
qed

theorem reconcile_outputs_named_slots_witness:
  "reconcile_outputs (Wrapped (Tuple [Var ''a'' [] None, Var ''b'' [] None, Var ''c'' [] None]) 3) [''p'', '''', ''r'']
     = Inr (pack_outputs [Var ''a'' [] None, Var ''c'' [] None], [''p'', ''r''])
   \<and> out_len (pack_outputs [Var ''a'' [] None, Var ''c'' [] None]) = 2"
proof -
  have p: "pick_outputs (out_astuple (Wrapped (Tuple [Var ''a'' [] None, Var ''b'' [] None, Var ''c'' [] None]) 3))
      (filter (\<lambda>i. [''p'', '''', ''r''] ! i \<noteq> []) [0..<length [''p'', '''', ''r'']])
      = Inr [Var ''a'' [] None, Var ''c'' [] None]"
    by (simp add: pick_outputs_def upt_rec)
  show ?thesis using reconcile_outputs_named_slots[OF _ _ _ p] by simp
qed

text \<open>A node naming an output past the converter's arity fails with
  \<open>IndexError\<close>.\<close>

theorem reconcile_outputs_extra_name:
  assumes "1 < out_len op" and "list_ex (\<lambda>nm. nm \<noteq> []) (drop (out_len op) names)"
  shows "reconcile_outputs op names = Inl IndexErr"
  using assms by (simp add: reconcile_outputs_def valid_mask_def)

theorem reconcile_outputs_extra_name_witness:
  "reconcile_outputs (Wrapped (Var ''t'' [] None) 2) [''p'', ''q'', ''r''] = Inl IndexErr"
  using reconcile_outputs_extra_name[of "Wrapped (Var ''t'' [] None) 2" "[''p'', ''q'', ''r'']"] by simp

lemma resolve_all_lookup:
  "resolve_all opset es = Inr m \<Longrightarrow> map_of es k = Some e \<Longrightarrow>
     \<exists>r. resolve_entry opset e = Inr r \<and> map_of m k = Some r"
  by (induction opset es arbitrary: m rule: resolve_all.induct) (auto split: sum.splits if_splits)

lemma convert_operator_entry:
  assumes "map_of convert_map_entries op_name = Some e" and "resolve_entry opset e = Inr r"
  shows "convert_operator E sub sc op_name ins attrs opset = apply_rule E r sub sc ins attrs"
proof -
  obtain m where m: "get_convert_map opset = Inr m" using get_convert_map_ok by blast
  with assms have "map_of m op_name = Some r"
    using resolve_all_lookup[of opset convert_map_entries m op_name e] by (auto simp: get_convert_map_def)
  with m show ?thesis by (simp add: convert_operator_def identity_list_def)
qed

text \<open>A converter returning a single expression for a node that declares a
  number of outputs other than one fails with the output-count assertion.\<close>

theorem convert_node_arity_mismatch:
  assumes "parse_attr (n_attribute nd) = Inr attr" and "gather_inputs sc (n_input nd) = Inr ins"
    and "convert_operator E sub sc (n_op_type nd) ins
           (dict_set attr ''tvm_custom'' (ACustom (n_name nd) (length (fix_outputs (n_op_type nd) (n_output nd)))))
           opset = Inr (Single e, sc')"
    and "length (fix_outputs (n_op_type nd) (n_output nd)) \<noteq> 1"
  shows "convert_node E sub opset sc nd = Inl (AssertionErr ''Number of output mismatch'')"
  using assms by (simp add: convert_node_def fold_out_def reconcile_outputs_def Let_def)

theorem convert_node_arity_mismatch_witness:
  "convert_node trivial_env (import_sub 1 trivial_env) 13
     ((new_scope [] (DtypeStr ''float32'') False True)\<lparr>sc_nodes := [(''x'', Var ''x'' [] None)]\<rparr>)
     (Node ''Relu'' [''x''] [''y'', ''z''] [] ''n1'') = Inl (AssertionErr ''Number of output mismatch'')"
proof -
  let ?sc = "(new_scope [] (DtypeStr ''float32'') False True)\<lparr>sc_nodes := [(''x'', Var ''x'' [] None)]\<rparr>"
  let ?nd = "Node ''Relu'' [''x''] [''y'', ''z''] [] ''n1''"
  let ?attrs = "dict_set [] ''tvm_custom'' (ACustom (n_name ?nd) (length (fix_outputs (n_op_type ?nd) (n_output ?nd))))"
  have e: "map_of convert_map_entries ''Relu'' = Some (ERenamer ''relu'')"
    by (simp add: convert_map_entries_def)
  have c: "convert_operator trivial_env (import_sub 1 trivial_env) ?sc (n_op_type ?nd) [Some (Var ''x'' [] None)] ?attrs 13
      = Inr (Single (renamer_call ''relu'' [Var ''x'' [] None] ?attrs), ?sc)"
    by (simp add: convert_operator_entry[OF e] relay_args_def)
  have a: "parse_attr (n_attribute (Node ''Relu'' [''x''] [''y'', ''z''] [] ''n1'')) = Inr []"
    by (simp add: parse_attr_def)
  have g: "gather_inputs ?sc (n_input (Node ''Relu'' [''x''] [''y'', ''z''] [] ''n1'')) = Inr [Some (Var ''x'' [] None)]"
    by (simp add: lookup_input_def new_scope_def)
  have l: "length (fix_outputs (n_op_type ?nd) (n_output ?nd)) \<noteq> 1" by (simp add: fix_outputs_def)
  show ?thesis using convert_node_arity_mismatch[OF a g c l] .
qed

subsection \<open>The function's parameters and the parameter dict\<close>

lemma add_free_params_prefix:
  "add_free_params nodes free inputs ks = Inr r \<Longrightarrow> \<exists>ys. r = inputs @ ys"
proof (induction nodes free inputs ks rule: add_free_params.induct)
  case (1 nodes free inputs)
  then show ?case by simp
next
  case (2 nodes free inputs k ks)
  show ?case
  proof (cases "k \<in> set free \<and> k \<notin> set (dict_keys inputs)")
    case True
    with "2.prems" obtain v where v: "map_of nodes k = Some v"
      and r: "add_free_params nodes free (dict_set inputs k v) ks = Inr r"
      by (auto split: option.splits)
    from "2.IH"(1)[OF True v r] True have "\<exists>ys. r = inputs @ (k, v) # ys" by (simp add: dict_set_new)
    then show ?thesis by blast
  next
    case False
    with "2.prems" have "add_free_params nodes free inputs ks = Inr r" by (auto split: if_splits)
    with "2.IH"(2)[OF False] show ?thesis by simp
  qed
qed

lemma assemble_result:
  assumes "assemble sc out = Inr (fn, sc')"
  shows "\<exists>ys. sc_inputs sc' = sc_inputs sc @ ys \<and> fn_params fn = map snd (sc_inputs sc')
           \<and> fn_body fn = out \<and> sc_params sc' = sc_params sc \<and> sc_nodes sc' = sc_nodes sc"
  using assms add_free_params_prefix
  by (fastforce simp: assemble_def split: option.splits sum.splits)

lemma add_free_params_appends:
  "add_free_params nodes free inputs ks = Inr r \<Longrightarrow> distinct ks \<Longrightarrow>
     r = inputs @ map (\<lambda>k. (k, the (map_of nodes k))) [k \<leftarrow> ks. k \<in> set free \<and> k \<notin> set (dict_keys inputs)]"
proof (induction nodes free inputs ks rule: add_free_params.induct)
  case (1 nodes free inputs)
  then show ?case by simp
next
  case (2 nodes free inputs k ks)
  show ?case
  proof (cases "k \<in> set free \<and> k \<notin> set (dict_keys inputs)")
    case True
    with "2.prems"(1) obtain v where v: "map_of nodes k = Some v"
      and r: "add_free_params nodes free (dict_set inputs k v) ks = Inr r"
      by (auto split: option.splits)
    have keys: "set (dict_keys (dict_set inputs k v)) = insert k (set (dict_keys inputs))"
      using True by (simp add: dict_set_new)
    have f: "[k' \<leftarrow> ks. k' \<in> set free \<and> k' \<notin> set (dict_keys (dict_set inputs k v))]
           = [k' \<leftarrow> ks. k' \<in> set free \<and> k' \<notin> set (dict_keys inputs)]"
      using "2.prems"(2) keys by (auto intro: filter_cong)
    show ?thesis
      using "2.IH"(1)[OF True v r] "2.prems"(2) True v f by (simp add: dict_set_new)
  next
    case False
    have r: "add_free_params nodes free inputs ks = Inr r"
      using "2.prems"(1) by (simp only: add_free_params.simps if_not_P[OF False])
    show ?thesis using "2.IH"(2)[OF False r] "2.prems"(2) False by auto
  qed
qed

text \<open>C12 (functional): the parameters of the function \<open>from_onnx\<close> returns are the
  declared inputs bound in \<open>_inputs\<close>, whether or not the output uses them, followed by
  the initializers that are free variables of the output and not inputs already, in the
  order of \<open>_params\<close>.\<close>

theorem assemble_function_params:
  assumes "assemble sc out = Inr (fn, sc')"
    and "those (map (inv_lookup (sc_nodes sc)) (free_vars out)) = Some free"
    and "distinct (dict_keys (sc_params sc))"
  shows "fn_params fn = map snd (sc_inputs sc)
           @ map (\<lambda>k. the (map_of (sc_nodes sc) k))
               [k \<leftarrow> dict_keys (sc_params sc). k \<in> set free \<and> k \<notin> set (dict_keys (sc_inputs sc))]"
proof -
  obtain inputs where a: "add_free_params (sc_nodes sc) free (sc_inputs sc) (dict_keys (sc_params sc)) = Inr inputs"
    and fn: "fn_params fn = map snd inputs"
    using assms(1,2) by (auto simp: assemble_def split: sum.splits)
  show ?thesis
    using add_free_params_appends[OF a assms(3)] fn by simp
qed

theorem assemble_function_params_witness:
  "\<exists>fn sc'. assemble xw_scope (Call ''add'' [Var ''x'' [] None, Var ''w'' [] None] []) = Inr (fn, sc')
      \<and> fn_params fn = [Var ''x'' [] None, Var ''w'' [] None]"
proof -
  have a: "assemble xw_scope (Call ''add'' [Var ''x'' [] None, Var ''w'' [] None] [])
      = Inr (\<lparr>fn_params = [Var ''x'' [] None, Var ''w'' [] None], fn_body = Call ''add'' [Var ''x'' [] None, Var ''w'' [] None] []\<rparr>,
             xw_scope\<lparr>sc_inputs := [(''x'', Var ''x'' [] None), (''w'', Var ''w'' [] None)]\<rparr>)"
    by (simp add: assemble_def xw_scope_def new_scope_def inv_lookup_def)
  have "fn_params \<lparr>fn_params = [Var ''x'' [] None, Var ''w'' [] None], fn_body = Call ''add'' [Var ''x'' [] None, Var ''w'' [] None] []\<rparr>
        = map snd (sc_inputs xw_scope) @ map (\<lambda>k. the (map_of (sc_nodes xw_scope) k))
            [k \<leftarrow> dict_keys (sc_params xw_scope). k \<in> set [''x'', ''w''] \<and> k \<notin> set (dict_keys (sc_inputs xw_scope))]"
    by (rule assemble_function_params[OF a]) (simp_all add: xw_scope_def new_scope_def inv_lookup_def)
  with a show ?thesis by (auto simp: xw_scope_def)
qed

text \<open>C13 (functional): the returned parameter dict holds every initializer of the graph
  when parameters are not frozen, including initializers the output never uses.\<close>

theorem from_onnx_graph_params_all_initializers:
  assumes "env_mono E" and "\<not> sc_freeze sc"
    and "from_onnx_graph fuel E sc g opset = Inr ((fn, params), sc'')"
  shows "\<forall>t \<in> set (g_initializer g). tp_name t \<in> fst ` set params"
proof -
  from assms(3) obtain out sc3 where ig: "import_graph E (import_sub fuel E) sc g opset = Inr (out, sc3)"
    and as: "assemble sc3 out = Inr (fn, sc'')" and p: "params = sc_params sc''"
    by (auto simp: from_onnx_graph_def split: sum.splits prod.splits)
  from import_graph_stages[OF ig] obtain sc1 sc2 where
    s1: "bind_initializers (sc\<lparr>sc_opset := Some opset\<rparr>) (g_initializer g) = Inr sc1" and
    s2: "bind_inputs sc1 (g_input g) = Inr sc2" and
    s3: "convert_nodes E (import_sub fuel E) opset sc2 (g_node g) = Inr sc3" by blast
  have l13: "scope_le sc1 sc3"
    using bind_inputs_le[OF s2] convert_nodes_le[OF assms(1) s3] scope_le_trans by blast
  from bind_initializers_le[OF s1] assms(2) have
    "\<forall>t \<in> set (g_initializer g). tp_name t \<in> fst ` set (sc_params sc1)" by simp
  with scope_le_paramsD[OF l13] have "\<forall>t \<in> set (g_initializer g). tp_name t \<in> fst ` set (sc_params sc3)"
    by blast
  with assemble_result[OF as] p show ?thesis by auto
qed

theorem from_onnx_graph_params_all_initializers_witness:
  "\<exists>sc''. from_onnx_graph 1 trivial_env (new_scope [] (DtypeStr ''float32'') False True)
      (Graph [] [w_tensor, u_tensor] [] [ValueInfo ''w'' 7 [DimProto 2 []]]) 13
     = Inr ((\<lparr>fn_params = [param_var ''w'' w_array], fn_body = param_var ''w'' w_array\<rparr>,
             [(''w'', w_array), (''u'', \<lparr>nd_shape = [1], nd_dtype = ''int64'', nd_data = [5]\<rparr>)]), sc'')
   \<and> ''u'' \<in> fst ` set [(''w'', w_array), (''u'', \<lparr>nd_shape = [1], nd_dtype = ''int64'', nd_data = [5]\<rparr>)]"
proof -
  have cs: "check_supported 13 [] = Inr ()" by (simp add: check_supported_eq)
  have "\<exists>sc''. from_onnx_graph 1 trivial_env (new_scope [] (DtypeStr ''float32'') False True)
      (Graph [] [w_tensor, u_tensor] [] [ValueInfo ''w'' 7 [DimProto 2 []]]) 13
     = Inr ((\<lparr>fn_params = [param_var ''w'' w_array], fn_body = param_var ''w'' w_array\<rparr>,
             [(''w'', w_array), (''u'', \<lparr>nd_shape = [1], nd_dtype = ''int64'', nd_data = [5]\<rparr>)]), sc'')"
    using cs
    by (simp add: from_onnx_graph_def import_graph_def bind_initializer_def new_scope_def w_tensor_def
          u_tensor_def w_array_def parse_array_def get_type_def tensor_type_to_np_def py_strip_def py_space_def
          check_user_shapes_def graph_outputs_def assemble_def param_var_def inv_lookup_def)
  then obtain sc'' where r: "from_onnx_graph 1 trivial_env (new_scope [] (DtypeStr ''float32'') False True)
      (Graph [] [w_tensor, u_tensor] [] [ValueInfo ''w'' 7 [DimProto 2 []]]) 13
     = Inr ((\<lparr>fn_params = [param_var ''w'' w_array], fn_body = param_var ''w'' w_array\<rparr>,
             [(''w'', w_array), (''u'', \<lparr>nd_shape = [1], nd_dtype = ''int64'', nd_data = [5]\<rparr>)]), sc'')" ..
  have nf: "\<not> sc_freeze (new_scope [] (DtypeStr ''float32'') False True)" by (simp add: new_scope_def)
  from from_onnx_graph_params_all_initializers[OF env_mono_trivial_env nf r] r show ?thesis
    by (auto simp: u_tensor_def)
qed

text \<open>C14 (functional): a fresh declared input is bound to a variable of the user's shape
  (or its declared one) and its declared element type when the \<open>dtype\<close> argument is a
  single string: that string is not applied.\<close>

theorem bind_input_fresh_str_dtype:
  assumes "get_info vi = Inr (n, sh, d, sn)" and "map_of (sc_params sc) n = None"
    and "n \<notin> fst ` set (sc_nodes sc)" and "sc_dtype sc = DtypeStr s"
  shows "\<exists>sc'. bind_input sc vi = Inr sc'
           \<and> map_of (sc_nodes sc') n = Some (Var n (case map_of (sc_shape sc) n of Some x \<Rightarrow> x | None \<Rightarrow> sh) d)
           \<and> map_of (sc_inputs sc') n = map_of (sc_nodes sc') n
           \<and> sc_input_names sc' = sc_input_names sc @ [n]"
  using assms by (simp add: bind_input_def input_dtype_def Let_def)

theorem bind_input_fresh_str_dtype_witness:
  "\<exists>sc'. bind_input (new_scope [] (DtypeStr ''float16'') False True) (ValueInfo ''x'' 1 [DimProto 3 []]) = Inr sc'
     \<and> map_of (sc_nodes sc') ''x'' = Some (Var ''x'' [Dim 3] (Some ''float32''))"
proof -
  have "get_info (ValueInfo ''x'' 1 [DimProto 3 []]) = Inr (''x'', [Dim 3], Some ''float32'', [DimVal 3])"
    by (simp add: get_info_def get_type_def tensor_type_to_np_def)
  from bind_input_fresh_str_dtype[OF this, of "new_scope [] (DtypeStr ''float16'') False True" "''float16''"]
  show ?thesis by (simp add: new_scope_def) blast
qed

end
