(* ===== verification/Converters.thy ===== *)
theory Converters
  imports Importer
begin

text \<open>
  Operator conversion rules of \<open>onnx.py\<close>: the padding and layout helpers
  (\<open>revert_caffe2_pad\<close>, \<open>get_pad_pair\<close>, \<open>onnx_default_layout\<close>,
  \<open>onnx_storage_order2layout\<close>, \<open>autopad\<close>) and the \<open>_impl_vN\<close> methods of
  \<open>Unary\<close>, \<open>Elemwise\<close>, \<open>Pool\<close>, \<open>BatchNorm\<close>, \<open>InstanceNorm\<close>, \<open>Pad\<close> and
  \<open>Reduce\<close>.  A rule builds Relay expressions; what it asks of Relay's type inference
  (\<open>infer_shape\<close>, \<open>infer_type\<close>) and of \<open>fold_constant\<close> is a record of
  \<open>oracles\<close>.  A rule that only reads \<open>params\<close> is a \<open>plain_conv\<close>, lifted to a
  \<open>converter\<close> that returns the scope unchanged.
  The lemmas show that \<open>SAME\<close> padding of \<open>avg_pool\<close> gives every spatial axis the
  output size \<open>ceil(n / stride)\<close>, how the storage order relates the two layouts,
  the pads-to-pairs round trip of \<open>Pad\<close>, and three defects: \<open>Pad\<close> version 1
  always fails, \<open>Reduce\<close> version 12 reduces over the first axis only, and
  \<open>Elemwise\<close> detects a convolution by the printed text of its input.
\<close>

text \<open>What the rules ask of Relay: \<open>infer_shape\<close>, the dtype of \<open>infer_type\<close>, and
  \<open>fold_constant\<close>.\<close>

record oracles =
  infer_shape :: "expr \<Rightarrow> dim list"
  infer_dtype :: "expr \<Rightarrow> string"
  fold_constant :: "expr \<Rightarrow> expr"

type_synonym plain_conv = "(string, ndarray) pydict \<Rightarrow> expr option list \<Rightarrow> attr_dict \<Rightarrow> conv_out result"

definition lift_plain :: "plain_conv \<Rightarrow> converter" where
  "lift_plain f sub sc inputs attrs =
     (case f (sc_params sc) inputs attrs of Inl e \<Rightarrow> Inl e | Inr out \<Rightarrow> Inr (out, sc))"

definition input_expr :: "expr option list \<Rightarrow> int \<Rightarrow> expr result" where
  "input_expr xs i =
     (case onnx_input_get xs i of
        Inl e \<Rightarrow> Inl e
      | Inr None \<Rightarrow> Inl (TypeErr ''NoneType'')
      | Inr (Some x) \<Rightarrow> Inr x)"

fun attr_int :: "attr_value \<Rightarrow> int result" where
  "attr_int (AInt i) = Inr i"
| "attr_int (APy (PInt i)) = Inr i"
| "attr_int _ = Inl (TypeErr ''int'')"

fun attr_ints :: "attr_value \<Rightarrow> int list result" where
  "attr_ints (AInts xs) = Inr xs"
| "attr_ints _ = Inl (TypeErr ''int list'')"

text \<open>\<open>v.decode("utf-8")\<close>: only the bytes of a parsed string attribute have it.\<close>

fun attr_str :: "attr_value \<Rightarrow> string result" where
  "attr_str (ABytes s) = Inr s"
| "attr_str _ = Inl (TypeErr ''decode'')"

definition attr_get_ints :: "attr_dict \<Rightarrow> string \<Rightarrow> int list \<Rightarrow> int list result" where
  "attr_get_ints attrs k dflt = (case map_of attrs k of None \<Rightarrow> Inr dflt | Some v \<Rightarrow> attr_ints v)"

definition attr_req_ints :: "attr_dict \<Rightarrow> string \<Rightarrow> int list result" where
  "attr_req_ints attrs k = (case map_of attrs k of None \<Rightarrow> Inl (KeyErr k) | Some v \<Rightarrow> attr_ints v)"

definition py_index :: "'a list \<Rightarrow> int \<Rightarrow> 'a result" where
  "py_index xs i = (case py_nth xs i of None \<Rightarrow> Inl IndexErr | Some x \<Rightarrow> Inr x)"

definition int64_const :: "int list \<Rightarrow> expr" where
  "int64_const xs = Const \<lparr>nd_shape = [int (length xs)], nd_dtype = ''int64'', nd_data = xs\<rparr>"

definition scalar_const :: "string \<Rightarrow> int \<Rightarrow> expr" where
  "scalar_const dt x = Const \<lparr>nd_shape = [], nd_dtype = dt, nd_data = [x]\<rparr>"

subsection \<open>Padding and layout helpers\<close>

definition revert_caffe2_pad :: "'a list \<Rightarrow> 'a list result" where
  "revert_caffe2_pad pads =
     (if length pads = 4 then Inr (take 2 pads)
      else if length pads = 2 then Inr pads
      else Inl (OpAttributeInvalid ''Number of pads must be either 2 or 4.''))"

definition get_pad_pair :: "int \<Rightarrow> int \<Rightarrow> int \<Rightarrow> string \<Rightarrow> int list result" where
  "get_pad_pair input1d kernel1d stride1d mode =
     (if stride1d = 0 then Inl ZeroDivErr
      else
        let pad = (if input1d mod stride1d = 0 then max (kernel1d - stride1d) 0
                   else max (kernel1d - input1d mod stride1d) 0);
            pad_before = pad div 2;
            pad_after = pad - pad_before
        in Inr (if py_in_str ''LOWER'' mode then [pad_after, pad_before] else [pad_before, pad_after]))"

definition onnx_default_layout :: "int \<Rightarrow> string \<Rightarrow> string result" where
  "onnx_default_layout dims op_name =
     (if dims = 1 then Inr ''NCW''
      else if dims = 2 then Inr ''NCHW''
      else if dims = 3 then Inr ''NCDHW''
      else Inl (OpAttributeInvalid (''Only 1D, 2D and 3D layouts are currently supported for operator '' @ op_name @ ''.'')))"

definition onnx_storage_order2layout :: "int \<Rightarrow> int \<Rightarrow> string \<Rightarrow> string result" where
  "onnx_storage_order2layout storage_order dims op_name =
     (if storage_order \<notin> {0, 1} then Inl (OpAttributeInvalid ''Mode of storage_order must be either 0 or 1'')
      else if dims = 1 then Inr (if storage_order = 0 then ''NCW'' else ''NWC'')
      else if dims = 2 then Inr (if storage_order = 0 then ''NCHW'' else ''NHWC'')
      else if dims = 3 then Inr (if storage_order = 0 then ''NCDHW'' else ''NDHWC'')
      else Inl (OpAttributeInvalid (''Only 1D, 2D and 3D layouts are currently supported for operator '' @ op_name @ ''.'')))"

text \<open>\<open>autopad\<close>: the padding of \<open>SAME_UPPER\<close>/\<open>SAME_LOWER\<close> computed in Relay from the
  dynamic shape of the data, and \<open>nn.pad\<close> applied with it.\<close>

definition autopad ::
  "oracles \<Rightarrow> expr \<Rightarrow> int list \<Rightarrow> int list \<Rightarrow> int list \<Rightarrow> int \<Rightarrow> string \<Rightarrow> bool \<Rightarrow> string \<Rightarrow> expr \<Rightarrow> expr" where
  "autopad ora data strides kernel_shape dilations ndim pad_type deconv mode pad_value =
     (let strides_c = int64_const strides;
          dilated_kernel_shape = int64_const (map2 (\<lambda>k d. (k - 1) * d + 1) kernel_shape dilations);
          shape = Call ''strided_slice'' [Call ''shape_of'' [data] [(''dtype'', PStr ''int64'')]]
                    [(''begin'', PTuple [PInt 2]), (''end'', PTuple [PInt ndim])];
          zero = scalar_const ''int64'' 0;
          one = scalar_const ''int64'' 1;
          two = scalar_const ''int64'' 2;
          md = Call ''mod'' [shape, strides_c] [];
          left = Call ''maximum'' [Call ''subtract'' [dilated_kernel_shape, strides_c] [], zero] [];
          right = Call ''maximum'' [Call ''subtract'' [dilated_kernel_shape, md] [], zero] [];
          total0 = Call ''where'' [Call ''equal'' [md, zero] [], left, right] [];
          total_pad = (if deconv then Call ''subtract'' [Call ''subtract'' [int64_const kernel_shape, one] [], total0] []
                       else total0);
          pad_before = Call ''floor_divide'' [total_pad, two] [];
          pad_after = Call ''subtract'' [total_pad, pad_before] [];
          col = (\<lambda>x. Call ''reshape'' [x] [(''newshape'', PTuple [PInt (-1), PInt 1])]);
          pad = Call ''concatenate''
                  [Tuple (if py_in_str ''LOWER'' mode then [col pad_after, col pad_before]
                          else [col pad_before, col pad_after])] [(''axis'', PInt 1)];
          pad2 = Call ''concatenate''
                  [Tuple [Const \<lparr>nd_shape = [2, 2], nd_dtype = ''int64'', nd_data = [0, 0, 0, 0]\<rparr>, pad]]
                  [(''axis'', PInt 0)]
      in Call ''nn.pad'' [data, fold_constant ora pad2, pad_value] [(''pad_mode'', PStr pad_type)])"


subsection \<open>\<open>Unary\<close> and \<open>Elemwise\<close>\<close>

text \<open>\<open>get_relay_op(name)(*inputs)\<close>: the positional arguments must all be present.\<close>

definition relay_op_call :: "string \<Rightarrow> expr option list \<Rightarrow> (string \<times> pyval) list \<Rightarrow> expr result" where
  "relay_op_call name inputs kw = (case relay_args inputs of Inl e \<Rightarrow> Inl e | Inr args \<Rightarrow> Inr (Call name args kw))"

definition unary_impl_v1 :: "string \<Rightarrow> plain_conv" where
  "unary_impl_v1 name params inputs attr =
     (if length inputs \<noteq> 1 then Inl (AssertionErr (''Unary math op '' @ name @ '' takes 1 input''))
      else case relay_op_call name inputs [] of Inl e \<Rightarrow> Inl e | Inr x \<Rightarrow> Inr (Single x))"

text \<open>\<open>x in str(e)\<close> for the printed form of a Relay expression: the names it prints
  are the operator names of its calls and the name hints of its variables.\<close>

fun expr_mentions :: "string \<Rightarrow> expr \<Rightarrow> bool"
and exprs_mention :: "string \<Rightarrow> expr list \<Rightarrow> bool" where
  "expr_mentions s (Var n _ _) = py_in_str s n"
| "expr_mentions s (Const _) = False"
| "expr_mentions s (Call n args _) = (py_in_str s n \<or> exprs_mention s args)"
| "expr_mentions s (Tuple es) = exprs_mention s es"
| "expr_mentions s (TupleGetItem e _) = expr_mentions s e"
| "expr_mentions s (IfE c t e) = (expr_mentions s c \<or> expr_mentions s t \<or> expr_mentions s e)"
| "expr_mentions s (WhileLoop vs c body inits) =
     (exprs_mention s vs \<or> expr_mentions s c \<or> exprs_mention s body \<or> exprs_mention s inits)"
| "exprs_mention s [] = False"
| "exprs_mention s (e # es) = (expr_mentions s e \<or> exprs_mention s es)"

definition elemwise_impl_v1 :: "string \<Rightarrow> plain_conv" where
  "elemwise_impl_v1 name params inputs attr =
     (if length inputs \<noteq> 2 then Inl (AssertionErr (''Math op '' @ name @ '' take 2 inputs''))
      else
        let bcast = (case map_of attr ''broadcast'' of None \<Rightarrow> False | Some v \<Rightarrow> attr_truthy v);
            conv = (case inputs ! 0 of None \<Rightarrow> False
                    | Some x \<Rightarrow> expr_mentions ''conv2d'' x \<or> expr_mentions ''conv2d_transpose'' x)
        in if bcast \<and> conv then
             (case (case map_of attr ''axis'' of None \<Rightarrow> Inr 0 | Some v \<Rightarrow> attr_int v) of
                Inl e \<Rightarrow> Inl e
              | Inr axis \<Rightarrow>
                  (case inputs ! 1 of
                     None \<Rightarrow> Inl (TypeErr ''NoneType'')
                   | Some y \<Rightarrow>
                       let y' = Call ''expand_dims'' [y] [(''axis'', PInt axis), (''num_newaxis'', PInt 2)]
                       in case relay_op_call name [inputs ! 0, Some y'] [] of
                            Inl e \<Rightarrow> Inl e | Inr x \<Rightarrow> Inr (Single x)))
           else case relay_op_call name inputs [] of Inl e \<Rightarrow> Inl e | Inr x \<Rightarrow> Inr (Single x))"

subsection \<open>\<open>Pool\<close>\<close>

text \<open>The smallest value of an element type, \<open>np.iinfo(dtype).min\<close> for integer types;
  a float type's \<open>np.finfo(dtype).min\<close> is kept as a named constant.\<close>

definition dtype_min_const :: "string \<Rightarrow> expr" where
  "dtype_min_const dt =
     (if py_in_str ''int'' dt then
        scalar_const ''int32''
          (if dt = ''int8'' then -128 else if dt = ''int16'' then -32768
           else if dt = ''int32'' then -2147483648 else if dt = ''int64'' then -9223372036854775808 else 0)
      else Call ''const'' [] [(''value'', PStr (''finfo('' @ dt @ '').min''))])"

text \<open>\<open>SAME\<close> padding of \<open>avg_pool\<close>: one \<open>get_pad_pair\<close> per spatial axis.\<close>

fun same_pad_pairs :: "attr_dict \<Rightarrow> dim list \<Rightarrow> string \<Rightarrow> nat list \<Rightarrow> int list list result" where
  "same_pad_pairs attr input_shape mode [] = Inr []"
| "same_pad_pairs attr input_shape mode (axis # axes) =
     (case input_shape ! (2 + axis) of
        AnyDim \<Rightarrow> Inl (TypeErr ''Any'')
      | Dim axis_shape \<Rightarrow>
          (case attr_get_ints attr ''strides'' (replicate (length input_shape) 1) of Inl e \<Rightarrow> Inl e | Inr strides \<Rightarrow>
           case py_index strides (int axis) of Inl e \<Rightarrow> Inl e | Inr stride \<Rightarrow>
           case attr_req_ints attr ''kernel_shape'' of Inl e \<Rightarrow> Inl e | Inr ks \<Rightarrow>
           case py_index ks (int axis) of Inl e \<Rightarrow> Inl e | Inr kern \<Rightarrow>
           case get_pad_pair axis_shape kern stride mode of Inl e \<Rightarrow> Inl e | Inr pad \<Rightarrow>
           case same_pad_pairs attr input_shape mode axes of Inl e \<Rightarrow> Inl e | Inr pads \<Rightarrow> Inr (pad # pads)))"

text \<open>\<open>[val for pair in zip(*pad_tuple) for val in pair]\<close> on pairs: every first
  element, then every second one.\<close>

definition unzip_pads :: "int list list \<Rightarrow> int list" where
  "unzip_pads pairs = (if pairs = [] then [] else map (\<lambda>p. p ! 0) pairs @ map (\<lambda>p. p ! 1) pairs)"

definition pool_cvt :: "string \<Rightarrow> attr_cvt" where
  "pool_cvt name =
     \<lparr>cvt_op = OpPicker name [],
      cvt_transforms = [(''kernel_shape'', TRename ''pool_size''), (''pads'', TRenameDefault ''padding'' (PInt 0)),
                        (''dilations'', TRenameDefault ''dilation'' (PInt 1))],
      cvt_excludes = [], cvt_disables = [], cvt_ignores = [''storage_order''], cvt_extras = [],
      cvt_check = Some dimension_constraint\<rparr>"

text \<open>The \<open>auto_pad\<close> branch of \<open>Pool._run_calculation\<close>: the new attribute dict and
  data, before \<open>auto_pad\<close> is popped.\<close>

definition pool_auto_pad ::
  "oracles \<Rightarrow> string \<Rightarrow> expr \<Rightarrow> attr_dict \<Rightarrow> string \<Rightarrow> (attr_dict \<times> expr) result" where
  "pool_auto_pad ora name data attr ap =
     (let input_shape = infer_shape ora data;
          ndim = length input_shape
      in if ap = ''SAME_UPPER'' \<or> ap = ''SAME_LOWER'' then
           (if name = ''avg_pool'' then
              (case same_pad_pairs attr input_shape ap [0..<ndim - 2] of
                 Inl e \<Rightarrow> Inl e
               | Inr pairs \<Rightarrow> Inr (dict_set attr ''pads'' (AInts (unzip_pads pairs)), data))
            else
              (case attr_get_ints attr ''strides'' (replicate (ndim - 2) 1) of Inl e \<Rightarrow> Inl e | Inr strides \<Rightarrow>
               case attr_req_ints attr ''kernel_shape'' of Inl e \<Rightarrow> Inl e | Inr ks \<Rightarrow>
               Inr (attr, autopad ora data strides ks (replicate ndim 1) (int ndim) ''constant'' False ap
                            (dtype_min_const (infer_dtype ora data)))))
         else if ap = ''VALID'' then Inr (dict_set attr ''pads'' (AInts (replicate (ndim - 2) 0)), data)
         else if ap = ''NOTSET'' then Inr (attr, data)
         else Inl (OpAttributeInvalid (''Value '' @ ap @ '' in attribute auto_pad of operator '' @ name @ '' is invalid.'')))"

definition pool_run_calculation ::
  "oracles \<Rightarrow> string \<Rightarrow> expr option list \<Rightarrow> attr_dict \<Rightarrow> (attr_cvt \<times> expr \<times> attr_dict) result" where
  "pool_run_calculation ora name inputs attr =
     (case input_expr inputs 0 of Inl e \<Rightarrow> Inl e | Inr data \<Rightarrow>
      let dims = int (length (infer_shape ora data)) - 2 in
      case (case map_of attr ''auto_pad'' of
              None \<Rightarrow> Inr (attr, data)
            | Some v \<Rightarrow>
                (case attr_str v of Inl e \<Rightarrow> Inl e | Inr ap \<Rightarrow>
                 case pool_auto_pad ora name data (dict_set attr ''auto_pad'' (ABytes ap)) ap of
                   Inl e \<Rightarrow> Inl e
                 | Inr (attr', data') \<Rightarrow> Inr (dict_pop attr' ''auto_pad'', data'))) of
        Inl e \<Rightarrow> Inl e
      | Inr (attr1, data1) \<Rightarrow>
          (case (case map_of attr1 ''storage_order'' of
                   Some so \<Rightarrow> (case attr_int so of Inl e \<Rightarrow> Inl e | Inr s \<Rightarrow> onnx_storage_order2layout s dims name)
                 | None \<Rightarrow> onnx_default_layout dims name) of
             Inl e \<Rightarrow> Inl e
           | Inr layout \<Rightarrow> Inr (pool_cvt name, data1, dict_set attr1 ''layout'' (ABytes layout))))"

definition pool_impl_v1 :: "oracles \<Rightarrow> string \<Rightarrow> plain_conv" where
  "pool_impl_v1 ora name params inputs attr =
     (case pool_run_calculation ora name inputs attr of
        Inl e \<Rightarrow> Inl e
      | Inr (cvt, data, attr') \<Rightarrow>
          (case attr_cvt_call cvt [Some data] attr' of Inl e \<Rightarrow> Inl e | Inr x \<Rightarrow> Inr (Single x)))"


subsection \<open>\<open>BatchNorm\<close> and \<open>InstanceNorm\<close>\<close>

definition batch_norm_impl_v1 :: plain_conv where
  "batch_norm_impl_v1 params inputs attr =
     (case attr_cvt_call ((attr_cvt_simple ''batch_norm'')\<lparr>cvt_ignores := [''spatial'', ''is_test'', ''consumed_inputs'', ''momentum'']\<rparr>)
             inputs attr of
        Inl e \<Rightarrow> Inl e
      | Inr out \<Rightarrow> Inr (Single (wrapper_item out 0)))"

definition instance_norm_impl_v1 :: plain_conv where
  "instance_norm_impl_v1 params inputs attr =
     (case attr_cvt_call (attr_cvt_simple ''instance_norm'') inputs attr of
        Inl e \<Rightarrow> Inl e | Inr out \<Rightarrow> Inr (Single out))"

subsection \<open>\<open>Pad\<close>\<close>

text \<open>\<open>[(pads[i], pads[i + dims]) for i in range(dims)]\<close> with \<open>dims = int(len(pads) / 2)\<close>.\<close>

definition pad_width_of :: "int list \<Rightarrow> (int \<times> int) list" where
  "pad_width_of pads = (let dims = length pads div 2 in map (\<lambda>i. (pads ! i, pads ! (i + dims))) [0..<dims])"

definition pad_width_val :: "(int \<times> int) list \<Rightarrow> attr_value" where
  "pad_width_val pw = APy (PTuple (map (\<lambda>(a, b). PTuple [PInt a, PInt b]) pw))"

text \<open>The mode check shared by the three versions: \<open>attr.get("mode", b"constant").decode()\<close>.\<close>

definition pad_mode_of :: "attr_dict \<Rightarrow> string result" where
  "pad_mode_of attr =
     (case (case map_of attr ''mode'' of None \<Rightarrow> Inr ''constant'' | Some v \<Rightarrow> attr_str v) of
        Inl e \<Rightarrow> Inl e
      | Inr m \<Rightarrow> if m \<in> {''constant'', ''edge'', ''reflect''} then Inr m
                else Inl (OpAttributeInvalid (''Value '' @ m @ '' in attribute mode is invalid for operator Pad.'')))"

text \<open>Versions 1 and 2 differ in the attribute holding the pads and in the operator handed
  to \<open>AttrCvt\<close>: version 1 passes the function \<open>_op.nn.pad\<close> itself.\<close>

definition pad_attr_impl :: "string \<Rightarrow> cvt_op_name \<Rightarrow> plain_conv" where
  "pad_attr_impl key op params inputs attr =
     (case map_of attr key of None \<Rightarrow> Inl (KeyErr key) | Some pv \<Rightarrow>
      case attr_ints pv of Inl e \<Rightarrow> Inl e | Inr pads \<Rightarrow>
      let attr1 = dict_set (dict_pop attr key) ''pad_width'' (pad_width_val (pad_width_of pads)) in
      case pad_mode_of attr1 of Inl e \<Rightarrow> Inl e | Inr m \<Rightarrow>
      let attr2 = dict_pop (dict_set attr1 ''pad_mode'' (APy (PStr m))) ''mode'' in
      case attr_cvt_call ((attr_cvt_simple [])\<lparr>cvt_op := op, cvt_transforms := [(''value'', TRename ''pad_value'')]\<rparr>)
             inputs attr2 of
        Inl e \<Rightarrow> Inl e | Inr x \<Rightarrow> Inr (Single x))"

definition pad_impl_v1 :: plain_conv where
  "pad_impl_v1 = pad_attr_impl ''paddings'' (OpFunc ''nn.pad'')"

definition pad_impl_v2 :: plain_conv where
  "pad_impl_v2 = pad_attr_impl ''pads'' (OpStr ''pad'')"

definition pad_impl_v11 :: "oracles \<Rightarrow> plain_conv" where
  "pad_impl_v11 ora params inputs attr =
     (case input_expr inputs 1 of Inl e \<Rightarrow> Inl e | Inr pads \<Rightarrow>
      case (if length inputs = 3 then
              (case input_expr inputs 2 of
                 Inl e \<Rightarrow> Inl e
               | Inr v \<Rightarrow> Inr (fold_constant ora (Call ''take'' [v, scalar_const ''int32'' 0] [])))
            else Inr (scalar_const ''float32'' 0)) of
        Inl e \<Rightarrow> Inl e
      | Inr value \<Rightarrow>
          let pad_width_expr = fold_constant ora (Call ''transpose'' [Call ''reshape'' [pads] [(''newshape'', PTuple [PInt 2, PInt (-1)])]] [])
          in case pad_mode_of attr of Inl e \<Rightarrow> Inl e | Inr m \<Rightarrow>
             case input_expr inputs 0 of Inl e \<Rightarrow> Inl e | Inr data \<Rightarrow>
             Inr (Single (Call ''nn.pad'' [data, pad_width_expr, value] [(''pad_mode'', PStr m)])))"

subsection \<open>\<open>Reduce\<close>\<close>

definition reduce_run_calculation :: "string \<Rightarrow> expr option list \<Rightarrow> attr_value \<Rightarrow> attr_value \<Rightarrow> conv_out result" where
  "reduce_run_calculation name inputs axis keepdims =
     (case attr_cvt_call (attr_cvt_simple name) inputs [(''axis'', axis), (''keepdims'', keepdims)] of
        Inl e \<Rightarrow> Inl e | Inr x \<Rightarrow> Inr (Single x))"

definition reduce_impl_v1 :: "oracles \<Rightarrow> string \<Rightarrow> plain_conv" where
  "reduce_impl_v1 ora name params inputs attr =
     (case (case map_of attr ''axes'' of
              Some v \<Rightarrow> Inr v
            | None \<Rightarrow> (case input_expr inputs 0 of
                         Inl e \<Rightarrow> Inl e
                       | Inr x \<Rightarrow> Inr (APy (PTuple (map PInt [0..<length (infer_shape ora x)]))))) of
        Inl e \<Rightarrow> Inl e
      | Inr axis \<Rightarrow>
          reduce_run_calculation name inputs axis
            (case map_of attr ''keepdims'' of None \<Rightarrow> APy (PBool True) | Some v \<Rightarrow> v))"

text \<open>Version 12 reads a constant \<open>axes\<close> input, but only its first element
  (\<open>numpy()[0]\<close>, an \<open>IndexError\<close> on a scalar or an empty array).\<close>

definition reduce_impl_v12 :: "oracles \<Rightarrow> string \<Rightarrow> plain_conv" where
  "reduce_impl_v12 ora name params inputs attr =
     (if length inputs = 2 then
        (case inputs ! 1 of
           Some (Const a) \<Rightarrow>
             (case (nd_shape a, nd_data a) of
                ([], _) \<Rightarrow> Inl IndexErr
              | (_, []) \<Rightarrow> Inl IndexErr
              | (_, c # _) \<Rightarrow> reduce_run_calculation name [inputs ! 0] (APy (PInt c))
                          (case map_of attr ''keepdims'' of None \<Rightarrow> APy (PBool True) | Some v \<Rightarrow> v))
         | _ \<Rightarrow> Inl (ValueErr ''Dynamic Reduce is not supported yet!''))
      else reduce_impl_v1 ora name params inputs attr)"

subsection \<open>Example oracles\<close>

text \<open>Type inference answering one static shape and \<open>float32\<close>.\<close>

definition static_oracles :: "dim list \<Rightarrow> oracles" where
  "static_oracles shp = \<lparr>infer_shape = (\<lambda>_. shp), infer_dtype = (\<lambda>_. ''float32''), fold_constant = id\<rparr>"

subsection \<open>Padding arithmetic\<close>

lemma same_pad_total:
  fixes n k s :: int
  assumes "0 < s" "1 \<le> k" "0 \<le> n"
  shows "(n + (if n mod s = 0 then max (k - s) 0 else max (k - n mod s) 0) - k) div s + 1 = (n + s - 1) div s"
proof -
  define q r where "q = n div s" and "r = n mod s"
  have n: "n = s * q + r" and r: "0 \<le> r" "r < s" using assms(1) by (simp_all add: q_def r_def)
  show ?thesis
  proof (cases "r = 0")
    case True
    then have c: "(n + s - 1) div s = q" using n r assms by (intro int_div_pos_eq[of _ _ _ "s - 1"]) auto
    have "(n + max (k - s) 0 - k) div s = q - 1"
      using n True assms by (intro int_div_pos_eq[of _ _ _ "if k \<le> s then s - k else 0"]) (auto simp: algebra_simps)
    with True c show ?thesis by (simp add: r_def)
  next
    case False
    then have c: "(n + s - 1) div s = q + 1" using n r assms by (intro int_div_pos_eq[of _ _ _ "r - 1"]) (auto simp: algebra_simps)
    have "(n + max (k - r) 0 - k) div s = q"
      using n False r assms by (intro int_div_pos_eq[of _ _ _ "if r \<le> k then 0 else r - k"]) (auto simp: algebra_simps)
    with False c show ?thesis by (simp add: r_def)
  qed
qed

lemma get_pad_pair_same:
  assumes "0 < s" "1 \<le> k" "0 \<le> n"
  shows "\<exists>b a. get_pad_pair n k s mode = Inr (if py_in_str ''LOWER'' mode then [a, b] else [b, a])
           \<and> 0 \<le> b \<and> b \<le> a \<and> a \<le> b + 1 \<and> (n + b + a - k) div s + 1 = (n + s - 1) div s"
proof -
  define P where "P = (if n mod s = 0 then max (k - s) 0 else max (k - n mod s) 0)"
  have P0: "0 \<le> P" by (simp add: P_def)
  have tot: "(n + P - k) div s + 1 = (n + s - 1) div s"
    unfolding P_def using same_pad_total[OF assms] .
  have "get_pad_pair n k s mode = Inr (if py_in_str ''LOWER'' mode then [P - P div 2, P div 2] else [P div 2, P - P div 2])"
    using assms(1) by (simp add: get_pad_pair_def P_def Let_def)
  moreover have "0 \<le> P div 2" "P div 2 \<le> P - P div 2" "P - P div 2 \<le> P div 2 + 1" using P0 by linarith+
  moreover have "(n + P div 2 + (P - P div 2) - k) div s + 1 = (n + s - 1) div s" using tot by simp
  ultimately show ?thesis by blast
qed

lemma same_pad_pairs_spec:
  assumes st: "map_of attr ''strides'' = Some (AInts ss)" and ks: "map_of attr ''kernel_shape'' = Some (AInts ks)"
    and len: "length ss = length ns" "length ks = length ns"
    and pos: "\<forall>i<length ns. 0 < ss ! i \<and> 1 \<le> ks ! i \<and> 0 \<le> ns ! i"
    and ax: "set axes \<subseteq> {..<length ns}"
  shows "\<exists>pairs. same_pad_pairs attr (Dim nb # Dim nc # map Dim ns) mode axes = Inr pairs
           \<and> length pairs = length axes
           \<and> (\<forall>j<length axes. \<exists>b a. pairs ! j = (if py_in_str ''LOWER'' mode then [a, b] else [b, a])
                 \<and> 0 \<le> b \<and> b \<le> a \<and> a \<le> b + 1
                 \<and> (ns ! (axes ! j) + b + a - ks ! (axes ! j)) div ss ! (axes ! j) + 1
                     = (ns ! (axes ! j) + ss ! (axes ! j) - 1) div ss ! (axes ! j))"
  using ax
proof (induction axes)
  case Nil
  then show ?case by simp
next
  case (Cons x axes)
  then have x: "x < length ns" and rest: "set axes \<subseteq> {..<length ns}" by auto
  from Cons.IH[OF rest] obtain pairs where
    r: "same_pad_pairs attr (Dim nb # Dim nc # map Dim ns) mode axes = Inr pairs"
    and l: "length pairs = length axes"
    and p: "\<forall>j<length axes. \<exists>b a. pairs ! j = (if py_in_str ''LOWER'' mode then [a, b] else [b, a])
                 \<and> 0 \<le> b \<and> b \<le> a \<and> a \<le> b + 1
                 \<and> (ns ! (axes ! j) + b + a - ks ! (axes ! j)) div ss ! (axes ! j) + 1
                     = (ns ! (axes ! j) + ss ! (axes ! j) - 1) div ss ! (axes ! j)" by blast
  from pos x have "0 < ss ! x" "1 \<le> ks ! x" "0 \<le> ns ! x" by auto
  from get_pad_pair_same[OF this, of mode] obtain b a where
    g: "get_pad_pair (ns ! x) (ks ! x) (ss ! x) mode = Inr (if py_in_str ''LOWER'' mode then [a, b] else [b, a])"
    and ba: "0 \<le> b \<and> b \<le> a \<and> a \<le> b + 1 \<and> (ns ! x + b + a - ks ! x) div ss ! x + 1 = (ns ! x + ss ! x - 1) div ss ! x"
    by blast
  have "same_pad_pairs attr (Dim nb # Dim nc # map Dim ns) mode (x # axes)
          = Inr ((if py_in_str ''LOWER'' mode then [a, b] else [b, a]) # pairs)"
    using x len st ks g r by (simp add: attr_get_ints_def attr_req_ints_def py_index_def py_nth_int)
  moreover have "\<forall>j<length (x # axes). \<exists>b' a'. (((if py_in_str ''LOWER'' mode then [a, b] else [b, a]) # pairs) ! j)
                    = (if py_in_str ''LOWER'' mode then [a', b'] else [b', a'])
                 \<and> 0 \<le> b' \<and> b' \<le> a' \<and> a' \<le> b' + 1
                 \<and> (ns ! ((x # axes) ! j) + b' + a' - ks ! ((x # axes) ! j)) div ss ! ((x # axes) ! j) + 1
                     = (ns ! ((x # axes) ! j) + ss ! ((x # axes) ! j) - 1) div ss ! ((x # axes) ! j)"
  proof (intro allI impI)
    fix j assume "j < length (x # axes)"
    then show "\<exists>b' a'. (((if py_in_str ''LOWER'' mode then [a, b] else [b, a]) # pairs) ! j)
                    = (if py_in_str ''LOWER'' mode then [a', b'] else [b', a'])
                 \<and> 0 \<le> b' \<and> b' \<le> a' \<and> a' \<le> b' + 1
                 \<and> (ns ! ((x # axes) ! j) + b' + a' - ks ! ((x # axes) ! j)) div ss ! ((x # axes) ! j) + 1
                     = (ns ! ((x # axes) ! j) + ss ! ((x # axes) ! j) - 1) div ss ! ((x # axes) ! j)"
      using ba p by (cases j) auto
  qed
  ultimately show ?case using l by auto
qed

lemma unzip_pads_nth:
  assumes "\<forall>j<length pairs. length (pairs ! j) = 2" and "i < length pairs"
  shows "unzip_pads pairs ! i = pairs ! i ! 0" and "unzip_pads pairs ! (length pairs + i) = pairs ! i ! 1"
    and "length (unzip_pads pairs) = 2 * length pairs"
  using assms by (auto simp: unzip_pads_def nth_append)

lemma length_unzip_pads: "length (unzip_pads pairs) = 2 * length pairs"
  by (simp add: unzip_pads_def)

text \<open>C20 (bounds): for \<open>avg_pool\<close> with \<open>auto_pad\<close> \<open>SAME_UPPER\<close> or \<open>SAME_LOWER\<close>,
  static spatial sizes \<open>n\<close>, positive strides and kernels, \<open>_run_calculation\<close> replaces
  \<open>auto_pad\<close> by explicit pads, two per spatial axis, whose sum makes the pooled size of
  every axis \<open>ceil(n / stride)\<close>.\<close>

theorem avg_pool_same_output_size:
  assumes sh: "infer_shape ora x = Dim nb # Dim nc # map Dim ns"
    and ap: "map_of attr ''auto_pad'' = Some (ABytes ap)" "ap = ''SAME_UPPER'' \<or> ap = ''SAME_LOWER''"
    and st: "map_of attr ''strides'' = Some (AInts ss)" and ks: "map_of attr ''kernel_shape'' = Some (AInts ks)"
    and len: "length ss = length ns" "length ks = length ns"
    and pos: "\<forall>i<length ns. 0 < ss ! i \<and> 1 \<le> ks ! i \<and> 0 \<le> ns ! i"
    and so: "map_of attr ''storage_order'' = None" and d: "1 \<le> length ns" "length ns \<le> 3"
  shows "\<exists>attr' p. pool_run_calculation ora ''avg_pool'' [Some x] attr = Inr (pool_cvt ''avg_pool'', x, attr')
           \<and> map_of attr' ''pads'' = Some (AInts p) \<and> map_of attr' ''auto_pad'' = None
           \<and> length p = 2 * length ns
           \<and> (\<forall>i<length ns. (ns ! i + p ! i + p ! (length ns + i) - ks ! i) div ss ! i + 1
                                = (ns ! i + ss ! i - 1) div ss ! i)"
proof -
  let ?attr1 = "dict_set attr ''auto_pad'' (ABytes ap)"
  have st1: "map_of ?attr1 ''strides'' = Some (AInts ss)" and ks1: "map_of ?attr1 ''kernel_shape'' = Some (AInts ks)"
    using st ks by simp_all
  have ax0: "set [0..<length ns] \<subseteq> {..<length ns}" by auto
  from same_pad_pairs_spec[OF st1 ks1 len pos ax0, of nb nc ap] obtain pairs where
    r: "same_pad_pairs ?attr1 (Dim nb # Dim nc # map Dim ns) ap [0..<length ns] = Inr pairs"
    and l0: "length pairs = length [0..<length ns]"
    and p0: "\<forall>j<length [0..<length ns]. \<exists>b a. pairs ! j = (if py_in_str ''LOWER'' ap then [a, b] else [b, a])
                 \<and> 0 \<le> b \<and> b \<le> a \<and> a \<le> b + 1
                 \<and> (ns ! ([0..<length ns] ! j) + b + a - ks ! ([0..<length ns] ! j)) div ss ! ([0..<length ns] ! j) + 1
                     = (ns ! ([0..<length ns] ! j) + ss ! ([0..<length ns] ! j) - 1) div ss ! ([0..<length ns] ! j)"
    by blast
  from l0 have l: "length pairs = length ns" by simp
  from p0 have p: "\<forall>j<length ns. \<exists>b a. pairs ! j = (if py_in_str ''LOWER'' ap then [a, b] else [b, a])
                 \<and> 0 \<le> b \<and> b \<le> a \<and> a \<le> b + 1
                 \<and> (ns ! j + b + a - ks ! j) div ss ! j + 1 = (ns ! j + ss ! j - 1) div ss ! j"
    by simp
  define pads where "pads = unzip_pads pairs"
  have two: "\<forall>j<length pairs. length (pairs ! j) = 2" using p l by fastforce
  have sum: "ns ! i + pads ! i + pads ! (length ns + i) - ks ! i = ns ! i + (pairs ! i ! 0 + pairs ! i ! 1) - ks ! i"
    if "i < length ns" for i
    using unzip_pads_nth[OF two, of i] that l by (simp add: pads_def)
  have size: "\<forall>i<length ns. (ns ! i + pads ! i + pads ! (length ns + i) - ks ! i) div ss ! i + 1
                             = (ns ! i + ss ! i - 1) div ss ! i"
  proof (intro allI impI)
    fix i assume i: "i < length ns"
    from p i obtain b a where "pairs ! i = (if py_in_str ''LOWER'' ap then [a, b] else [b, a])"
      and "(ns ! i + b + a - ks ! i) div ss ! i + 1 = (ns ! i + ss ! i - 1) div ss ! i" by blast
    then show "(ns ! i + pads ! i + pads ! (length ns + i) - ks ! i) div ss ! i + 1 = (ns ! i + ss ! i - 1) div ss ! i"
      using sum[OF i] by (auto simp: algebra_simps split: if_splits)
  qed
  have lay: "onnx_default_layout (int (length ns)) ''avg_pool'' = Inr (if length ns = 1 then ''NCW'' else if length ns = 2 then ''NCHW'' else ''NCDHW'')"
    using d by (auto simp: onnx_default_layout_def)
  have "pool_run_calculation ora ''avg_pool'' [Some x] attr
      = Inr (pool_cvt ''avg_pool'', x, dict_set (dict_pop (dict_set ?attr1 ''pads'' (AInts pads)) ''auto_pad'') ''layout''
               (ABytes (if length ns = 1 then ''NCW'' else if length ns = 2 then ''NCHW'' else ''NCDHW'')))"
    using sh ap r so lay
    by (simp add: pool_run_calculation_def pool_auto_pad_def input_expr_def onnx_input_get_def pads_def Let_def)
  moreover have "length pads = 2 * length ns" using l by (simp add: pads_def length_unzip_pads)
  ultimately show ?thesis using size by fastforce
qed

theorem avg_pool_same_output_size_witness:
  "\<exists>attr' p. pool_run_calculation (static_oracles [Dim 1, Dim 3, Dim 5, Dim 6]) ''avg_pool'' [Some (Var ''x'' [] None)]
       [(''auto_pad'', ABytes ''SAME_UPPER''), (''strides'', AInts [2, 4]), (''kernel_shape'', AInts [3, 3])]
     = Inr (pool_cvt ''avg_pool'', Var ''x'' [] None, attr')
   \<and> map_of attr' ''pads'' = Some (AInts p) \<and> map_of attr' ''auto_pad'' = None
   \<and> length p = 2 * length [5, 6::int]
   \<and> (\<forall>i<length [5, 6::int]. ([5, 6] ! i + p ! i + p ! (length [5, 6::int] + i) - [3, 3] ! i) div [2, 4] ! i + 1
                                  = ([5, 6] ! i + [2, 4] ! i - 1) div [2, 4] ! i)"
  by (rule avg_pool_same_output_size[where nb = 1 and nc = 3])
     (auto simp: static_oracles_def less_Suc_eq)

subsection \<open>Layouts, \<open>Pad\<close>, \<open>Reduce\<close> and \<open>Elemwise\<close>\<close>

text \<open>Storage order 0 is the default layout, and storage order 1 is the same layout with
  the channel axis moved last.\<close>

theorem storage_order_layout:
  "onnx_storage_order2layout 0 d n = onnx_default_layout d n
   \<and> onnx_storage_order2layout 1 d n = map_sum id (\<lambda>l. hd l # drop 2 l @ [l ! 1]) (onnx_default_layout d n)"
  by (simp add: onnx_storage_order2layout_def onnx_default_layout_def)

text \<open>C22 (round trip): the pads of \<open>Pad\<close> versions 1 and 2 (all begins, then all ends)
  are read back as the per-axis pairs they encode.\<close>

theorem pad_width_of_roundtrip: "pad_width_of (map fst pw @ map snd pw) = pw"
proof (rule nth_equalityI)
  show "length (pad_width_of (map fst pw @ map snd pw)) = length pw" by (simp add: pad_width_of_def Let_def)
next
  fix i assume "i < length (pad_width_of (map fst pw @ map snd pw))"
  then have "i < length pw" by (simp add: pad_width_of_def Let_def)
  then show "pad_width_of (map fst pw @ map snd pw) ! i = pw ! i" by (simp add: pad_width_of_def nth_append Let_def)
qed

text \<open>\<open>Pad\<close> version 1 hands the function \<open>_op.nn.pad\<close> to \<open>AttrCvt\<close>
  as its operator, which calls it on the attribute dict: a well-formed node always fails
  with a \<open>TypeError\<close>.\<close>

theorem pad_impl_v1_fails:
  assumes "map_of attr ''paddings'' = Some (AInts pads)" and "map_of attr ''mode'' = None"
  shows "pad_impl_v1 params inputs attr = Inl (TypeErr ''nn.pad() missing a required positional argument'')"
  using assms
  by (simp add: pad_impl_v1_def pad_attr_impl_def pad_mode_of_def attr_cvt_call_def attr_cvt_kwargs_def
                attr_cvt_simple_def cvt_op_name_def Let_def)

theorem pad_impl_v1_fails_witness:
  "pad_impl_v1 [] [Some (Var ''x'' [] None)] [(''paddings'', AInts [0, 1, 0, 1])]
     = Inl (TypeErr ''nn.pad() missing a required positional argument'')"
  using pad_impl_v1_fails[of "[(''paddings'', AInts [0, 1, 0, 1])]" "[0, 1, 0, 1]" "[]" "[Some (Var ''x'' [] None)]"]
  by simp

text \<open>C23 (functional): \<open>Reduce\<close> version 12 with a constant \<open>axes\<close> input reduces
  over the first listed axis only.\<close>

theorem reduce_v12_first_axis:
  assumes "nd_shape a \<noteq> []" and "nd_data a = c # cs" and "map_of attr ''keepdims'' = None"
  shows "reduce_impl_v12 ora name params [Some x, Some (Const a)] attr
           = Inr (Single (Call name [x] [(''axis'', PInt c), (''keepdims'', PBool True)]))"
  using assms
  by (simp add: reduce_impl_v12_def reduce_run_calculation_def attr_cvt_call_def attr_cvt_kwargs_def
                attr_cvt_simple_def cvt_op_name_def cvt_step_def default_ignores_def cvt_defaults_def
                relay_args_def dict_update_def neq_Nil_conv split: list.splits)

theorem reduce_v12_first_axis_witness:
  "reduce_impl_v12 (static_oracles []) ''sum'' [] [Some (Var ''x'' [] None),
       Some (Const \<lparr>nd_shape = [2], nd_dtype = ''int64'', nd_data = [1, 2]\<rparr>)] []
     = Inr (Single (Call ''sum'' [Var ''x'' [] None] [(''axis'', PInt 1), (''keepdims'', PBool True)]))"
  using reduce_v12_first_axis[of "\<lparr>nd_shape = [2], nd_dtype = ''int64'', nd_data = [1, 2]\<rparr>" 1 "[2]" "[]"]
  by simp

text \<open>C24 (functional): \<open>Elemwise\<close> with \<open>broadcast\<close> set inserts two axes into its
  second input whenever the printed first input mentions \<open>conv2d\<close>, including when that
  is only the name of a variable.\<close>

theorem elemwise_broadcast_by_name:
  assumes "py_in_str ''conv2d'' n" and "map_of attr ''broadcast'' = Some (AInt 1)" and "map_of attr ''axis'' = None"
  shows "elemwise_impl_v1 name params [Some (Var n s t), Some y] attr
           = Inr (Single (Call name [Var n s t, Call ''expand_dims'' [y] [(''axis'', PInt 0), (''num_newaxis'', PInt 2)]] []))"
  using assms by (simp add: elemwise_impl_v1_def relay_op_call_def relay_args_def)

theorem elemwise_broadcast_by_name_witness:
  "elemwise_impl_v1 ''add'' [] [Some (Var ''conv2d_bias'' [Dim 4] None), Some (Var ''b'' [Dim 4] None)] [(''broadcast'', AInt 1)]
     = Inr (Single (Call ''add'' [Var ''conv2d_bias'' [Dim 4] None,
          Call ''expand_dims'' [Var ''b'' [Dim 4] None] [(''axis'', PInt 0), (''num_newaxis'', PInt 2)]] []))"
  using elemwise_broadcast_by_name[of "''conv2d_bias''" "[(''broadcast'', AInt 1)]" "''add''" "[]" "[Dim 4]" None
      "Var ''b'' [Dim 4] None"]
  by simp

end
