(* ===== verification/Control_Flow.thy ===== *)
theory Control_Flow
  imports Converters
begin

text \<open>
  The control-flow converters \<open>If._impl_v1\<close> and \<open>Loop._impl_v11\<close>.  Each imports its
  body graphs through the \<open>sub_import\<close> it receives, in a child scope that starts with a
  copy of the enclosing scope's bindings (\<open>child_scope\<close>), and afterwards merges the
  child's constants and bindings and the body's free variables into the enclosing scope
  (\<open>merge_child\<close>).  \<open>Loop\<close> is factored as the code is: the loop variables
  (\<open>loop_get_var\<close>, \<open>dep_vars\<close>), the scan outputs (\<open>scan_decls\<close>,
  \<open>combine_scan\<close>), \<open>cond_fn\<close> (\<open>loop_cond\<close>), \<open>body_fn\<close>
  (\<open>loop_body_results\<close>) and the outputs (\<open>loop_outputs\<close>).
  The lemmas show that both converters keep the scope invariant, what \<open>If\<close> builds,
  that the branches' bindings leak into the enclosing scope, that \<open>Loop\<close> with both
  \<open>M\<close> and \<open>cond\<close> builds a counted while loop, and that it fails when either is
  absent.
\<close>
subsection \<open>Nested scopes\<close>

text \<open>\<open>GraphProto(graph_scope._shape, graph_scope._dtype, graph_scope._freeze_params)\<close> with
  \<open>_nodes = graph_scope._nodes.copy()\<close>, entered under \<open>with\<close>, so not outermost.\<close>

definition child_scope :: "scope \<Rightarrow> scope" where
  "child_scope sc = (new_scope (sc_shape sc) (sc_dtype sc) (sc_freeze sc) False)\<lparr>sc_nodes := sc_nodes sc\<rparr>"

fun var_name :: "expr \<Rightarrow> string" where
  "var_name (Var n _ _) = n"
| "var_name _ = []"

text \<open>\<open>for var in free_vars: graph_scope._nodes.update({var.name_hint: var})\<close>.\<close>

definition promote_free :: "(string, expr) pydict \<Rightarrow> expr list \<Rightarrow> (string, expr) pydict" where
  "promote_free nodes vs = foldl (\<lambda>d v. dict_set d (var_name v) v) nodes vs"

text \<open>Constants and bindings of a converted body copied to the enclosing scope, then the
  body's free variables promoted.\<close>

definition merge_child :: "scope \<Rightarrow> scope \<Rightarrow> expr \<Rightarrow> scope" where
  "merge_child sc child e =
     sc\<lparr>sc_params := dict_update (sc_params sc) (sc_params child),
        sc_nodes := promote_free (dict_update (sc_nodes sc) (sc_nodes child)) (free_vars e),
        sc_warnings := sc_warnings sc @ sc_warnings child\<rparr>"

subsection \<open>\<open>If\<close>\<close>

definition if_impl_v1 :: "oracles \<Rightarrow> converter" where
  "if_impl_v1 ora sub sc inputs attr =
     rbind (input_expr inputs 0) (\<lambda>cond0.
       let cond = (if 0 < length (infer_shape ora cond0) then Call ''take'' [cond0, scalar_const ''int64'' 0] []
                   else cond0)
       in case (map_of attr ''then_branch'', map_of attr ''else_branch'') of
            (Some (AGraph then_branch), Some (AGraph else_branch)) \<Rightarrow>
              (case sc_opset sc of
                 None \<Rightarrow> Inl (TypeErr ''opset'')
               | Some opset \<Rightarrow>
                   rbind (sub (child_scope sc) then_branch opset) (\<lambda>(then_expr, then_sc).
                   rbind (sub (child_scope sc) else_branch opset) (\<lambda>(else_expr, else_sc).
                   let sc' = merge_child (merge_child sc then_sc then_expr) else_sc else_expr;
                       ret = IfE cond then_expr else_expr
                   in Inr (if 1 < length (g_output then_branch) then Wrapped ret (length (g_output then_branch))
                           else Single ret, sc'))))
          | (None, _) \<Rightarrow> Inl (AssertionErr [])
          | (_, None) \<Rightarrow> Inl (AssertionErr [])
          | _ \<Rightarrow> Inl (TypeErr ''not a graph''))"

subsection \<open>\<open>Loop\<close>\<close>

text \<open>\<open>get_var(name, val, scan)\<close>: a variable of the type Relay infers for \<open>val\<close>, with
  dimensions 0 made \<open>Any\<close>; \<open>infer_type(None)\<close> raises.\<close>

definition loop_get_var :: "oracles \<Rightarrow> string \<Rightarrow> expr option \<Rightarrow> expr result" where
  "loop_get_var ora name val =
     (case val of
        None \<Rightarrow> Inl (TypeErr ''infer_type(None)'')
      | Some v \<Rightarrow> Inr (Var name (map (\<lambda>d. if d = Dim 0 then AnyDim else d) (infer_shape ora v))
                           (Some (infer_dtype ora v))))"

text \<open>\<open>[get_var(body.input[i + 2].name, v) for i, v in enumerate(loop_deps)]\<close>.\<close>

fun dep_vars :: "oracles \<Rightarrow> value_info list \<Rightarrow> expr option list \<Rightarrow> nat \<Rightarrow> expr list result" where
  "dep_vars ora ins [] i = Inr []"
| "dep_vars ora ins (v # vs) i =
     rbind (py_index ins (int (i + 2))) (\<lambda>vi.
     rbind (loop_get_var ora (vi_name vi) v) (\<lambda>x.
     rbind (dep_vars ora ins vs (Suc i)) (\<lambda>xs. Inr (x # xs))))"

text \<open>\<open>loop_outputs[i]\<close> and \<open>len(loop_outputs)\<close> on the body's output expression:
  a tuple when the body has several outputs.\<close>

definition out_item :: "expr \<Rightarrow> nat \<Rightarrow> expr result" where
  "out_item e i = (case e of Tuple fs \<Rightarrow> py_index fs (int i) | _ \<Rightarrow> Inl (TypeErr ''not subscriptable''))"

definition out_count :: "expr \<Rightarrow> nat result" where
  "out_count e = (case e of Tuple fs \<Rightarrow> Inr (length fs) | _ \<Rightarrow> Inl (TypeErr ''no len()''))"

fun out_items :: "expr \<Rightarrow> nat list \<Rightarrow> expr list result" where
  "out_items e [] = Inr []"
| "out_items e (i # is) = rbind (out_item e i) (\<lambda>x. rbind (out_items e is) (\<lambda>xs. Inr (x # xs)))"

text \<open>The scan outputs' variables and empty initial tensors, from a first import of the
  body (\<open>loop_outputs\<close>, a \<open>TupleWrapper\<close> of the body's outputs).\<close>

fun scan_decls :: "oracles \<Rightarrow> onnx_graph \<Rightarrow> expr \<Rightarrow> nat \<Rightarrow> nat list \<Rightarrow> (expr list \<times> expr list) result" where
  "scan_decls ora body first num_deps [] = Inr ([], [])"
| "scan_decls ora body first num_deps (i # is) =
     rbind (py_index (g_output body) (int (i + 1 + num_deps))) (\<lambda>vi.
     rbind (get_info vi) (\<lambda>(name, _, _, _).
      let node = wrapper_item first (i + 1 + num_deps);
          shp = infer_shape ora node;
          dt = infer_dtype ora node;
          v = Var name (replicate (length shp + 1) AnyDim) (Some dt);
          init = Call ''reshape'' [Const \<lparr>nd_shape = [0], nd_dtype = dt, nd_data = []\<rparr>]
                   [(''newshape'', PTuple (PInt 0 # replicate (length shp) (PInt 1)))]
      in rbind (scan_decls ora body first num_deps is) (\<lambda>(vs, inits). Inr (v # vs, init # inits))))"

text \<open>One scan accumulator of \<open>body_fn\<close>: the new value appended along a new leading
  axis, the accumulator first broadcast when the value is not a scalar.\<close>

definition combine_scan :: "oracles \<Rightarrow> string \<Rightarrow> expr \<Rightarrow> expr \<Rightarrow> expr \<Rightarrow> expr" where
  "combine_scan ora iter_dtype loop_count scan new_scan =
     (let rank = int (length (infer_shape ora scan)) - 1;
          expand_scan = Call ''expand_dims'' [new_scan] [(''axis'', PInt 0)];
          scan' = (if 0 < rank then
                     Call ''broadcast_to''
                       [scan, Call ''concatenate''
                                [Tuple [Call ''reshape'' [loop_count] [(''newshape'', PTuple [PInt 1])],
                                        Call ''shape_of'' [new_scan] [(''dtype'', PStr iter_dtype)]]]
                                [(''axis'', PInt 0)]] []
                   else scan)
      in Call ''concatenate'' [Tuple [scan', expand_scan]] [(''axis'', PInt 0)])"

text \<open>\<open>cond_fn\<close> on the iteration count \<open>i\<close>, the bound and the condition variable.\<close>

definition loop_cond :: "bool \<Rightarrow> bool \<Rightarrow> expr \<Rightarrow> expr \<Rightarrow> expr \<Rightarrow> expr" where
  "loop_cond has_max has_cond i max_count w =
     (let out_while = Call ''equal'' [w, Const \<lparr>nd_shape = [], nd_dtype = ''bool'', nd_data = [1]\<rparr>] [];
          out_loop = Call ''less'' [i, max_count] []
      in if has_cond \<and> has_max then Call ''logical_and'' [out_while, out_loop] []
         else if has_max \<and> \<not> has_cond then out_loop
         else out_while)"

text \<open>\<open>body_fn\<close> after the body has been imported with the loop variables bound.\<close>

definition loop_body_results ::
  "oracles \<Rightarrow> string \<Rightarrow> bool \<Rightarrow> expr list \<Rightarrow> expr list \<Rightarrow> nat \<Rightarrow> expr \<Rightarrow> expr list result" where
  "loop_body_results ora iter_dtype has_max loop_vars scan_vars num_deps outs =
     rbind (out_item outs 0) (\<lambda>new_cond.
     rbind (out_items outs [1..<1 + num_deps]) (\<lambda>new_loop_vars.
     rbind (out_count outs) (\<lambda>n.
     rbind (out_items outs [1 + num_deps..<n]) (\<lambda>new_scans.
       if length new_scans < length scan_vars then Inl IndexErr
       else
         let loop_count = loop_vars ! 0;
             combined = map2 (combine_scan ora iter_dtype loop_count) scan_vars new_scans;
             loop_count' = (if has_max then Call ''add'' [loop_count, scalar_const iter_dtype 1] [] else loop_count)
         in Inr ([loop_count', loop_vars ! 1, new_cond] @ new_loop_vars @ combined)))))"

definition loop_outputs :: "expr \<Rightarrow> int \<Rightarrow> conv_out" where
  "loop_outputs loop_vals n =
     (if n = 1 then Single (TupleGetItem loop_vals 3)
      else Wrapped (Tuple (map (\<lambda>i. TupleGetItem loop_vals (i + 3)) [0..<nat n])) (nat n))"

text \<open>The body of \<open>Loop._impl_v11\<close> once the body graph and the bound \<open>M\<close> are known:
  the outputs, the subgraph scope after the body's last import, and the loop function
  (whose free variables are promoted).\<close>

definition loop_build ::
  "oracles \<Rightarrow> sub_import \<Rightarrow> scope \<Rightarrow> expr \<Rightarrow> expr option \<Rightarrow> expr option list \<Rightarrow> onnx_graph \<Rightarrow> int
     \<Rightarrow> (conv_out \<times> scope \<times> expr) result" where
  "loop_build ora sub sc m cond loop_deps body opset =
     (let iter_dtype = infer_dtype ora m;
          num_deps = length loop_deps
      in rbind (py_index (g_input body) 0) (\<lambda>in0.
         rbind (py_index (g_input body) 1) (\<lambda>in1.
         rbind (loop_get_var ora (vi_name in1) cond) (\<lambda>cond_var.
         rbind (dep_vars ora (g_input body) loop_deps 0) (\<lambda>deps_vars.
         let loop_vars = [Var (vi_name in0) [] (Some iter_dtype), Var ''max_count'' [] (Some iter_dtype), cond_var]
                         @ deps_vars;
             num_scan = int (length (g_output body)) - (1 + int num_deps);
             sub_sc = child_scope sc
         in rbind (if 0 < num_scan then sub sub_sc body opset else Inr (Tuple [], sub_sc)) (\<lambda>(first, sub_sc1).
            rbind (scan_decls ora body first num_deps [0..<nat num_scan]) (\<lambda>(scan_vars, scan_inits).
            let sub_sc2 = sub_sc1\<lparr>sc_nodes := foldl (\<lambda>d (n, v). dict_set d n v) (sc_nodes sub_sc1)
                                                (zip (map var_name loop_vars) loop_vars)\<rparr>
            in rbind (sub sub_sc2 (Graph (g_node body) (g_initializer body) [] (g_output body)) opset)
                 (\<lambda>(outs, sub_sc3).
            rbind (loop_body_results ora iter_dtype True loop_vars scan_vars num_deps outs) (\<lambda>results.
            rbind (relay_args loop_deps) (\<lambda>deps.
            case cond of
              None \<Rightarrow> Inl (TypeErr ''None argument'')
            | Some c \<Rightarrow>
                let loop_fn_vars = loop_vars @ scan_vars;
                    loop_c = loop_cond True True (loop_vars ! 0) (loop_vars ! 1) (loop_vars ! 2);
                    loop_vals = WhileLoop loop_fn_vars loop_c results
                                  ([scalar_const iter_dtype 0, m, c] @ deps @ scan_inits)
                in Inr (loop_outputs loop_vals (int num_deps + num_scan), sub_sc3,
                        WhileLoop loop_fn_vars loop_c results [])))))))))))"

text \<open>The enclosing scope takes the body's constants and bindings and the loop
  function's free variables.\<close>

definition loop_convert ::
  "oracles \<Rightarrow> sub_import \<Rightarrow> scope \<Rightarrow> expr \<Rightarrow> expr option \<Rightarrow> expr option list \<Rightarrow> onnx_graph \<Rightarrow> int
     \<Rightarrow> (conv_out \<times> scope) result" where
  "loop_convert ora sub sc m cond loop_deps body opset =
     rbind (loop_build ora sub sc m cond loop_deps body opset)
       (\<lambda>(out, sub_sc, loop_fn). Inr (out, merge_child sc sub_sc loop_fn))"

definition loop_impl_v11 :: "oracles \<Rightarrow> converter" where
  "loop_impl_v11 ora sub sc inputs attr =
     (let max_loop_count = (if 0 < length inputs then inputs ! 0 else None);
          cond = (if 1 < length inputs then inputs ! 1 else None);
          loop_deps = drop 2 inputs;
          num_deps = length loop_deps
      in case map_of attr ''body'' of
           None \<Rightarrow> Inl (KeyErr ''body'')
         | Some bv \<Rightarrow>
             (case max_loop_count of
                None \<Rightarrow> Inl (TypeErr ''infer_type(None)'')
              | Some m \<Rightarrow>
                  (case (bv, sc_opset sc) of
                     (AGraph body, Some opset) \<Rightarrow>
                       loop_convert ora sub sc m cond loop_deps body opset
                   | (AGraph body, None) \<Rightarrow> Inl (TypeErr ''opset'')
                   | _ \<Rightarrow> Inl (TypeErr ''not a graph''))))"


subsection \<open>Example bodies\<close>

text \<open>A scope at opset 13 holding \<open>x\<close> and \<open>y\<close>; a branch graph with one output; a
  sub-importer that binds and returns \<open>r\<close>; a loop body with the iteration count and
  the condition as inputs and the new condition as its only output, and a sub-importer
  that returns that output.\<close>

definition cf_scope :: scope where
  "cf_scope = xy_scope\<lparr>sc_opset := Some 13\<rparr>"

definition branch_graph :: onnx_graph where
  "branch_graph = Graph [] [] [] [ValueInfo ''r'' 1 []]"

definition branch_sub :: sub_import where
  "branch_sub s g opset = Inr (Var ''r'' [] None, s\<lparr>sc_nodes := dict_set (sc_nodes s) ''r'' (Var ''r'' [] None)\<rparr>)"

definition branch_attrs :: attr_dict where
  "branch_attrs = [(''then_branch'', AGraph branch_graph), (''else_branch'', AGraph branch_graph)]"

definition loop_body :: onnx_graph where
  "loop_body = Graph [] [] [ValueInfo ''i'' 7 [], ValueInfo ''cond'' 9 []] [ValueInfo ''cond_out'' 9 []]"

definition loop_sub :: sub_import where
  "loop_sub s g opset = Inr (Tuple [Var ''cond_out'' [] None], s)"

subsection \<open>Scope lemmas\<close>

lemma keys_promote_free [simp]: "fst ` set (promote_free d vs) = fst ` set d \<union> var_name ` set vs"
  unfolding promote_free_def by (induction vs arbitrary: d) auto

lemma merge_child_keys:
  "fst ` set (sc_nodes (merge_child sc child e)) = fst ` set (sc_nodes sc) \<union> fst ` set (sc_nodes child) \<union> var_name ` set (free_vars e)"
  "fst ` set (sc_params (merge_child sc child e)) = fst ` set (sc_params sc) \<union> fst ` set (sc_params child)"
  "sc_inputs (merge_child sc child e) = sc_inputs sc"
  by (auto simp: merge_child_def)

lemma merge_child_le: "scope_le sc (merge_child sc child e)"
  by (auto simp: scope_le_def merge_child_keys)

lemma if_impl_v1_Inr:
  assumes "if_impl_v1 ora sub sc inputs attr = Inr (out, sc')"
  shows "\<exists>tb eb opset t sct e sce. map_of attr ''then_branch'' = Some (AGraph tb)
           \<and> map_of attr ''else_branch'' = Some (AGraph eb) \<and> sc_opset sc = Some opset
           \<and> sub (child_scope sc) tb opset = Inr (t, sct) \<and> sub (child_scope sc) eb opset = Inr (e, sce)
           \<and> sc' = merge_child (merge_child sc sct t) sce e"
proof (cases "map_of attr ''then_branch''")
  case None
  then show ?thesis using assms by (simp add: if_impl_v1_def Let_def)
next
  case tb: (Some tv)
  show ?thesis
  proof (cases "map_of attr ''else_branch''")
    case None
    then show ?thesis using assms tb by (cases tv) (simp_all add: if_impl_v1_def Let_def)
  next
    case eb: (Some ev)
    show ?thesis
    proof (cases "\<exists>g h. tv = AGraph g \<and> ev = AGraph h")
      case True
      then obtain g h where "tv = AGraph g" "ev = AGraph h" by blast
      then show ?thesis using assms tb eb
        by (simp add: if_impl_v1_def Let_def split: option.splits prod.splits) blast
    next
      case False
      then show ?thesis using assms tb eb
        by (simp add: if_impl_v1_def Let_def) (cases tv; cases ev; simp)
    qed
  qed
qed

lemma if_impl_v1_le: "if_impl_v1 ora sub sc inputs attr = Inr (out, sc') \<Longrightarrow> scope_le sc sc'"
  by (drule if_impl_v1_Inr) (auto intro: scope_le_trans[OF merge_child_le merge_child_le])

lemma loop_impl_v11_le:
  assumes "loop_impl_v11 ora sub sc inputs attr = Inr (out, sc')"
  shows "scope_le sc sc'"
proof -
  from assms obtain m body opset cond deps where
    "loop_convert ora sub sc m cond deps body opset = Inr (out, sc')"
    unfolding loop_impl_v11_def Let_def
    by (auto split: option.splits attr_value.splits prod.splits)
  then obtain s3 fn where "sc' = merge_child sc s3 fn"
    unfolding loop_convert_def by (auto split: prod.splits)
  then show ?thesis by (simp add: merge_child_le)
qed

subsection \<open>Loop lemmas\<close>

lemma dep_vars_some:
  assumes "i + 2 + length ds \<le> length ins"
  shows "\<exists>xs. dep_vars ora ins (map Some ds) i = Inr xs \<and> length xs = length ds"
  using assms
proof (induction ds arbitrary: i)
  case Nil
  then show ?case by simp
next
  case (Cons d ds)
  from Cons.prems have "Suc i + 2 + length ds \<le> length ins" by simp
  from Cons.IH[OF this] obtain xs where "dep_vars ora ins (map Some ds) (Suc i) = Inr xs" "length xs = length ds"
    by blast
  with Cons.prems show ?case
    by (simp add: py_index_def py_nth_int loop_get_var_def)
qed

lemma out_items_tuple: "\<forall>i \<in> set idx. i < length fs \<Longrightarrow> out_items (Tuple fs) idx = Inr (map (\<lambda>i. fs ! i) idx)"
  by (induction idx) (auto simp: out_item_def py_index_def py_nth_int)

lemma relay_args_some [simp]: "relay_args (map Some xs) = Inr xs"
  by (simp add: relay_args_def comp_def)

lemma loop_impl_v11_convert:
  assumes "map_of attr ''body'' = Some (AGraph body)" and "sc_opset sc = Some opset"
    and "0 < length inputs" and "inputs ! 0 = Some m"
  shows "loop_impl_v11 ora sub sc inputs attr
           = loop_convert ora sub sc m (if 1 < length inputs then inputs ! 1 else None) (drop 2 inputs) body opset"
  using assms unfolding loop_impl_v11_def by simp

subsection \<open>Properties of \<open>If\<close> and \<open>Loop\<close>\<close>

text \<open>C25 (functional): \<open>If\<close> with a scalar condition and two graph branches imports
  each branch in a child scope of the enclosing one, returns \<open>If(cond, then, else)\<close>,
  a single expression when the then branch has at most one output, and merges the then
  branch's scope and then the else branch's into the enclosing scope.\<close>

theorem if_impl_v1_branches:
  assumes "input_expr inputs 0 = Inr c" and "infer_shape ora c = []"
    and "map_of attr ''then_branch'' = Some (AGraph tb)" and "map_of attr ''else_branch'' = Some (AGraph eb)"
    and "sc_opset sc = Some opset"
    and "sub (child_scope sc) tb opset = Inr (t, sct)" and "sub (child_scope sc) eb opset = Inr (e, sce)"
    and "length (g_output tb) \<le> 1"
  shows "if_impl_v1 ora sub sc inputs attr = Inr (Single (IfE c t e), merge_child (merge_child sc sct t) sce e)"
  using assms by (simp add: if_impl_v1_def Let_def)

theorem if_impl_v1_branches_witness:
  "if_impl_v1 (static_oracles []) branch_sub cf_scope [Some (Var ''c'' [] None)] branch_attrs
     = Inr (Single (IfE (Var ''c'' [] None) (Var ''r'' [] None) (Var ''r'' [] None)),
            merge_child (merge_child cf_scope (snd (projr (branch_sub (child_scope cf_scope) branch_graph 13)))
                           (Var ''r'' [] None))
                        (snd (projr (branch_sub (child_scope cf_scope) branch_graph 13))) (Var ''r'' [] None))"
  by (rule if_impl_v1_branches[where tb = branch_graph and eb = branch_graph and opset = 13])
     (simp_all add: input_expr_def onnx_input_get_def py_nth_int static_oracles_def branch_attrs_def
        cf_scope_def xy_scope_def branch_sub_def branch_graph_def)

text \<open>C26 (safety, a divergence from the specification's scoping, section 3): after
  \<open>If\<close>, every name either branch bound and every free variable of either branch is
  bound in the enclosing scope, whichever branch runs; no binding of the enclosing scope
  is lost.\<close>

theorem if_impl_v1_leaks_branch_bindings:
  assumes "if_impl_v1 ora sub sc inputs attr = Inr (out, sc')"
    and "map_of attr ''then_branch'' = Some (AGraph tb)" and "map_of attr ''else_branch'' = Some (AGraph eb)"
    and "sc_opset sc = Some opset"
    and "sub (child_scope sc) tb opset = Inr (t, sct)" and "sub (child_scope sc) eb opset = Inr (e, sce)"
  shows "fst ` set (sc_nodes sct) \<union> fst ` set (sc_nodes sce) \<subseteq> fst ` set (sc_nodes sc')
         \<and> var_name ` set (free_vars t) \<union> var_name ` set (free_vars e) \<subseteq> fst ` set (sc_nodes sc')
         \<and> scope_le sc sc'"
proof -
  from if_impl_v1_Inr[OF assms(1)] assms(2-6)
  have sc': "sc' = merge_child (merge_child sc sct t) sce e" by auto
  then show ?thesis
    using merge_child_le[of sc sct t] merge_child_le[of "merge_child sc sct t" sce e]
    by (auto simp: merge_child_keys intro: scope_le_trans)
qed

theorem if_impl_v1_leaks_branch_bindings_witness:
  "''r'' \<notin> fst ` set (sc_nodes cf_scope)
   \<and> ''r'' \<in> fst ` set (sc_nodes (snd (projr (if_impl_v1 (static_oracles []) branch_sub cf_scope
                                                 [Some (Var ''c'' [] None)] branch_attrs))))"
proof -
  let ?s = "snd (projr (if_impl_v1 (static_oracles []) branch_sub cf_scope [Some (Var ''c'' [] None)] branch_attrs))"
  let ?o = "fst (projr (if_impl_v1 (static_oracles []) branch_sub cf_scope [Some (Var ''c'' [] None)] branch_attrs))"
  let ?ct = "snd (projr (branch_sub (child_scope cf_scope) branch_graph 13))"
  have ok: "if_impl_v1 (static_oracles []) branch_sub cf_scope [Some (Var ''c'' [] None)] branch_attrs = Inr (?o, ?s)"
    by (simp add: if_impl_v1_def Let_def input_expr_def onnx_input_get_def py_nth_int static_oracles_def
          branch_attrs_def cf_scope_def xy_scope_def branch_sub_def)
  have "fst ` set (sc_nodes ?ct) \<union> fst ` set (sc_nodes ?ct) \<subseteq> fst ` set (sc_nodes ?s)
         \<and> var_name ` set (free_vars (Var ''r'' [] None)) \<union> var_name ` set (free_vars (Var ''r'' [] None))
             \<subseteq> fst ` set (sc_nodes ?s)
         \<and> scope_le cf_scope ?s"
    by (rule if_impl_v1_leaks_branch_bindings[OF ok])
       (simp_all add: branch_attrs_def cf_scope_def xy_scope_def branch_sub_def)
  moreover have "''r'' \<in> fst ` set (sc_nodes ?ct)"
    by (simp add: branch_sub_def cf_scope_def xy_scope_def child_scope_def new_scope_def)
  ultimately show ?thesis by (auto simp: cf_scope_def xy_scope_def)
qed

text \<open>C27 (error, a divergence from the ONNX operator, whose \<open>M\<close> and \<open>cond\<close> are
  optional): \<open>Loop\<close> version 11 fails with the \<open>TypeError\<close> of \<open>infer_type(None)\<close>
  when the bound \<open>M\<close> or the condition is absent.\<close>

theorem loop_impl_v11_needs_both:
  assumes "map_of attr ''body'' = Some (AGraph body)" and "sc_opset sc = Some opset"
    and "2 \<le> length (g_input body)" and "2 \<le> length inputs"
    and "inputs ! 0 = None \<or> inputs ! 1 = None"
  shows "loop_impl_v11 ora sub sc inputs attr = Inl (TypeErr ''infer_type(None)'')"
proof (cases "inputs ! 0")
  case None
  then show ?thesis using assms unfolding loop_impl_v11_def by simp
next
  case (Some m)
  with assms(5) have c: "inputs ! 1 = None" by simp
  obtain a b rest where g: "g_input body = a # b # rest" using assms(3)
    by (metis Suc_le_length_iff numeral_2_eq_2)
  have "0 < length inputs" using assms(4) by linarith
  from loop_impl_v11_convert[OF assms(1,2) this Some] assms(4) c
  have "loop_impl_v11 ora sub sc inputs attr = loop_convert ora sub sc m None (drop 2 inputs) body opset"
    by simp
  also have "\<dots> = Inl (TypeErr ''infer_type(None)'')"
    unfolding loop_convert_def loop_build_def using g by (simp add: py_index_def loop_get_var_def)
  finally show ?thesis .
qed

theorem loop_impl_v11_needs_both_witness:
  "loop_impl_v11 (static_oracles []) loop_sub cf_scope [Some (Var ''m'' [] None), None] [(''body'', AGraph loop_body)]
     = Inl (TypeErr ''infer_type(None)'')"
  by (rule loop_impl_v11_needs_both[where body = loop_body and opset = 13]) (simp_all add: cf_scope_def xy_scope_def loop_body_def)

text \<open>C28 (functional): \<open>Loop\<close> version 11 with both \<open>M\<close> and \<open>cond\<close>, loop-carried
  dependencies and no scan outputs builds a Relay while loop whose variables start with
  the iteration count and \<open>max_count\<close> (of \<open>M\<close>'s dtype), whose condition is
  \<open>cond_fn\<close> on both, whose body increments the count and passes the body's new condition
  and dependencies, and whose initial values are \<open>0\<close>, \<open>M\<close>, \<open>cond\<close> and the
  dependencies; its outputs are the final dependencies.\<close>

theorem loop_impl_v11_counted_while:
  assumes attr: "map_of attr ''body'' = Some (AGraph body)" and op: "sc_opset sc = Some opset"
    and ins: "g_input body = it_in # cond_in # bins" "length ds \<le> length bins"
    and outs: "length (g_output body) = 1 + length ds"
    and sub: "\<forall>s. \<exists>s'. sub s (Graph (g_node body) (g_initializer body) [] (g_output body)) opset
                        = Inr (Tuple (nc # nvs), s')"
    and nvs: "length nvs = length ds"
  shows "\<exists>vars sc'. loop_impl_v11 ora sub sc (Some m # Some c # map Some ds) attr
           = Inr (loop_outputs
                    (WhileLoop vars (loop_cond True True (vars ! 0) (vars ! 1) (vars ! 2))
                       ([Call ''add'' [vars ! 0, scalar_const (infer_dtype ora m) 1] [], vars ! 1, nc] @ nvs)
                       ([scalar_const (infer_dtype ora m) 0, m, c] @ ds))
                    (int (length ds)), sc')
         \<and> vars ! 0 = Var (vi_name it_in) [] (Some (infer_dtype ora m))
         \<and> vars ! 1 = Var ''max_count'' [] (Some (infer_dtype ora m))
         \<and> length vars = 3 + length ds"
proof -
  let ?dt = "infer_dtype ora m"
  have "0 + 2 + length ds \<le> length (g_input body)" using ins by simp
  from dep_vars_some[OF this, of ora] obtain xs where
    dv: "dep_vars ora (g_input body) (map Some ds) 0 = Inr xs" and lx: "length xs = length ds" by auto
  let ?cv = "Var (vi_name cond_in) (map (\<lambda>d. if d = Dim 0 then AnyDim else d) (infer_shape ora c)) (Some (infer_dtype ora c))"
  let ?vars = "[Var (vi_name it_in) [] (Some ?dt), Var ''max_count'' [] (Some ?dt), ?cv] @ xs"
  let ?loop = "loop_outputs
                 (WhileLoop ?vars (loop_cond True True (?vars ! 0) (?vars ! 1) (?vars ! 2))
                    ([Call ''add'' [?vars ! 0, scalar_const ?dt 1] [], ?vars ! 1, nc] @ nvs)
                    ([scalar_const ?dt 0, m, c] @ ds))
                 (int (length ds))"
  have ns: "int (length (g_output body)) - (1 + int (length ds)) = 0" using outs by simp
  let ?body' = "Graph (g_node body) (g_initializer body) [] (g_output body)"
  let ?sc2 = "(child_scope sc)\<lparr>sc_nodes := foldl (\<lambda>d (n, v). dict_set d n v) (sc_nodes (child_scope sc))
                                     (zip (map var_name ?vars) ?vars)\<rparr>"
  from sub obtain s3 where s3: "sub ?sc2 ?body' opset = Inr (Tuple (nc # nvs), s3)" by blast
  have items: "out_items (Tuple (nc # nvs)) [1..<1 + length ds] = Inr nvs"
  proof -
    have "map (\<lambda>i. (nc # nvs) ! i) [1..<1 + length ds] = nvs"
      using nvs by (intro nth_equalityI) (auto simp del: upt_Suc)
    moreover have "\<forall>i \<in> set [1..<1 + length ds]. i < length (nc # nvs)" using nvs by auto
    ultimately show ?thesis using out_items_tuple by metis
  qed
  have rest: "out_items (Tuple (nc # nvs)) [1 + length ds..<length (nc # nvs)] = Inr []"
    using nvs by simp
  have res: "loop_body_results ora ?dt True ?vars [] (length ds) (Tuple (nc # nvs))
      = Inr ([Call ''add'' [?vars ! 0, scalar_const ?dt 1] [], ?vars ! 1, nc] @ nvs)"
    using items rest nvs
    by (simp add: loop_body_results_def out_item_def out_count_def py_index_def Let_def del: upt_Suc)
  have "\<exists>s3 fn. loop_build ora sub sc m (Some c) (map Some ds) body opset = Inr (?loop, s3, fn)"
    unfolding loop_build_def Let_def
    using ins dv s3 res ns
    by (simp add: py_index_def py_nth_int loop_get_var_def del: free_vars.simps)
  then obtain sc' where "loop_convert ora sub sc m (Some c) (map Some ds) body opset = Inr (?loop, sc')"
    unfolding loop_convert_def by auto
  moreover have "loop_impl_v11 ora sub sc (Some m # Some c # map Some ds) attr
      = loop_convert ora sub sc m (Some c) (map Some ds) body opset"
    using loop_impl_v11_convert[OF attr op] by simp
  ultimately show ?thesis using lx by (intro exI[of _ ?vars] exI[of _ sc']) simp
qed

theorem loop_impl_v11_counted_while_witness:
  "\<exists>vars sc'. loop_impl_v11 (static_oracles []) loop_sub cf_scope
        (Some (Var ''m'' [] None) # Some (Var ''c'' [] None) # map Some []) [(''body'', AGraph loop_body)]
      = Inr (loop_outputs
               (WhileLoop vars (loop_cond True True (vars ! 0) (vars ! 1) (vars ! 2))
                  ([Call ''add'' [vars ! 0, scalar_const (infer_dtype (static_oracles []) (Var ''m'' [] None)) 1] [],
                    vars ! 1, Var ''cond_out'' [] None] @ [])
                  ([scalar_const (infer_dtype (static_oracles []) (Var ''m'' [] None)) 0, Var ''m'' [] None,
                    Var ''c'' [] None] @ []))
               (int (length [])), sc')
    \<and> vars ! 0 = Var ''i'' [] (Some (infer_dtype (static_oracles []) (Var ''m'' [] None)))
    \<and> vars ! 1 = Var ''max_count'' [] (Some (infer_dtype (static_oracles []) (Var ''m'' [] None)))
    \<and> length vars = 3 + length []"
proof -
  have "vi_name (ValueInfo ''i'' 7 []) = ''i''" by simp
  then show ?thesis
    using loop_impl_v11_counted_while[where attr = "[(''body'', AGraph loop_body)]" and body = loop_body
        and sc = cf_scope and opset = 13 and it_in = "ValueInfo ''i'' 7 []" and cond_in = "ValueInfo ''cond'' 9 []"
        and bins = "[]" and ds = "[]" and sub = loop_sub and nc = "Var ''cond_out'' [] None" and nvs = "[]"
        and ora = "static_oracles []" and m = "Var ''m'' [] None" and c = "Var ''c'' [] None"]
    by (simp add: cf_scope_def loop_body_def loop_sub_def)
qed

end
