(* ===== verification/Layer_Ops.thy ===== *)
theory Layer_Ops
  imports Converters "HOL-Library.Word"
begin

text \<open>
  More operator conversion rules of \<open>onnx.py\<close>: \<open>Conv\<close>, \<open>GlobalAveragePool\<close>,
  \<open>GlobalMaxPool\<close>, \<open>Gemm\<close>, \<open>Flatten\<close>, \<open>Reshape\<close>, \<open>Concat\<close>, \<open>Sum\<close>,
  \<open>Unsqueeze\<close>, \<open>Squeeze\<close> and \<open>Split\<close>, each a \<open>plain_conv\<close> over the oracles of
  Relay's type inference.  \<open>Reshape\<close> version 5 casts a constant shape to \<open>int32\<close>,
  modelled with \<open>32 word\<close> so that the wrap-around of \<open>astype("int32")\<close> is explicit.
  The lemmas show that \<open>Sum\<close>'s in-place loop computes the left fold of \<open>add\<close>,
  that a negative \<open>Flatten\<close> axis is the same as its non-negative counterpart, that
  \<open>Unsqueeze\<close> depends only on the multiset of its axes, the arity of \<open>Split\<close>, the
  bounds of the \<open>Reshape\<close> cast, and that a 1-D \<open>Conv\<close> without a \<open>group\<close>
  attribute is taken for a grouped one, which makes \<open>auto_pad = VALID\<close> fail.
\<close>

subsection \<open>Readers shared by the rules\<close>

text \<open>A dimension of an inferred shape as a Python value: \<open>get_const_tuple\<close> keeps
  Relay's \<open>Any\<close>, printed \<open>?\<close>.\<close>

fun dim_pyval :: "dim \<Rightarrow> pyval" where
  "dim_pyval (Dim n) = PInt n"
| "dim_pyval AnyDim = PStr ''?''"

fun py_ints :: "pyval list \<Rightarrow> int list result" where
  "py_ints [] = Inr []"
| "py_ints (PInt i # vs) = rbind (py_ints vs) (\<lambda>is. Inr (i # is))"
| "py_ints (_ # vs) = Inl (TypeErr ''int'')"

text \<open>\<open>list(attr[k])\<close> of integers: a parsed \<open>ints\<close> attribute or a tuple a rule stored.\<close>

fun attr_int_list :: "attr_value \<Rightarrow> int list result" where
  "attr_int_list (AInts xs) = Inr xs"
| "attr_int_list (APy (PTuple vs)) = py_ints vs"
| "attr_int_list _ = Inl (TypeErr ''int list'')"

text \<open>\<open>float(attr.get(k, d))\<close> and \<open>int(attr.get(k, d))\<close> (\<open>int\<close> truncates a float).\<close>

definition attr_float :: "attr_dict \<Rightarrow> string \<Rightarrow> real \<Rightarrow> real result" where
  "attr_float attr k d =
     (case map_of attr k of
        None \<Rightarrow> Inr d
      | Some (AFloat r) \<Rightarrow> Inr r
      | Some (AInt i) \<Rightarrow> Inr (of_int i)
      | Some (APy (PFloat r)) \<Rightarrow> Inr r
      | Some (APy (PInt i)) \<Rightarrow> Inr (of_int i)
      | Some _ \<Rightarrow> Inl (TypeErr ''float''))"

definition attr_int_get :: "attr_dict \<Rightarrow> string \<Rightarrow> int \<Rightarrow> int result" where
  "attr_int_get attr k d =
     (case map_of attr k of
        None \<Rightarrow> Inr d
      | Some (AFloat r) \<Rightarrow> Inr (if 0 \<le> r then \<lfloor>r\<rfloor> else - \<lfloor>- r\<rfloor>)
      | Some v \<Rightarrow> attr_int v)"

text \<open>\<open>attr.get(k) == n\<close> for an integer \<open>n\<close>; an absent key gives \<open>None\<close>.\<close>

definition attr_eq_int :: "attr_value option \<Rightarrow> int \<Rightarrow> bool" where
  "attr_eq_int v n =
     (case v of
        Some (AInt i) \<Rightarrow> i = n
      | Some (APy (PInt i)) \<Rightarrow> i = n
      | Some (AFloat r) \<Rightarrow> r = of_int n
      | Some (APy (PFloat r)) \<Rightarrow> r = of_int n
      | _ \<Rightarrow> False)"

definition float_const :: "real \<Rightarrow> string \<Rightarrow> expr" where
  "float_const r dt = Call ''const'' [] [(''value'', PFloat r), (''dtype'', PStr dt)]"

text \<open>\<open>infer_channels(x, transpose)\<close> of \<open>common.py\<close>: dimension 0 of the inferred
  shape, or dimension 1 when transposed.\<close>

definition infer_channels :: "oracles \<Rightarrow> expr \<Rightarrow> bool \<Rightarrow> pyval result" where
  "infer_channels ora x is_t =
     rbind (py_index (infer_shape ora x) (if is_t then 1 else 0)) (\<lambda>d. Inr (dim_pyval d))"

subsection \<open>\<open>Conv\<close>\<close>

definition conv_cvt :: attr_cvt where
  "conv_cvt =
     \<lparr>cvt_op = OpPicker ''conv'' [],
      cvt_transforms = [(''kernel_shape'', TRename ''kernel_size''), (''dilations'', TRenameDefault ''dilation'' (PInt 1)),
                        (''pads'', TRenameDefault ''padding'' (PInt 0)), (''group'', TRenameDefault ''groups'' (PInt 1))],
      cvt_excludes = [], cvt_disables = [], cvt_ignores = [], cvt_extras = [],
      cvt_check = Some dimension_constraint\<rparr>"

text \<open>The \<open>auto_pad\<close> branch of \<open>Conv._impl_v1\<close>, before \<open>auto_pad\<close> is popped.\<close>

definition conv_auto_pad :: "oracles \<Rightarrow> expr \<Rightarrow> attr_dict \<Rightarrow> nat \<Rightarrow> string \<Rightarrow> (attr_dict \<times> expr) result" where
  "conv_auto_pad ora data attr ndim ap =
     (if ap = ''SAME_UPPER'' \<or> ap = ''SAME_LOWER'' then
        rbind (attr_get_ints attr ''strides'' (replicate (ndim - 2) 1)) (\<lambda>strides.
        rbind (case map_of attr ''kernel_shape'' of None \<Rightarrow> Inl (KeyErr ''kernel_shape'') | Some v \<Rightarrow> attr_int_list v) (\<lambda>ks.
        rbind (attr_get_ints attr ''dilations'' (replicate (ndim - 2) 1)) (\<lambda>dil.
        Inr (attr, autopad ora data strides ks dil (int ndim) ''constant'' False ap (scalar_const ''float32'' 0)))))
      else if ap = ''VALID'' then Inr (dict_set attr ''pads'' (AInts (replicate (ndim - 2) 0)), data)
      else if ap = ''NOTSET'' then Inr (attr, data)
      else Inl (OpAttributeInvalid (''Value '' @ ap @ '' in attribute auto_pad of operator Conv is invalid.'')))"

text \<open>\<open>attr[k] = [1] + list(attr[k])\<close> when \<open>k\<close> is present.\<close>

definition prepend_one :: "attr_dict \<Rightarrow> string \<Rightarrow> attr_dict result" where
  "prepend_one attr k =
     (case map_of attr k of
        None \<Rightarrow> Inr attr
      | Some v \<Rightarrow> rbind (attr_int_list v) (\<lambda>xs. Inr (dict_set attr k (AInts (1 # xs)))))"

text \<open>The attributes of a grouped 1-D convolution rewritten for a 2-D one.\<close>

definition conv1d_as_2d :: "attr_dict \<Rightarrow> attr_dict result" where
  "conv1d_as_2d attr =
     rbind (case map_of attr ''kernel_shape'' of None \<Rightarrow> Inl (KeyErr ''kernel_shape'') | Some v \<Rightarrow> attr_int_list v) (\<lambda>ks.
     rbind (prepend_one (dict_set attr ''kernel_shape'' (AInts (1 # ks))) ''strides'') (\<lambda>a2.
     rbind (prepend_one a2 ''dilations'') (\<lambda>a3.
     case map_of a3 ''pads'' of
       None \<Rightarrow> Inr a3
     | Some v \<Rightarrow>
         rbind (attr_int_list v) (\<lambda>ps.
         rbind (py_index ps 0) (\<lambda>p0.
         rbind (py_index ps 1) (\<lambda>p1.
         Inr (dict_set a3 ''pads'' (AInts [0, p0, 0, p1]))))))))"

definition conv_impl_v1 :: "oracles \<Rightarrow> plain_conv" where
  "conv_impl_v1 ora params inputs attr =
     rbind (input_expr inputs 0) (\<lambda>data.
     rbind (input_expr inputs 1) (\<lambda>kern.
     let ndim = length (infer_shape ora data);
         kshape = infer_shape ora kern;
         attr0 = (if ''kernel_shape'' \<in> set (dict_keys attr) then attr
                  else dict_set attr ''kernel_shape'' (APy (PTuple (map dim_pyval (drop 2 kshape)))))
     in rbind (case map_of attr0 ''auto_pad'' of
                 None \<Rightarrow> Inr (attr0, data)
               | Some v \<Rightarrow>
                   rbind (attr_str v) (\<lambda>ap.
                   rbind (conv_auto_pad ora data (dict_set attr0 ''auto_pad'' (ABytes ap)) ndim ap) (\<lambda>(a, d).
                   Inr (dict_pop a ''auto_pad'', d)))) (\<lambda>(attr1, data1).
        rbind (dimension_picker ''conv'' [] attr1) (\<lambda>picked.
        let group_conv1d = (picked = ''conv1d'' \<and> \<not> attr_eq_int (map_of attr1 ''group'') 1) in
        rbind (if group_conv1d then conv1d_as_2d attr1 else Inr attr1) (\<lambda>attr2.
        rbind (py_index kshape 0) (\<lambda>k0.
        let data2 = (if group_conv1d then Call ''expand_dims'' [data1] [(''axis'', PInt 2)] else data1);
            kern2 = (if group_conv1d then Call ''expand_dims'' [kern] [(''axis'', PInt 2)] else kern);
            attr3 = dict_set attr2 ''channels'' (APy (dim_pyval k0))
        in rbind (attr_cvt_call conv_cvt [Some data2, Some kern2] attr3) (\<lambda>out.
           let out1 = (if group_conv1d then Call ''squeeze'' [out] [(''axis'', PTuple [PInt 2])] else out)
           in if length inputs = 3 then rbind (relay_op_call ''nn.bias_add'' [Some out1, inputs ! 2] []) (\<lambda>y. Inr (Single y))
              else Inr (Single out1))))))))"

subsection \<open>\<open>GlobalAveragePool\<close> and \<open>GlobalMaxPool\<close>\<close>

definition global_average_pool_impl_v1 :: "oracles \<Rightarrow> plain_conv" where
  "global_average_pool_impl_v1 ora params inputs attr =
     rbind (input_expr inputs 0) (\<lambda>x.
     let rank = length (infer_shape ora x) in
     if rank = 3 then Inr (Single (Call ''nn.global_avg_pool1d'' [x] []))
     else if rank = 4 then Inr (Single (Call ''nn.global_avg_pool2d'' [x] []))
     else if rank = 5 then Inr (Single (Call ''nn.global_avg_pool3d'' [x] []))
     else Inl (NotImplementedErr ''Global average pooling is only implemented for 1D, 2D, and 3D kernels''))"

definition global_max_pool_impl_v1 :: "oracles \<Rightarrow> plain_conv" where
  "global_max_pool_impl_v1 ora params inputs attr =
     rbind (input_expr inputs 0) (\<lambda>x.
     let rank = length (infer_shape ora x) in
     if rank = 3 then Inr (Single (Call ''nn.global_max_pool1d'' [x] []))
     else if rank = 4 then Inr (Single (Call ''nn.global_max_pool2d'' [x] []))
     else if rank = 5 then Inr (Single (Call ''nn.global_max_pool3d'' [x] []))
     else Inl (NotImplementedErr ''Global max pooling is only implemented for 1D, 2D, and 3D kernels''))"

subsection \<open>\<open>Gemm\<close>\<close>

definition transpose10 :: "expr \<Rightarrow> expr" where
  "transpose10 x = Call ''transpose'' [x] [(''axes'', PTuple [PInt 1, PInt 0])]"

definition gemm_impl_v1 :: "oracles \<Rightarrow> plain_conv" where
  "gemm_impl_v1 ora params inputs attr =
     (if length inputs \<noteq> 3 \<and> length inputs \<noteq> 2 then Inl (AssertionErr ''Gemm op take 2 or 3 inputs'')
      else
        rbind (input_expr inputs 0) (\<lambda>a.
        rbind (attr_float attr ''alpha'' 1) (\<lambda>alpha.
        rbind (attr_float attr ''beta'' 1) (\<lambda>beta.
        rbind (attr_int_get attr ''transA'' 0) (\<lambda>transA.
        rbind (attr_int_get attr ''transB'' 0) (\<lambda>transB.
        rbind (input_expr inputs 1) (\<lambda>b.
        rbind (infer_channels ora b (transB = 0)) (\<lambda>channels.
        let dtype = infer_dtype ora a;
            a1 = (if transA \<noteq> 0 then transpose10 a else a);
            b1 = (if transB = 0 then transpose10 b else b);
            a2 = Call ''nn.batch_flatten'' [a1] [];
            a3 = (if alpha \<noteq> 1 then Call ''multiply'' [a2, float_const alpha dtype] [] else a2);
            out = Call ''nn.dense'' [a3, b1] [(''units'', channels)]
        in if length inputs = 3 then
             rbind (input_expr inputs 2) (\<lambda>c.
               Inr (Single (Call ''add'' [out, Call ''multiply'' [float_const beta dtype, c] []] [])))
           else Inr (Single out)))))))))"

subsection \<open>\<open>Flatten\<close>, \<open>Reshape\<close> and \<open>Concat\<close>\<close>

text \<open>\<open>_op.strided_slice(ishape, [b], [e], [1])\<close> reduced by \<open>_op.prod(..., keepdims=True)\<close>.\<close>

definition shape_prod :: "expr \<Rightarrow> int \<Rightarrow> int \<Rightarrow> expr" where
  "shape_prod ishape b e =
     Call ''prod'' [Call ''strided_slice'' [ishape]
                      [(''begin'', PTuple [PInt b]), (''end'', PTuple [PInt e]), (''strides'', PTuple [PInt 1])]]
       [(''keepdims'', PBool True)]"

definition flatten_impl_v1 :: "oracles \<Rightarrow> plain_conv" where
  "flatten_impl_v1 ora params inputs attr =
     rbind (case map_of attr ''axis'' of None \<Rightarrow> Inr 1 | Some v \<Rightarrow> attr_int v) (\<lambda>axis0.
     rbind (input_expr inputs 0) (\<lambda>x.
     let ishape = Call ''shape_of'' [x] [] in
     rbind (py_index (infer_shape ora ishape) 0) (\<lambda>d.
     case d of
       AnyDim \<Rightarrow> Inl (TypeErr ''Any'')
     | Dim ndim \<Rightarrow>
         let axis = (if axis0 < 0 then axis0 + ndim else axis0)
         in if axis = 1 then Inr (Single (Call ''nn.batch_flatten'' [x] []))
            else
              let newshape = Call ''concatenate'' [Tuple [shape_prod ishape 0 axis, shape_prod ishape axis ndim]]
                               [(''axis'', PInt 0)]
              in Inr (Single (Call ''reshape'' [x, newshape] [])))))"

definition reshape_impl_v1 :: plain_conv where
  "reshape_impl_v1 params inputs attr =
     rbind (input_expr inputs 0) (\<lambda>x.
     case map_of attr ''shape'' of
       None \<Rightarrow> Inl (KeyErr ''shape'')
     | Some v \<Rightarrow> Inr (Single (Call ''reshape'' [x] [(''newshape'', to_pyval v)])))"

text \<open>\<open>get_name\<close> of \<open>common.py\<close>: the name hint of a variable, otherwise the empty
  string.\<close>

fun get_name :: "expr option \<Rightarrow> string" where
  "get_name (Some (Var n _ _)) = n"
| "get_name _ = []"

text \<open>\<open>astype("int32")\<close> of an \<open>int64\<close> array: each value taken modulo \<open>2^32\<close>
  and read back signed.\<close>

definition to_int32 :: "int \<Rightarrow> int" where
  "to_int32 v = sint (word_of_int v :: 32 word)"

definition reshape_impl_v5 :: plain_conv where
  "reshape_impl_v5 params inputs attr =
     rbind (onnx_input_get inputs 1) (\<lambda>shp.
     if get_name shp \<in> set (dict_keys params) then
       (case shp of
          Some (Var n _ _) \<Rightarrow>
            (case map_of params n of
               None \<Rightarrow> Inl (KeyErr n)
             | Some a \<Rightarrow> rbind (input_expr inputs 0) (\<lambda>x.
                 Inr (Single (Call ''reshape'' [x] [(''newshape'', PTuple (map (PInt \<circ> to_int32) (nd_data a)))]))))
        | _ \<Rightarrow> Inl (TypeErr ''name_hint''))
     else rbind (relay_op_call ''reshape'' inputs []) (\<lambda>y. Inr (Single y)))"

text \<open>\<open>AttrCvt(op_name="concatenate")((inputs,), args)\<close>: the inputs are one positional
  argument, a tuple.\<close>

definition concat_impl_v1 :: plain_conv where
  "concat_impl_v1 params inputs attr =
     rbind (attr_cvt_kwargs (attr_cvt_simple ''concatenate'') attr) (\<lambda>(op, kw).
     rbind (relay_args inputs) (\<lambda>xs. Inr (Single (Call op [Tuple xs] kw))))"

subsection \<open>\<open>Sum\<close>\<close>

text \<open>\<open>for in_index in range(len(inputs) - 1): inputs[in_index + 1] =
  _op.add(inputs[in_index], inputs[in_index + 1])\<close>, the list updated in place.\<close>

fun sum_loop :: "expr option list \<Rightarrow> nat list \<Rightarrow> expr option list result" where
  "sum_loop xs [] = Inr xs"
| "sum_loop xs (i # idx) =
     rbind (relay_op_call ''add'' [xs ! i, xs ! (i + 1)] []) (\<lambda>y. sum_loop (xs[i + 1 := Some y]) idx)"

definition sum_impl_v1 :: plain_conv where
  "sum_impl_v1 params inputs attr =
     rbind (sum_loop inputs [0..<length inputs - 1]) (\<lambda>xs.
     rbind (input_expr xs (int (length xs) - 1)) (\<lambda>r. Inr (Single r)))"

text \<open>The reference: the left fold of \<open>add\<close> over the inputs.\<close>

definition add_expr :: "expr \<Rightarrow> expr \<Rightarrow> expr" where
  "add_expr a b = Call ''add'' [a, b] []"

subsection \<open>\<open>Unsqueeze\<close>, \<open>Squeeze\<close> and \<open>Split\<close>\<close>

fun expand_each :: "expr \<Rightarrow> int list \<Rightarrow> expr" where
  "expand_each t [] = t"
| "expand_each t (a # axes) = expand_each (Call ''expand_dims'' [t] [(''axis'', PInt a), (''num_newaxis'', PInt 1)]) axes"

definition unsqueeze_run :: "expr \<Rightarrow> int list \<Rightarrow> expr" where
  "unsqueeze_run t axes = expand_each t (sort axes)"

definition unsqueeze_impl_v1 :: plain_conv where
  "unsqueeze_impl_v1 params inputs attr =
     rbind (input_expr inputs 0) (\<lambda>x.
     case map_of attr ''axes'' of
       None \<Rightarrow> Inl (KeyErr ''axes'')
     | Some v \<Rightarrow> rbind (attr_int_list v) (\<lambda>axes. Inr (Single (unsqueeze_run x axes))))"

text \<open>The dynamic branch of version 13: the axes tensor split into scalars, each made
  non-negative in Relay and applied in turn.\<close>

definition unsqueeze_dynamic :: "expr \<Rightarrow> expr \<Rightarrow> int \<Rightarrow> nat \<Rightarrow> expr" where
  "unsqueeze_dynamic x axes_in rank_input n =
     (let axes = Call ''split'' [axes_in] [(''indices_or_sections'', PInt (int n))]
      in foldl (\<lambda>result i.
           let axis = Call ''reshape'' [TupleGetItem axes i] [(''newshape'', PTuple [])];
               axis' = Call ''where'' [Call ''greater_equal'' [axis, scalar_const ''int64'' 0] [], axis,
                                       Call ''add'' [axis, scalar_const ''int64'' rank_input] []] []
           in Call ''expand_dims'' [result, axis'] []) x [0..<n])"

definition unsqueeze_impl_v13 :: "oracles \<Rightarrow> plain_conv" where
  "unsqueeze_impl_v13 ora params inputs attr =
     rbind (onnx_input_get inputs 1) (\<lambda>a1.
     case a1 of
       Some (Const a) \<Rightarrow> rbind (input_expr inputs 0) (\<lambda>x. Inr (Single (unsqueeze_run x (nd_data a))))
     | _ \<Rightarrow>
         rbind (input_expr inputs 0) (\<lambda>x.
         rbind (input_expr inputs 1) (\<lambda>axes_in.
         rbind (py_index (infer_shape ora axes_in) 0) (\<lambda>d.
         case d of
           AnyDim \<Rightarrow> Inl (TypeErr ''int(Any)'')
         | Dim n \<Rightarrow> Inr (Single (unsqueeze_dynamic x axes_in (int (length (infer_shape ora x))) (nat n)))))))"

definition squeeze_impl_v1 :: plain_conv where
  "squeeze_impl_v1 params inputs attr =
     rbind (input_expr inputs 0) (\<lambda>x.
     Inr (Single (Call ''squeeze'' [x] [(''axis'', case map_of attr ''axes'' of None \<Rightarrow> PNone | Some v \<Rightarrow> to_pyval v)])))"

definition squeeze_impl_v13 :: "oracles \<Rightarrow> plain_conv" where
  "squeeze_impl_v13 ora params inputs attr =
     rbind (input_expr inputs 1) (\<lambda>axis.
     let dtype = infer_dtype ora axis in
     case axis of
       Const a \<Rightarrow> rbind (input_expr inputs 0) (\<lambda>x.
                    Inr (Single (Call ''squeeze'' [x] [(''axis'', PTuple (map PInt (nd_data a)))])))
     | _ \<Rightarrow>
         rbind (input_expr inputs 0) (\<lambda>x.
         let rank = Call ''shape_of'' [Call ''shape_of'' [x] [(''dtype'', PStr dtype)]] [(''dtype'', PStr dtype)];
             axis' = Call ''where'' [Call ''less'' [axis, scalar_const dtype 0] [], Call ''add'' [axis, rank] [], axis] []
         in Inr (Single (Call ''squeeze'' [x, fold_constant ora axis'] []))))"

text \<open>\<open>indices.append(index)\<close> after \<open>index += i\<close> for every size but the last.\<close>

fun split_acc :: "int \<Rightarrow> int list \<Rightarrow> int list" where
  "split_acc idx [] = []"
| "split_acc idx (i # is) = (idx + i) # split_acc (idx + i) is"

definition split_indices :: "int list \<Rightarrow> int list" where
  "split_indices splits = split_acc 0 (butlast splits)"

text \<open>\<open>_op.split(data, indices_or_sections, axis)\<close> of Relay: a \<open>TupleWrapper\<close> of one
  more output than split points, or of the given number of sections.\<close>

definition relay_split :: "expr \<Rightarrow> pyval \<Rightarrow> int \<Rightarrow> conv_out result" where
  "relay_split x ios axis =
     (let e = Call ''split'' [x] [(''indices_or_sections'', ios), (''axis'', PInt axis)] in
      case ios of
        PTuple is \<Rightarrow> Inr (Wrapped e (length is + 1))
      | PInt n \<Rightarrow> if 0 < n then Inr (Wrapped e (nat n)) else Inl (ValueErr ''sections'')
      | _ \<Rightarrow> Inl (TypeErr ''indices_or_sections''))"

definition split_impl_v1 :: plain_conv where
  "split_impl_v1 params inputs attr =
     rbind (case map_of attr ''split'' of
              Some v \<Rightarrow> rbind (attr_int_list v) (\<lambda>splits. Inr (PTuple (map PInt (split_indices splits))))
            | None \<Rightarrow> (case map_of attr ''tvm_custom'' of
                         Some (ACustom _ n) \<Rightarrow> Inr (PInt (int n))
                       | Some _ \<Rightarrow> Inl (TypeErr ''tvm_custom'')
                       | None \<Rightarrow> Inl (KeyErr ''tvm_custom''))) (\<lambda>indices.
     rbind (input_expr inputs 0) (\<lambda>x.
     rbind (case map_of attr ''axis'' of None \<Rightarrow> Inr 0 | Some v \<Rightarrow> attr_int v) (\<lambda>axis.
     rbind (relay_split x indices axis) (\<lambda>out.
     Inr (if out_len out = 1 then Single (TupleGetItem (out_astuple out) 0) else out)))))"

subsection \<open>Activations, \<open>Pow\<close> and \<open>Shape\<close>\<close>

text \<open>Arithmetic operators on Relay expressions, as the Python operators build them.\<close>

definition bin_op :: "string \<Rightarrow> expr \<Rightarrow> expr \<Rightarrow> expr" where
  "bin_op name a b = Call name [a, b] []"

definition elu_impl_v1 :: plain_conv where
  "elu_impl_v1 params inputs attr =
     rbind (attr_float attr ''alpha'' 1) (\<lambda>alpha.
     rbind (input_expr inputs 0) (\<lambda>x.
     Inr (Single (bin_op ''add''
       (bin_op ''multiply'' (float_const (- alpha) ''float32'')
          (Call ''nn.relu'' [bin_op ''subtract'' (float_const 1 ''float32'') (Call ''exp'' [x] [])] []))
       (Call ''nn.relu'' [x] [])))))"

definition pow_impl_v13 :: "oracles \<Rightarrow> plain_conv" where
  "pow_impl_v13 ora params inputs attr =
     rbind (input_expr inputs 0) (\<lambda>x0.
     rbind (input_expr inputs 1) (\<lambda>y0.
     let output_type = infer_dtype ora x0;
         y_type = infer_dtype ora y0;
         x_type = (if take 5 output_type = ''float'' then output_type else ''float32'');
         x = (if take 5 output_type = ''float'' then x0 else Call ''cast'' [x0] [(''dtype'', PStr x_type)]);
         y = (if x_type \<noteq> y_type then Call ''cast'' [y0] [(''dtype'', PStr x_type)] else y0);
         result = Call ''power'' [x, y] []
     in Inr (Single (if x_type \<noteq> output_type then Call ''cast'' [result] [(''dtype'', PStr output_type)] else result))))"

definition reciprocal_impl_v1 :: "oracles \<Rightarrow> plain_conv" where
  "reciprocal_impl_v1 ora params inputs attr =
     rbind (input_expr inputs 0) (\<lambda>x. Inr (Single (bin_op ''divide'' (float_const 1 (infer_dtype ora x)) x)))"

definition selu_impl_v1 :: plain_conv where
  "selu_impl_v1 params inputs attr =
     rbind (attr_float attr ''alpha'' 1.67326319217681884765625) (\<lambda>alpha.
     rbind (attr_float attr ''gamma'' 1.05070102214813232421875) (\<lambda>gamma.
     rbind (input_expr inputs 0) (\<lambda>x.
     Inr (Single (bin_op ''multiply'' (float_const gamma ''float32'')
       (bin_op ''add''
          (bin_op ''multiply'' (float_const (- alpha) ''float32'')
             (Call ''nn.relu'' [bin_op ''subtract'' (float_const 1 ''float32'') (Call ''exp'' [x] [])] []))
          (Call ''nn.relu'' [x] [])))))))"

definition scaled_tanh_impl_v1 :: plain_conv where
  "scaled_tanh_impl_v1 params inputs attr =
     rbind (attr_float attr ''alpha'' 1) (\<lambda>alpha.
     rbind (attr_float attr ''beta'' 1) (\<lambda>beta.
     rbind (input_expr inputs 0) (\<lambda>x.
     Inr (Single (bin_op ''multiply'' (Call ''tanh'' [bin_op ''multiply'' (float_const beta ''float32'') x] [])
                    (float_const alpha ''float32''))))))"

text \<open>\<open>Softsign\<close> calls \<open>Absolute.get_converter(1)\<close>, the \<open>Unary\<close> rule of \<open>abs\<close>.\<close>

definition softsign_impl_v1 :: plain_conv where
  "softsign_impl_v1 params inputs attr =
     rbind (unary_impl_v1 ''abs'' params inputs attr) (\<lambda>a.
     rbind (input_expr inputs 0) (\<lambda>x.
     Inr (Single (bin_op ''divide'' x (bin_op ''add'' (float_const 1 ''float32'') (out_astuple a))))))"

definition thresholded_relu_impl_v1 :: plain_conv where
  "thresholded_relu_impl_v1 params inputs attr =
     rbind (attr_float attr ''alpha'' 1) (\<lambda>alpha.
     rbind (input_expr inputs 0) (\<lambda>x.
     let alpha_tensor = Call ''full_like'' [x] [(''fill_value'', PFloat alpha)];
         mask = Call ''cast'' [Call ''greater'' [x, alpha_tensor] []] [(''dtype'', PStr ''float32'')]
     in Inr (Single (bin_op ''multiply'' x mask))))"

text \<open>\<open>shape_of(x, dtype)\<close>: a constant when the inferred shape is static, otherwise
  Relay's \<open>shape_of\<close>.\<close>

definition shape_of_expr :: "oracles \<Rightarrow> expr \<Rightarrow> string \<Rightarrow> expr" where
  "shape_of_expr ora x dt =
     (let shp = infer_shape ora x in
      if AnyDim \<in> set shp then Call ''shape_of'' [x] [(''dtype'', PStr dt)]
      else Const \<lparr>nd_shape = [int (length shp)], nd_dtype = dt, nd_data = map (\<lambda>d. case d of Dim n \<Rightarrow> n | AnyDim \<Rightarrow> 0) shp\<rparr>)"

definition shape_impl_v1 :: "oracles \<Rightarrow> plain_conv" where
  "shape_impl_v1 ora params inputs attr =
     rbind (input_expr inputs 0) (\<lambda>x. Inr (Single (shape_of_expr ora x ''int64'')))"

subsection \<open>Shape semantics of \<open>Unsqueeze\<close>\<close>

text \<open>Shapes of Relay's \<open>expand_dims(t, axis=a, num_newaxis=1)\<close>: a new axis of extent 1 at
  position \<open>a\<close>, counted from the end when negative.\<close>

definition insert_one :: "int list \<Rightarrow> nat \<Rightarrow> int list" where
  "insert_one s a = take a s @ 1 # drop a s"

fun shape_eval :: "(string \<Rightarrow> int list option) \<Rightarrow> expr \<Rightarrow> int list option" where
  "shape_eval env (Var n _ _) = env n"
| "shape_eval env (Call f args kw) =
     (case (args, kw) of
        ([t], [(k1, PInt a), (k2, PInt m)]) \<Rightarrow>
          if f = ''expand_dims'' \<and> k1 = ''axis'' \<and> k2 = ''num_newaxis'' \<and> m = 1 then
            (case shape_eval env t of
               Some s \<Rightarrow>
                 if 0 \<le> a \<and> a \<le> int (length s) then Some (insert_one s (nat a))
                 else if - int (length s) - 1 \<le> a \<and> a < 0 then Some (insert_one s (nat (a + int (length s) + 1)))
                 else None
             | None \<Rightarrow> None)
          else None
      | _ \<Rightarrow> None)"
| "shape_eval env _ = None"

text \<open>ONNX's \<open>Unsqueeze\<close>: the output has rank \<open>r + k\<close>; dimension \<open>j\<close> is 1 when \<open>j\<close> is one
  of the axes and otherwise the input dimension after discounting the axes before \<open>j\<close>.\<close>

definition onnx_unsqueeze_shape :: "int list \<Rightarrow> int list \<Rightarrow> int list" where
  "onnx_unsqueeze_shape s axes =
     map (\<lambda>j. if int j \<in> set axes then 1 else s ! (j - length (filter (\<lambda>a. a < int j) axes)))
       [0..<length s + length axes]"

definition unsq_nat :: "int list \<Rightarrow> nat list \<Rightarrow> int list" where
  "unsq_nat s P =
     map (\<lambda>j. if j \<in> set P then 1 else s ! (j - length (filter (\<lambda>p. p < j) P))) [0..<length s + length P]"

subsection \<open>Example inputs\<close>

text \<open>Parameters holding a constant shape \<open>[2, 2^32 + 3]\<close> whose second value does not
  fit in \<open>int32\<close>.\<close>

definition wide_shape_params :: "(string, ndarray) pydict" where
  "wide_shape_params = [(''s'', \<lparr>nd_shape = [2], nd_dtype = ''int64'', nd_data = [2, 4294967299]\<rparr>)]"

definition unsq_env :: "string \<Rightarrow> int list option" where
  "unsq_env = map_of [(''x'', [3, 4])]"


subsection \<open>Lemmas\<close>

lemma sum_loop_fold:
  "\<exists>zs. sum_loop (pre @ Some a # map Some rest) [length pre..<length pre + length rest]
          = Inr (pre @ Some a # zs) \<and> length zs = length rest
          \<and> (rest \<noteq> [] \<longrightarrow> last zs = Some (foldl add_expr a rest))"
proof (induction rest arbitrary: pre a)
  case Nil
  then show ?case by simp
next
  case (Cons b rest)
  let ?k = "length pre"
  let ?xs = "pre @ Some a # map Some (b # rest)"
  let ?ys = "(pre @ [Some a]) @ Some (add_expr a b) # map Some rest"
  from Cons.IH[of "pre @ [Some a]" "add_expr a b"] obtain zs where
    zs: "sum_loop ?ys [Suc ?k..<Suc ?k + length rest] = Inr ((pre @ [Some a]) @ Some (add_expr a b) # zs)"
    "length zs = length rest" "rest \<noteq> [] \<longrightarrow> last zs = Some (foldl add_expr (add_expr a b) rest)"
    by auto
  have n0: "?xs ! ?k = Some a" and n1: "?xs ! (?k + 1) = Some b" by (simp_all add: nth_append)
  have "sum_loop ?xs [?k..<?k + length (b # rest)] = sum_loop ?xs (?k # [Suc ?k..<Suc ?k + length rest])"
    by (rule arg_cong[where f = "sum_loop ?xs"]) (simp add: upt_rec)
  also have "\<dots> = sum_loop (?xs[?k + 1 := Some (add_expr a b)]) [Suc ?k..<Suc ?k + length rest]"
    by (simp only: sum_loop.simps n0 n1) (simp add: relay_op_call_def relay_args_def add_expr_def)
  also have "?xs[?k + 1 := Some (add_expr a b)] = ?ys"
    by (simp add: list_update_append)
  finally have "sum_loop ?xs [?k..<?k + length (b # rest)] = Inr (pre @ Some a # Some (add_expr a b) # zs)"
    using zs(1) by simp
  then show ?case
    using zs(2,3) by (intro exI[of _ "Some (add_expr a b) # zs"]) auto
qed

lemma unsqueeze_run_sort: "unsqueeze_run x axes = expand_each x (sort axes)"
  by (simp add: unsqueeze_run_def)

lemma length_split_acc [simp]: "length (split_acc i xs) = length xs"
  by (induction xs arbitrary: i) auto

lemma to_int32_range: "- (2 ^ 31) \<le> to_int32 v \<and> to_int32 v < 2 ^ 31"
  unfolding to_int32_def using sint_greater_eq[where 'a = 32] sint_less[where 'a = 32] by simp

lemma to_int32_mod: "to_int32 v mod 2 ^ 32 = v mod 2 ^ 32"
  unfolding to_int32_def by (simp add: int_word_sint mod_diff_left_eq)

lemma to_int32_id: "- (2 ^ 31) \<le> v \<Longrightarrow> v < 2 ^ 31 \<Longrightarrow> to_int32 v = v"
  unfolding to_int32_def by (simp add: sint_sbintrunc' signed_take_bit_int_eq_self)

lemma map_of_key: "map_of d k = Some v \<Longrightarrow> k \<in> set (dict_keys d)"
  by (induction d) (auto split: if_splits)

lemma insert_one_nth:
  assumes "a \<le> length s" and "j < Suc (length s)"
  shows "insert_one s a ! j = (if j < a then s ! j else if j = a then 1 else s ! (j - 1))"
  using assms by (auto simp: insert_one_def nth_append min_def nth_Cons' not_less)

lemma length_insert_one: "a \<le> length s \<Longrightarrow> length (insert_one s a) = Suc (length s)"
  by (simp add: insert_one_def)

lemma foldl_insert_one:
  assumes "sorted_wrt (<) P" and "\<forall>p \<in> set P. p < length s + length P"
  shows "foldl insert_one s P = unsq_nat s P"
  using assms
proof (induction P rule: rev_induct)
  case Nil
  show ?case by (simp add: unsq_nat_def map_nth)
next
  case (snoc a P)
  have lt: "\<forall>p \<in> set P. p < a" and sP: "sorted_wrt (<) P"
    using snoc.prems(1) by (simp_all add: sorted_wrt_append)
  have a_le: "a \<le> length s + length P" using snoc.prems(2) by simp
  have bound: "\<forall>p \<in> set P. p < length s + length P" using lt a_le by fastforce
  define u where "u = unsq_nat s P"
  have fold: "foldl insert_one s (P @ [a]) = insert_one u a"
    using snoc.IH[OF sP bound] by (simp add: u_def)
  have lu: "length u = length s + length P" by (simp add: u_def unsq_nat_def)
  show ?case
  proof (rule nth_equalityI)
    show "length (foldl insert_one s (P @ [a])) = length (unsq_nat s (P @ [a]))"
      unfolding fold using a_le lu by (simp add: length_insert_one unsq_nat_def)
  next
    fix j assume "j < length (foldl insert_one s (P @ [a]))"
    then have j: "j < Suc (length s + length P)" unfolding fold using a_le lu by (simp add: length_insert_one)
    have r: "unsq_nat s (P @ [a]) ! j =
             (if j \<in> set (P @ [a]) then 1 else s ! (j - length (filter (\<lambda>p. p < j) (P @ [a]))))"
      using j by (simp add: unsq_nat_def del: upt_Suc)
    consider "j < a" | "j = a" | "a < j" by linarith
    then show "foldl insert_one s (P @ [a]) ! j = unsq_nat s (P @ [a]) ! j"
    proof cases
      case 1
      then have "j \<in> set (P @ [a]) \<longleftrightarrow> j \<in> set P" "filter (\<lambda>p. p < j) (P @ [a]) = filter (\<lambda>p. p < j) P"
        by auto
      moreover have "u ! j = (if j \<in> set P then 1 else s ! (j - length (filter (\<lambda>p. p < j) P)))"
        using 1 a_le by (simp add: u_def unsq_nat_def)
      ultimately show ?thesis unfolding fold using 1 j a_le lu r by (simp add: insert_one_nth)
    next
      case 2
      then show ?thesis unfolding fold using j a_le lu r by (simp add: insert_one_nth)
    next
      case 3
      have nj: "j \<notin> set (P @ [a])" "j - 1 \<notin> set P" using 3 lt by auto
      have fj: "filter (\<lambda>p. p < j) (P @ [a]) = P @ [a]" "filter (\<lambda>p. p < j - 1) P = P"
        using 3 lt by (auto simp: filter_id_conv)
      have "u ! (j - 1) = s ! (j - 1 - length P)"
        using 3 j nj(2) fj(2) by (simp add: u_def unsq_nat_def)
      then show ?thesis unfolding fold using 3 j a_le lu r nj(1) fj(1) by (simp add: insert_one_nth)
    qed
  qed
qed

lemma expand_each_snoc:
  "expand_each t (xs @ [a]) = Call ''expand_dims'' [expand_each t xs] [(''axis'', PInt a), (''num_newaxis'', PInt 1)]"
  by (induction xs arbitrary: t) simp_all

lemma shape_eval_expand_each:
  assumes "shape_eval env t = Some s" and "sorted_wrt (<) P" and "\<forall>p \<in> set P. p < length s + length P"
  shows "shape_eval env (expand_each t (map int P)) = Some (foldl insert_one s P)"
  using assms(2,3)
proof (induction P rule: rev_induct)
  case Nil
  then show ?case using assms(1) by simp
next
  case (snoc a P)
  have lt: "\<forall>p \<in> set P. p < a" and sP: "sorted_wrt (<) P"
    using snoc.prems(1) by (simp_all add: sorted_wrt_append)
  have a_le: "a \<le> length s + length P" using snoc.prems(2) by simp
  have bound: "\<forall>p \<in> set P. p < length s + length P" using lt a_le by fastforce
  have len: "length (foldl insert_one s P) = length s + length P"
    using foldl_insert_one[OF sP bound] by (simp add: unsq_nat_def)
  show ?case
    using snoc.IH[OF sP bound] len a_le by (simp add: expand_each_snoc)
qed

lemma length_filter_sort: "length (filter Q (sort xs)) = length (filter Q xs)"
  by (metis mset_filter mset_sort size_mset)

lemma sorted_wrt_map_nat:
  "sorted_wrt (<) xs \<Longrightarrow> \<forall>a \<in> set xs. 0 \<le> (a::int) \<Longrightarrow> sorted_wrt (<) (map nat xs)"
  by (induction xs) (auto simp: nat_less_eq_zless)

subsection \<open>Properties\<close>

text \<open>C29 (equivalence): \<open>Sum\<close>'s loop, which overwrites \<open>inputs[i + 1]\<close> with
  \<open>add(inputs[i], inputs[i + 1])\<close>, returns the left fold of \<open>add\<close> over the inputs.\<close>

theorem sum_impl_v1_fold:
  "sum_impl_v1 params (map Some (x # xs)) attr = Inr (Single (foldl add_expr x xs))"
proof -
  from sum_loop_fold[of "[]" x xs] obtain zs where
    zs: "sum_loop (Some x # map Some xs) [0..<length xs] = Inr (Some x # zs)" "length zs = length xs"
      "xs \<noteq> [] \<longrightarrow> last zs = Some (foldl add_expr x xs)" by auto
  have last: "py_nth (Some x # zs) (int (length (Some x # zs)) - 1) = Some (Some (foldl add_expr x xs))"
  proof (cases "xs = []")
    case True
    with zs(2) show ?thesis by simp
  next
    case False
    with zs have "zs \<noteq> []" "last zs = Some (foldl add_expr x xs)" by auto
    then show ?thesis using py_nth_last_of_prefix[of "Some x # zs" "[]"] by (simp add: last_ConsR)
  qed
  show ?thesis
    using zs(1) last by (simp add: sum_impl_v1_def input_expr_def onnx_input_get_def)
qed

text \<open>C30 (equivalence): a negative \<open>Flatten\<close> axis \<open>a\<close> on an input of rank \<open>n\<close>
  converts like the axis \<open>a + n\<close>.\<close>

theorem flatten_negative_axis:
  assumes "infer_shape ora (Call ''shape_of'' [x] []) = [Dim n]" and "- n \<le> a" and "a < 0"
  shows "flatten_impl_v1 ora params [Some x] [(''axis'', AInt a)]
         = flatten_impl_v1 ora params [Some x] [(''axis'', AInt (a + n))]"
  using assms by (simp add: flatten_impl_v1_def input_expr_def onnx_input_get_def py_index_def Let_def)

theorem flatten_negative_axis_witness:
  "flatten_impl_v1 (static_oracles [Dim 4]) [] [Some (Var ''x'' [] None)] [(''axis'', AInt (-1))]
   = flatten_impl_v1 (static_oracles [Dim 4]) [] [Some (Var ''x'' [] None)] [(''axis'', AInt (-1 + 4))]"
  by (rule flatten_negative_axis) (simp_all add: static_oracles_def)

text \<open>C31 (refinement): \<open>Unsqueeze\<close> v1 with distinct axes inside the output rank builds
  a chain of \<open>expand_dims\<close> whose shape, computed by Relay's shape rule for \<open>expand_dims\<close>,
  is the shape ONNX prescribes: rank \<open>r + k\<close>, a 1 at every listed axis, and the input
  dimensions in order elsewhere.\<close>

theorem unsqueeze_impl_v1_shape:
  assumes "shape_eval env x = Some s" and "distinct axes"
    and "\<forall>a \<in> set axes. 0 \<le> a \<and> a < int (length s + length axes)"
  shows "\<exists>e. unsqueeze_impl_v1 params [Some x] [(''axes'', AInts axes)] = Inr (Single e)
           \<and> shape_eval env e = Some (onnx_unsqueeze_shape s axes)"
proof -
  define P where "P = map nat (sort axes)"
  have nn: "\<forall>a \<in> set (sort axes). 0 \<le> a" using assms(3) by simp
  have mP: "map int P = sort axes" unfolding P_def map_map using nn by (intro map_idI) auto
  have "sorted_wrt (<) (sort axes)" using assms(2) by (simp add: strict_sorted_iff)
  then have sP: "sorted_wrt (<) P" using nn by (simp add: P_def sorted_wrt_map_nat)
  have lP: "length P = length axes" by (simp add: P_def)
  have bP: "\<forall>p \<in> set P. p < length s + length P" using assms(3) lP by (auto simp: P_def)
  have eq: "unsq_nat s P = onnx_unsqueeze_shape s axes"
  proof -
    have m: "j \<in> set P \<longleftrightarrow> int j \<in> set axes" for j
      using assms(3) by (force simp: P_def)
    have f: "length (filter (\<lambda>p. p < j) P) = length (filter (\<lambda>a. a < int j) axes)" for j
    proof -
      have "length (filter (\<lambda>p. p < j) P) = length (filter (\<lambda>a. nat a < j) (sort axes))"
        by (simp add: P_def filter_map comp_def)
      also have "\<dots> = length (filter (\<lambda>a. a < int j) (sort axes))"
        using nn by (metis (mono_tags, lifting) filter_cong int_eq_iff less_imp_of_nat_less nat_less_iff)
      finally show ?thesis by (simp add: length_filter_sort)
    qed
    show ?thesis by (simp add: unsq_nat_def onnx_unsqueeze_shape_def m f lP)
  qed
  have "shape_eval env (unsqueeze_run x axes) = Some (onnx_unsqueeze_shape s axes)"
    using shape_eval_expand_each[OF assms(1) sP bP] foldl_insert_one[OF sP bP] eq mP
    by (simp add: unsqueeze_run_def)
  then show ?thesis
    by (simp add: unsqueeze_impl_v1_def input_expr_def onnx_input_get_def)
qed

theorem unsqueeze_impl_v1_shape_witness:
  "\<exists>e. unsqueeze_impl_v1 [] [Some (Var ''x'' [] None)] [(''axes'', AInts [2, 0])] = Inr (Single e)
      \<and> shape_eval unsq_env e = Some [1, 3, 1, 4]"
proof -
  have "onnx_unsqueeze_shape [3, 4] [2, 0] = [1, 3, 1, 4]"
    by (simp add: onnx_unsqueeze_shape_def upt_rec)
  moreover have "\<exists>e. unsqueeze_impl_v1 [] [Some (Var ''x'' [] None)] [(''axes'', AInts [2, 0])] = Inr (Single e)
      \<and> shape_eval unsq_env e = Some (onnx_unsqueeze_shape [3, 4] [2, 0])"
    by (rule unsqueeze_impl_v1_shape) (simp_all add: unsq_env_def)
  ultimately show ?thesis by simp
qed

text \<open>C32 (type): \<open>Split\<close> with a \<open>split\<close> attribute of \<open>k\<close> sizes returns a result
  of arity \<open>k\<close>: a \<open>TupleWrapper\<close> of \<open>k\<close> outputs, or one expression when \<open>k = 1\<close>.\<close>

theorem split_impl_v1_arity:
  assumes "map_of attr ''split'' = Some (AInts ss)" and "ss \<noteq> []" and "map_of attr ''axis'' = None"
  shows "\<exists>out. split_impl_v1 params [Some x] attr = Inr out \<and> out_len out = length ss"
  using assms
  by (auto simp: split_impl_v1_def relay_split_def input_expr_def onnx_input_get_def split_indices_def Let_def)

theorem split_impl_v1_arity_witness:
  "\<exists>out. split_impl_v1 [] [Some (Var ''x'' [] None)] [(''split'', AInts [2, 3, 1])] = Inr out
         \<and> out_len out = length [2, 3, 1::int]"
  by (rule split_impl_v1_arity) simp_all

text \<open>C33 (bounds): \<open>Reshape\<close> version 5 with a shape held in the parameters casts
  it to \<open>int32\<close>: every value of the new shape lies in the \<open>int32\<close> range, agrees
  with the parameter modulo \<open>2^32\<close>, and equals it when the parameter fits.\<close>

theorem reshape_v5_int32_cast:
  assumes "map_of params n = Some a"
  shows "\<exists>vs. reshape_impl_v5 params [Some x, Some (Var n s t)] attr
               = Inr (Single (Call ''reshape'' [x] [(''newshape'', PTuple (map PInt vs))]))
         \<and> length vs = length (nd_data a)
         \<and> (\<forall>i<length vs. - (2 ^ 31) \<le> vs ! i \<and> vs ! i < 2 ^ 31 \<and> vs ! i mod 2 ^ 32 = nd_data a ! i mod 2 ^ 32
                          \<and> (- (2 ^ 31) \<le> nd_data a ! i \<and> nd_data a ! i < 2 ^ 31 \<longrightarrow> vs ! i = nd_data a ! i))"
proof -
  have "reshape_impl_v5 params [Some x, Some (Var n s t)] attr
        = Inr (Single (Call ''reshape'' [x] [(''newshape'', PTuple (map PInt (map to_int32 (nd_data a))))]))"
    using assms map_of_key[OF assms]
    by (simp add: reshape_impl_v5_def onnx_input_get_def input_expr_def comp_def)
  then show ?thesis
    using to_int32_range to_int32_mod to_int32_id by (intro exI[of _ "map to_int32 (nd_data a)"]) simp
qed

theorem reshape_v5_int32_cast_witness:
  "\<exists>vs. reshape_impl_v5 wide_shape_params [Some (Var ''x'' [] None), Some (Var ''s'' [] None)] []
          = Inr (Single (Call ''reshape'' [Var ''x'' [] None] [(''newshape'', PTuple (map PInt vs))]))
    \<and> length vs = length [2, 4294967299::int]
    \<and> (\<forall>i<length vs. - (2 ^ 31) \<le> vs ! i \<and> vs ! i < 2 ^ 31 \<and> vs ! i mod 2 ^ 32 = [2, 4294967299::int] ! i mod 2 ^ 32
          \<and> (- (2 ^ 31) \<le> [2, 4294967299::int] ! i \<and> [2, 4294967299::int] ! i < 2 ^ 31 \<longrightarrow> vs ! i = [2, 4294967299::int] ! i))"
  using reshape_v5_int32_cast[of wide_shape_params "''s''" "\<lparr>nd_shape = [2], nd_dtype = ''int64'', nd_data = [2, 4294967299]\<rparr>"
      "Var ''x'' [] None" "[]" None "[]"]
  by (simp add: wide_shape_params_def)

text \<open>C34 (error): a 1-D \<open>Conv\<close> with \<open>auto_pad = VALID\<close> and no \<open>group\<close>
  attribute fails with an \<open>IndexError\<close>: the absent \<open>group\<close> is read as \<open>None\<close>,
  unequal to 1, so the node is rewritten as a grouped 1-D convolution whose single
  \<open>VALID\<close> pad has no second element; with \<open>group = 1\<close> the same node converts.\<close>

theorem conv1d_valid_without_group:
  assumes "infer_shape ora x = [n, c, l]" and "infer_shape ora w = [m, c', k]"
  shows "conv_impl_v1 ora params [Some x, Some w] [(''auto_pad'', ABytes ''VALID''), (''kernel_shape'', AInts [kk])]
           = Inl IndexErr
         \<and> (\<exists>out. conv_impl_v1 ora params [Some x, Some w]
                   [(''auto_pad'', ABytes ''VALID''), (''kernel_shape'', AInts [kk]), (''group'', AInt 1)] = Inr out)"
  using assms
  by (simp add: conv_impl_v1_def input_expr_def onnx_input_get_def conv_auto_pad_def dimension_picker_def
        kernel_len_def attr_eq_int_def conv1d_as_2d_def prepend_one_def py_index_def attr_cvt_call_def
        attr_cvt_kwargs_def conv_cvt_def dimension_constraint_def cvt_op_name_def cvt_step_def
        default_ignores_def cvt_defaults_def relay_args_def dict_pop_def Let_def)

theorem conv1d_valid_without_group_witness:
  "conv_impl_v1 (static_oracles [Dim 1, Dim 3, Dim 8]) [] [Some (Var ''x'' [] None), Some (Var ''w'' [] None)]
     [(''auto_pad'', ABytes ''VALID''), (''kernel_shape'', AInts [3])] = Inl IndexErr
   \<and> (\<exists>out. conv_impl_v1 (static_oracles [Dim 1, Dim 3, Dim 8]) [] [Some (Var ''x'' [] None), Some (Var ''w'' [] None)]
            [(''auto_pad'', ABytes ''VALID''), (''kernel_shape'', AInts [3]), (''group'', AInt 1)] = Inr out)"
  by (rule conv1d_valid_without_group) (simp_all add: static_oracles_def)

end
