(* ===== verification/Optimizers.thy ===== *)
theory Optimizers
  imports Layer_Ops
begin

text \<open>
  The training operators of \<open>onnx.py\<close>: \<open>Adagrad\<close>, \<open>Adam\<close> and \<open>Momentum\<close>.  Each
  reads the learning rate \<open>R\<close>, the iteration count \<open>T\<close> and then groups of
  tensors (the parameters, their gradients and one or two accumulators), and builds
  one Relay expression per output from Relay's arithmetic operators (\<open>+\<close>, \<open>-\<close>,
  \<open>*\<close>, \<open>/\<close> on expressions are \<open>add\<close>, \<open>subtract\<close>, \<open>multiply\<close>, \<open>divide\<close>),
  \<open>sqrt\<close>, \<open>power\<close>, \<open>cast_like\<close> and \<open>relay.If\<close>.
  What these expressions compute is given by \<open>feval\<close>, a pointwise semantics of that
  fragment over exact reals (one element of tensors of equal shapes; rounding is not
  modelled): a division by zero, the root of a negative number and a power of a
  non-positive base have no value, and \<open>If\<close> evaluates only the branch it takes.
  The lemmas show that every output evaluates to the update rule of the ONNX operator
  documentation, applied to the values of the inputs.
\<close>

subsection \<open>Shared pieces\<close>

text \<open>A Python loop that appends the result of each iteration to a list, stopping at
  the first exception.\<close>

fun rmap :: "('a \<Rightarrow> 'b result) \<Rightarrow> 'a list \<Rightarrow> 'b list result" where
  "rmap f [] = Inr []"
| "rmap f (x # xs) = rbind (f x) (\<lambda>y. rbind (rmap f xs) (\<lambda>ys. Inr (y # ys)))"

text \<open>\<open>attr[k]\<close> of a numeric attribute that has no default.\<close>

definition attr_req_float :: "attr_dict \<Rightarrow> string \<Rightarrow> real result" where
  "attr_req_float attr k = (case map_of attr k of None \<Rightarrow> Inl (KeyErr k) | Some _ \<Rightarrow> attr_float attr k 0)"

text \<open>A value used as a Relay expression: \<open>None\<close> there raises \<open>TypeError\<close>.\<close>

definition need_expr :: "expr option \<Rightarrow> expr result" where
  "need_expr v = (case v of None \<Rightarrow> Inl (TypeErr ''NoneType'') | Some e \<Rightarrow> Inr e)"

text \<open>\<open>assert (len(inputs) - 2) % m == 0\<close>, then \<open>(len(inputs) - 2) // m\<close>: Python's
  \<open>%\<close> and \<open>//\<close> on ints are \<open>mod\<close> and \<open>div\<close>.\<close>

definition tensor_count :: "expr option list \<Rightarrow> int \<Rightarrow> string \<Rightarrow> nat result" where
  "tensor_count inputs m msg =
     (let k = int (length inputs) - 2 in
      if k mod m \<noteq> 0 then Inl (AssertionErr msg) else Inr (nat (k div m)))"

subsection \<open>\<open>Adagrad\<close>\<close>

text \<open>One iteration of the loop of \<open>Adagrad._impl_v1\<close>: the new value of
  \<open>x_i\<close> and its new accumulated squared gradient.\<close>

definition adagrad_step ::
  "real \<Rightarrow> real \<Rightarrow> real \<Rightarrow> string \<Rightarrow> expr option \<Rightarrow> expr \<Rightarrow> expr option list \<Rightarrow> nat \<Rightarrow> nat \<Rightarrow> (expr \<times> expr) result" where
  "adagrad_step decay eps nc dt r t inputs n i =
     rbind (input_expr inputs (int (i + 2))) (\<lambda>x.
     rbind (input_expr inputs (int (i + 2 + n))) (\<lambda>g.
     rbind (input_expr inputs (int (i + 2 + 2 * n))) (\<lambda>acc.
     rbind (need_expr r) (\<lambda>r.
     let rr = bin_op ''divide'' r (bin_op ''add'' (float_const 1 dt) (bin_op ''multiply'' t (float_const decay dt)));
         g_reg = bin_op ''add'' (bin_op ''multiply'' (float_const nc dt) x) g;
         acc_new = bin_op ''add'' acc (bin_op ''multiply'' g_reg g_reg);
         h = bin_op ''add'' (Call ''sqrt'' [acc_new] []) (float_const eps dt);
         x_new = bin_op ''subtract'' x (bin_op ''divide'' (bin_op ''multiply'' rr g_reg) h)
     in Inr (x_new, acc_new)))))"

definition adagrad_impl_v1 :: "oracles \<Rightarrow> plain_conv" where
  "adagrad_impl_v1 ora params inputs attr =
     rbind (attr_float attr ''decay_factor'' 0) (\<lambda>decay.
     rbind (attr_float attr ''epsilon'' 0) (\<lambda>eps.
     rbind (attr_float attr ''norm_coefficient'' 0) (\<lambda>nc.
     rbind (onnx_input_get inputs 0) (\<lambda>r.
     rbind (onnx_input_get inputs 1) (\<lambda>t.
     rbind (input_expr inputs 3) (\<lambda>x3.
     let dt = infer_dtype ora x3 in
     rbind (need_expr t) (\<lambda>t.
     let t' = Call ''cast_like'' [t, x3] [] in
     rbind (tensor_count inputs 3 ''Expect triplets for remaining inputs'') (\<lambda>n.
     rbind (rmap (adagrad_step decay eps nc dt r t' inputs n) [0..<n]) (\<lambda>outs.
     let result = map fst outs @ map snd outs in
     Inr (Wrapped (Tuple result) (length result)))))))))))"

subsection \<open>\<open>Adam\<close>\<close>

definition adam_step ::
  "real \<Rightarrow> real \<Rightarrow> real \<Rightarrow> real \<Rightarrow> real \<Rightarrow> string \<Rightarrow> expr option \<Rightarrow> expr \<Rightarrow> expr option list \<Rightarrow> nat \<Rightarrow> nat
   \<Rightarrow> (expr \<times> expr \<times> expr) result" where
  "adam_step alpha beta eps nc ncp dt r t inputs n i =
     rbind (input_expr inputs (int (i + 2))) (\<lambda>x.
     rbind (input_expr inputs (int (i + 2 + n))) (\<lambda>g.
     rbind (input_expr inputs (int (i + 2 + 2 * n))) (\<lambda>v.
     rbind (input_expr inputs (int (i + 2 + 3 * n))) (\<lambda>h.
     rbind (need_expr r) (\<lambda>r.
     let one = scalar_const dt 1;
         g_reg = bin_op ''add'' (bin_op ''multiply'' (float_const nc dt) x) g;
         v_new = bin_op ''add'' (bin_op ''multiply'' (float_const alpha dt) v)
                   (bin_op ''multiply'' (float_const (1 - alpha) dt) g_reg);
         h_new = bin_op ''add'' (bin_op ''multiply'' (float_const beta dt) h)
                   (bin_op ''multiply'' (bin_op ''multiply'' (float_const (1 - beta) dt) g_reg) g_reg);
         h_sqrt = bin_op ''add'' (Call ''sqrt'' [h_new] []) (float_const eps dt);
         true_branch = bin_op ''divide''
                   (bin_op ''multiply'' r (Call ''sqrt'' [bin_op ''subtract'' one (Call ''power'' [float_const beta dt, t] [])] []))
                   (bin_op ''subtract'' one (Call ''power'' [float_const alpha dt, t] []));
         r_adj = IfE (bin_op ''greater'' t (scalar_const dt 0)) true_branch r;
         x_new = bin_op ''subtract'' x (bin_op ''multiply'' r_adj (bin_op ''divide'' v_new h_sqrt));
         x_res = bin_op ''multiply'' (bin_op ''subtract'' one (float_const ncp dt)) x_new
     in Inr (x_res, v_new, h_new))))))"

text \<open>\<open>epsilon\<close> defaults to \<open>1e-2\<close>, as the comment of the source says the tests set it.\<close>

definition adam_impl_v1 :: "oracles \<Rightarrow> plain_conv" where
  "adam_impl_v1 ora params inputs attr =
     rbind (attr_float attr ''alpha'' (9 / 10)) (\<lambda>alpha.
     rbind (attr_float attr ''beta'' (999 / 1000)) (\<lambda>beta.
     rbind (attr_float attr ''epsilon'' (1 / 100)) (\<lambda>eps.
     rbind (attr_float attr ''norm_coefficient'' 0) (\<lambda>nc.
     rbind (attr_float attr ''norm_coefficient_post'' 0) (\<lambda>ncp.
     rbind (onnx_input_get inputs 0) (\<lambda>r.
     rbind (onnx_input_get inputs 1) (\<lambda>t.
     rbind (tensor_count inputs 4 ''Expect 4-lets for remaining inputs'') (\<lambda>n.
     rbind (input_expr inputs 3) (\<lambda>x3.
     let dt = infer_dtype ora x3 in
     rbind (need_expr t) (\<lambda>t.
     let t' = Call ''cast_like'' [t, x3] [] in
     rbind (rmap (adam_step alpha beta eps nc ncp dt r t' inputs n) [0..<n]) (\<lambda>outs.
     let result = map fst outs @ map (fst \<circ> snd) outs @ map (snd \<circ> snd) outs in
     Inr (Wrapped (Tuple result) (length result)))))))))))))"

subsection \<open>\<open>Momentum\<close>\<close>

definition momentum_step ::
  "string \<Rightarrow> real \<Rightarrow> real \<Rightarrow> real \<Rightarrow> string \<Rightarrow> expr option \<Rightarrow> expr option \<Rightarrow> expr option list \<Rightarrow> nat \<Rightarrow> nat
   \<Rightarrow> (expr \<times> expr) result" where
  "momentum_step mode alpha beta nc dt r t inputs n i =
     rbind (input_expr inputs (int (i + 2))) (\<lambda>x.
     rbind (input_expr inputs (int (i + 2 + n))) (\<lambda>g.
     rbind (input_expr inputs (int (i + 2 + 2 * n))) (\<lambda>m.
     rbind (need_expr t) (\<lambda>t.
     rbind (need_expr r) (\<lambda>r.
     let g_reg = bin_op ''add'' (bin_op ''multiply'' (float_const nc dt) x) g;
         beta_adj = IfE (bin_op ''greater'' t (scalar_const ''int64'' 0)) (float_const beta dt) (float_const 1 dt);
         m_new = bin_op ''add'' (bin_op ''multiply'' (float_const alpha dt) m) (bin_op ''multiply'' beta_adj g_reg);
         x_out = (if mode = ''standard'' then bin_op ''subtract'' x (bin_op ''multiply'' r m_new)
                  else bin_op ''subtract'' x
                         (bin_op ''multiply'' r (bin_op ''add'' g_reg (bin_op ''multiply'' (float_const alpha dt) m_new))))
     in Inr (x_out, m_new))))))"

definition momentum_impl_v1 :: "oracles \<Rightarrow> plain_conv" where
  "momentum_impl_v1 ora params inputs attr =
     rbind (attr_req_float attr ''alpha'') (\<lambda>alpha.
     rbind (attr_req_float attr ''beta'') (\<lambda>beta.
     rbind (case map_of attr ''mode'' of None \<Rightarrow> Inl (KeyErr ''mode'') | Some v \<Rightarrow> attr_str v) (\<lambda>mode.
     rbind (attr_req_float attr ''norm_coefficient'') (\<lambda>nc.
     if mode \<notin> set [''nesterov'', ''standard''] then Inl (AssertionErr (''Unknown momentum mode '' @ mode))
     else
     rbind (onnx_input_get inputs 0) (\<lambda>r.
     rbind (onnx_input_get inputs 1) (\<lambda>t.
     rbind (tensor_count inputs 3 ''Expect triplets for remaining inputs'') (\<lambda>n.
     rbind (input_expr inputs 3) (\<lambda>x3.
     let dt = infer_dtype ora x3 in
     rbind (rmap (momentum_step mode alpha beta nc dt r t inputs n) [0..<n]) (\<lambda>outs.
     let result = map fst outs @ map snd outs in
     Inr (Wrapped (Tuple result) (length result)))))))))))"

subsection \<open>Pointwise semantics of the expressions\<close>

datatype fval = FR real | FB bool

fun fcall :: "string \<Rightarrow> fval list \<Rightarrow> fval option" where
  "fcall n [FR a, FR b] =
     (if n = ''add'' then Some (FR (a + b))
      else if n = ''subtract'' then Some (FR (a - b))
      else if n = ''multiply'' then Some (FR (a * b))
      else if n = ''divide'' then (if b = 0 then None else Some (FR (a / b)))
      else if n = ''power'' then (if 0 < a then Some (FR (a powr b)) else None)
      else if n = ''greater'' then Some (FB (b < a))
      else if n = ''less'' then Some (FB (a < b))
      else if n = ''maximum'' then Some (FR (max a b))
      else if n = ''minimum'' then Some (FR (min a b))
      else if n = ''cast_like'' then Some (FR a)
      else None)"
| "fcall n [FR a] =
     (if n = ''sqrt'' then (if 0 \<le> a then Some (FR (sqrt a)) else None)
      else if n = ''negative'' then Some (FR (- a))
      else if n = ''exp'' then Some (FR (exp a))
      else if n = ''log'' then (if 0 < a then Some (FR (ln a)) else None)
      else if n = ''zeros_like'' then Some (FR 0)
      else None)"
| "fcall n [FB c, FR a, FR b] = (if n = ''where'' then Some (FR (if c then a else b)) else None)"
| "fcall n vs = None"

fun feval :: "(string \<Rightarrow> real option) \<Rightarrow> expr \<Rightarrow> fval option"
and fevals :: "(string \<Rightarrow> real option) \<Rightarrow> expr list \<Rightarrow> fval list option" where
  "feval env (Var n _ _) = map_option FR (env n)"
| "feval env (Const a) = (case (nd_shape a, nd_data a) of ([], [x]) \<Rightarrow> Some (FR (of_int x)) | _ \<Rightarrow> None)"
| "feval env (Call n args kw) =
     (if n = ''const'' then (case map_of kw ''value'' of Some (PFloat r) \<Rightarrow> Some (FR r) | _ \<Rightarrow> None)
      else case fevals env args of Some vs \<Rightarrow> fcall n vs | None \<Rightarrow> None)"
| "feval env (IfE c a b) =
     (case feval env c of Some (FB True) \<Rightarrow> feval env a | Some (FB False) \<Rightarrow> feval env b | _ \<Rightarrow> None)"
| "feval env (Tuple es) = None"
| "feval env (TupleGetItem e i) = None"
| "feval env (WhileLoop vs c body inits) = None"
| "fevals env [] = Some []"
| "fevals env (e # es) =
     (case feval env e of None \<Rightarrow> None
      | Some v \<Rightarrow> (case fevals env es of None \<Rightarrow> None | Some vs \<Rightarrow> Some (v # vs)))"

subsection \<open>The update rules of the ONNX documentation\<close>

definition momentum_rule :: "string \<Rightarrow> real \<Rightarrow> real \<Rightarrow> real \<Rightarrow> real \<Rightarrow> real \<Rightarrow> real \<Rightarrow> real \<Rightarrow> real \<Rightarrow> real \<times> real" where
  "momentum_rule mode alpha beta nc r t x g v =
     (let g_reg = nc * x + g;
          beta_adj = (if 0 < t then beta else 1);
          v_new = alpha * v + beta_adj * g_reg
      in (if mode = ''standard'' then x - r * v_new else x - r * (g_reg + alpha * v_new), v_new))"

definition adagrad_rule :: "real \<Rightarrow> real \<Rightarrow> real \<Rightarrow> real \<Rightarrow> real \<Rightarrow> real \<Rightarrow> real \<Rightarrow> real \<Rightarrow> real \<times> real" where
  "adagrad_rule decay eps nc r t x g h =
     (let rr = r / (1 + t * decay);
          g_reg = nc * x + g;
          h_new = h + g_reg * g_reg
      in (x - rr * g_reg / (sqrt h_new + eps), h_new))"

definition adam_rule ::
  "real \<Rightarrow> real \<Rightarrow> real \<Rightarrow> real \<Rightarrow> real \<Rightarrow> real \<Rightarrow> real \<Rightarrow> real \<Rightarrow> real \<Rightarrow> real \<Rightarrow> real \<Rightarrow> real \<times> real \<times> real" where
  "adam_rule alpha beta eps nc ncp r t x g v h =
     (let g_reg = nc * x + g;
          v_new = alpha * v + (1 - alpha) * g_reg;
          h_new = beta * h + (1 - beta) * g_reg * g_reg;
          r_adj = (if 0 < t then r * sqrt (1 - beta powr t) / (1 - alpha powr t) else r)
      in ((1 - ncp) * (x - r_adj * (v_new / (sqrt h_new + eps))), v_new, h_new))"

subsection \<open>Example\<close>

text \<open>One parameter \<open>x\<close> with its gradient and accumulators, all Relay variables.\<close>

definition opt_vars :: "string list \<Rightarrow> expr list" where
  "opt_vars ns = map (\<lambda>s. Var s [] None) ns"

definition opt_env :: "(string \<times> real) list \<Rightarrow> string \<Rightarrow> real option" where
  "opt_env vals = map_of vals"

subsection \<open>Lemmas\<close>

lemma rmap_Inr:
  "(\<And>x. x \<in> set xs \<Longrightarrow> f x = Inr (h x)) \<Longrightarrow> rmap f xs = Inr (map h xs)"
  by (induction xs) simp_all

lemma rmap_upt:
  assumes "\<And>i. i < n \<Longrightarrow> \<exists>p. f i = Inr p \<and> P i p"
  shows "\<exists>ps. rmap f [0..<n] = Inr ps \<and> length ps = n \<and> (\<forall>i<n. P i (ps ! i))"
proof -
  have "\<forall>i. \<exists>p. i < n \<longrightarrow> f i = Inr p \<and> P i p" using assms by blast
  then obtain h where h: "\<And>i. i < n \<Longrightarrow> f i = Inr (h i) \<and> P i (h i)" by metis
  then have "rmap f [0..<n] = Inr (map h [0..<n])" by (intro rmap_Inr) simp
  then show ?thesis using h by auto
qed

lemma input_expr_map_Some:
  "k < length es \<Longrightarrow> input_expr (map Some es) (int k) = Inr (es ! k)"
  by (simp add: input_expr_def onnx_input_get_def)

lemma tensor_count_eq:
  "0 < m \<Longrightarrow> length inputs = 2 + nat m * n \<Longrightarrow> tensor_count inputs m msg = Inr n"
  by (simp add: tensor_count_def)

lemma feval_float_const [simp]: "feval env (float_const r dt) = Some (FR r)"
  by (simp add: float_const_def)

lemma feval_scalar_const [simp]: "feval env (scalar_const dt k) = Some (FR (of_int k))"
  by (simp add: scalar_const_def)

lemma momentum_step_eval:
  assumes x: "feval env x = Some (FR xv)" and g: "feval env g = Some (FR gv)" and m: "feval env m = Some (FR mv)"
    and r: "feval env r = Some (FR rv)" and t: "feval env t = Some (FR tv)"
    and ins: "input_expr inputs (int (i + 2)) = Inr x" "input_expr inputs (int (i + 2 + n)) = Inr g"
      "input_expr inputs (int (i + 2 + 2 * n)) = Inr m"
  shows "\<exists>a b. momentum_step mode alpha beta nc dt (Some r) (Some t) inputs n i = Inr (a, b) \<and>
           feval env a = Some (FR (fst (momentum_rule mode alpha beta nc rv tv xv gv mv))) \<and>
           feval env b = Some (FR (snd (momentum_rule mode alpha beta nc rv tv xv gv mv)))"
  unfolding momentum_step_def ins rbind_simps need_expr_def option.case Let_def
  using x g m r t by (cases "0 < tv") (simp_all add: momentum_rule_def bin_op_def Let_def)


lemma adagrad_step_eval:
  assumes x: "feval env x = Some (FR xv)" and g: "feval env g = Some (FR gv)" and h: "feval env h = Some (FR hv)"
    and r: "feval env r = Some (FR rv)" and t: "feval env t = Some (FR tv)"
    and ins: "input_expr inputs (int (i + 2)) = Inr x" "input_expr inputs (int (i + 2 + n)) = Inr g"
      "input_expr inputs (int (i + 2 + 2 * n)) = Inr h"
    and d: "1 + tv * decay \<noteq> 0" and eps: "0 < eps" and hv: "0 \<le> hv"
  shows "\<exists>a b. adagrad_step decay eps nc dt (Some r) t inputs n i = Inr (a, b) \<and>
           feval env a = Some (FR (fst (adagrad_rule decay eps nc rv tv xv gv hv))) \<and>
           feval env b = Some (FR (snd (adagrad_rule decay eps nc rv tv xv gv hv)))"
proof -
  let ?gr = "nc * xv + gv"
  have hn: "0 \<le> hv + ?gr * ?gr" using hv by simp
  then have hs: "sqrt (hv + ?gr * ?gr) + eps \<noteq> 0" using eps real_sqrt_ge_zero[OF hn] by linarith
  show ?thesis
    unfolding adagrad_step_def ins rbind_simps need_expr_def option.case Let_def
    using x g h r t d hn hs by (simp add: adagrad_rule_def bin_op_def Let_def)
qed

lemma adam_step_eval:
  assumes x: "feval env x = Some (FR xv)" and g: "feval env g = Some (FR gv)" and v: "feval env v = Some (FR vv)"
    and h: "feval env h = Some (FR hv)" and r: "feval env r = Some (FR rv)" and t: "feval env t = Some (FR tv)"
    and ins: "input_expr inputs (int (i + 2)) = Inr x" "input_expr inputs (int (i + 2 + n)) = Inr g"
      "input_expr inputs (int (i + 2 + 2 * n)) = Inr v" "input_expr inputs (int (i + 2 + 3 * n)) = Inr h"
    and alpha: "0 < alpha" "alpha < 1" and beta: "0 < beta" "beta \<le> 1" and eps: "0 < eps" and hv: "0 \<le> hv"
  shows "\<exists>a b c. adam_step alpha beta eps nc ncp dt (Some r) t inputs n i = Inr (a, b, c) \<and>
           feval env a = Some (FR (fst (adam_rule alpha beta eps nc ncp rv tv xv gv vv hv))) \<and>
           feval env b = Some (FR (fst (snd (adam_rule alpha beta eps nc ncp rv tv xv gv vv hv)))) \<and>
           feval env c = Some (FR (snd (snd (adam_rule alpha beta eps nc ncp rv tv xv gv vv hv))))"
proof -
  let ?gr = "nc * xv + gv"
  have "0 \<le> (1 - beta) * ?gr * ?gr" using beta by (simp add: mult.assoc)
  then have hn: "0 \<le> beta * hv + (1 - beta) * ?gr * ?gr" using beta hv by simp
  then have hs: "sqrt (beta * hv + (1 - beta) * ?gr * ?gr) + eps \<noteq> 0" using eps real_sqrt_ge_zero[OF hn] by linarith
  show ?thesis
  proof (cases "0 < tv")
    case True
    have pb: "beta powr tv \<le> 1" using beta True by (simp add: powr_le1)
    have pa: "alpha powr tv < 1" using alpha True by (simp add: powr01_less_one)
    show ?thesis
      unfolding adam_step_def ins rbind_simps need_expr_def option.case Let_def
      using x g v h r t alpha beta hn hs pb pa True
      by (simp add: adam_rule_def bin_op_def Let_def)
  next
    case False
    show ?thesis
      unfolding adam_step_def ins rbind_simps need_expr_def option.case Let_def
      using x g v h r t hn hs False
      by (simp add: adam_rule_def bin_op_def Let_def)
  qed
qed

subsection \<open>The built expressions compute the ONNX update rules\<close>

text \<open>C38 (refinement): for any number \<open>n > 0\<close> of parameter tensors, with required
  attributes \<open>alpha\<close>, \<open>beta\<close>, \<open>norm_coefficient\<close> and a mode \<open>standard\<close> or
  \<open>nesterov\<close>, \<open>Momentum._impl_v1\<close> returns a tuple of \<open>2 n\<close> outputs, and whatever
  expressions the inputs are, when they evaluate to reals the \<open>i\<close>-th output evaluates
  to the new value of \<open>x_i\<close> and the \<open>(n + i)\<close>-th to its new momentum, as the ONNX
  update rule computes them from the input values.\<close>

theorem momentum_impl_v1_refines:
  assumes len: "length es = 2 + 3 * n" and n: "0 < n"
    and ev: "\<forall>k < length es. feval env (es ! k) = Some (FR (vs k))"
    and a: "map_of attr ''alpha'' = Some (AFloat alpha)" and b: "map_of attr ''beta'' = Some (AFloat beta)"
    and c: "map_of attr ''norm_coefficient'' = Some (AFloat nc)"
    and md: "map_of attr ''mode'' = Some (ABytes mode)" and mode: "mode = ''standard'' \<or> mode = ''nesterov''"
  shows "\<exists>outs. momentum_impl_v1 ora params (map Some es) attr = Inr (Wrapped (Tuple outs) (2 * n)) \<and>
           (\<forall>i<n. feval env (outs ! i) =
                    Some (FR (fst (momentum_rule mode alpha beta nc (vs 0) (vs 1) (vs (i + 2)) (vs (i + 2 + n)) (vs (i + 2 + 2 * n))))) \<and>
                  feval env (outs ! (n + i)) =
                    Some (FR (snd (momentum_rule mode alpha beta nc (vs 0) (vs 1) (vs (i + 2)) (vs (i + 2 + n)) (vs (i + 2 + 2 * n))))))"
proof -
  let ?dt = "infer_dtype ora (es ! 3)"
  let ?f = "momentum_step mode alpha beta nc ?dt (Some (es ! 0)) (Some (es ! 1)) (map Some es) n"
  let ?P = "\<lambda>i p. feval env (fst p) = Some (FR (fst (momentum_rule mode alpha beta nc (vs 0) (vs 1) (vs (i + 2)) (vs (i + 2 + n)) (vs (i + 2 + 2 * n))))) \<and>
                  feval env (snd p) = Some (FR (snd (momentum_rule mode alpha beta nc (vs 0) (vs 1) (vs (i + 2)) (vs (i + 2 + n)) (vs (i + 2 + 2 * n)))))"
  have "\<exists>p. ?f i = Inr p \<and> ?P i p" if i: "i < n" for i
  proof -
    have ks: "i + 2 < length es" "i + 2 + n < length es" "i + 2 + 2 * n < length es" "0 < length es" "1 < length es"
      using i len by linarith+
    show ?thesis
      using momentum_step_eval[OF ev[rule_format, OF ks(1)] ev[rule_format, OF ks(2)] ev[rule_format, OF ks(3)]
          ev[rule_format, OF ks(4)] ev[rule_format, OF ks(5)]
          input_expr_map_Some[OF ks(1)] input_expr_map_Some[OF ks(2)] input_expr_map_Some[OF ks(3)]]
      by auto
  qed
  then obtain ps where ps: "rmap ?f [0..<n] = Inr ps" "length ps = n" "\<forall>i<n. ?P i (ps ! i)"
    using rmap_upt[of n ?f ?P] by blast
  have k3: "3 < length es" using len n by linarith
  have ins: "onnx_input_get (map Some es) 0 = Inr (Some (es ! 0))" "onnx_input_get (map Some es) 1 = Inr (Some (es ! 1))"
    "input_expr (map Some es) 3 = Inr (es ! 3)"
    using k3 by (auto simp: input_expr_def onnx_input_get_def)
  have cnt: "tensor_count (map Some es) 3 ''Expect triplets for remaining inputs'' = Inr n"
    using len by (simp add: tensor_count_eq)
  have "momentum_impl_v1 ora params (map Some es) attr = Inr (Wrapped (Tuple (map fst ps @ map snd ps)) (2 * n))"
    using a b c md mode ps(1,2) by (auto simp: momentum_impl_v1_def attr_req_float_def attr_float_def ins cnt)
  moreover have "\<forall>i<n. ?P i (map fst ps ! i, (map fst ps @ map snd ps) ! (n + i))"
    using ps(2,3) by (simp add: nth_append)
  ultimately show ?thesis by (intro exI[of _ "map fst ps @ map snd ps"]) (simp add: nth_append ps(2))
qed


text \<open>C39 (refinement): for \<open>n > 0\<close> parameter tensors, \<open>0 < alpha < 1\<close>,
  \<open>0 < beta \<le> 1\<close>, \<open>epsilon > 0\<close> and non-negative accumulated squared gradients,
  \<open>Adam._impl_v1\<close> returns \<open>3 n\<close> outputs that evaluate to the new parameters, the
  new accumulated gradients and the new accumulated squared gradients of the ONNX
  update rule; in particular the bias correction is skipped, not divided by zero,
  at \<open>T = 0\<close>, as \<open>relay.If\<close> evaluates only the branch it takes.\<close>

theorem adam_impl_v1_refines:
  assumes len: "length es = 2 + 4 * n" and n: "0 < n"
    and ev: "\<forall>k < length es. feval env (es ! k) = Some (FR (vs k))"
    and a: "map_of attr ''alpha'' = Some (AFloat alpha)" and b: "map_of attr ''beta'' = Some (AFloat beta)"
    and e: "map_of attr ''epsilon'' = Some (AFloat eps)"
    and c: "map_of attr ''norm_coefficient'' = Some (AFloat nc)"
    and cp: "map_of attr ''norm_coefficient_post'' = Some (AFloat ncp)"
    and ranges: "0 < alpha" "alpha < 1" "0 < beta" "beta \<le> 1" "0 < eps"
    and hs: "\<forall>i<n. 0 \<le> vs (i + 2 + 3 * n)"
  shows "\<exists>outs. adam_impl_v1 ora params (map Some es) attr = Inr (Wrapped (Tuple outs) (3 * n)) \<and>
           (\<forall>i<n. let u = adam_rule alpha beta eps nc ncp (vs 0) (vs 1) (vs (i + 2)) (vs (i + 2 + n))
                            (vs (i + 2 + 2 * n)) (vs (i + 2 + 3 * n)) in
                  feval env (outs ! i) = Some (FR (fst u)) \<and>
                  feval env (outs ! (n + i)) = Some (FR (fst (snd u))) \<and>
                  feval env (outs ! (2 * n + i)) = Some (FR (snd (snd u))))"
proof -
  let ?dt = "infer_dtype ora (es ! 3)"
  let ?t = "Call ''cast_like'' [es ! 1, es ! 3] []"
  let ?f = "adam_step alpha beta eps nc ncp ?dt (Some (es ! 0)) ?t (map Some es) n"
  let ?u = "\<lambda>i. adam_rule alpha beta eps nc ncp (vs 0) (vs 1) (vs (i + 2)) (vs (i + 2 + n)) (vs (i + 2 + 2 * n)) (vs (i + 2 + 3 * n))"
  let ?P = "\<lambda>i p. feval env (fst p) = Some (FR (fst (?u i))) \<and> feval env (fst (snd p)) = Some (FR (fst (snd (?u i)))) \<and>
                  feval env (snd (snd p)) = Some (FR (snd (snd (?u i))))"
  have k3: "3 < length es" using len n by linarith
  have t: "feval env ?t = Some (FR (vs 1))"
    using ev[rule_format, of 1] ev[rule_format, OF k3] k3 by simp
  have "\<exists>p. ?f i = Inr p \<and> ?P i p" if i: "i < n" for i
  proof -
    have ks: "i + 2 < length es" "i + 2 + n < length es" "i + 2 + 2 * n < length es" "i + 2 + 3 * n < length es"
      "0 < length es"
      using i len by linarith+
    show ?thesis
      using adam_step_eval[OF ev[rule_format, OF ks(1)] ev[rule_format, OF ks(2)] ev[rule_format, OF ks(3)]
          ev[rule_format, OF ks(4)] ev[rule_format, OF ks(5)] t
          input_expr_map_Some[OF ks(1)] input_expr_map_Some[OF ks(2)] input_expr_map_Some[OF ks(3)]
          input_expr_map_Some[OF ks(4)] ranges hs[rule_format, OF i]]
      by auto
  qed
  then obtain ps where ps: "rmap ?f [0..<n] = Inr ps" "length ps = n" "\<forall>i<n. ?P i (ps ! i)"
    using rmap_upt[of n ?f ?P] by blast
  have ins: "onnx_input_get (map Some es) 0 = Inr (Some (es ! 0))" "onnx_input_get (map Some es) 1 = Inr (Some (es ! 1))"
    "input_expr (map Some es) 3 = Inr (es ! 3)"
    using k3 by (auto simp: input_expr_def onnx_input_get_def)
  have cnt: "tensor_count (map Some es) 4 ''Expect 4-lets for remaining inputs'' = Inr n"
    using len by (simp add: tensor_count_eq)
  let ?outs = "map fst ps @ map (fst \<circ> snd) ps @ map (snd \<circ> snd) ps"
  have "adam_impl_v1 ora params (map Some es) attr = Inr (Wrapped (Tuple ?outs) (3 * n))"
    using a b c e cp ps(1,2) by (simp add: adam_impl_v1_def attr_float_def ins cnt need_expr_def)
  moreover have "\<forall>i<n. ?P i (ps ! i)" by (rule ps(3))
  ultimately show ?thesis by (intro exI[of _ ?outs]) (simp add: nth_append ps(2) Let_def)
qed


theorem momentum_impl_v1_refines_witness:
  "\<exists>outs. momentum_impl_v1 (static_oracles []) [] (map Some (opt_vars [''R'', ''T'', ''x'', ''g'', ''v'']))
            [(''alpha'', AFloat (9 / 10)), (''beta'', AFloat (1 / 2)), (''norm_coefficient'', AFloat 0),
             (''mode'', ABytes ''standard'')] = Inr (Wrapped (Tuple outs) (2 * 1)) \<and>
     (\<forall>i<1. feval (opt_env [(''R'', 1 / 10), (''T'', 1), (''x'', 2), (''g'', 3), (''v'', 4)]) (outs ! i) =
              Some (FR (fst (momentum_rule ''standard'' (9 / 10) (1 / 2) 0 ([1 / 10, 1, 2, 3, 4] ! 0) ([1 / 10, 1, 2, 3, 4] ! 1)
                 ([1 / 10, 1, 2, 3, 4] ! (i + 2)) ([1 / 10, 1, 2, 3, 4] ! (i + 2 + 1)) ([1 / 10, 1, 2, 3, 4] ! (i + 2 + 2 * 1))))) \<and>
            feval (opt_env [(''R'', 1 / 10), (''T'', 1), (''x'', 2), (''g'', 3), (''v'', 4)]) (outs ! (1 + i)) =
              Some (FR (snd (momentum_rule ''standard'' (9 / 10) (1 / 2) 0 ([1 / 10, 1, 2, 3, 4] ! 0) ([1 / 10, 1, 2, 3, 4] ! 1)
                 ([1 / 10, 1, 2, 3, 4] ! (i + 2)) ([1 / 10, 1, 2, 3, 4] ! (i + 2 + 1)) ([1 / 10, 1, 2, 3, 4] ! (i + 2 + 2 * 1))))))"
  by (rule momentum_impl_v1_refines[where vs = "\<lambda>k. [1 / 10, 1, 2, 3, 4] ! k"])
     (simp_all add: opt_vars_def opt_env_def less_Suc_eq numeral_eq_Suc)


theorem adam_impl_v1_refines_witness:
  "\<exists>outs. adam_impl_v1 (static_oracles []) [] (map Some (opt_vars [''R'', ''T'', ''x'', ''g'', ''v'', ''h'']))
            [(''alpha'', AFloat (9 / 10)), (''beta'', AFloat (999 / 1000)), (''epsilon'', AFloat (1 / 100)),
             (''norm_coefficient'', AFloat 0), (''norm_coefficient_post'', AFloat 0)] = Inr (Wrapped (Tuple outs) (3 * 1)) \<and>
     (\<forall>i<1. let u = adam_rule (9 / 10) (999 / 1000) (1 / 100) 0 0 ([1 / 10, 0, 2, 3, 4, 5] ! 0) ([1 / 10, 0, 2, 3, 4, 5] ! 1)
                      ([1 / 10, 0, 2, 3, 4, 5] ! (i + 2)) ([1 / 10, 0, 2, 3, 4, 5] ! (i + 2 + 1))
                      ([1 / 10, 0, 2, 3, 4, 5] ! (i + 2 + 2 * 1)) ([1 / 10, 0, 2, 3, 4, 5] ! (i + 2 + 3 * 1)) in
            feval (opt_env [(''R'', 1 / 10), (''T'', 0), (''x'', 2), (''g'', 3), (''v'', 4), (''h'', 5)]) (outs ! i) = Some (FR (fst u)) \<and>
            feval (opt_env [(''R'', 1 / 10), (''T'', 0), (''x'', 2), (''g'', 3), (''v'', 4), (''h'', 5)]) (outs ! (1 + i)) = Some (FR (fst (snd u))) \<and>
            feval (opt_env [(''R'', 1 / 10), (''T'', 0), (''x'', 2), (''g'', 3), (''v'', 4), (''h'', 5)]) (outs ! (2 * 1 + i)) = Some (FR (snd (snd u))))"
  by (rule adam_impl_v1_refines[where vs = "\<lambda>k. [1 / 10, 0, 2, 3, 4, 5] ! k"])
     (simp_all add: opt_vars_def opt_env_def less_Suc_eq numeral_eq_Suc)

end
