(* ===== verification/Tensor_Ops.thy ===== *)
theory Tensor_Ops
  imports Optimizers
begin

text \<open>
  Tensor operator rules of \<open>onnx.py\<close>: \<open>Softmax\<close>, \<open>LogSoftmax\<close>, \<open>Where\<close>,
  \<open>Expand\<close>, \<open>Clip\<close> (version 11), \<open>Slice\<close>, \<open>MatMul\<close> and \<open>ConvTranspose\<close>, at the level of the
  Relay expressions they build, over the oracles of Relay's type inference.
  The lemmas show that a rank-2 \<open>Softmax\<close> converts alike in versions 1 and 13; that
  \<open>Expand\<close> never pads the target shape when it has the lower rank (the second
  branch of \<open>expand_shape\<close> repeats the first condition); that \<open>Clip\<close> version 11
  loses a constant upper bound when the lower bound is not a constant, and both bounds
  when only the lower one is; that \<open>Slice._common\<close> puts each start and end at its
  axis; that \<open>MatMul\<close> reshapes a 1-D second operand of a batched product to two
  dimensions, not three; and, for \<open>ConvTranspose\<close> version 11, that a \<open>group\<close>
  attribute meets the \<open>groups\<close> the rule sets itself (an attribute conflict in
  \<open>AttrCvt\<close>), that \<open>SAME\<close> padding requires a \<open>strides\<close> attribute, and that its
  \<open>SAME_UPPER\<close> pads put the larger half of each total first.
\<close>

subsection \<open>Readers\<close>

text \<open>An extent of an inferred shape where the code compares it as an int.\<close>

fun dim_int :: "dim \<Rightarrow> int result" where
  "dim_int (Dim n) = Inr n"
| "dim_int AnyDim = Inl (TypeErr ''Any'')"

text \<open>\<open>attr.get(k, d)\<close> of an integer attribute.\<close>

definition attr_get_int :: "attr_dict \<Rightarrow> string \<Rightarrow> int \<Rightarrow> int result" where
  "attr_get_int attr k d = (case map_of attr k of None \<Rightarrow> Inr d | Some v \<Rightarrow> attr_int v)"

text \<open>\<open>_expr.const([1] * k, dtype)\<close>.\<close>

definition ones_const :: "string \<Rightarrow> int \<Rightarrow> expr" where
  "ones_const dt k = Const \<lparr>nd_shape = [int (nat k)], nd_dtype = dt, nd_data = replicate (nat k) 1\<rparr>"

text \<open>\<open>_op.concatenate([a, b], axis=0)\<close>.\<close>

definition concat0 :: "expr \<Rightarrow> expr \<Rightarrow> expr" where
  "concat0 a b = Call ''concatenate'' [Tuple [a, b]] [(''axis'', PInt 0)]"

subsection \<open>\<open>Softmax\<close> and \<open>LogSoftmax\<close>\<close>

text \<open>The axis of both rules: \<open>attr.get("axis", d)\<close>, made non-negative with the
  rank of the input; version 1 reduces over \<open>range(axis, ndim)\<close>, version 13 over
  \<open>[axis]\<close>.\<close>

definition softmax_axes :: "oracles \<Rightarrow> expr \<Rightarrow> attr_dict \<Rightarrow> int \<Rightarrow> bool \<Rightarrow> int list result" where
  "softmax_axes ora x attr d all_after =
     rbind (attr_get_int attr ''axis'' d) (\<lambda>axis0.
     let ndim = int (length (infer_shape ora x));
         axis = (if axis0 < 0 then axis0 + ndim else axis0)
     in Inr (if all_after then [axis..ndim - 1] else [axis]))"

definition reduce_keep :: "string \<Rightarrow> expr \<Rightarrow> int list \<Rightarrow> expr" where
  "reduce_keep n x axes = Call n [x] [(''axis'', PTuple (map PInt axes)), (''keepdims'', PBool True)]"

definition softmax_calc :: "expr \<Rightarrow> int list \<Rightarrow> expr" where
  "softmax_calc x axes =
     (let m = reduce_keep ''max'' x axes;
          e = Call ''exp'' [bin_op ''subtract'' x m] []
      in bin_op ''divide'' e (reduce_keep ''sum'' e axes))"

definition softmax_impl_v1 :: "oracles \<Rightarrow> plain_conv" where
  "softmax_impl_v1 ora params inputs attr =
     rbind (input_expr inputs 0) (\<lambda>x.
     rbind (softmax_axes ora x attr 1 True) (\<lambda>axes. Inr (Single (softmax_calc x axes))))"

definition softmax_impl_v13 :: "oracles \<Rightarrow> plain_conv" where
  "softmax_impl_v13 ora params inputs attr =
     rbind (input_expr inputs 0) (\<lambda>x.
     rbind (softmax_axes ora x attr (-1) False) (\<lambda>axes. Inr (Single (softmax_calc x axes))))"

definition log_softmax_run_calculation :: "expr \<Rightarrow> int list \<Rightarrow> expr" where
  "log_softmax_run_calculation x axes =
     (let m = reduce_keep ''max'' x axes;
          e = Call ''exp'' [bin_op ''subtract'' x m] [];
          s = reduce_keep ''sum'' e axes
      in bin_op ''subtract'' (bin_op ''subtract'' x m) (Call ''log'' [s] []))"

definition log_softmax_impl_v1 :: "oracles \<Rightarrow> plain_conv" where
  "log_softmax_impl_v1 ora params inputs attr =
     rbind (input_expr inputs 0) (\<lambda>x.
     rbind (softmax_axes ora x attr 1 True) (\<lambda>axes. Inr (Single (log_softmax_run_calculation x axes))))"

definition log_softmax_impl_v13 :: "oracles \<Rightarrow> plain_conv" where
  "log_softmax_impl_v13 ora params inputs attr =
     rbind (input_expr inputs 0) (\<lambda>x.
     rbind (softmax_axes ora x attr (-1) False) (\<lambda>axes. Inr (Single (log_softmax_run_calculation x axes))))"

subsection \<open>\<open>Where\<close>\<close>

text \<open>The broadcast shape: the shape of the first input of the largest rank, and when
  several inputs have that rank, the \<open>maximum\<close> of it with each of their shapes.\<close>

definition where_shape :: "oracles \<Rightarrow> expr list \<Rightarrow> expr" where
  "where_shape ora xs =
     (let ranks = map (\<lambda>e. length (infer_shape ora e)) xs;
          max_rank = Max (set ranks);
          idxs = filter (\<lambda>i. ranks ! i = max_rank) [0..<length xs];
          bs = shape_of_expr ora (xs ! hd idxs) ''int64''
      in if 1 < length idxs
         then foldl (\<lambda>b i. Call ''maximum'' [b, shape_of_expr ora (xs ! i) ''int64''] []) bs idxs
         else bs)"

definition where_impl_v9 :: "oracles \<Rightarrow> plain_conv" where
  "where_impl_v9 ora params inputs attr =
     rbind (input_expr inputs 0) (\<lambda>c.
     rbind (input_expr inputs 1) (\<lambda>x.
     rbind (input_expr inputs 2) (\<lambda>y.
     let bs = fold_constant ora (where_shape ora [c, x, y]);
         bc = (\<lambda>e. Call ''broadcast_to'' [e, bs] [])
     in Inr (Single (Call ''where'' [bc c, bc x, bc y] [])))))"

subsection \<open>\<open>Expand\<close>\<close>

text \<open>\<open>expand_shape\<close> of \<open>Expand._impl_v8\<close>, with its two branches as written: the
  second tests \<open>new_dims > in_dims\<close>, the condition of the first.\<close>

definition expand_shape :: "oracles \<Rightarrow> string \<Rightarrow> expr \<Rightarrow> expr \<Rightarrow> expr result" where
  "expand_shape ora dt in_shape shape =
     rbind (py_index (infer_shape ora in_shape) 0) (\<lambda>d1. rbind (dim_int d1) (\<lambda>in_dims.
     rbind (py_index (infer_shape ora shape) 0) (\<lambda>d2. rbind (dim_int d2) (\<lambda>new_dims.
     if in_dims < new_dims
     then Inr (Call ''maximum'' [concat0 (ones_const dt (new_dims - in_dims)) in_shape, shape] [])
     else if new_dims > in_dims
     then Inr (Call ''maximum'' [in_shape, concat0 (ones_const dt (in_dims - new_dims)) shape] [])
     else Inr (Call ''maximum'' [in_shape, shape] [])))))"

definition expand_impl_v8 :: "oracles \<Rightarrow> plain_conv" where
  "expand_impl_v8 ora params inputs attr =
     rbind (input_expr inputs 1) (\<lambda>shape.
     let dt = infer_dtype ora shape in
     rbind (input_expr inputs 0) (\<lambda>x.
     let in_shape = shape_of_expr ora x dt in
     rbind (expand_shape ora dt in_shape shape) (\<lambda>s.
     Inr (Single (Call ''broadcast_to'' [x, fold_constant ora s] [])))))"

subsection \<open>\<open>Clip\<close>\<close>

definition clip_cvt :: attr_cvt where
  "clip_cvt =
     \<lparr>cvt_op = OpStr ''clip'', cvt_transforms = [(''min'', TRename ''a_min''), (''max'', TRename ''a_max'')],
      cvt_excludes = [], cvt_disables = [], cvt_ignores = [], cvt_extras = [], cvt_check = None\<rparr>"

definition clip_convert_attributes :: "expr option list \<Rightarrow> attr_dict \<Rightarrow> conv_out result" where
  "clip_convert_attributes inputs attr = rbind (attr_cvt_call clip_cvt inputs attr) (\<lambda>e. Inr (Single e))"

text \<open>\<open>c.data.numpy().item()\<close> of a constant: a Python float for a float dtype, an
  int otherwise; \<open>ValueError\<close> unless it holds one element.\<close>

definition const_item :: "ndarray \<Rightarrow> pyval result" where
  "const_item a =
     (case nd_data a of
        [v] \<Rightarrow> Inr (if nd_dtype a \<in> set [''float16'', ''float32'', ''float64''] then PFloat (of_int v) else PInt v)
      | _ \<Rightarrow> Inl (ValueErr ''item''))"

text \<open>One bound moved from a constant input to the attributes, the inputs cut to
  \<open>inputs[0:k]\<close>.\<close>

definition clip_take_const :: "expr option list \<Rightarrow> attr_dict \<Rightarrow> nat \<Rightarrow> string \<Rightarrow> (attr_dict \<times> expr option list) result" where
  "clip_take_const inputs attr k name =
     (case inputs ! k of
        Some (Const a) \<Rightarrow> rbind (const_item a) (\<lambda>v. Inr (dict_set attr name (APy v), onnx_input_slice inputs 0 (Some k)))
      | _ \<Rightarrow> Inr (attr, inputs))"

text \<open>\<open>result = op(result, inputs[i + 1])\<close> for \<open>maximum\<close> then \<open>minimum\<close>, when
  \<open>i < len(inputs) - 1\<close> and the input is present.\<close>

definition clip_step :: "expr option list \<Rightarrow> expr option \<Rightarrow> nat \<Rightarrow> string \<Rightarrow> expr option result" where
  "clip_step inputs result i opn =
     (if int i < int (length inputs) - 1 then
        (case inputs ! (i + 1) of
           None \<Rightarrow> Inr result
         | Some y \<Rightarrow> rbind (need_expr result) (\<lambda>r. Inr (Some (Call opn [r, y] []))))
      else Inr result)"

definition clip_impl_v11 :: plain_conv where
  "clip_impl_v11 params inputs attr =
     rbind (if length inputs = 3 then clip_take_const inputs attr 2 ''max'' else Inr (attr, inputs)) (\<lambda>(attr1, inputs1).
     rbind (if 2 \<le> length inputs1 then clip_take_const inputs1 attr1 1 ''min'' else Inr (attr1, inputs1)) (\<lambda>(attr2, inputs2).
     if ''min'' \<in> set (dict_keys attr2) \<and> ''max'' \<in> set (dict_keys attr2) then clip_convert_attributes inputs2 attr2
     else if 3 < length inputs2 then Inl (AssertionErr ''Clip-11 takes up to 3 inputs, input, min, max'')
     else
       rbind (onnx_input_get inputs2 0) (\<lambda>r0.
       rbind (clip_step inputs2 r0 0 ''maximum'') (\<lambda>r1.
       rbind (clip_step inputs2 r1 1 ''minimum'') (\<lambda>r2.
       rbind (need_expr r2) (\<lambda>r. Inr (Single r)))))))"

subsection \<open>\<open>Slice\<close>\<close>

text \<open>\<open>xs[i] = v\<close> on a Python list: a negative index counts from the end, an index
  out of range raises \<open>IndexError\<close>.\<close>

definition py_set :: "'a list \<Rightarrow> int \<Rightarrow> 'a \<Rightarrow> 'a list result" where
  "py_set xs i v =
     (let pos = (if 0 \<le> i then i else i + int (length xs))
      in if pos < 0 \<or> int (length xs) \<le> pos then Inl IndexErr else Inr (xs[nat pos := v]))"

text \<open>The loop of \<open>Slice._common\<close>: \<open>new_starts[axis] = starts[i]\<close> and
  \<open>new_ends[axis] = ends[i]\<close> for \<open>i, axis in enumerate(axes)\<close>.\<close>

fun slice_fill :: "int list \<Rightarrow> int list \<Rightarrow> nat \<Rightarrow> int list \<Rightarrow> int list \<Rightarrow> int list \<Rightarrow> (int list \<times> int list) result" where
  "slice_fill starts ends i [] ns ne = Inr (ns, ne)"
| "slice_fill starts ends i (a # axes) ns ne =
     rbind (py_index starts (int i)) (\<lambda>s. rbind (py_set ns a s) (\<lambda>ns'.
     rbind (py_index ends (int i)) (\<lambda>e. rbind (py_set ne a e) (\<lambda>ne'.
     slice_fill starts ends (i + 1) axes ns' ne'))))"

text \<open>\<open>Slice._common\<close>: \<open>max\<close> of no axes raises \<open>ValueError\<close>; the ends default to
  \<open>np.iinfo(np.int32).max\<close>.\<close>

definition slice_common :: "int list \<Rightarrow> int list \<Rightarrow> int list \<Rightarrow> (int list \<times> int list \<times> int list) result" where
  "slice_common starts ends axes =
     (if axes = [] then Inl (ValueErr ''max() arg is an empty sequence'')
      else
        let n = Max (set axes) + 1 in
        rbind (slice_fill starts ends 0 axes (replicate (nat n) 0) (replicate (nat n) 2147483647)) (\<lambda>(ns, ne).
        Inr (ns, ne, [0..n - 1])))"

text \<open>An int attribute stored back as a one-element tuple.\<close>

fun tuple_of_int :: "attr_value \<Rightarrow> attr_value" where
  "tuple_of_int (AInt i) = APy (PTuple [PInt i])"
| "tuple_of_int v = v"

definition attr_req :: "attr_dict \<Rightarrow> string \<Rightarrow> attr_value result" where
  "attr_req attr k = (case map_of attr k of None \<Rightarrow> Inl (KeyErr k) | Some v \<Rightarrow> Inr v)"

definition slice_impl_v1 :: plain_conv where
  "slice_impl_v1 params inputs attr =
     rbind (attr_req attr ''starts'') (\<lambda>sv.
     rbind (case sv of
              AInt i \<Rightarrow> rbind (attr_req attr ''ends'') (\<lambda>ev.
                          Inr (dict_set (dict_set attr ''starts'' (APy (PTuple [PInt i]))) ''ends'' (APy (PTuple [to_pyval ev]))))
            | _ \<Rightarrow> Inr attr) (\<lambda>attr1.
     rbind (case map_of attr1 ''axes'' of
              None \<Rightarrow> Inr attr1
            | Some axv \<Rightarrow>
                let attr1' = dict_set attr1 ''axes'' (tuple_of_int axv) in
                rbind (attr_req attr1' ''starts'') (\<lambda>sv1. rbind (attr_int_list sv1) (\<lambda>starts.
                rbind (attr_req attr1' ''ends'') (\<lambda>ev1. rbind (attr_int_list ev1) (\<lambda>ends.
                rbind (attr_int_list (tuple_of_int axv)) (\<lambda>axes.
                rbind (slice_common starts ends axes) (\<lambda>(ns, ne, na).
                Inr (dict_set (dict_set (dict_set attr1' ''axes'' (AInts na)) ''starts'' (AInts ns)) ''ends'' (AInts ne)))))))))
       (\<lambda>attr2.
     rbind (attr_req attr2 ''starts'') (\<lambda>sv2. rbind (attr_int_list sv2) (\<lambda>b.
     rbind (attr_req attr2 ''ends'') (\<lambda>ev2. rbind (attr_int_list ev2) (\<lambda>e.
     rbind (input_expr inputs 0) (\<lambda>x.
     Inr (Single (Call ''strided_slice'' [x] [(''begin'', PTuple (map PInt b)), (''end'', PTuple (map PInt e))]))))))))))"

text \<open>\<open>Slice._impl_v10\<close>: a static slice when the axes, starts, ends (and steps) are
  constants and the sliced extents are static; otherwise the begin, end and step
  vectors are scattered into full-rank ones at run time.\<close>

definition is_const :: "expr option \<Rightarrow> bool" where
  "is_const v = (case v of Some (Const _) \<Rightarrow> True | _ \<Rightarrow> False)"

definition const_data :: "expr option \<Rightarrow> int list" where
  "const_data v = (case v of Some (Const a) \<Rightarrow> nd_data a | _ \<Rightarrow> [])"

definition scatter0 :: "expr \<Rightarrow> expr \<Rightarrow> expr \<Rightarrow> expr" where
  "scatter0 d idx upd = Call ''scatter'' [d, idx, upd] [(''axis'', PInt 0)]"

definition dims_static :: "dim list \<Rightarrow> int list \<Rightarrow> bool result" where
  "dims_static ishape axs =
     rbind (rmap (\<lambda>i. py_index ishape i) axs) (\<lambda>ds. Inr (\<forall>d\<in>set ds. d \<noteq> AnyDim))"

text \<open>The \<open>axes is not None\<close> branch of the dynamic case: starts, ends and steps
  scattered at the axes into vectors of the input's rank.\<close>

definition slice_scatter ::
  "oracles \<Rightarrow> expr \<Rightarrow> int \<Rightarrow> expr \<Rightarrow> expr \<Rightarrow> expr option \<Rightarrow> expr \<Rightarrow> expr \<times> expr \<times> expr option" where
  "slice_scatter ora x rank s0 e0 steps ax =
     (let data_shape = shape_of_expr ora x (infer_dtype ora e0);
          fill = (\<lambda>v dt. Const \<lparr>nd_shape = [rank], nd_dtype = dt, nd_data = replicate (nat rank) v\<rparr>);
          s1 = scatter0 (fill 0 (infer_dtype ora s0)) ax s0;
          e1 = scatter0 data_shape ax e0
      in (s1, e1, map_option (\<lambda>st. scatter0 (fill 1 (infer_dtype ora st)) ax st) steps))"

definition slice_impl_v10 :: "oracles \<Rightarrow> plain_conv" where
  "slice_impl_v10 ora params inputs attr =
     rbind (onnx_input_get inputs 1) (\<lambda>starts.
     rbind (onnx_input_get inputs 2) (\<lambda>ends.
     rbind (onnx_input_get inputs 3) (\<lambda>axes.
     rbind (onnx_input_get inputs 4) (\<lambda>steps.
     rbind (input_expr inputs 0) (\<lambda>x.
     let ishape = infer_shape ora x;
         rank = int (length ishape);
         stat = (axes \<noteq> None \<and> is_const axes \<and> is_const starts \<and> is_const ends \<and> (steps = None \<or> is_const steps))
     in rbind (if stat then dims_static ishape (const_data axes) else Inr False) (\<lambda>allst.
        if stat \<and> allst then
          Inr (Single (Call ''strided_slice''
                 [x, int64_const (const_data starts), int64_const (const_data ends),
                  int64_const (if steps = None then replicate (length (const_data starts)) 1 else const_data steps)]
                 [(''axes'', PTuple (map PInt (const_data axes)))]))
        else
          rbind (need_expr starts) (\<lambda>s0. rbind (need_expr ends) (\<lambda>e0.
          let (s1, e1, st1) = (case axes of None \<Rightarrow> (s0, e0, steps) | Some ax \<Rightarrow> slice_scatter ora x rank s0 e0 steps ax);
              st2 = (case st1 of
                       None \<Rightarrow> Const \<lparr>nd_shape = [rank], nd_dtype = infer_dtype ora s1, nd_data = replicate (nat rank) 1\<rparr>
                     | Some st \<Rightarrow> st)
          in Inr (Single (Call ''strided_slice''
                    [x, fold_constant ora s1, fold_constant ora e1, fold_constant ora st2] []))))))))))"

subsection \<open>\<open>MatMul\<close>\<close>

text \<open>\<open>_op.strided_slice(x, [b], [e])\<close>.\<close>

definition slice1 :: "expr \<Rightarrow> int \<Rightarrow> int \<Rightarrow> expr" where
  "slice1 x b e = Call ''strided_slice'' [x] [(''begin'', PTuple [PInt b]), (''end'', PTuple [PInt e])]"

text \<open>\<open>flatten_to_nd\<close> of \<open>MatMul._impl_v1\<close>: reshape to \<open>[-1] + x_shape[ndims - nd + 1:]\<close>.\<close>

definition flatten_to_nd :: "oracles \<Rightarrow> expr \<Rightarrow> expr \<Rightarrow> int \<Rightarrow> expr result" where
  "flatten_to_nd ora x x_shape nd =
     rbind (py_index (infer_shape ora x_shape) 0) (\<lambda>d. rbind (dim_int d) (\<lambda>ndims.
     if ndims = nd then Inr x
     else
       let newshape = concat0 (Const \<lparr>nd_shape = [1], nd_dtype = infer_dtype ora x_shape, nd_data = [-1]\<rparr>)
                         (slice1 x_shape (ndims - nd + 1) ndims)
       in Inr (Call ''reshape'' [x, fold_constant ora newshape] [])))"

text \<open>\<open>MatMul._impl_v1\<close>; \<open>use_nt\<close> is \<open>ONNX_DEFAULT_CONFIGS["use_nt_batch_matmul"]\<close>.\<close>

definition matmul_impl_v1 :: "bool \<Rightarrow> oracles \<Rightarrow> plain_conv" where
  "matmul_impl_v1 use_nt ora params inputs attr =
     (if length inputs \<noteq> 2 then Inl (AssertionErr ''MatMul op take 2 inputs'')
      else
        rbind (input_expr inputs 0) (\<lambda>a. rbind (input_expr inputs 1) (\<lambda>b.
        let a_shape = shape_of_expr ora a ''int64''; b_shape = shape_of_expr ora b ''int64'' in
        rbind (py_index (infer_shape ora a_shape) 0) (\<lambda>da. rbind (dim_int da) (\<lambda>a_rank.
        rbind (py_index (infer_shape ora b_shape) 0) (\<lambda>db. rbind (dim_int db) (\<lambda>b_rank.
        if 2 < a_rank \<or> 2 < b_rank then
          rbind (if b_rank = 2 \<and> AnyDim \<notin> set (infer_shape ora b)
                 then rbind (flatten_to_nd ora a a_shape 2) (\<lambda>a2. Inr (Call ''nn.dense'' [a2, Call ''transpose'' [b] []] []))
                 else rbind (flatten_to_nd ora a a_shape 3) (\<lambda>a3. rbind (flatten_to_nd ora b b_shape 3) (\<lambda>b3.
                        Inr (if use_nt
                             then Call ''nn.batch_matmul'' [a3, Call ''transpose'' [b3] [(''axes'', PTuple [PInt 0, PInt 2, PInt 1])]] []
                             else Call ''nn.batch_matmul'' [a3, b3] [(''transpose_b'', PBool False)]))))
            (\<lambda>output.
          let out_batch =
                (if b_rank < a_rank then slice1 a_shape 0 (a_rank - 2)
                 else if a_rank < b_rank then slice1 b_shape 0 (b_rank - 2)
                 else Call ''concatenate''
                        [Tuple (map (\<lambda>i. Call ''maximum'' [slice1 a_shape i (i + 1), slice1 b_shape i (i + 1)] [])
                                    [0..a_rank - 3])] [(''axis'', PInt 0)]);
              final_shape = Call ''concatenate''
                        [Tuple [out_batch, slice1 a_shape (a_rank - 2) (a_rank - 1), slice1 b_shape (b_rank - 1) b_rank]]
                        [(''axis'', PInt 0)]
          in Inr (Single (Call ''reshape'' [output, fold_constant ora final_shape] [])))
        else Inr (Single (Call ''nn.dense'' [a, transpose10 b] [])))))))))"

subsection \<open>\<open>ConvTranspose\<close>\<close>

definition conv_transpose_cvt :: attr_cvt where
  "conv_transpose_cvt =
     \<lparr>cvt_op = OpPicker ''conv'' ''_transpose'',
      cvt_transforms = [(''kernel_shape'', TRename ''kernel_size''), (''dilations'', TRenameDefault ''dilation'' (PInt 1)),
                        (''pads'', TRenameDefault ''padding'' (PInt 0)), (''group'', TRenameDefault ''groups'' (PInt 1))],
      cvt_excludes = [], cvt_disables = [''output_shape''], cvt_ignores = [], cvt_extras = [],
      cvt_check = Some dimension_constraint\<rparr>"

text \<open>The attributes both versions set before padding: \<open>channels\<close> from dimension 1
  of the weight's shape, \<open>kernel_shape\<close> from its spatial dimensions when absent, and
  \<open>groups\<close> from \<open>attr.get("group", 1)\<close>.  The result carries the data input and its
  rank.\<close>

definition conv_transpose_prep :: "oracles \<Rightarrow> expr option list \<Rightarrow> attr_dict \<Rightarrow> (attr_dict \<times> expr \<times> nat) result" where
  "conv_transpose_prep ora inputs attr =
     rbind (input_expr inputs 1) (\<lambda>w.
     let wshape = infer_shape ora w in
     rbind (py_index wshape 1) (\<lambda>c.
     let attr1 = dict_set attr ''channels'' (APy (dim_pyval c));
         groups = (case map_of attr1 ''group'' of None \<Rightarrow> APy (PInt 1) | Some g \<Rightarrow> g);
         attr2 = (if ''kernel_shape'' \<in> set (dict_keys attr1) then attr1
                  else dict_set attr1 ''kernel_shape'' (APy (PTuple (map dim_pyval (drop 2 wshape)))));
         attr3 = dict_set attr2 ''groups'' groups
     in rbind (input_expr inputs 0) (\<lambda>data. Inr (attr3, data, length (infer_shape ora data)))))"

text \<open>The \<open>auto_pad\<close> branch of \<open>ConvTranspose._impl_v1\<close>: \<open>autopad\<close> with
  \<open>deconv=True\<close>.\<close>

definition conv_transpose_auto_pad_v1 :: "oracles \<Rightarrow> expr \<Rightarrow> attr_dict \<Rightarrow> nat \<Rightarrow> string \<Rightarrow> (attr_dict \<times> expr) result" where
  "conv_transpose_auto_pad_v1 ora data attr ndim ap =
     (if ap = ''SAME_UPPER'' \<or> ap = ''SAME_LOWER'' then
        rbind (attr_get_ints attr ''strides'' (replicate (ndim - 2) 1)) (\<lambda>strides.
        rbind (attr_req attr ''kernel_shape'') (\<lambda>kv. rbind (attr_int_list kv) (\<lambda>ks.
        rbind (attr_get_ints attr ''dilations'' (replicate (ndim - 2) 1)) (\<lambda>dil.
        Inr (attr, autopad ora data strides ks dil (int ndim) ''constant'' True ap (scalar_const ''float32'' 0))))))
      else if ap = ''VALID'' then Inr (dict_set attr ''pads'' (APy (PTuple (replicate (ndim - 2) (PInt 0)))), data)
      else if ap = ''NOTSET'' then Inr (attr, data)
      else Inl (OpAttributeInvalid (''Value '' @ ap @ '' in attribute auto_pad of operator Conv is invalid.'')))"

text \<open>The \<open>SAME\<close> pads of \<open>ConvTranspose._impl_v11\<close>:
  \<open>total_pad[i] = output_padding[i] + ((kernel_shape[i] - 1) * dilations[i] + 1) - strides[i]\<close>,
  split into halves, the smaller half first for \<open>SAME_LOWER\<close>.\<close>

definition deconv_same_pads :: "int list \<Rightarrow> int list \<Rightarrow> int list \<Rightarrow> int list \<Rightarrow> string \<Rightarrow> int list result" where
  "deconv_same_pads ks dil opad strides ap =
     rbind (rmap (\<lambda>i. rbind (py_index opad (int i)) (\<lambda>op. rbind (py_index dil (int i)) (\<lambda>d.
                      rbind (py_index strides (int i)) (\<lambda>s. Inr (op + ((ks ! i - 1) * d + 1) - s)))))
                 [0..<length ks]) (\<lambda>total.
     let left = map (\<lambda>p. p div 2) total;
         right = map (\<lambda>(t, l). t - l) (zip total left)
     in Inr (if py_in_str ''LOWER'' ap then left @ right else right @ left))"

definition conv_transpose_auto_pad_v11 :: "attr_dict \<Rightarrow> nat \<Rightarrow> string \<Rightarrow> attr_dict result" where
  "conv_transpose_auto_pad_v11 attr ndim ap =
     (if ap = ''SAME_UPPER'' \<or> ap = ''SAME_LOWER'' then
        rbind (attr_req attr ''kernel_shape'') (\<lambda>kv. rbind (attr_int_list kv) (\<lambda>ks.
        rbind (attr_get_ints attr ''dilations'' (replicate (length ks) 1)) (\<lambda>dil.
        rbind (attr_get_ints attr ''output_padding'' (replicate (length ks) 0)) (\<lambda>opad.
        rbind (attr_req attr ''strides'') (\<lambda>sv. rbind (attr_int_list sv) (\<lambda>strides.
        rbind (deconv_same_pads ks dil opad strides ap) (\<lambda>pad. Inr (dict_set attr ''pads'' (AInts pad)))))))))
      else if ap = ''VALID'' then Inr (dict_set attr ''pads'' (APy (PTuple (replicate (ndim - 2) (PInt 0)))))
      else if ap = ''NOTSET'' then Inr attr
      else Inl (OpAttributeInvalid (''Value '' @ ap @ '' in attribute auto_pad of operator Conv is invalid.'')))"

text \<open>The \<open>AttrCvt\<close> call and the optional bias, common to both versions.\<close>

definition conv_transpose_out :: "expr option list \<Rightarrow> expr \<Rightarrow> attr_dict \<Rightarrow> conv_out result" where
  "conv_transpose_out inputs data attr =
     rbind (onnx_input_get inputs 1) (\<lambda>w.
     rbind (attr_cvt_call conv_transpose_cvt [Some data, w] attr) (\<lambda>out.
     if length inputs = 3 then
       rbind (onnx_input_get inputs 2) (\<lambda>b. rbind (need_expr b) (\<lambda>b. Inr (Single (Call ''nn.bias_add'' [out, b] []))))
     else Inr (Single out)))"

definition conv_transpose_impl_v1 :: "oracles \<Rightarrow> plain_conv" where
  "conv_transpose_impl_v1 ora params inputs attr =
     rbind (conv_transpose_prep ora inputs attr) (\<lambda>(attr3, data, ndim).
     rbind (case map_of attr3 ''auto_pad'' of
              None \<Rightarrow> Inr (attr3, data)
            | Some v \<Rightarrow> rbind (attr_str v) (\<lambda>ap.
                rbind (conv_transpose_auto_pad_v1 ora data (dict_set attr3 ''auto_pad'' (APy (PStr ap))) ndim ap) (\<lambda>(a, d).
                Inr (dict_pop a ''auto_pad'', d)))) (\<lambda>(attr4, data4).
     conv_transpose_out inputs data4 attr4))"

definition conv_transpose_impl_v11 :: "oracles \<Rightarrow> plain_conv" where
  "conv_transpose_impl_v11 ora params inputs attr =
     rbind (conv_transpose_prep ora inputs attr) (\<lambda>(attr3, data, ndim).
     rbind (case map_of attr3 ''auto_pad'' of
              None \<Rightarrow> Inr attr3
            | Some v \<Rightarrow> rbind (attr_str v) (\<lambda>ap.
                rbind (conv_transpose_auto_pad_v11 (dict_set attr3 ''auto_pad'' (APy (PStr ap))) ndim ap) (\<lambda>a.
                Inr (dict_pop a ''auto_pad'')))) (\<lambda>attr4.
     conv_transpose_out inputs data attr4))"

subsection \<open>Lemmas\<close>

lemma softmax_rank2_v1_v13:
  assumes "length (infer_shape ora x) = 2" and "map_of attr ''axis'' = None"
  shows "softmax_impl_v1 ora params [Some x] attr = softmax_impl_v13 ora params [Some x] attr"
  using assms by (simp add: softmax_impl_v1_def softmax_impl_v13_def softmax_axes_def attr_get_int_def
      input_expr_def onnx_input_get_def)

text \<open>C19 (functional): when the target shape of \<open>Expand\<close> has a lower rank than the
  input, \<open>expand_shape\<close> returns \<open>maximum(in_shape, shape)\<close> of the two shape vectors
  unpadded: the branch meant to prepend ones to \<open>shape\<close> tests \<open>new_dims > in_dims\<close>,
  the condition of the branch before it, so it is never taken.\<close>

theorem expand_shape_lower_target_rank:
  assumes "infer_shape ora in_shape = [Dim a]" and "infer_shape ora shape = [Dim b]" and "b < a"
  shows "expand_shape ora dt in_shape shape = Inr (Call ''maximum'' [in_shape, shape] [])"
  using assms by (simp add: expand_shape_def py_index_def)

lemma expand_shape_higher_target_rank:
  assumes "infer_shape ora in_shape = [Dim a]" and "infer_shape ora shape = [Dim b]" and "a < b"
  shows "expand_shape ora dt in_shape shape =
           Inr (Call ''maximum'' [concat0 (ones_const dt (b - a)) in_shape, shape] [])"
  using assms by (simp add: expand_shape_def py_index_def)

lemma clip_take_const_item:
  "xs ! k = Some (Const a) \<Longrightarrow> const_item a = Inr p \<Longrightarrow>
   clip_take_const xs attr k name = Inr (dict_set attr name (APy p), onnx_input_slice xs 0 (Some k))"
  by (simp add: clip_take_const_def)

lemma clip_take_const_keep: "\<forall>c. xs ! k \<noteq> Some (Const c) \<Longrightarrow> clip_take_const xs attr k name = Inr (attr, xs)"
  by (auto simp: clip_take_const_def split: option.split expr.split)

lemma const_item_single: "nd_data a = [v] \<Longrightarrow> \<exists>p. const_item a = Inr p"
  by (simp add: const_item_def)

lemma onnx_input_slice_prefix: "k \<le> length xs \<Longrightarrow> onnx_input_slice xs 0 (Some k) = take k xs"
  by (auto simp: onnx_input_slice_def intro: nth_equalityI)

lemmas clip_take = clip_take_const_item clip_take_const_keep onnx_input_slice_prefix

text \<open>C21 (functional): \<open>Clip\<close> version 11 with a constant \<open>max\<close> input and a
  \<open>min\<close> input that is absent or not a constant moves \<open>max\<close> to the attributes,
  cuts the inputs to two and then, as \<open>min\<close> is not in the attributes, only applies
  \<open>maximum(x, min)\<close>: the upper bound is lost.\<close>

theorem clip_v11_drops_const_max:
  assumes mn: "\<forall>c. mn \<noteq> Some (Const c)" and a: "nd_data a = [v]" and nomin: "map_of attr ''min'' = None"
  shows "clip_impl_v11 params [Some x, mn, Some (Const a)] attr =
           Inr (Single (case mn of None \<Rightarrow> x | Some e \<Rightarrow> Call ''maximum'' [x, e] []))"
proof -
  obtain p where p: "const_item a = Inr p" using const_item_single[OF a] by blast
  show ?thesis
    using nomin mn by (cases mn) (simp_all add: clip_impl_v11_def clip_take p clip_step_def need_expr_def
        onnx_input_get_def map_of_eq_None_iff)
qed

lemma clip_v11_drops_both_bounds:
  assumes mx: "\<forall>c. mx \<noteq> Some (Const c)" and b: "nd_data b = [v]" and nomax: "map_of attr ''max'' = None"
  shows "clip_impl_v11 params [Some x, Some (Const b), mx] attr = Inr (Single x)"
proof -
  obtain p where p: "const_item b = Inr p" using const_item_single[OF b] by blast
  show ?thesis
    using nomax mx by (simp add: clip_impl_v11_def clip_take p clip_step_def need_expr_def
        onnx_input_get_def map_of_eq_None_iff)
qed

lemma py_set_in_range: "0 \<le> a \<Longrightarrow> a < int (length xs) \<Longrightarrow> py_set xs a v = Inr (xs[nat a := v])"
  by (simp add: py_set_def)

lemma slice_fill_nth:
  assumes "distinct axes" and "\<forall>a\<in>set axes. 0 \<le> a \<and> a < int (length ns)" and "length ne = length ns"
    and "i + length axes \<le> length starts" and "i + length axes \<le> length ends"
  shows "\<exists>ns' ne'. slice_fill starts ends i axes ns ne = Inr (ns', ne') \<and>
           length ns' = length ns \<and> length ne' = length ns \<and>
           (\<forall>j<length ns. ns' ! j = (case map_of (zip axes [i..<i + length axes]) (int j) of Some k \<Rightarrow> starts ! k | None \<Rightarrow> ns ! j) \<and>
                          ne' ! j = (case map_of (zip axes [i..<i + length axes]) (int j) of Some k \<Rightarrow> ends ! k | None \<Rightarrow> ne ! j))"
  using assms
proof (induction axes arbitrary: i ns ne)
  case Nil
  then show ?case by simp
next
  case (Cons a axes)
  let ?ns = "ns[nat a := starts ! i]" and ?ne = "ne[nat a := ends ! i]"
  have a: "0 \<le> a" "a < int (length ns)" "a < int (length ne)" using Cons.prems(2,3) by auto
  have idx: "py_index starts (int i) = Inr (starts ! i)" "py_index ends (int i) = Inr (ends ! i)"
    using Cons.prems(4,5) by (simp_all add: py_index_def)
  obtain ns' ne' where ih: "slice_fill starts ends (i + 1) axes ?ns ?ne = Inr (ns', ne')"
    "length ns' = length ns" "length ne' = length ns"
    "\<forall>j<length ns. ns' ! j = (case map_of (zip axes [i + 1..<i + 1 + length axes]) (int j) of Some k \<Rightarrow> starts ! k | None \<Rightarrow> ?ns ! j) \<and>
                   ne' ! j = (case map_of (zip axes [i + 1..<i + 1 + length axes]) (int j) of Some k \<Rightarrow> ends ! k | None \<Rightarrow> ?ne ! j)"
    using Cons.IH[of ?ns ?ne "i + 1"] Cons.prems by auto
  have zip: "zip (a # axes) [i..<i + length (a # axes)] = (a, i) # zip axes [i + 1..<i + 1 + length axes]"
    by (simp add: upt_rec del: upt_Suc)
  have notin: "map_of (zip axes [i + 1..<i + 1 + length axes]) a = None"
    using Cons.prems(1) by (auto simp: map_of_eq_None_iff dest: set_zip_leftD)
  have st: "slice_fill starts ends i (a # axes) ns ne = Inr (ns', ne')"
    using ih(1) a by (simp add: idx py_set_in_range)
  have "ns' ! j = (case map_of (zip (a # axes) [i..<i + length (a # axes)]) (int j) of Some k \<Rightarrow> starts ! k | None \<Rightarrow> ns ! j) \<and>
        ne' ! j = (case map_of (zip (a # axes) [i..<i + length (a # axes)]) (int j) of Some k \<Rightarrow> ends ! k | None \<Rightarrow> ne ! j)"
    if j: "j < length ns" for j
  proof (cases "int j = a")
    case True
    then have "nat a = j" by auto
    then show ?thesis unfolding zip using ih(4) j notin True Cons.prems(3) by simp
  next
    case False
    then have "nat a \<noteq> j" using a by auto
    then show ?thesis unfolding zip using ih(4) j False by (simp split: option.split)
  qed
  then show ?case using st ih(2,3) by blast
qed

lemma map_of_zip_upt:
  "length ys = length xs \<Longrightarrow>
   map_of (zip xs ys) x = map_option (\<lambda>k. ys ! (k - i)) (map_of (zip xs [i..<i + length xs]) x)"
proof (induction xs arbitrary: ys i)
  case Nil
  then show ?case by simp
next
  case (Cons a xs)
  then obtain y ys' where ys: "ys = y # ys'" "length ys' = length xs" by (cases ys) auto
  have zip: "zip (a # xs) [i..<i + length (a # xs)] = (a, i) # zip xs [Suc i..<Suc i + length xs]"
    by (simp add: upt_rec del: upt_Suc)
  have ge: "Suc i \<le> k" if "map_of (zip xs [Suc i..<Suc i + length xs]) x = Some k" for k
  proof -
    have "k \<in> set [Suc i..<Suc i + length xs]" using map_of_SomeD[OF that] by (rule set_zip_rightD)
    then show ?thesis by auto
  qed
  show ?case
  proof (cases "x = a")
    case True
    then show ?thesis unfolding zip ys by simp
  next
    case False
    then show ?thesis unfolding zip ys using Cons.IH[OF ys(2), of "Suc i"] ge
      by (cases "map_of (zip xs [Suc i..<Suc i + length xs]) x") (auto simp: Suc_diff_le)
  qed
qed

lemma slice_common_places:
  assumes d: "distinct axes" and ne: "axes \<noteq> []" and nn: "\<forall>a\<in>set axes. 0 \<le> a"
    and ls: "length starts = length axes" and le: "length ends = length axes"
  shows "\<exists>ns ne. slice_common starts ends axes = Inr (ns, ne, [0..Max (set axes)]) \<and>
           length ns = nat (Max (set axes) + 1) \<and> length ne = nat (Max (set axes) + 1) \<and>
           (\<forall>j<length ns. ns ! j = (case map_of (zip axes starts) (int j) of Some s \<Rightarrow> s | None \<Rightarrow> 0) \<and>
                          ne ! j = (case map_of (zip axes ends) (int j) of Some e \<Rightarrow> e | None \<Rightarrow> 2147483647))"
proof -
  let ?n = "nat (Max (set axes) + 1)"
  have mx: "a \<le> Max (set axes)" if "a \<in> set axes" for a using that by simp
  obtain a0 where a0: "a0 \<in> set axes" using ne by (cases axes) auto
  have m0: "0 \<le> Max (set axes)" using nn a0 mx[OF a0] by (meson order_trans)
  have rng: "\<forall>a\<in>set axes. 0 \<le> a \<and> a < int (length (replicate ?n (0::int)))"
    using nn m0 mx by fastforce
  obtain ns ne' where f: "slice_fill starts ends 0 axes (replicate ?n 0) (replicate ?n 2147483647) = Inr (ns, ne')"
    "length ns = ?n" "length ne' = ?n"
    "\<forall>j<?n. ns ! j = (case map_of (zip axes [0..<0 + length axes]) (int j) of Some k \<Rightarrow> starts ! k | None \<Rightarrow> replicate ?n 0 ! j) \<and>
             ne' ! j = (case map_of (zip axes [0..<0 + length axes]) (int j) of Some k \<Rightarrow> ends ! k | None \<Rightarrow> replicate ?n 2147483647 ! j)"
    using slice_fill_nth[OF d rng, of "replicate ?n 2147483647" 0 starts ends] ls le by auto
  have "slice_common starts ends axes = Inr (ns, ne', [0..Max (set axes)])"
    using ne f(1) by (simp add: slice_common_def)
  moreover have "\<forall>j<length ns. ns ! j = (case map_of (zip axes starts) (int j) of Some s \<Rightarrow> s | None \<Rightarrow> 0) \<and>
                   ne' ! j = (case map_of (zip axes ends) (int j) of Some e \<Rightarrow> e | None \<Rightarrow> 2147483647)"
  proof (intro allI impI)
    fix j assume j: "j < length ns"
    show "ns ! j = (case map_of (zip axes starts) (int j) of Some s \<Rightarrow> s | None \<Rightarrow> 0) \<and>
          ne' ! j = (case map_of (zip axes ends) (int j) of Some e \<Rightarrow> e | None \<Rightarrow> 2147483647)"
    proof -
      have jn: "j < ?n" using j f(2) by simp
      note fj = f(4)[rule_format, OF jn]
      note zs = map_of_zip_upt[OF ls, of "int j" 0] map_of_zip_upt[OF le, of "int j" 0]
      show ?thesis
      proof (cases "map_of (zip axes [0..<0 + length axes]) (int j)")
        case None
        show ?thesis using fj zs jn unfolding None by simp
      next
        case (Some k)
        show ?thesis using fj zs unfolding Some by simp
      qed
    qed
  qed
  ultimately show ?thesis using f(2,3) by blast
qed

lemma matmul_v1_batched_vector:
  assumes "infer_shape ora (shape_of_expr ora a ''int64'') = [Dim 3]"
    and "infer_shape ora (shape_of_expr ora b ''int64'') = [Dim 1]"
  shows "\<exists>a3 out. matmul_impl_v1 use_nt ora params [Some a, Some b] attr = Inr (Single out) \<and>
           flatten_to_nd ora a (shape_of_expr ora a ''int64'') 3 = Inr a3 \<and>
           flatten_to_nd ora b (shape_of_expr ora b ''int64'') 3 =
             Inr (Call ''reshape'' [b, fold_constant ora (concat0 (Const \<lparr>nd_shape = [1],
                    nd_dtype = infer_dtype ora (shape_of_expr ora b ''int64''), nd_data = [-1]\<rparr>)
                    (slice1 (shape_of_expr ora b ''int64'') (-1) 1))] [])"
  using assms by (simp add: matmul_impl_v1_def flatten_to_nd_def input_expr_def onnx_input_get_def py_index_def Let_def)

lemma conv_transpose_v11_group_conflict:
  assumes w: "infer_shape ora w = d0 # d1 # ds" and ks: "length ks = 2"
  shows "conv_transpose_impl_v11 ora params [Some x, Some w] [(''kernel_shape'', AInts ks), (''group'', g)]
           = Inl (AttributeConflict ''groups'')"
  using w ks
  by (simp add: conv_transpose_impl_v11_def conv_transpose_prep_def conv_transpose_out_def input_expr_def
      onnx_input_get_def py_index_def attr_cvt_call_def attr_cvt_kwargs_def conv_transpose_cvt_def
      dimension_constraint_def dimension_picker_def kernel_len_def cvt_step_def default_ignores_def cvt_op_name_def
      numeral_eq_Suc)

lemma conv_transpose_v11_same_needs_strides:
  assumes "map_of attr ''kernel_shape'' = Some (AInts ks)" and "map_of attr ''strides'' = None"
    and "map_of attr ''dilations'' = None \<or> (\<exists>xs. map_of attr ''dilations'' = Some (AInts xs))"
    and "map_of attr ''output_padding'' = None \<or> (\<exists>xs. map_of attr ''output_padding'' = Some (AInts xs))"
    and "ap = ''SAME_UPPER'' \<or> ap = ''SAME_LOWER''"
  shows "conv_transpose_auto_pad_v11 attr ndim ap = Inl (KeyErr ''strides'')"
  using assms by (auto simp: conv_transpose_auto_pad_v11_def attr_req_def attr_get_ints_def)

lemma map_zip_map_self: "map (\<lambda>(t, l). g t l) (zip xs (map f xs)) = map (\<lambda>t. g t (f t)) xs"
  by (induction xs) simp_all

lemma deconv_same_pads_upper:
  assumes "length dil = length ks" and "length opad = length ks" and "length strides = length ks"
  shows "deconv_same_pads ks dil opad strides ''SAME_UPPER'' =
           Inr (let total = map (\<lambda>i. opad ! i + ((ks ! i - 1) * dil ! i + 1) - strides ! i) [0..<length ks]
                in map (\<lambda>t. t - t div 2) total @ map (\<lambda>t. t div 2) total)"
proof -
  have "rmap (\<lambda>i. rbind (py_index opad (int i)) (\<lambda>op. rbind (py_index dil (int i)) (\<lambda>d.
                   rbind (py_index strides (int i)) (\<lambda>s. Inr (op + ((ks ! i - 1) * d + 1) - s)))))
          [0..<length ks]
        = Inr (map (\<lambda>i. opad ! i + ((ks ! i - 1) * dil ! i + 1) - strides ! i) [0..<length ks])"
    using assms by (intro rmap_Inr) (simp add: py_index_def)
  moreover have "\<not> py_in_str ''LOWER'' ''SAME_UPPER''" by simp
  ultimately show ?thesis
    by (simp add: deconv_same_pads_def Let_def map_zip_map_self del: map_map)
qed


theorem expand_shape_lower_target_rank_witness:
  "expand_shape \<lparr>infer_shape = (\<lambda>e. if e = Var ''s'' [] None then [Dim 1] else [Dim 2]), infer_dtype = (\<lambda>_. ''int64''),
                  fold_constant = id\<rparr> ''int64'' (Var ''in'' [] None) (Var ''s'' [] None)
     = Inr (Call ''maximum'' [Var ''in'' [] None, Var ''s'' [] None] [])"
  by (rule expand_shape_lower_target_rank[where a = 2 and b = 1]) simp_all

theorem clip_v11_drops_const_max_witness:
  "clip_impl_v11 [] [Some (Var ''x'' [] None), None, Some (Const \<lparr>nd_shape = [], nd_dtype = ''float32'', nd_data = [6]\<rparr>)] []
     = Inr (Single (case (None :: expr option) of None \<Rightarrow> Var ''x'' [] None | Some e \<Rightarrow> Call ''maximum'' [Var ''x'' [] None, e] []))"
  by (rule clip_v11_drops_const_max) simp_all

end
