(* ===== verification/Recurrent.thy ===== *)
theory Recurrent
  imports Tensor_Ops
begin

text \<open>
  The recurrent operator rules of \<open>onnx.py\<close>: the activation helpers of \<open>RNN\<close> and
  \<open>LSTM._impl_v7\<close>, \<open>GRU._impl_v7\<close> with their bidirectional cells.  The cells
  \<open>lstm_cell\<close> and \<open>gru_cell\<close> and the helper \<open>unbind\<close> live in \<open>common.py\<close>; the rules
  only call them, so a call is an opaque Relay call that records every argument the rule
  passes (its positional inputs, the names of the weight expressions, the activation
  functions, \<open>backwards\<close>), and its results are projections of it.
  An activation function is a value of \<open>act\<close>: a Relay operator, or the closure
  \<open>_activation_helper\<close> returns, which looks the name up in \<open>_get_convert_map(1)\<close> when
  the cell applies it.
  A small evaluator of \<open>split\<close>, \<open>squeeze\<close> and \<open>concatenate\<close> along axis 0 over nested
  lists (\<open>teval\<close>) gives the weight permutations a meaning.
\<close>

subsection \<open>Activation functions\<close>

datatype act = ActOp string | ActConv string attr_dict

text \<open>How a cell call records an activation function.\<close>

fun act_pyval :: "act \<Rightarrow> pyval" where
  "act_pyval (ActOp n) = PStr n"
| "act_pyval (ActConv n attrs) = PTuple [PStr n, PTuple (map (\<lambda>(k, v). PTuple [PStr k, to_pyval v]) attrs)]"

definition needs_alpha :: "string list" where
  "needs_alpha = [''Affine'', ''LeakyRelu'', ''ThresholdedRelu'', ''ScaledTanh'', ''HardSigmoid'', ''Elu'']"

definition needs_beta :: "string list" where
  "needs_beta = [''Affine'', ''ScaledTanh'', ''HardSigmoid'']"

definition activation_needs_alpha :: "string \<Rightarrow> bool" where
  "activation_needs_alpha activation = (activation \<in> set needs_alpha)"

definition activation_needs_beta :: "string \<Rightarrow> bool" where
  "activation_needs_beta activation = (activation \<in> set needs_beta)"

text \<open>\<open>_activation_helper\<close>: \<open>_get_convert_map(1)\<close> is built at once, the attribute dict
  holds the parameters that are not \<open>None\<close>, and the returned closure applies the rule of
  the name to \<open>[x]\<close>.\<close>

definition act_attrs :: "attr_value option \<Rightarrow> attr_value option \<Rightarrow> attr_dict" where
  "act_attrs alpha beta =
     (let attrs1 = (case alpha of None \<Rightarrow> [] | Some a \<Rightarrow> dict_set [] ''alpha'' a)
      in case beta of None \<Rightarrow> attrs1 | Some b \<Rightarrow> dict_set attrs1 ''beta'' b)"

definition activation_helper :: "string \<Rightarrow> attr_value option \<Rightarrow> attr_value option \<Rightarrow> act result" where
  "activation_helper activation alpha beta =
     rbind (get_convert_map 1) (\<lambda>convert_map. Inr (ActConv activation (act_attrs alpha beta)))"

text \<open>The elements \<open>len(alphas)\<close> and \<open>alphas[i]\<close> read, after a float has been wrapped
  into a list; \<open>None\<close> when the value has no length.\<close>

fun attr_elems :: "attr_value \<Rightarrow> attr_value list option" where
  "attr_elems (AFloat r) = Some [AFloat r]"
| "attr_elems (AFloats rs) = Some (map AFloat rs)"
| "attr_elems (AInts xs) = Some (map AInt xs)"
| "attr_elems (AStrings ss) = Some (map ABytes ss)"
| "attr_elems (ATensors ts) = Some (map ATensor ts)"
| "attr_elems (ABytes s) = Some (map (\<lambda>c. AInt (of_char c)) s)"
| "attr_elems (APy (PFloat r)) = Some [APy (PFloat r)]"
| "attr_elems (APy (PTuple vs)) = Some (map APy vs)"
| "attr_elems _ = None"

text \<open>\<open>attr.get(k, [])\<close> of \<open>activation_alpha\<close> and \<open>activation_beta\<close>.\<close>

definition param_list :: "attr_dict \<Rightarrow> string \<Rightarrow> attr_value list option" where
  "param_list attr k = (case map_of attr k of None \<Rightarrow> Some [] | Some v \<Rightarrow> attr_elems v)"

text \<open>\<open>if needs(activation) and len(vals) > loc: value = vals[loc]; loc += 1\<close>: the
  length is only read when the activation takes the parameter.\<close>

definition take_param :: "bool \<Rightarrow> attr_value list option \<Rightarrow> nat \<Rightarrow> (attr_value option \<times> nat) result" where
  "take_param needs vals loc =
     (if \<not> needs then Inr (None, loc)
      else case vals of
             None \<Rightarrow> Inl (TypeErr ''len'')
           | Some xs \<Rightarrow> if loc < length xs then Inr (Some (xs ! loc), Suc loc) else Inr (None, loc))"

text \<open>One iteration of the loop over the activations, with its state
  \<open>(alpha_loc, beta_loc, acts)\<close>.\<close>

definition act_step ::
  "attr_value list option \<Rightarrow> attr_value list option \<Rightarrow> nat \<times> nat \<times> act list \<Rightarrow> string
   \<Rightarrow> (nat \<times> nat \<times> act list) result" where
  "act_step alphas betas st activation =
     (case st of (alpha_loc, beta_loc, acts) \<Rightarrow>
      rbind (take_param (activation_needs_alpha activation) alphas alpha_loc) (\<lambda>(alpha, alpha_loc').
      rbind (take_param (activation_needs_beta activation) betas beta_loc) (\<lambda>(beta, beta_loc').
      rbind (activation_helper activation alpha beta) (\<lambda>f. Inr (alpha_loc', beta_loc', acts @ [f])))))"

text \<open>A Python \<open>for\<close> loop threading a state, stopping at the first exception.\<close>

fun rfoldl :: "('s \<Rightarrow> 'a \<Rightarrow> 's result) \<Rightarrow> 's \<Rightarrow> 'a list \<Rightarrow> 's result" where
  "rfoldl f s [] = Inr s"
| "rfoldl f s (x # xs) = rbind (f s x) (\<lambda>s'. rfoldl f s' xs)"

text \<open>The \<open>"activations" in attr\<close> branch of both rules: the count check, then the loop
  over \<open>range(k)\<close>; an element that is not bytes has no \<open>decode\<close>.\<close>

definition rnn_activations :: "string \<Rightarrow> attr_dict \<Rightarrow> attr_value \<Rightarrow> nat \<Rightarrow> act list result" where
  "rnn_activations op attr activations k =
     (case attr_len activations of
        None \<Rightarrow> Inl (TypeErr ''len'')
      | Some n \<Rightarrow>
          if n \<noteq> k then Inl (NotImplementedErr (op @ '' assumes num_directions activation functions are provided''))
          else (case activations of
                  AStrings names \<Rightarrow>
                    rbind (rfoldl (act_step (param_list attr ''activation_alpha'') (param_list attr ''activation_beta''))
                             (0, 0, []) names) (\<lambda>(_, _, acts). Inr acts)
                | _ \<Rightarrow> Inl (TypeErr ''decode'')))"

subsection \<open>Relay pieces of the rules\<close>

text \<open>\<open>_op.split(x, n, axis)[i]\<close>, \<open>_op.squeeze(x, axis=[0])\<close>, \<open>_op.concatenate(xs, axis=0)\<close>,
  \<open>_op.stack(xs, axis=0)\<close>, \<open>_op.expand_dims(x, axis=a)\<close> and \<open>_op.zeros(shape, dtype)\<close>.\<close>

definition split_item :: "expr \<Rightarrow> int \<Rightarrow> int \<Rightarrow> nat \<Rightarrow> expr" where
  "split_item x n axis i = TupleGetItem (Call ''split'' [x] [(''indices_or_sections'', PInt n), (''axis'', PInt axis)]) i"

definition squeeze0 :: "expr \<Rightarrow> expr" where
  "squeeze0 x = Call ''squeeze'' [x] [(''axis'', PTuple [PInt 0])]"

definition concat_axis0 :: "expr list \<Rightarrow> expr" where
  "concat_axis0 xs = Call ''concatenate'' [Tuple xs] [(''axis'', PInt 0)]"

definition stack0 :: "expr list \<Rightarrow> expr" where
  "stack0 xs = Call ''stack'' [Tuple xs] [(''axis'', PInt 0)]"

definition expand_dims_at :: "expr \<Rightarrow> int \<Rightarrow> expr" where
  "expand_dims_at x a = Call ''expand_dims'' [x] [(''axis'', PInt a)]"

definition zeros_state :: "nat \<Rightarrow> dim \<Rightarrow> dim \<Rightarrow> string \<Rightarrow> expr" where
  "zeros_state nd batch hidden dt =
     Call ''zeros'' [] [(''shape'', PTuple [PInt (int nd), dim_pyval batch, dim_pyval hidden]), (''dtype'', PStr dt)]"

text \<open>\<open>unbind(X, axis=0)\<close> of \<open>common.py\<close>: one step per extent of axis 0.\<close>

definition unbind :: "oracles \<Rightarrow> expr \<Rightarrow> expr list result" where
  "unbind ora x =
     rbind (py_index (infer_shape ora x) 0) (\<lambda>d. rbind (dim_int d) (\<lambda>n.
     Inr (map (\<lambda>i. TupleGetItem (Call ''unbind'' [x] [(''axis'', PInt 0)]) i) [0..<nat n])))"

text \<open>A value of a weight dict: an expression, or the Python value of
  \<open>linear_before_reset\<close>.\<close>

datatype warg = WExpr expr | WVal pyval

fun warg_args :: "string \<times> warg \<Rightarrow> expr list" where
  "warg_args (k, WExpr e) = [e]"
| "warg_args (k, WVal v) = []"

fun warg_names :: "string \<times> warg \<Rightarrow> pyval list" where
  "warg_names (k, WExpr e) = [PStr k]"
| "warg_names (k, WVal v) = []"

fun warg_kw :: "string \<times> warg \<Rightarrow> (string \<times> pyval) list" where
  "warg_kw (k, WExpr e) = []"
| "warg_kw (k, WVal v) = [(k, v)]"

text \<open>\<open>lstm_cell(input_seqs, **weights, f_act=.., g_act=.., h_act=.., backwards=..)\<close> and
  \<open>gru_cell\<close>: the call with every argument, its first result the list of one output per
  step, then the final states.\<close>

definition cell_call :: "string \<Rightarrow> expr list \<Rightarrow> (string, warg) pydict \<Rightarrow> (string \<times> act) list \<Rightarrow> bool \<Rightarrow> expr" where
  "cell_call name xs wd acts backwards =
     Call name (Tuple xs # concat (map warg_args wd))
       ((''weights'', PTuple (concat (map warg_names wd))) # concat (map warg_kw wd)
        @ map (\<lambda>(k, a). (k, act_pyval a)) acts @ [(''backwards'', PBool backwards)])"

definition cell_outputs :: "expr \<Rightarrow> nat \<Rightarrow> expr list" where
  "cell_outputs c n = map (\<lambda>i. TupleGetItem (TupleGetItem c 0) i) [0..<n]"

definition cell_state :: "expr \<Rightarrow> nat \<Rightarrow> expr" where
  "cell_state c k = TupleGetItem c k"

text \<open>\<open>num_directions not in [1, 2]\<close>.\<close>

fun rnn_directions :: "dim \<Rightarrow> nat result" where
  "rnn_directions (Dim n) =
     (if n = 1 then Inr 1 else if n = 2 then Inr 2 else Inl (ValueErr ''num_directions must be either 1 or 2!''))"
| "rnn_directions AnyDim = Inl (ValueErr ''num_directions must be either 1 or 2!'')"

text \<open>A stacked tensor of the two directions for every step: the forward output of step
  \<open>i\<close> with the reverse output at \<open>seq_len - 1 - i\<close>.\<close>

definition bidir_outputs :: "nat \<Rightarrow> expr list \<Rightarrow> expr list \<Rightarrow> expr" where
  "bidir_outputs seq_len fw rv = stack0 (map (\<lambda>i. stack0 [fw ! i, rv ! (seq_len - 1 - i)]) [0..<seq_len])"

text \<open>Reading the inputs: \<open>inputs[k]\<close> may be \<open>None\<close>; a \<open>None\<close> passed to
  \<open>infer_shape\<close> raises.\<close>

definition rnn_inputs :: "expr option list \<Rightarrow> nat list \<Rightarrow> expr option list result" where
  "rnn_inputs inputs ks = rmap (\<lambda>k. onnx_input_get inputs (int k)) ks"

subsection \<open>\<open>LSTM\<close>\<close>

text \<open>ONNX stores the gates of \<open>W\<close>, \<open>R\<close> and the biases in the order i-o-f-c; the cell
  reads i-f-c-o: \<open>mati, mato, matf, matc = _op.split(m, 4)\<close>, then
  \<open>_op.concatenate([mati, matf, matc, mato], axis=0)\<close>.\<close>

definition iofc_to_ifco :: "expr \<Rightarrow> expr" where
  "iofc_to_ifco m = concat_axis0 [split_item m 4 0 0, split_item m 4 0 2, split_item m 4 0 3, split_item m 4 0 1]"

text \<open>The weight dict of direction \<open>i\<close>, in the order the loop fills it.\<close>

definition lstm_weights ::
  "nat \<Rightarrow> expr \<Rightarrow> expr \<Rightarrow> expr \<Rightarrow> expr \<Rightarrow> expr option \<Rightarrow> expr option \<Rightarrow> nat \<Rightarrow> (string, warg) pydict" where
  "lstm_weights nd H0 C0 W R B P i =
     [(''hidden_state'', WExpr (squeeze0 (split_item H0 (int nd) 0 i))),
      (''cell_state'', WExpr (squeeze0 (split_item C0 (int nd) 0 i))),
      (''w_inp'', WExpr (iofc_to_ifco (squeeze0 (split_item W (int nd) 0 i)))),
      (''w_hid'', WExpr (iofc_to_ifco (squeeze0 (split_item R (int nd) 0 i))))]
     @ (case B of None \<Rightarrow> []
        | Some b \<Rightarrow>
            [(''b_inp'', WExpr (iofc_to_ifco (squeeze0 (split_item (split_item b (int nd) 0 i) 2 (-1) 0)))),
             (''b_hid'', WExpr (iofc_to_ifco (squeeze0 (split_item (split_item b (int nd) 0 i) 2 (-1) 1))))])
     @ (case P of None \<Rightarrow> []
        | Some p \<Rightarrow>
            [(''p_i'', WExpr (squeeze0 (split_item (split_item p 3 1 0) (int nd) 0 i))),
             (''p_f'', WExpr (squeeze0 (split_item (split_item p 3 1 2) (int nd) 0 i))),
             (''p_o'', WExpr (squeeze0 (split_item (split_item p 3 1 1) (int nd) 0 i)))])"

text \<open>One direction of the LSTM: \<open>lstm_cell\<close> with the activations \<open>acts[3k]\<close>,
  \<open>acts[3k+1]\<close>, \<open>acts[3k+2]\<close>.\<close>

definition lstm_dir :: "expr list \<Rightarrow> (string, warg) pydict \<Rightarrow> act list \<Rightarrow> nat \<Rightarrow> bool \<Rightarrow> expr" where
  "lstm_dir xs wd acts k backwards =
     cell_call ''lstm_cell'' xs wd
       [(''f_act'', acts ! (3 * k)), (''g_act'', acts ! (3 * k + 1)), (''h_act'', acts ! (3 * k + 2))] backwards"

text \<open>\<open>LSTM.bidir_lstm_cell\<close>: the forward and the reverse cell, their outputs paired
  step by step, their final states stacked.\<close>

definition bidir_lstm_cell :: "expr list \<Rightarrow> (string, warg) pydict list \<Rightarrow> act list \<Rightarrow> expr \<times> expr \<times> expr" where
  "bidir_lstm_cell xs wds acts =
     (let seq_len = length xs;
          fw = lstm_dir xs (wds ! 0) acts 0 False;
          rv = lstm_dir xs (wds ! 1) acts 1 True
      in (bidir_outputs seq_len (cell_outputs fw seq_len) (cell_outputs rv seq_len),
          stack0 [cell_state fw 1, cell_state rv 1], stack0 [cell_state fw 2, cell_state rv 2]))"

definition lstm_impl_v7 :: "oracles \<Rightarrow> plain_conv" where
  "lstm_impl_v7 ora params inputs attr =
     rbind (rnn_inputs inputs [0, 1, 2, 3, 5, 6, 7]) (\<lambda>ins.
     let X = ins ! 0; Wp = ins ! 1; Rp = ins ! 2; Bp = ins ! 3; Hp_0 = ins ! 4; Cp_0 = ins ! 5; Pp = ins ! 6 in
     rbind (need_expr Wp) (\<lambda>W.
     rbind (py_index (infer_shape ora W) 0) (\<lambda>d.
     let W_dtype = infer_dtype ora W in
     rbind (rnn_directions d) (\<lambda>nd.
     rbind (need_expr X) (\<lambda>x.
     rbind (need_expr Rp) (\<lambda>R.
     rbind (py_index (infer_shape ora R) (-1)) (\<lambda>hidden_size.
     rbind (py_index (infer_shape ora x) 1) (\<lambda>batch_size.
     let H0 = (case Hp_0 of None \<Rightarrow> zeros_state nd batch_size hidden_size W_dtype | Some h \<Rightarrow> h);
         C0 = (case Cp_0 of None \<Rightarrow> zeros_state nd batch_size hidden_size W_dtype | Some c \<Rightarrow> c)
     in rbind (case map_of attr ''activations'' of
                 Some activations \<Rightarrow> rnn_activations ''LSTM'' attr activations (3 * nd)
               | None \<Rightarrow> Inr (concat (replicate nd [ActOp ''sigmoid'', ActOp ''tanh'', ActOp ''tanh'']))) (\<lambda>acts.
     rbind (unbind ora x) (\<lambda>X_steps.
     let wds = map (lstm_weights nd H0 C0 W R Bp Pp) [0..<nd] in
     if nd = 2 then
       (case bidir_lstm_cell X_steps wds acts of
          (output, H, C) \<Rightarrow> Inr (Wrapped (Tuple [output, H, C]) 3))
     else
       (let c = lstm_dir X_steps (wds ! 0) acts 0 False;
            output = expand_dims_at (stack0 (cell_outputs c (length X_steps))) 1
        in Inr (Wrapped (Tuple [output, expand_dims_at (cell_state c 1) 0, expand_dims_at (cell_state c 2) 0]) 3))))))))))))"

subsection \<open>\<open>GRU\<close>\<close>

text \<open>ONNX stores the gates of a GRU in the order z-r-h:
  \<open>matz, matr, matn = _op.split(m, 3)\<close>, then \<open>_op.concatenate([matr, matz, matn], axis=0)\<close>.\<close>

definition zrn_to_rzn :: "expr \<Rightarrow> expr" where
  "zrn_to_rzn m = concat_axis0 [split_item m 3 0 1, split_item m 3 0 0, split_item m 3 0 2]"

definition gru_weights ::
  "nat \<Rightarrow> expr \<Rightarrow> pyval \<Rightarrow> expr \<Rightarrow> expr \<Rightarrow> expr option \<Rightarrow> nat \<Rightarrow> (string, warg) pydict" where
  "gru_weights nd H0 lbr W R B i =
     [(''hidden_state'', WExpr (squeeze0 (split_item H0 (int nd) 0 i))),
      (''linear_before_reset'', WVal lbr),
      (''w_inp'', WExpr (zrn_to_rzn (squeeze0 (split_item W (int nd) 0 i)))),
      (''w_hid'', WExpr (zrn_to_rzn (squeeze0 (split_item R (int nd) 0 i))))]
     @ (case B of None \<Rightarrow> []
        | Some b \<Rightarrow>
            [(''b_inp'', WExpr (zrn_to_rzn (squeeze0 (split_item (split_item b (int nd) 0 i) 2 (-1) 0)))),
             (''b_hid'', WExpr (zrn_to_rzn (squeeze0 (split_item (split_item b (int nd) 0 i) 2 (-1) 1))))])"

definition gru_dir :: "expr list \<Rightarrow> (string, warg) pydict \<Rightarrow> act list \<Rightarrow> nat \<Rightarrow> bool \<Rightarrow> expr" where
  "gru_dir xs wd acts k backwards =
     cell_call ''gru_cell'' xs wd [(''rz_act'', acts ! (2 * k)), (''n_act'', acts ! (2 * k + 1))] backwards"

definition bidir_gru_cell :: "expr list \<Rightarrow> (string, warg) pydict list \<Rightarrow> act list \<Rightarrow> expr \<times> expr" where
  "bidir_gru_cell xs wds acts =
     (let seq_len = length xs;
          fw = gru_dir xs (wds ! 0) acts 0 False;
          rv = gru_dir xs (wds ! 1) acts 1 True
      in (bidir_outputs seq_len (cell_outputs fw seq_len) (cell_outputs rv seq_len),
          stack0 [cell_state fw 1, cell_state rv 1]))"

text \<open>\<open>attr.get("linear_before_reset", 0)\<close> is passed on as it is.\<close>

definition gru_impl_v7 :: "oracles \<Rightarrow> plain_conv" where
  "gru_impl_v7 ora params inputs attr =
     rbind (rnn_inputs inputs [0, 1, 2, 3, 5]) (\<lambda>ins.
     let X = ins ! 0; Wp = ins ! 1; Rp = ins ! 2; Bp = ins ! 3; Hp_0 = ins ! 4;
         linear_before_reset = (case map_of attr ''linear_before_reset'' of None \<Rightarrow> PInt 0 | Some v \<Rightarrow> to_pyval v) in
     rbind (need_expr Wp) (\<lambda>W.
     rbind (py_index (infer_shape ora W) 0) (\<lambda>d.
     let W_dtype = infer_dtype ora W in
     rbind (rnn_directions d) (\<lambda>nd.
     rbind (need_expr X) (\<lambda>x.
     rbind (need_expr Rp) (\<lambda>R.
     rbind (py_index (infer_shape ora R) (-1)) (\<lambda>hidden_size.
     rbind (py_index (infer_shape ora x) 1) (\<lambda>batch_size.
     let H0 = (case Hp_0 of None \<Rightarrow> zeros_state nd batch_size hidden_size W_dtype | Some h \<Rightarrow> h)
     in rbind (case map_of attr ''activations'' of
                 Some activations \<Rightarrow> rnn_activations ''GRU'' attr activations (2 * nd)
               | None \<Rightarrow> Inr (concat (replicate 2 [ActOp ''sigmoid'', ActOp ''tanh'']))) (\<lambda>acts.
     rbind (unbind ora x) (\<lambda>X_steps.
     let wds = map (gru_weights nd H0 linear_before_reset W R Bp) [0..<nd] in
     if nd = 2 then
       (case bidir_gru_cell X_steps wds acts of
          (output, H) \<Rightarrow> Inr (Wrapped (Tuple [output, H]) 2))
     else
       (let c = gru_dir X_steps (wds ! 0) acts 0 False;
            output = expand_dims_at (stack0 (cell_outputs c (length X_steps))) 1
        in Inr (Wrapped (Tuple [output, expand_dims_at (cell_state c 1) 0]) 2))))))))))))"

subsection \<open>Meaning of the weight permutations\<close>

text \<open>Values of \<open>split\<close>, \<open>squeeze\<close> and \<open>concatenate\<close> along axis 0: a tensor is the list
  of its slices along axis 0 (\<open>TA\<close>), a scalar (\<open>TS\<close>), or a tuple of tensors (\<open>TT\<close>).
  \<open>split\<close> into \<open>n\<close> sections needs an extent divisible by \<open>n\<close>.\<close>

datatype tval = TS real | TA "tval list" | TT "tval list"

definition split_sections :: "nat \<Rightarrow> 'a list \<Rightarrow> 'a list list option" where
  "split_sections n xs =
     (if 0 < n \<and> length xs mod n = 0
      then Some (map (\<lambda>j. take (length xs div n) (drop (j * (length xs div n)) xs)) [0..<n])
      else None)"

fun ta_rows :: "tval \<Rightarrow> tval list option" where
  "ta_rows (TA xs) = Some xs"
| "ta_rows _ = None"

fun teval :: "(string \<Rightarrow> tval option) \<Rightarrow> expr \<Rightarrow> tval option"
and tevals :: "(string \<Rightarrow> tval option) \<Rightarrow> expr list \<Rightarrow> tval list option" where
  "teval env (Var n _ _) = env n"
| "teval env (Call f args kw) =
     (if f = ''split'' \<and> map_of kw ''axis'' = Some (PInt 0) then
        (case (args, map_of kw ''indices_or_sections'') of
           ([x], Some (PInt n)) \<Rightarrow>
             (case teval env x of
                Some (TA xs) \<Rightarrow> if 0 < n then map_option (\<lambda>ss. TT (map TA ss)) (split_sections (nat n) xs) else None
              | _ \<Rightarrow> None)
         | _ \<Rightarrow> None)
      else if f = ''squeeze'' \<and> kw = [(''axis'', PTuple [PInt 0])] then
        (case args of [x] \<Rightarrow> (case teval env x of Some (TA [v]) \<Rightarrow> Some v | _ \<Rightarrow> None) | _ \<Rightarrow> None)
      else if f = ''concatenate'' \<and> kw = [(''axis'', PInt 0)] then
        (case args of
           [Tuple es] \<Rightarrow> (case tevals env es of
                             Some vs \<Rightarrow> map_option (\<lambda>rs. TA (concat rs)) (those (map ta_rows vs))
                           | None \<Rightarrow> None)
         | _ \<Rightarrow> None)
      else None)"
| "teval env (Tuple es) = map_option TT (tevals env es)"
| "teval env (TupleGetItem e i) =
     (case teval env e of Some (TT vs) \<Rightarrow> if i < length vs then Some (vs ! i) else None | _ \<Rightarrow> None)"
| "teval env (Const a) = None"
| "teval env (IfE c a b) = None"
| "teval env (WhileLoop vs c body inits) = None"
| "tevals env [] = Some []"
| "tevals env (e # es) =
     (case teval env e of None \<Rightarrow> None
      | Some v \<Rightarrow> (case tevals env es of None \<Rightarrow> None | Some vs \<Rightarrow> Some (v # vs)))"

text \<open>The gate layouts: ONNX's \<open>W[iofc]\<close> and \<open>W[zrh]\<close>, and the layout the comment of
  \<open>LSTM._impl_v7\<close> gives for \<open>lstm_cell\<close>.  The block of gate \<open>g\<close> in a layout is
  the \<open>k\<close>-th of equal blocks, \<open>k\<close> the position of \<open>g\<close>.\<close>

definition onnx_lstm_gates :: "string list" where
  "onnx_lstm_gates = [''i'', ''o'', ''f'', ''c'']"

definition lstm_cell_gates :: "string list" where
  "lstm_cell_gates = [''i'', ''f'', ''c'', ''o'']"

definition onnx_gru_gates :: "string list" where
  "onnx_gru_gates = [''z'', ''r'', ''h'']"

definition gate_block :: "string list \<Rightarrow> 'a list \<Rightarrow> string \<Rightarrow> 'a list" where
  "gate_block layout rows g =
     (let k = length rows div length layout; j = length (takeWhile (\<lambda>x. x \<noteq> g) layout)
      in take k (drop (j * k) rows))"

subsection \<open>The contracts\<close>

text \<open>ONNX consumes \<open>activation_alpha\<close> and \<open>activation_beta\<close> in the order of the
  activation functions that take them: the parameter of activation \<open>i\<close> is the
  \<open>c\<close>-th value, \<open>c\<close> the number of earlier activations that take one, when there is
  such a value.\<close>

definition param_at :: "(string \<Rightarrow> bool) \<Rightarrow> 'a list \<Rightarrow> string list \<Rightarrow> nat \<Rightarrow> 'a option" where
  "param_at needs vals names i =
     (let c = length (filter needs (take i names))
      in if needs (names ! i) \<and> c < length vals then Some (vals ! c) else None)"

text \<open>The state of the loop after the activations \<open>names\<close>.\<close>

definition act_state :: "attr_value list \<Rightarrow> attr_value list \<Rightarrow> string list \<Rightarrow> nat \<times> nat \<times> act list" where
  "act_state alphas betas names =
     (min (length alphas) (length (filter activation_needs_alpha names)),
      min (length betas) (length (filter activation_needs_beta names)),
      map (\<lambda>i. ActConv (names ! i)
                 (act_attrs (param_at activation_needs_alpha alphas names i) (param_at activation_needs_beta betas names i)))
        [0..<length names])"

subsection \<open>Lemmas\<close>

lemma rbind_assoc: "rbind (rbind m f) g = rbind m (\<lambda>x. rbind (f x) g)"
  by (cases m) simp_all

lemma rfoldl_append: "rfoldl f s (xs @ ys) = rbind (rfoldl f s xs) (\<lambda>s'. rfoldl f s' ys)"
  by (induction xs arbitrary: s) (simp_all add: rbind_assoc)

lemma take_param_next:
  "take_param (P x) (Some vs) (min (length vs) (length (filter P xs))) =
     Inr (param_at P vs (xs @ [x]) (length xs), min (length vs) (length (filter P (xs @ [x]))))"
  by (auto simp: take_param_def param_at_def min_def)

lemma param_at_append: "i < length xs \<Longrightarrow> param_at P vs (xs @ ys) i = param_at P vs xs i"
  by (simp add: param_at_def nth_append)

lemma activation_helper_ok: "activation_helper n alpha beta = Inr (ActConv n (act_attrs alpha beta))"
proof -
  obtain m where "get_convert_map 1 = Inr m" using get_convert_map_ok by blast
  then show ?thesis by (simp add: activation_helper_def)
qed

lemma act_step_next:
  "act_step (Some alphas) (Some betas) (act_state alphas betas names) x = Inr (act_state alphas betas (names @ [x]))"
proof -
  have m: "map (\<lambda>i. ActConv ((names @ [x]) ! i)
                 (act_attrs (param_at activation_needs_alpha alphas (names @ [x]) i)
                            (param_at activation_needs_beta betas (names @ [x]) i))) [0..<length names]
         = map (\<lambda>i. ActConv (names ! i)
                 (act_attrs (param_at activation_needs_alpha alphas names i)
                            (param_at activation_needs_beta betas names i))) [0..<length names]"
    by (rule map_cong) (simp_all add: param_at_append nth_append)
  show ?thesis
    unfolding act_step_def act_state_def
    using take_param_next[of activation_needs_alpha x alphas names] take_param_next[of activation_needs_beta x betas names]
    by (simp add: activation_helper_ok m)
qed

lemma act_loop: "rfoldl (act_step (Some alphas) (Some betas)) (0, 0, []) names = Inr (act_state alphas betas names)"
proof (induction names rule: rev_induct)
  case Nil
  then show ?case by (simp add: act_state_def)
next
  case (snoc x xs)
  then show ?case by (simp add: rfoldl_append act_step_next)
qed

lemma split_sections_eq:
  "0 < n \<Longrightarrow> length xs = n * k \<Longrightarrow> split_sections n xs = Some (map (\<lambda>j. take k (drop (j * k) xs)) [0..<n])"
  by (simp add: split_sections_def)

lemma teval_split_item:
  assumes "teval env x = Some (TA xs)" and "0 < n" and "length xs = n * k" and "i < n"
  shows "teval env (split_item x (int n) 0 i) = Some (TA (take k (drop (i * k) xs)))"
  using assms by (simp add: split_item_def split_sections_eq)

lemma teval_squeeze0: "teval env x = Some (TA [v]) \<Longrightarrow> teval env (squeeze0 x) = Some v"
  by (simp add: squeeze0_def)

lemma those_ta_rows: "those (map (ta_rows \<circ> TA) rss) = Some rss"
  by (induction rss) simp_all

lemma teval_concat_axis0: "tevals env es = Some (map TA rss) \<Longrightarrow> teval env (concat_axis0 es) = Some (TA (concat rss))"
  by (simp add: concat_axis0_def those_ta_rows)

text \<open>Direction \<open>d\<close> of a stacked tensor.\<close>

lemma teval_direction:
  assumes "teval env x = Some (TA ds)" and "d < length ds"
  shows "teval env (squeeze0 (split_item x (int (length ds)) 0 d)) = Some (ds ! d)"
proof -
  have "teval env (split_item x (int (length ds)) 0 d) = Some (TA (take 1 (drop (d * 1) ds)))"
  proof (rule teval_split_item)
    show "0 < length ds" "d < length ds" using assms(2) by linarith+
  qed (use assms in simp_all)
  moreover have "drop d ds = ds ! d # drop (Suc d) ds"
    using assms(2) by (rule Cons_nth_drop_Suc[symmetric])
  then have "take 1 (drop d ds) = [ds ! d]" by simp
  ultimately show ?thesis by (simp add: teval_squeeze0)
qed

lemma tevals_map:
  "(\<And>x. x \<in> set xs \<Longrightarrow> teval env (f x) = Some (TA (g x))) \<Longrightarrow> tevals env (map f xs) = Some (map TA (map g xs))"
  by (induction xs) simp_all

lemma take_drop_concat_blocks:
  "\<forall>x \<in> set bs. length x = h \<Longrightarrow> j < length bs \<Longrightarrow> take h (drop (j * h) (concat bs)) = bs ! j"
proof (induction bs arbitrary: j)
  case (Cons b bs)
  then show ?case by (cases j) simp_all
qed simp

text \<open>Splitting a tensor of \<open>n\<close> equal blocks and concatenating them in the order
  \<open>perm\<close>.\<close>

lemma teval_permute_blocks:
  assumes "teval env m = Some (TA rows)" and "length rows = n * h" and "0 < n" and "\<forall>p \<in> set perm. p < n"
  shows "teval env (concat_axis0 (map (\<lambda>p. split_item m (int n) 0 p) perm))
           = Some (TA (concat (map (\<lambda>p. take h (drop (p * h) rows)) perm)))"
  using assms by (intro teval_concat_axis0 tevals_map teval_split_item) simp_all

lemma takeWhile_ne_less: "g \<in> set xs \<Longrightarrow> length (takeWhile (\<lambda>x. x \<noteq> g) xs) < length xs"
  by (induction xs) auto

lemma gate_block_concat:
  assumes "\<forall>p \<in> set perm. length (blk p) = h" and "length layout = length perm" and "g \<in> set layout"
  shows "gate_block layout (concat (map blk perm)) g = blk (perm ! length (takeWhile (\<lambda>x. x \<noteq> g) layout))"
proof -
  have len: "length (concat (map blk perm)) = length perm * h"
    using assms(1) by (induction perm) simp_all
  have "length (takeWhile (\<lambda>x. x \<noteq> g) layout) < length perm"
    using assms(2,3) takeWhile_ne_less by metis
  then show ?thesis
    using assms(1,2) len take_drop_concat_blocks[of "map blk perm" h]
    by (cases "perm = []") (auto simp: gate_block_def)
qed

lemma gate_block_rows:
  "length rows = length layout * h \<Longrightarrow> 0 < length layout \<Longrightarrow>
     gate_block layout rows g = take h (drop (length (takeWhile (\<lambda>x. x \<noteq> g) layout) * h) rows)"
  by (simp add: gate_block_def)

lemma block_length:
  assumes "p < n" and "length rows = n * h"
  shows "length (take h (drop (p * h) rows)) = h"
proof -
  have "1 \<le> n - p" using assms(1) by simp
  then have "h \<le> (n - p) * h" using mult_le_mono1[of 1 "n - p" h] by simp
  then show ?thesis using assms(2) by (simp add: diff_mult_distrib)
qed

text \<open>A permutation of the gate blocks of a direction: the cell's block of each gate
  is the ONNX block of that gate when \<open>perm\<close> sends the gate's position in the cell
  layout to its position in the ONNX layout.\<close>

lemma gate_permutation:
  assumes "teval env m = Some (TA ds)" and "d < length ds" and "ds ! d = TA rows"
    and "length rows = length onnx * h" and "0 < length onnx" and "\<forall>p \<in> set perm. p < length onnx"
    and "length cell = length perm"
    and "\<forall>g \<in> set onnx. g \<in> set cell \<and>
           perm ! length (takeWhile (\<lambda>x. x \<noteq> g) cell) = length (takeWhile (\<lambda>x. x \<noteq> g) onnx)"
  shows "\<exists>rows'. teval env (concat_axis0 (map (\<lambda>p. split_item (squeeze0 (split_item m (int (length ds)) 0 d))
                                                    (int (length onnx)) 0 p) perm)) = Some (TA rows')
           \<and> (\<forall>g \<in> set onnx. gate_block cell rows' g = gate_block onnx rows g)"
proof -
  define blk where "blk = (\<lambda>p. take h (drop (p * h) rows))"
  have sq: "teval env (squeeze0 (split_item m (int (length ds)) 0 d)) = Some (TA rows)"
    using teval_direction[OF assms(1,2)] assms(3) by simp
  have ev: "teval env (concat_axis0 (map (\<lambda>p. split_item (squeeze0 (split_item m (int (length ds)) 0 d))
                                                    (int (length onnx)) 0 p) perm)) = Some (TA (concat (map blk perm)))"
    using teval_permute_blocks[OF sq assms(4,5,6)] by (simp add: blk_def)
  have lens: "\<forall>p \<in> set perm. length (blk p) = h"
    using assms(6) block_length[OF _ assms(4)] unfolding blk_def by blast
  have "gate_block cell (concat (map blk perm)) g = gate_block onnx rows g" if "g \<in> set onnx" for g
    using that assms(8) gate_block_concat[OF lens assms(7), of g] gate_block_rows[OF assms(4,5), of g]
    by (simp add: blk_def)
  then show ?thesis using ev by blast
qed

lemma lstm_gate_permutation:
  assumes "teval env m = Some (TA ds)" and "d < length ds" and "ds ! d = TA rows" and "length rows = 4 * h"
  shows "\<exists>rows'. teval env (iofc_to_ifco (squeeze0 (split_item m (int (length ds)) 0 d))) = Some (TA rows')
           \<and> (\<forall>g \<in> set onnx_lstm_gates. gate_block lstm_cell_gates rows' g = gate_block onnx_lstm_gates rows g)"
proof -
  have "iofc_to_ifco x = concat_axis0 (map (\<lambda>p. split_item x (int (length onnx_lstm_gates)) 0 p) [0, 2, 3, 1])" for x
    by (simp add: iofc_to_ifco_def onnx_lstm_gates_def)
  then show ?thesis
    using gate_permutation[OF assms(1,2,3), of onnx_lstm_gates h "[0, 2, 3, 1]" lstm_cell_gates] assms(4)
    by (simp add: onnx_lstm_gates_def lstm_cell_gates_def eval_nat_numeral)
qed

lemma gru_gate_permutation:
  assumes "teval env m = Some (TA ds)" and "d < length ds" and "ds ! d = TA rows" and "length rows = 3 * h"
  shows "\<exists>rows'. teval env (zrn_to_rzn (squeeze0 (split_item m (int (length ds)) 0 d))) = Some (TA rows')
           \<and> (\<forall>g \<in> set onnx_gru_gates. gate_block [''r'', ''z'', ''h''] rows' g = gate_block onnx_gru_gates rows g)"
proof -
  have "zrn_to_rzn x = concat_axis0 (map (\<lambda>p. split_item x (int (length onnx_gru_gates)) 0 p) [1, 0, 2])" for x
    by (simp add: zrn_to_rzn_def onnx_gru_gates_def)
  then show ?thesis
    using gate_permutation[OF assms(1,2,3), of onnx_gru_gates h "[1, 0, 2]" "[''r'', ''z'', ''h'']"] assms(4)
    by (simp add: onnx_gru_gates_def eval_nat_numeral)
qed

lemma rnn_activations_cong:
  assumes "param_list a ''activation_alpha'' = param_list b ''activation_alpha''"
    and "param_list a ''activation_beta'' = param_list b ''activation_beta''"
  shows "rnn_activations op a v k = rnn_activations op b v k"
  unfolding rnn_activations_def assms ..

lemma lstm_impl_v7_attr_cong:
  assumes "map_of a ''activations'' = map_of b ''activations''"
    and "map_of a ''activation_alpha'' = map_of b ''activation_alpha''"
    and "map_of a ''activation_beta'' = map_of b ''activation_beta''"
  shows "lstm_impl_v7 ora params inputs a = lstm_impl_v7 ora params inputs b"
  unfolding lstm_impl_v7_def rnn_activations_def param_list_def assms ..

lemma gru_impl_v7_attr_cong:
  assumes "map_of a ''activations'' = map_of b ''activations''"
    and "map_of a ''activation_alpha'' = map_of b ''activation_alpha''"
    and "map_of a ''activation_beta'' = map_of b ''activation_beta''"
    and "map_of a ''linear_before_reset'' = map_of b ''linear_before_reset''"
  shows "gru_impl_v7 ora params inputs a = gru_impl_v7 ora params inputs b"
  unfolding gru_impl_v7_def rnn_activations_def param_list_def assms ..

lemma rnn_activations_count:
  "attr_len v = Some n \<Longrightarrow> n \<noteq> k \<Longrightarrow>
     rnn_activations op attr v k = Inl (NotImplementedErr (op @ '' assumes num_directions activation functions are provided''))"
  by (simp add: rnn_activations_def)

lemma rnn_directions_ok: "rnn_directions d = Inr nd \<longleftrightarrow> (d = Dim 1 \<and> nd = 1) \<or> (d = Dim 2 \<and> nd = 2)"
  by (cases d) auto

subsection \<open>Properties of the recurrent rules\<close>

text \<open>C16 (functional): \<open>LSTM._impl_v7\<close> and \<open>GRU._impl_v7\<close> never read the \<open>direction\<close>
  attribute: a node whose \<open>direction\<close> is \<open>"reverse"\<close> converts exactly like one without
  the attribute, that is, with a forward cell.\<close>

theorem rnn_impls_ignore_direction:
  "lstm_impl_v7 ora params inputs (dict_set attr ''direction'' v) = lstm_impl_v7 ora params inputs (dict_pop attr ''direction'')
   \<and> gru_impl_v7 ora params inputs (dict_set attr ''direction'' v) = gru_impl_v7 ora params inputs (dict_pop attr ''direction'')"
  by (intro conjI lstm_impl_v7_attr_cong gru_impl_v7_attr_cong) simp_all

text \<open>C17 (equivalence): the loop of \<open>LSTM._impl_v7\<close> and \<open>GRU._impl_v7\<close> over the
  activations, with its counters \<open>alpha_loc\<close> and \<open>beta_loc\<close>, gives activation \<open>i\<close>
  exactly the parameters ONNX assigns it: the next unused \<open>activation_alpha\<close> value when
  the activation takes one and one is left, and likewise for \<open>activation_beta\<close>.\<close>

theorem rnn_activations_in_order:
  assumes "param_list attr ''activation_alpha'' = Some alphas" and "param_list attr ''activation_beta'' = Some betas"
  shows "rnn_activations op attr (AStrings names) (length names) =
           Inr (map (\<lambda>i. ActConv (names ! i)
                         (act_attrs (param_at activation_needs_alpha alphas names i)
                                    (param_at activation_needs_beta betas names i))) [0..<length names])"
  using assms by (simp add: rnn_activations_def act_loop act_state_def)

text \<open>C18 (refinement): for each direction \<open>d\<close> of the stacked weights \<open>W\<close> and \<open>R\<close>
  (gates in ONNX's order i-o-f-c), the \<open>w_inp\<close> and \<open>w_hid\<close> that \<open>LSTM._impl_v7\<close> passes
  to the cell of direction \<open>d\<close> hold, at each gate's place in the cell's order i-f-c-o,
  the block of that same gate of \<open>W[d]\<close> and \<open>R[d]\<close>.\<close>

theorem lstm_weights_gate_layout:
  assumes "teval env W = Some (TA ws)" and "teval env R = Some (TA rs)" and "length ws = nd" and "length rs = nd"
    and "d < nd" and "ws ! d = TA wr" and "rs ! d = TA rr" and "length wr = 4 * h" and "length rr = 4 * h'"
  shows "\<exists>ew er wr' rr'. map_of (lstm_weights nd H0 C0 W R B P d) ''w_inp'' = Some (WExpr ew)
           \<and> map_of (lstm_weights nd H0 C0 W R B P d) ''w_hid'' = Some (WExpr er)
           \<and> teval env ew = Some (TA wr') \<and> teval env er = Some (TA rr')
           \<and> (\<forall>g \<in> set onnx_lstm_gates. gate_block lstm_cell_gates wr' g = gate_block onnx_lstm_gates wr g
                 \<and> gate_block lstm_cell_gates rr' g = gate_block onnx_lstm_gates rr g)"
proof -
  obtain wr' where w: "teval env (iofc_to_ifco (squeeze0 (split_item W (int nd) 0 d))) = Some (TA wr')"
      "\<forall>g \<in> set onnx_lstm_gates. gate_block lstm_cell_gates wr' g = gate_block onnx_lstm_gates wr g"
    using lstm_gate_permutation[OF assms(1) _ assms(6,8)] assms(3,5) by blast
  obtain rr' where r: "teval env (iofc_to_ifco (squeeze0 (split_item R (int nd) 0 d))) = Some (TA rr')"
      "\<forall>g \<in> set onnx_lstm_gates. gate_block lstm_cell_gates rr' g = gate_block onnx_lstm_gates rr g"
    using lstm_gate_permutation[OF assms(2) _ assms(7,9)] assms(4,5) by blast
  show ?thesis using w r by (simp add: lstm_weights_def)
qed

subsection \<open>Witnesses\<close>

theorem rnn_activations_in_order_witness:
  "rnn_activations ''LSTM'' [(''activation_alpha'', AFloats [1 / 10])] (AStrings [''LeakyRelu'', ''Tanh'', ''Elu'']) 3 =
     Inr [ActConv ''LeakyRelu'' [(''alpha'', AFloat (1 / 10))], ActConv ''Tanh'' [], ActConv ''Elu'' []]"
proof -
  have "rnn_activations ''LSTM'' [(''activation_alpha'', AFloats [1 / 10])] (AStrings [''LeakyRelu'', ''Tanh'', ''Elu''])
          (length [''LeakyRelu'', ''Tanh'', ''Elu'']) =
        Inr (map (\<lambda>i. ActConv ([''LeakyRelu'', ''Tanh'', ''Elu''] ! i)
               (act_attrs (param_at activation_needs_alpha [AFloat (1 / 10)] [''LeakyRelu'', ''Tanh'', ''Elu''] i)
                          (param_at activation_needs_beta [] [''LeakyRelu'', ''Tanh'', ''Elu''] i))) [0..<length [''LeakyRelu'', ''Tanh'', ''Elu'']])"
    by (rule rnn_activations_in_order) (simp_all add: param_list_def)
  then show ?thesis
    by (simp add: param_at_def act_attrs_def activation_needs_alpha_def activation_needs_beta_def
        needs_alpha_def needs_beta_def upt_rec numeral_3_eq_3)
qed

theorem lstm_weights_gate_layout_witness:
  "\<exists>ew er wr' rr'.
     map_of (lstm_weights 1 (Var ''h'' [] None) (Var ''c'' [] None) (Var ''W'' [] None) (Var ''R'' [] None) None None 0) ''w_inp''
       = Some (WExpr ew)
     \<and> map_of (lstm_weights 1 (Var ''h'' [] None) (Var ''c'' [] None) (Var ''W'' [] None) (Var ''R'' [] None) None None 0) ''w_hid''
       = Some (WExpr er)
     \<and> teval (map_of [(''W'', TA [TA [TS 1, TS 2, TS 3, TS 4]]), (''R'', TA [TA [TS 5, TS 6, TS 7, TS 8]])]) ew = Some (TA wr')
     \<and> teval (map_of [(''W'', TA [TA [TS 1, TS 2, TS 3, TS 4]]), (''R'', TA [TA [TS 5, TS 6, TS 7, TS 8]])]) er = Some (TA rr')
     \<and> (\<forall>g \<in> set onnx_lstm_gates. gate_block lstm_cell_gates wr' g = gate_block onnx_lstm_gates [TS 1, TS 2, TS 3, TS 4] g
           \<and> gate_block lstm_cell_gates rr' g = gate_block onnx_lstm_gates [TS 5, TS 6, TS 7, TS 8] g)"
  by (rule lstm_weights_gate_layout[where ws = "[TA [TS 1, TS 2, TS 3, TS 4]]" and rs = "[TA [TS 5, TS 6, TS 7, TS 8]]"
        and h = 1 and h' = 1]) simp_all

end
