(* ===== verification/Resample.thy ===== *)
theory Resample
  imports Tensor_Ops
begin

text \<open>
  The resampling rules of \<open>onnx.py\<close>: \<open>Resize\<close> (versions 10, 11 and 13 and their shared
  \<open>v11_13_common\<close>) and \<open>Upsample\<close> (version 9), at the level of the Relay calls they
  build (\<open>image.resize1d/2d/3d\<close>, \<open>nn.upsampling\<close>, \<open>nn.upsampling3d\<close>).
  The scales of \<open>Upsample\<close> are either a list of numbers known at conversion time or a
  Relay expression; a number the rule passes as a scale argument is written as a
  \<open>const\<close> call.  \<open>scale_value\<close> gives a scale argument its value: a constant, or
  Relay's \<open>take\<close> (in its default \<open>clip\<close> mode) of a 1-D scales tensor.
\<close>

subsection \<open>Shared pieces\<close>

text \<open>\<open>attr.get(k).decode("ascii")\<close>: an absent attribute is \<open>None\<close>, which has no
  \<open>decode\<close>; \<open>attr.get(k, d).decode("ascii")\<close> with a default.\<close>

definition attr_req_str :: "attr_dict \<Rightarrow> string \<Rightarrow> string result" where
  "attr_req_str attr k = (case map_of attr k of None \<Rightarrow> Inl (TypeErr ''decode'') | Some v \<Rightarrow> attr_str v)"

definition attr_get_str :: "attr_dict \<Rightarrow> string \<Rightarrow> string \<Rightarrow> string result" where
  "attr_get_str attr k d = (case map_of attr k of None \<Rightarrow> Inr d | Some v \<Rightarrow> attr_str v)"

text \<open>\<open>attr.get(k, d)\<close> passed on as a keyword argument.\<close>

definition attr_get_py :: "attr_dict \<Rightarrow> string \<Rightarrow> pyval \<Rightarrow> pyval" where
  "attr_get_py attr k d = (case map_of attr k of None \<Rightarrow> d | Some v \<Rightarrow> to_pyval v)"

text \<open>A Python float passed where Relay takes a scale.\<close>

definition py_float :: "real \<Rightarrow> expr" where
  "py_float r = Call ''const'' [] [(''value'', PFloat r)]"

subsection \<open>\<open>Resize\<close>\<close>

text \<open>The mode of both \<open>Resize\<close> paths.\<close>

definition resize_method :: "string \<Rightarrow> string result" where
  "resize_method mode =
     (if mode = ''nearest'' then Inr ''nearest_neighbor''
      else if mode = ''linear'' then Inr ''linear''
      else if mode = ''cubic'' then Inr ''cubic''
      else Inl (OpAttributeInvalid (''Value '' @ mode @ '' in attribute mode of operator Resize is not valid.'')))"

text \<open>The operator and layout by rank: \<open>resize1d\<close>/\<open>NCW\<close>, \<open>resize2d\<close>/\<open>NCHW\<close>,
  \<open>resize3d\<close>/\<open>NCDHW\<close>.\<close>

definition resize_op :: "nat \<Rightarrow> (string \<times> string) option" where
  "resize_op ndims =
     (if ndims = 3 then Some (''image.resize1d'', ''NCW'')
      else if ndims = 4 then Some (''image.resize2d'', ''NCHW'')
      else if ndims = 5 then Some (''image.resize3d'', ''NCDHW'')
      else None)"

text \<open>\<open>fold_constant(_op.strided_slice(size, [2], [ndims]))\<close>.\<close>

definition resize_out_size :: "oracles \<Rightarrow> expr \<Rightarrow> nat \<Rightarrow> expr" where
  "resize_out_size ora sz ndims =
     fold_constant ora (Call ''strided_slice'' [sz] [(''begin'', PTuple [PInt 2]), (''end'', PTuple [PInt (int ndims)])])"

text \<open>\<open>_op.cast(shape_of(x), infer_type(scale).checked_type.dtype) * scale\<close>.\<close>

definition size_from_scale :: "oracles \<Rightarrow> expr \<Rightarrow> expr \<Rightarrow> expr" where
  "size_from_scale ora x scale =
     bin_op ''multiply'' (Call ''cast'' [shape_of_expr ora x ''int64''] [(''dtype'', PStr (infer_dtype ora scale))]) scale"

definition resize_impl_v10 :: "oracles \<Rightarrow> plain_conv" where
  "resize_impl_v10 ora params inputs attr =
     rbind (attr_req_str attr ''mode'') (\<lambda>mode.
     rbind (resize_method mode) (\<lambda>method.
     rbind (input_expr inputs 0) (\<lambda>x.
     rbind (input_expr inputs 1) (\<lambda>scale.
     let sz = size_from_scale ora x scale;
         ndims = length (infer_shape ora x)
     in case resize_op ndims of
          None \<Rightarrow> Inl (NotImplementedErr ''Resize only supports 3, 4, or 5 dims'')
        | Some (op, layout) \<Rightarrow>
            Inr (Single (Call op [x, resize_out_size ora sz ndims]
                   [(''layout'', PStr layout), (''method'', PStr method),
                    (''coordinate_transformation_mode'', PStr ''asymmetric'')]))))))"

text \<open>\<open>Resize.v11_13_common\<close>: the size is built by the caller and may be \<open>None\<close>, which
  \<open>strided_slice\<close> rejects; the first \<open>out_size\<close> the code computes is overwritten in
  every branch.\<close>

definition resize_v11_13_common :: "oracles \<Rightarrow> expr option list \<Rightarrow> expr option \<Rightarrow> attr_dict \<Rightarrow> conv_out result" where
  "resize_v11_13_common ora inputs sizes attr =
     rbind (input_expr inputs 0) (\<lambda>x.
     let ndims = length (infer_shape ora x) in
     rbind (attr_req_str attr ''mode'') (\<lambda>mode.
     rbind (resize_method mode) (\<lambda>method.
     rbind (attr_get_str attr ''coordinate_transformation_mode'' ''half_pixel'') (\<lambda>coord_trans.
     rbind (attr_get_str attr ''nearest_mode'' ''round_prefer_floor'') (\<lambda>nearest_mode.
     let alpha = attr_get_py attr ''cubic_coeff_a'' (PFloat (- 3 / 4));
         exclude = attr_get_py attr ''exclude_outside'' (PInt 0)
     in rbind (need_expr sizes) (\<lambda>sz.
     case resize_op ndims of
       None \<Rightarrow> Inl (NotImplementedErr ''Resize only supports 3, 4, or 5 dims'')
     | Some (op, layout) \<Rightarrow>
         Inr (Single (Call op [x, resize_out_size ora sz ndims]
                [(''layout'', PStr layout), (''method'', PStr method),
                 (''coordinate_transformation_mode'', PStr coord_trans), (''rounding_method'', PStr nearest_mode),
                 (''cubic_alpha'', alpha), (''cubic_exclude'', exclude)]))))))))"

text \<open>Version 11: with four inputs the scales must be empty and \<open>sizes\<close> is used;
  otherwise the scales give the size.\<close>

definition resize_impl_v11 :: "oracles \<Rightarrow> plain_conv" where
  "resize_impl_v11 ora params inputs attr =
     rbind (input_expr inputs 2) (\<lambda>scale.
     let scale_shape = infer_shape ora scale in
     if length inputs = 4 then
       (if scale_shape = [] \<or> scale_shape ! 0 = Dim 0
        then rbind (onnx_input_get inputs 3) (\<lambda>sizes. resize_v11_13_common ora inputs sizes attr)
        else Inl (AssertionErr ''One of scale or size should be passed, not both.''))
     else if scale_shape \<noteq> []
     then rbind (input_expr inputs 0) (\<lambda>x. resize_v11_13_common ora inputs (Some (size_from_scale ora x scale)) attr)
     else Inl (AssertionErr ''One of scale or size should be passed.''))"

text \<open>Version 13: \<open>sizes\<close> when given (then the scales must be absent), the scales
  otherwise.\<close>

definition resize_impl_v13 :: "oracles \<Rightarrow> plain_conv" where
  "resize_impl_v13 ora params inputs attr =
     rbind (onnx_input_get inputs 2) (\<lambda>scale.
     rbind (onnx_input_get inputs 3) (\<lambda>sizes.
     case sizes of
       Some s \<Rightarrow>
         if scale = None then resize_v11_13_common ora inputs (Some s) attr
         else Inl (AssertionErr ''One of scale or size should be passed, not both.'')
     | None \<Rightarrow>
         rbind (need_expr scale) (\<lambda>sc.
         if infer_shape ora sc = [] then Inl (AssertionErr ''One of scale or size should be passed.'')
         else rbind (input_expr inputs 0) (\<lambda>x.
              resize_v11_13_common ora inputs (Some (size_from_scale ora x sc)) attr))))"

subsection \<open>\<open>Upsample\<close>\<close>

text \<open>The scales of \<open>Upsample\<close>: numbers known at conversion time, or a Relay
  expression.\<close>

datatype scales = SList "real list" | SExpr expr

text \<open>A truthy \<open>scales\<close> attribute: a list of numbers; any other value (a scalar or a
  string) cannot be indexed as one.\<close>

fun scales_of_attr :: "attr_value \<Rightarrow> scales result" where
  "scales_of_attr (AFloats rs) = Inr (SList rs)"
| "scales_of_attr (AInts xs) = Inr (SList (map of_int xs))"
| "scales_of_attr _ = Inl (TypeErr ''scales'')"

text \<open>The second input when the attribute is absent or empty: the value in
  \<open>params\<close> when its name is there, a \<open>Constant\<close>'s data, or the expression itself.\<close>

definition scales_of_input :: "(string, ndarray) pydict \<Rightarrow> expr option list \<Rightarrow> scales result" where
  "scales_of_input params inputs =
     (if length inputs \<noteq> 2 then Inl (AssertionErr ''Upsample op takes 2 inputs'')
      else rbind (onnx_input_get inputs 1) (\<lambda>s.
           if get_name s \<in> set (dict_keys params) then
             (case s of
                Some (Var n _ _) \<Rightarrow>
                  (case map_of params n of None \<Rightarrow> Inl (KeyErr n) | Some a \<Rightarrow> Inr (SList (map of_int (nd_data a))))
              | _ \<Rightarrow> Inl (TypeErr ''name_hint''))
           else (case s of
                   None \<Rightarrow> Inl (TypeErr ''subscript'')
                 | Some (Const a) \<Rightarrow> Inr (SList (map of_int (nd_data a)))
                 | Some e \<Rightarrow> Inr (SExpr e))))"

definition upsample_scales :: "(string, ndarray) pydict \<Rightarrow> expr option list \<Rightarrow> attr_dict \<Rightarrow> scales result" where
  "upsample_scales params inputs attr =
     (case map_of attr ''scales'' of
        Some v \<Rightarrow> if attr_truthy v then scales_of_attr v else scales_of_input params inputs
      | None \<Rightarrow> scales_of_input params inputs)"

text \<open>\<open>assert scales[0] == 1.0 and scales[1] == 1.0\<close> on numbers.\<close>

fun upsample_check :: "scales \<Rightarrow> unit result" where
  "upsample_check (SList xs) =
     rbind (py_index xs 0) (\<lambda>a.
     if a \<noteq> 1 then Inl (AssertionErr [])
     else rbind (py_index xs 1) (\<lambda>b. if b \<noteq> 1 then Inl (AssertionErr []) else Inr ()))"
| "upsample_check (SExpr e) = Inr ()"

text \<open>\<open>_op.take(scales, _op.const(k))\<close>.\<close>

definition take_scale :: "expr \<Rightarrow> int \<Rightarrow> expr" where
  "take_scale s k = Call ''take'' [s, scalar_const ''int32'' k] []"

text \<open>The scale arguments: \<open>(scale_d, scale_h, scale_w)\<close> for a 5-D input, \<open>(scale_h,
  scale_w)\<close> otherwise, taken from a Relay scales tensor at indices 1, 3 and 4 (resp.
  3 and 4), or from a list of numbers at \<open>-3\<close>, \<open>-2\<close> and \<open>-1\<close> after checking its
  length.\<close>

fun upsample_scale_args :: "bool \<Rightarrow> scales \<Rightarrow> expr list result" where
  "upsample_scale_args True (SExpr s) = Inr [take_scale s 1, take_scale s 3, take_scale s 4]"
| "upsample_scale_args True (SList xs) =
     (if length xs \<noteq> 5 then Inl (AssertionErr [])
      else rbind (py_index xs (-2)) (\<lambda>h. rbind (py_index xs (-1)) (\<lambda>w. rbind (py_index xs (-3)) (\<lambda>d.
           Inr [py_float d, py_float h, py_float w]))))"
| "upsample_scale_args False (SExpr s) = Inr [take_scale s 3, take_scale s 4]"
| "upsample_scale_args False (SList xs) =
     (if length xs \<noteq> 4 then Inl (AssertionErr [])
      else rbind (py_index xs (-2)) (\<lambda>h. rbind (py_index xs (-1)) (\<lambda>w. Inr [py_float h, py_float w])))"

definition upsample_impl_v9 :: "oracles \<Rightarrow> plain_conv" where
  "upsample_impl_v9 ora params inputs attr =
     rbind (input_expr inputs 0) (\<lambda>x.
     let dims = length (infer_shape ora x) in
     rbind (upsample_scales params inputs attr) (\<lambda>scales.
     rbind (upsample_check scales) (\<lambda>_.
     rbind (case map_of attr ''mode'' of
              Some (ABytes m) \<Rightarrow>
                if m = ''nearest'' then Inr ''nearest_neighbor''
                else if m = ''linear'' then Inr (if dims = 5 then ''trilinear'' else ''bilinear'')
                else Inl (OpAttributeInvalid ''Value in attribute mode of operator Upsample is not valid.'')
            | _ \<Rightarrow> Inl (OpAttributeInvalid ''Value in attribute mode of operator Upsample is not valid.'')) (\<lambda>method.
     rbind (upsample_scale_args (dims = 5) scales) (\<lambda>sargs.
     if dims = 5 then
       Inr (Single (Call ''nn.upsampling3d'' (x # sargs)
              [(''layout'', PStr ''NCDHW''), (''method'', PStr method),
               (''coordinate_transformation_mode'', PStr ''asymmetric'')]))
     else
       Inr (Single (Call ''nn.upsampling'' (x # sargs)
              [(''layout'', PStr ''NCHW''), (''method'', PStr method), (''align_corners'', PBool False)])))))))"

subsection \<open>Values of the scale arguments\<close>

text \<open>Relay's \<open>take(a, k)\<close> of a 1-D tensor in its default \<open>mode="clip"\<close>: the index is
  clamped into range.\<close>

definition take_clip :: "real list \<Rightarrow> int \<Rightarrow> real" where
  "take_clip xs k = xs ! nat (min (max k 0) (int (length xs) - 1))"

fun scale_value :: "(string \<Rightarrow> real list option) \<Rightarrow> expr \<Rightarrow> real option" where
  "scale_value env (Call f args kw) =
     (if f = ''const'' \<and> args = [] then (case kw of [(''value'', PFloat r)] \<Rightarrow> Some r | _ \<Rightarrow> None)
      else if f = ''take'' \<and> kw = [] then
        (case args of
           [Var n _ _, Const c] \<Rightarrow>
             (case (env n, nd_data c) of
                (Some xs, [k]) \<Rightarrow> if xs = [] then None else Some (take_clip xs k)
              | _ \<Rightarrow> None)
         | _ \<Rightarrow> None)
      else None)"
| "scale_value env _ = None"

subsection \<open>Lemmas\<close>

text \<open>With a scales input that is neither a constant nor in \<open>params\<close>, a 4-D \<open>Upsample\<close>
  takes its scales at indices 3 and 4; with constant scales it takes the last two; a 5-D
  one takes the depth scale at index 1, the channel axis.  Without a \<open>mode\<close> attribute
  (ONNX's default is \<open>nearest\<close>) both rules fail.  \<open>Resize\<close> versions 11 and 13 agree on a
  node that gives only scales.\<close>

lemma upsample_dynamic:
  assumes "length (infer_shape ora x) = 4" and "map_of attr ''scales'' = None"
    and "map_of attr ''mode'' = Some (ABytes ''nearest'')" and "n \<notin> set (dict_keys params)"
  shows "upsample_impl_v9 ora params [Some x, Some (Var n s t)] attr =
           Inr (Single (Call ''nn.upsampling'' [x, take_scale (Var n s t) 3, take_scale (Var n s t) 4]
             [(''layout'', PStr ''NCHW''), (''method'', PStr ''nearest_neighbor''), (''align_corners'', PBool False)]))"
  using assms by (simp add: upsample_impl_v9_def upsample_scales_def scales_of_input_def input_expr_def onnx_input_get_def)

lemma upsample_static:
  assumes "length (infer_shape ora x) = 4" and "map_of attr ''scales'' = None"
    and "map_of attr ''mode'' = Some (ABytes ''nearest'')"
    and "nd_data a = [1, 1, sh, sw]" and "[] \<notin> set (dict_keys params)"
  shows "upsample_impl_v9 ora params [Some x, Some (Const a)] attr =
           Inr (Single (Call ''nn.upsampling'' [x, py_float (of_int sh), py_float (of_int sw)]
             [(''layout'', PStr ''NCHW''), (''method'', PStr ''nearest_neighbor''), (''align_corners'', PBool False)]))"
  using assms by (simp add: upsample_impl_v9_def upsample_scales_def scales_of_input_def input_expr_def
      onnx_input_get_def py_index_def py_nth_def)

lemma upsample_dynamic_3d:
  assumes "length (infer_shape ora x) = 5" and "map_of attr ''scales'' = None"
    and "map_of attr ''mode'' = Some (ABytes ''nearest'')" and "n \<notin> set (dict_keys params)"
    and "env n = Some [s0, s1, sd, sh, sw]"
  shows "\<exists>ed eh ew. upsample_impl_v9 ora params [Some x, Some (Var n s t)] attr =
             Inr (Single (Call ''nn.upsampling3d'' [x, ed, eh, ew]
               [(''layout'', PStr ''NCDHW''), (''method'', PStr ''nearest_neighbor''),
                (''coordinate_transformation_mode'', PStr ''asymmetric'')]))
           \<and> scale_value env ed = Some s1 \<and> scale_value env eh = Some sh \<and> scale_value env ew = Some sw"
  using assms
  by (simp add: upsample_impl_v9_def upsample_scales_def scales_of_input_def input_expr_def onnx_input_get_def
      take_scale_def scalar_const_def take_clip_def)

lemma upsample_no_mode:
  assumes "map_of attr ''mode'' = None" and "upsample_scales params inputs attr = Inr sc" and "upsample_check sc = Inr u"
    and "input_expr inputs 0 = Inr x"
  shows "upsample_impl_v9 ora params inputs attr = Inl (OpAttributeInvalid ''Value in attribute mode of operator Upsample is not valid.'')"
  using assms by (simp add: upsample_impl_v9_def)

lemma resize_no_mode:
  assumes "map_of attr ''mode'' = None"
  shows "resize_impl_v10 ora params inputs attr = Inl (TypeErr ''decode'')"
    and "input_expr inputs 0 = Inr x \<Longrightarrow> resize_v11_13_common ora inputs sz attr = Inl (TypeErr ''decode'')"
  using assms by (simp_all add: resize_impl_v10_def resize_v11_13_common_def attr_req_str_def)

lemma resize_v11_v13_scales:
  assumes "length inputs = 3" and "inputs ! 2 = Some scale" and "infer_shape ora scale \<noteq> []"
  shows "resize_impl_v11 ora params inputs attr = resize_impl_v13 ora params inputs attr"
proof -
  have i2: "input_expr inputs 2 = Inr scale" "onnx_input_get inputs 2 = Inr (Some scale)"
    using assms(1,2) by (simp_all add: input_expr_def onnx_input_get_def py_nth_def)
  have i3: "onnx_input_get inputs 3 = Inr None" using assms(1) by (simp add: onnx_input_get_def)
  show ?thesis using assms(1,3) i2 i3 by (simp add: resize_impl_v11_def resize_impl_v13_def need_expr_def Let_def)
qed

subsection \<open>Properties\<close>

text \<open>C11 (functional): when the scales of a 4-D \<open>Upsample\<close> are a runtime tensor
  \<open>[s0, s1, sh, sw]\<close> (not a constant, not in \<open>params\<close>), \<open>Upsample._impl_v9\<close> passes
  \<open>take(scales, 3)\<close> and \<open>take(scales, 4)\<close> as the height and width scales: both evaluate
  to the width scale \<open>sw\<close> (index 4 is past the end and \<open>take\<close> clips it), so the height is
  scaled by the width's factor.\<close>

theorem upsample_dynamic_scale_h_from_width:
  assumes "length (infer_shape ora x) = 4" and "map_of attr ''scales'' = None"
    and "map_of attr ''mode'' = Some (ABytes ''nearest'')" and "n \<notin> set (dict_keys params)"
    and "env n = Some [s0, s1, sh, sw]"
  shows "\<exists>eh ew. upsample_impl_v9 ora params [Some x, Some (Var n s t)] attr =
             Inr (Single (Call ''nn.upsampling'' [x, eh, ew]
               [(''layout'', PStr ''NCHW''), (''method'', PStr ''nearest_neighbor''), (''align_corners'', PBool False)]))
           \<and> scale_value env eh = Some sw \<and> scale_value env ew = Some sw"
  using upsample_dynamic[OF assms(1-4)] assms(5)
  by (simp add: take_scale_def scalar_const_def take_clip_def)

subsection \<open>Witnesses\<close>

theorem upsample_dynamic_scale_h_from_width_witness:
  "\<exists>eh ew. upsample_impl_v9 (static_oracles [Dim 1, Dim 3, Dim 4, Dim 4]) []
             [Some (Var ''x'' [] None), Some (Var ''scales'' [] None)] [(''mode'', ABytes ''nearest'')] =
             Inr (Single (Call ''nn.upsampling'' [Var ''x'' [] None, eh, ew]
               [(''layout'', PStr ''NCHW''), (''method'', PStr ''nearest_neighbor''), (''align_corners'', PBool False)]))
           \<and> scale_value (map_of [(''scales'', [1, 1, 2, 3])]) eh = Some 3
           \<and> scale_value (map_of [(''scales'', [1, 1, 2, 3])]) ew = Some 3"
  by (rule upsample_dynamic_scale_h_from_width) (simp_all add: static_oracles_def)

end
