(* ===== verification/Misc_Ops.thy ===== *)
theory Misc_Ops
  imports Resample
begin

text \<open>
  Further operator rules of \<open>onnx.py\<close>, each a \<open>plain_conv\<close>: the arithmetic and
  activation rules \<open>Mod\<close>, \<open>Shrink\<close>, \<open>HardSigmoid\<close>, \<open>Celu\<close>, \<open>IsInf\<close>, \<open>Maximum\<close>,
  \<open>Minimum\<close>; the reductions \<open>ReduceSumSquare\<close>, \<open>ReduceL1\<close>, \<open>ReduceL2\<close>, \<open>ReduceLogSum\<close>,
  \<open>ArgMax\<close>, \<open>ArgMin\<close>, \<open>Hardmax\<close>; the tensor builders \<open>OneHot\<close>, \<open>ConstantOfShape\<close>,
  \<open>Constant\<close>, \<open>EyeLike\<close>, \<open>Range\<close>, \<open>NonZero\<close>, \<open>Cast\<close>, \<open>CumSum\<close>; the indexing rules
  \<open>GatherND\<close>, \<open>Compress\<close>, \<open>TopK\<close>, \<open>ReverseSequence\<close>; and \<open>LRN\<close>, \<open>MaxRoiPool\<close>,
  \<open>RoiAlign\<close>, \<open>LpPool\<close> and \<open>MaxUnpool\<close>.
\<close>

subsection \<open>Shared pieces\<close>

text \<open>\<open>onnx.numpy_helper.to_array\<close> (\<open>get_numpy\<close>): the elements with the numpy dtype of
  the element type.\<close>

definition get_numpy :: "tensor_proto \<Rightarrow> ndarray result" where
  "get_numpy tp =
     rbind (get_type (tp_data_type tp)) (\<lambda>dt. Inr \<lparr>nd_shape = tp_dims tp, nd_dtype = dt, nd_data = tp_vals tp\<rparr>)"

text \<open>\<open>attr.get(k, d)\<close> kept as an attribute value for a new attribute dict.\<close>

definition attr_get_val :: "attr_dict \<Rightarrow> string \<Rightarrow> attr_value \<Rightarrow> attr_value" where
  "attr_get_val attr k d = (case map_of attr k of None \<Rightarrow> d | Some v \<Rightarrow> v)"

text \<open>\<open>attr.get(k, d) == c\<close> for an integer default and constant.\<close>

definition attr_eq :: "attr_dict \<Rightarrow> string \<Rightarrow> int \<Rightarrow> int \<Rightarrow> bool" where
  "attr_eq attr k d c =
     (case map_of attr k of
        None \<Rightarrow> d = c
      | Some (AInt i) \<Rightarrow> i = c
      | Some (AFloat r) \<Rightarrow> r = of_int c
      | Some (APy (PInt i)) \<Rightarrow> i = c
      | Some (APy (PFloat r)) \<Rightarrow> r = of_int c
      | Some (APy (PBool b)) \<Rightarrow> (if b then 1 else 0) = c
      | Some _ \<Rightarrow> False)"

text \<open>Truthiness of \<open>attr.get(k, d)\<close>.\<close>

definition attr_flag :: "attr_dict \<Rightarrow> string \<Rightarrow> bool \<Rightarrow> bool" where
  "attr_flag attr k d = (case map_of attr k of None \<Rightarrow> d | Some v \<Rightarrow> attr_truthy v)"

text \<open>\<open>_op.const(k, dtype)\<close> of an integer.\<close>

definition int_const :: "int \<Rightarrow> string \<Rightarrow> expr" where
  "int_const k dt = Call ''const'' [] [(''value'', PInt k), (''dtype'', PStr dt)]"

subsection \<open>Arithmetic and activations\<close>

text \<open>\<open>Mod._impl_v1\<close>: \<open>floor_mod\<close> unless \<open>fmod\<close> is set.\<close>

definition mod_impl_v1 :: plain_conv where
  "mod_impl_v1 params inputs attr =
     (if length inputs \<noteq> 2 then Inl (AssertionErr ''Mod op take 2 inputs'')
      else let op_name = (if attr_eq attr ''fmod'' 0 0 then ''floor_mod'' else ''mod'')
           in rbind (attr_cvt_call (attr_cvt_simple op_name) inputs []) (\<lambda>e. Inr (Single e)))"

text \<open>\<open>Shrink._impl_v9\<close>: \<open>where(x < -lambd, x + bias, 0) + where(x > lambd, x - bias, 0)\<close>.\<close>

definition shrink_impl_v9 :: "oracles \<Rightarrow> plain_conv" where
  "shrink_impl_v9 ora params inputs attr =
     rbind (input_expr inputs 0) (\<lambda>x.
     let dt = infer_dtype ora x in
     rbind (attr_float attr ''lambd'' (1 / 2)) (\<lambda>l.
     rbind (attr_float attr ''bias'' 0) (\<lambda>b.
     let lambd = float_const l dt; bias = float_const b dt; zeros = Call ''zeros_like'' [x] []
     in Inr (Single (bin_op ''add''
          (Call ''where'' [bin_op ''less'' x (Call ''negative'' [lambd] []), bin_op ''add'' x bias, zeros] [])
          (Call ''where'' [bin_op ''greater'' x lambd, bin_op ''subtract'' x bias, zeros] []))))))"

text \<open>\<open>HardSigmoid._impl_v1\<close>: \<open>clip(x * alpha + beta, 0, 1)\<close> through \<open>AttrCvt("clip")\<close>.\<close>

definition hard_sigmoid_impl_v1 :: plain_conv where
  "hard_sigmoid_impl_v1 params inputs attr =
     rbind (attr_float attr ''alpha'' (1 / 5)) (\<lambda>alpha.
     rbind (attr_float attr ''beta'' (1 / 2)) (\<lambda>beta.
     rbind (input_expr inputs 0) (\<lambda>x.
     let t = bin_op ''add'' (bin_op ''multiply'' x (float_const alpha ''float32'')) (float_const beta ''float32'')
     in rbind (attr_cvt_call (attr_cvt_simple ''clip'') [Some t] [(''a_min'', AInt 0), (''a_max'', AInt 1)]) (\<lambda>e.
        Inr (Single e)))))"

text \<open>\<open>Celu._impl_v12\<close>: \<open>maximum(0, x) + minimum(0, alpha * (exp(x / alpha) - 1))\<close>.\<close>

definition celu_impl_v12 :: "oracles \<Rightarrow> plain_conv" where
  "celu_impl_v12 ora params inputs attr =
     rbind (input_expr inputs 0) (\<lambda>x.
     let dt = infer_dtype ora x in
     rbind (attr_float attr ''alpha'' 1) (\<lambda>a.
     let alpha = float_const a dt; zero = float_const 0 dt; one = float_const 1 dt
     in Inr (Single (bin_op ''add'' (Call ''maximum'' [zero, x] [])
          (Call ''minimum'' [zero, bin_op ''multiply'' alpha
             (bin_op ''subtract'' (Call ''exp'' [bin_op ''divide'' x alpha] []) one)] [])))))"

text \<open>\<open>IsInf._impl_v10\<close>: \<open>isinf(x)\<close>, masked by the sign when one side is not detected.\<close>

definition is_inf_impl_v10 :: "oracles \<Rightarrow> plain_conv" where
  "is_inf_impl_v10 ora params inputs attr =
     rbind (input_expr inputs 0) (\<lambda>x.
     let dt = infer_dtype ora x;
         isinf0 = Call ''isinf'' [x] [];
         isinf1 = (if \<not> attr_flag attr ''detect_negative'' True then bin_op ''multiply'' isinf0 (bin_op ''greater'' x (int_const 0 dt)) else isinf0);
         isinf2 = (if \<not> attr_flag attr ''detect_positive'' True then bin_op ''multiply'' isinf1 (bin_op ''less'' x (int_const 0 dt)) else isinf1)
     in Inr (Single isinf2))"

text \<open>\<open>Maximum._impl_v1\<close> and \<open>Minimum._impl_v1\<close>: one input is returned as it is,
  otherwise the inputs are folded with \<open>AttrCvt("maximum")\<close> (resp. \<open>minimum\<close>).\<close>

fun fold_attr_cvt :: "string \<Rightarrow> expr \<Rightarrow> expr option list \<Rightarrow> expr result" where
  "fold_attr_cvt op acc [] = Inr acc"
| "fold_attr_cvt op acc (x # xs) =
     rbind (attr_cvt_call (attr_cvt_simple op) [Some acc, x] []) (\<lambda>acc'. fold_attr_cvt op acc' xs)"

definition max_min_impl_v1 :: "string \<Rightarrow> plain_conv" where
  "max_min_impl_v1 op params inputs attr =
     rbind (input_expr inputs 0) (\<lambda>x.
     if length inputs = 1 then Inr (Single x)
     else rbind (fold_attr_cvt op x (drop 1 inputs)) (\<lambda>e. Inr (Single e)))"

subsection \<open>Reductions\<close>

text \<open>The attribute dict of \<open>ReduceSumSquare\<close>, \<open>ReduceL1\<close>, \<open>ReduceL2\<close> and
  \<open>ReduceLogSum\<close>: \<open>axes\<close> when given, else every axis, and \<open>keepdims\<close> (default
  \<open>True\<close>).\<close>

definition reduce_attr :: "oracles \<Rightarrow> expr \<Rightarrow> attr_dict \<Rightarrow> attr_dict" where
  "reduce_attr ora x attr =
     (let axis = (case map_of attr ''axes'' of
                    Some v \<Rightarrow> v
                  | None \<Rightarrow> APy (PTuple (map PInt [0..int (length (infer_shape ora x)) - 1])))
      in [(''axis'', axis), (''keepdims'', attr_get_val attr ''keepdims'' (APy (PBool True)))])"

text \<open>\<open>inputs[0] = f(inputs[0])\<close>, then \<open>AttrCvt("sum")(inputs, attr)\<close>, then \<open>g\<close> of the
  sum: \<open>(x * x, id)\<close> for \<open>ReduceSumSquare\<close>, \<open>(abs, id)\<close> for \<open>ReduceL1\<close>,
  \<open>(x * x, sqrt)\<close> for \<open>ReduceL2\<close>, \<open>(id, log)\<close> for \<open>ReduceLogSum\<close>.\<close>

definition reduce_sum_via :: "oracles \<Rightarrow> (expr \<Rightarrow> expr) \<Rightarrow> (expr \<Rightarrow> expr) \<Rightarrow> plain_conv" where
  "reduce_sum_via ora pre post params inputs attr =
     rbind (input_expr inputs 0) (\<lambda>x.
     let attr' = reduce_attr ora x attr in
     rbind (attr_cvt_call (attr_cvt_simple ''sum'') (inputs[0 := Some (pre x)]) attr') (\<lambda>out.
     Inr (Single (post out))))"

definition reduce_sum_square_impl_v1 :: "oracles \<Rightarrow> plain_conv" where
  "reduce_sum_square_impl_v1 ora = reduce_sum_via ora (\<lambda>x. bin_op ''multiply'' x x) id"

definition reduce_l1_impl_v1 :: "oracles \<Rightarrow> plain_conv" where
  "reduce_l1_impl_v1 ora = reduce_sum_via ora (\<lambda>x. Call ''abs'' [x] []) id"

definition reduce_l2_impl_v1 :: "oracles \<Rightarrow> plain_conv" where
  "reduce_l2_impl_v1 ora = reduce_sum_via ora (\<lambda>x. bin_op ''multiply'' x x) (\<lambda>out. Call ''sqrt'' [out] [])"

definition reduce_log_sum_impl_v1 :: "oracles \<Rightarrow> plain_conv" where
  "reduce_log_sum_impl_v1 ora = reduce_sum_via ora id (\<lambda>out. Call ''log'' [out] [])"

text \<open>\<open>ArgMax._impl_v13\<close> and \<open>ArgMin._impl_v13\<close>: \<open>AttrCvt\<close> with the three attributes
  and their defaults, cast to \<open>int64\<close>.\<close>

definition arg_impl_v13 :: "string \<Rightarrow> plain_conv" where
  "arg_impl_v13 op params inputs attr =
     (let attr' = [(''axis'', attr_get_val attr ''axis'' (AInt 0)),
                   (''keepdims'', attr_get_val attr ''keepdims'' (APy (PBool True))),
                   (''select_last_index'', attr_get_val attr ''select_last_index'' (APy (PBool False)))]
      in rbind (attr_cvt_call (attr_cvt_simple op) inputs attr') (\<lambda>e.
         Inr (Single (Call ''cast'' [e] [(''dtype'', PStr ''int64'')]))))"

text \<open>\<open>Hardmax._impl_v1\<close>: the input as a 2-D tensor split at \<open>axis\<close>, one-hot of the
  argmax along axis 1, reshaped back.\<close>

definition hardmax_shape_prod :: "oracles \<Rightarrow> expr \<Rightarrow> int \<Rightarrow> int \<Rightarrow> expr" where
  "hardmax_shape_prod ora x b e =
     Call ''prod'' [Call ''strided_slice'' [shape_of_expr ora x ''int64'']
                      [(''begin'', PTuple [PInt b]), (''end'', PTuple [PInt e]), (''strides'', PTuple [PInt 1])]]
       [(''axis'', PInt 0), (''keepdims'', PBool True)]"

definition hardmax_impl_v1 :: "oracles \<Rightarrow> plain_conv" where
  "hardmax_impl_v1 ora params inputs attr =
     rbind (attr_get_int attr ''axis'' 1) (\<lambda>axis0.
     rbind (input_expr inputs 0) (\<lambda>x.
     let ndim = int (length (infer_shape ora x));
         axis = (if axis0 < 0 then axis0 + ndim else axis0);
         dt = infer_dtype ora x;
         pre = (if axis = 0 then int64_const [1] else hardmax_shape_prod ora x 0 axis);
         post = hardmax_shape_prod ora x axis 2147483647;
         x2 = Call ''reshape'' [x, fold_constant ora (concat0 pre post)] [];
         am = Call ''argmax'' [x2] [(''axis'', PInt 1)];
         depth = fold_constant ora (Call ''take'' [shape_of_expr ora x2 ''int64'', int64_const [1]] []);
         onehot = Call ''one_hot'' [am, float_const 1 dt, float_const 0 dt, depth] [(''axis'', PInt 1), (''dtype'', PStr dt)]
     in Inr (Single (Call ''reshape'' [onehot, shape_of_expr ora x ''int64''] []))))"

text \<open>\<open>Hardmax._impl_v13\<close>: one-hot of the argmax along \<open>axis mod ndim\<close> (Python's
  \<open>%\<close>, which fails on a scalar input).\<close>

definition hardmax_impl_v13 :: "oracles \<Rightarrow> plain_conv" where
  "hardmax_impl_v13 ora params inputs attr =
     rbind (input_expr inputs 0) (\<lambda>x.
     let dt = infer_dtype ora x; ndim = int (length (infer_shape ora x)) in
     rbind (attr_get_int attr ''axis'' (-1)) (\<lambda>axis0.
     if ndim = 0 then Inl ZeroDivErr
     else let axis = axis0 mod ndim;
              am = Call ''argmax'' [x] [(''axis'', PInt axis)];
              depth = fold_constant ora (Call ''take'' [shape_of_expr ora x ''int64'', int64_const [axis]] [])
          in Inr (Single (Call ''one_hot'' [am, float_const 1 dt, float_const 0 dt, depth]
                           [(''axis'', PInt axis), (''dtype'', PStr dt)]))))"

subsection \<open>Tensor builders\<close>

text \<open>\<open>OneHot._impl_v9\<close>: the inputs unpack into exactly three; negative indices are
  shifted by the depth; \<open>axis\<close> defaults to \<open>-1\<close>, counted from \<open>ndim + 1\<close>.\<close>

definition one_hot_impl_v9 :: "oracles \<Rightarrow> plain_conv" where
  "one_hot_impl_v9 ora params inputs attr =
     (case inputs of
        [ind, dep, vals] \<Rightarrow>
          rbind (need_expr ind) (\<lambda>indices.
          rbind (need_expr vals) (\<lambda>values.
          rbind (need_expr dep) (\<lambda>depth.
          let ndim = int (length (infer_shape ora indices));
              off_value = Call ''take'' [values, scalar_const ''int32'' 0] [];
              on_value = Call ''take'' [values, scalar_const ''int32'' 1] [];
              dt = infer_dtype ora on_value;
              ind_dt = infer_dtype ora indices;
              indices' = Call ''where'' [bin_op ''less'' indices (int_const 0 ind_dt),
                           bin_op ''add'' indices (Call ''cast'' [depth] [(''dtype'', PStr ind_dt)]), indices] []
          in rbind (attr_get_int attr ''axis'' (-1)) (\<lambda>axis0.
             let axis = (if axis0 < 0 then axis0 + ndim + 1 else axis0)
             in Inr (Single (Call ''one_hot'' [indices', on_value, off_value, depth]
                               [(''axis'', PInt axis), (''dtype'', PStr dt)]))))))
      | _ \<Rightarrow> Inl (ValueErr ''not enough values to unpack''))"

text \<open>\<open>ConstantOfShape._impl_v9\<close>: the first element of the \<open>value\<close> tensor, or \<open>0\<close> as
  \<open>float32\<close>, filled into the shape given by the input.\<close>

definition constant_of_shape_impl_v9 :: plain_conv where
  "constant_of_shape_impl_v9 params inputs attr =
     rbind (onnx_input_get inputs 0) (\<lambda>shp.
     rbind (need_expr shp) (\<lambda>shape.
     rbind (case map_of attr ''value'' of
              Some (ATensor tp) \<Rightarrow>
                rbind (get_numpy tp) (\<lambda>a. rbind (py_index (nd_data a) 0) (\<lambda>v.
                  Inr (scalar_const (nd_dtype a) v, nd_dtype a)))
            | Some _ \<Rightarrow> Inl (TypeErr ''get_numpy'')
            | None \<Rightarrow> Inr (scalar_const ''int64'' 0, ''float32'')) (\<lambda>(value, dt).
     Inr (Single (Call ''full'' [value, shape] [(''dtype'', PStr dt)])))))"

text \<open>\<open>Constant._impl_v9\<close>: without a \<open>value\<close> the rule raises through
  \<open>tvm.errors\<close>, a module \<open>tvm\<close> does not have; a bytes value becomes the \<open>int64\<close>
  array \<open>[0]\<close>.\<close>

definition constant_impl_v9 :: plain_conv where
  "constant_impl_v9 params inputs attr =
     (case map_of attr ''value'' of
        None \<Rightarrow> Inl (TypeErr ''module tvm has no attribute errors'')
      | Some (ABytes _) \<Rightarrow> Inr (Single (Const \<lparr>nd_shape = [1], nd_dtype = ''int64'', nd_data = [0]\<rparr>))
      | Some (ATensor tp) \<Rightarrow> rbind (get_numpy tp) (\<lambda>a. Inr (Single (Const a)))
      | Some _ \<Rightarrow> Inl (TypeErr ''get_numpy''))"

text \<open>\<open>EyeLike._impl_v9\<close>: ones scattered into zeros of the input's static shape at
  \<open>(i, i + k)\<close> for \<open>i < dim\<close>, \<open>dim\<close> the first extent.\<close>

definition eye_like_impl_v9 :: "oracles \<Rightarrow> plain_conv" where
  "eye_like_impl_v9 ora params inputs attr =
     rbind (input_expr inputs 0) (\<lambda>x.
     let in_dtype = infer_dtype ora x; in_shape = infer_shape ora x in
     rbind (rmap dim_int in_shape) (\<lambda>shp.
     rbind (case map_of attr ''dtype'' of None \<Rightarrow> Inr in_dtype | Some v \<Rightarrow> rbind (attr_int v) get_type) (\<lambda>dt.
     rbind (py_index shp 0) (\<lambda>d.
     rbind (attr_get_int attr ''k'' 0) (\<lambda>k.
     let zeros = Call ''zeros'' [] [(''shape'', PTuple (map PInt shp)), (''dtype'', PStr dt)];
         indices = Call ''arange'' [scalar_const ''int32'' 0, scalar_const ''int32'' d] [(''dtype'', PStr ''int32'')];
         ones = Call ''full'' [scalar_const ''int32'' 1] [(''shape'', PTuple [PInt d]), (''dtype'', PStr dt)];
         kc = int_const k ''int32''
     in Inr (Single (Call ''scatter_nd'' [zeros, Call ''stack'' [Tuple [indices, bin_op ''add'' indices kc]] [(''axis'', PInt 0)], ones]
                       [(''mode'', PStr ''update'')])))))))"

text \<open>\<open>Range._impl_v1\<close>: exactly three inputs, \<open>arange\<close> in the dtype of the start.\<close>

definition range_impl_v1 :: "oracles \<Rightarrow> plain_conv" where
  "range_impl_v1 ora params inputs attr =
     (if length inputs \<noteq> 3 then Inl (ValueErr ''Expect 3 input only'')
      else rbind (relay_args inputs) (\<lambda>args.
           Inr (Single (Call ''arange'' args [(''dtype'', PStr (infer_dtype ora (hd args)))]))))"

text \<open>\<open>NonZero._impl_v9\<close>: \<open>argwhere\<close>, cast to \<open>int64\<close> and transposed.\<close>

definition non_zero_impl_v9 :: plain_conv where
  "non_zero_impl_v9 params inputs attr =
     (if 1 < length inputs then Inl (ValueErr ''Expect 1 input only'')
      else rbind (attr_cvt_call (attr_cvt_simple ''argwhere'') inputs attr) (\<lambda>out.
           Inr (Single (Call ''transpose'' [Call ''cast'' [out] [(''dtype'', PStr ''int64'')]]
                          [(''axes'', PTuple [PInt 1, PInt 0])]))))"

text \<open>\<open>Cast\<close>: \<open>to\<close> renamed to \<open>dtype\<close>; version 5 first maps the element type code
  to its numpy name.\<close>

definition cast_cvt :: attr_cvt where
  "cast_cvt = (attr_cvt_simple ''cast'')\<lparr>cvt_transforms := [(''to'', TRename ''dtype'')]\<rparr>"

definition cast_impl_v1 :: plain_conv where
  "cast_impl_v1 params inputs attr = rbind (attr_cvt_call cast_cvt inputs attr) (\<lambda>e. Inr (Single e))"

definition cast_impl_v5 :: plain_conv where
  "cast_impl_v5 params inputs attr =
     (case map_of attr ''to'' of
        None \<Rightarrow> Inl (KeyErr ''to'')
      | Some v \<Rightarrow> rbind (attr_int v) (\<lambda>code. rbind (get_type code) (\<lambda>np_type.
          rbind (attr_cvt_call cast_cvt inputs (dict_set attr ''to'' (ABytes np_type))) (\<lambda>e. Inr (Single e)))))"

text \<open>\<open>infer_value(dim, params)\<close> of an axis: a constant, or a variable bound in
  \<open>params\<close>, holding one integer.\<close>

definition infer_scalar :: "(string, ndarray) pydict \<Rightarrow> expr \<Rightarrow> int result" where
  "infer_scalar params e =
     (case e of
        Const a \<Rightarrow> (case nd_data a of [v] \<Rightarrow> Inr v | _ \<Rightarrow> Inl (TypeErr ''int''))
      | Var n _ _ \<Rightarrow> (case map_of params n of
                        Some a \<Rightarrow> (case nd_data a of [v] \<Rightarrow> Inr v | _ \<Rightarrow> Inl (TypeErr ''int''))
                      | None \<Rightarrow> Inl (ValueErr ''infer_value''))
      | _ \<Rightarrow> Inl (ValueErr ''infer_value''))"

text \<open>\<open>CumSum._impl_v1\<close>: the axis from the second input when present; with
  \<open>reverse\<close> the data is reversed along it before and after the sum.\<close>

definition cumsum_impl_v1 :: plain_conv where
  "cumsum_impl_v1 params inputs attr =
     rbind (input_expr inputs 0) (\<lambda>data.
     rbind (onnx_input_get inputs 1) (\<lambda>dim0.
     rbind (case dim0 of None \<Rightarrow> Inr PNone | Some d \<Rightarrow> rbind (infer_scalar params d) (\<lambda>v. Inr (PInt v))) (\<lambda>dim.
     let exclusive = attr_get_py attr ''exclusive'' (PInt 0);
         kw = [(''axis'', dim), (''exclusive'', exclusive)]
     in if \<not> attr_eq attr ''reverse'' 0 0
        then Inr (Single (Call ''reverse'' [Call ''cumsum'' [Call ''reverse'' [data] [(''axis'', dim)]] kw] [(''axis'', dim)]))
        else Inr (Single (Call ''cumsum'' [data] kw)))))"

subsection \<open>Indexing and vision rules\<close>

text \<open>\<open>GatherND._impl_common\<close>: the index tuples moved to the front axis; the index
  rank is the last extent of the indices.\<close>

definition gather_nd_common :: "oracles \<Rightarrow> expr option list \<Rightarrow> pyval \<Rightarrow> conv_out result" where
  "gather_nd_common ora inputs batch_dims =
     rbind (onnx_input_get inputs 1) (\<lambda>ind. rbind (need_expr ind) (\<lambda>indices.
     let indices_shape = infer_shape ora indices;
         indices_dims = int (length indices_shape)
     in rbind (py_index indices_shape (-1)) (\<lambda>index_rank.
        rbind (onnx_input_get inputs 0) (\<lambda>dat. rbind (need_expr dat) (\<lambda>data.
        Inr (Single (Call ''gather_nd''
          [data, Call ''transpose'' [indices] [(''axes'', PTuple (PInt (-1) # map PInt [0..indices_dims - 2]))]]
          [(''batch_dims'', batch_dims), (''index_rank'', dim_pyval index_rank)])))))))"

definition gather_nd_impl_v1 :: "oracles \<Rightarrow> plain_conv" where
  "gather_nd_impl_v1 ora params inputs attr = gather_nd_common ora inputs (PInt 0)"

definition gather_nd_impl_v12 :: "oracles \<Rightarrow> plain_conv" where
  "gather_nd_impl_v12 ora params inputs attr = gather_nd_common ora inputs (attr_get_py attr ''batch_dims'' (PInt 0))"

text \<open>\<open>Compress._impl_v11\<close>: the positions where the condition holds, taken along
  \<open>axis\<close>, or from the flattened input when there is no axis.\<close>

definition compress_impl_v11 :: plain_conv where
  "compress_impl_v11 params inputs attr =
     (case inputs of
        [inp, cnd] \<Rightarrow>
          rbind (need_expr cnd) (\<lambda>condition.
          let cond = Call ''reshape'' [Call ''argwhere'' [condition] []] [(''newshape'', PTuple [PInt (-1)])] in
          rbind (need_expr inp) (\<lambda>input_tensor.
          case map_of attr ''axis'' of
            Some v \<Rightarrow> Inr (Single (Call ''take'' [input_tensor, cond] [(''axis'', to_pyval v)]))
          | None \<Rightarrow> Inr (Single (Call ''take'' [Call ''reshape'' [input_tensor] [(''newshape'', PTuple [PInt (-1)])], cond]
                                  [(''axis'', PInt 0)]))))
      | _ \<Rightarrow> Inl (ValueErr ''not enough values to unpack''))"

text \<open>\<open>TopK._impl_v1\<close>: \<open>topk\<close>, or for the smallest values a sort and an argsort
  sliced to \<open>k\<close> along the axis.\<close>

definition int64_max :: int where
  "int64_max = 9223372036854775807"

definition topk_impl_v1 :: "oracles \<Rightarrow> plain_conv" where
  "topk_impl_v1 ora params inputs attr =
     (if length inputs \<noteq> 2 then Inl (ValueErr ''Expect 2 input only'')
      else rbind (attr_get_int attr ''axis'' (-1)) (\<lambda>axis0.
           rbind (input_expr inputs 0) (\<lambda>x. rbind (input_expr inputs 1) (\<lambda>k.
           if attr_eq attr ''largest'' 1 0 then
             (let ndim = int (length (infer_shape ora x));
                  axis = (if axis0 < 0 then axis0 + ndim else axis0);
                  srt = Call ''sort'' [x] [(''axis'', PInt axis)];
                  argsrt = Call ''argsort'' [x] [(''axis'', PInt axis), (''dtype'', PStr ''int64'')];
                  bgn = PTuple (replicate (nat ndim) (PInt 0));
                  stride = PTuple (replicate (nat ndim) (PInt 1));
                  en = Call ''concatenate'' [Tuple [int64_const (replicate (nat axis) int64_max), k,
                                                      int64_const (replicate (nat (ndim - axis - 1)) int64_max)]]
                         [(''axis'', PInt 0)];
                  sl = (\<lambda>t. Call ''strided_slice'' [t, en] [(''begin'', bgn), (''strides'', stride)])
              in Inr (Wrapped (Tuple [sl srt, sl argsrt]) 2))
           else Inr (Single (Call ''topk'' [x, k] [(''axis'', PInt axis0), (''dtype'', PStr ''int64'')]))))))"

text \<open>\<open>ReverseSequence._impl_v10\<close>: both axes are required attributes.\<close>

definition reverse_sequence_impl_v10 :: plain_conv where
  "reverse_sequence_impl_v10 params inputs attr =
     rbind (input_expr inputs 0) (\<lambda>x. rbind (input_expr inputs 1) (\<lambda>lens.
     case (map_of attr ''time_axis'', map_of attr ''batch_axis'') of
       (Some t, Some b) \<Rightarrow> Inr (Single (Call ''reverse_sequence'' [x, lens] [(''seq_axis'', to_pyval t), (''batch_axis'', to_pyval b)]))
     | (None, _) \<Rightarrow> Inl (KeyErr ''time_axis'')
     | (_, None) \<Rightarrow> Inl (KeyErr ''batch_axis'')))"

text \<open>\<open>LRN._impl_v1\<close>: a new attribute dict with the defaults of ONNX, over axis 1.\<close>

definition lrn_impl_v1 :: plain_conv where
  "lrn_impl_v1 params inputs attr =
     (let attr' = [(''size'', attr_get_val attr ''size'' (APy PNone)), (''axis'', AInt 1),
                   (''alpha'', attr_get_val attr ''alpha'' (AFloat (1 / 10000))),
                   (''beta'', attr_get_val attr ''beta'' (AFloat (3 / 4))),
                   (''bias'', attr_get_val attr ''bias'' (AFloat 1))]
      in rbind (attr_cvt_call (attr_cvt_simple ''lrn'') inputs attr') (\<lambda>e. Inr (Single e)))"

text \<open>\<open>MaxRoiPool._impl_v1\<close> and \<open>RoiAlign._impl_v1\<close>.\<close>

definition max_roi_pool_impl_v1 :: plain_conv where
  "max_roi_pool_impl_v1 params inputs attr =
     (if length inputs \<noteq> 2 then Inl (AssertionErr ''MMaxRoiPool op take 2 inputs'')
      else rbind (relay_args inputs) (\<lambda>args.
           Inr (Single (Call ''vision.roi_pool'' args
             [(''pooled_size'', attr_get_py attr ''pooled_shape'' PNone),
              (''spatial_scale'', attr_get_py attr ''spatial_scale'' (PFloat 1))]))))"

definition roi_align_impl_v1 :: "oracles \<Rightarrow> plain_conv" where
  "roi_align_impl_v1 ora params inputs attr =
     (if length inputs \<noteq> 3 then Inl (ValueErr ''Expect 3 inputs only'')
      else let mode = attr_get_val attr ''mode'' (ABytes ''avg'') in
           if mode \<notin> {ABytes ''avg'', ABytes ''max''}
           then Inl (NotImplementedErr ''RoiAlign in Relay only uses avg and max modes'')
           else rbind (input_expr inputs 0) (\<lambda>x. rbind (input_expr inputs 1) (\<lambda>rois.
                rbind (input_expr inputs 2) (\<lambda>bi.
                let bi1 = Call ''cast'' [Call ''expand_dims'' [bi] [(''axis'', PInt 1), (''num_newaxis'', PInt 1)]]
                            [(''dtype'', PStr (infer_dtype ora rois))];
                    rois' = Call ''concatenate'' [Tuple [bi1, rois]] [(''axis'', PInt 1)]
                in Inr (Single (Call ''vision.roi_align'' [x, rois']
                     [(''pooled_size'', PTuple [attr_get_py attr ''output_height'' (PInt 1), attr_get_py attr ''output_width'' (PInt 1)]),
                      (''spatial_scale'', attr_get_py attr ''spatial_scale'' (PFloat 1)),
                      (''sample_ratio'', attr_get_py attr ''sampling_ratio'' (PInt 0)),
                      (''mode'', to_pyval mode)]))))))"

text \<open>\<open>BitShift._impl_v11\<close>: the default of \<open>direction\<close> is the Python string
  \<open>"LEFT"\<close>, which has no \<open>decode\<close>.\<close>

definition bit_shift_impl_v11 :: plain_conv where
  "bit_shift_impl_v11 params inputs attr =
     (if length inputs \<noteq> 2 then Inl (ValueErr ''Bitshift expects 2 inputs'')
      else rbind (case map_of attr ''direction'' of None \<Rightarrow> Inl (TypeErr ''decode'') | Some v \<Rightarrow> attr_str v) (\<lambda>direction.
           rbind (relay_args inputs) (\<lambda>args.
           if direction = ''LEFT'' then Inr (Single (Call ''left_shift'' args []))
           else if direction = ''RIGHT'' then Inr (Single (Call ''right_shift'' args []))
           else Inl (ValueErr (''Unsupported Shift Direction: '' @ direction)))))"

text \<open>\<open>Unique._impl_v11\<close>: the four outputs of \<open>unique\<close> trimmed to the number of
  unique values, counts always returned.\<close>

definition unique_impl_v11 :: "oracles \<Rightarrow> plain_conv" where
  "unique_impl_v11 ora params inputs attr =
     (if length inputs \<noteq> 1 then Inl (ValueErr ''Unique expects 1 input'')
      else rbind (input_expr inputs 0) (\<lambda>x.
           rbind (case map_of attr ''axis'' of
                    None \<Rightarrow> Inr (Call ''reshape'' [x, int64_const [-1]] [])
                  | Some _ \<Rightarrow> if length (infer_shape ora x) \<noteq> 1 then Inl (ValueErr ''TVM only supports 1D Unique operator.'')
                              else Inr x) (\<lambda>data.
           let u = Call ''unique'' [data] [(''is_sorted'', PBool (attr_eq attr ''sorted'' 1 1)), (''return_counts'', PBool True)];
               num_unique = TupleGetItem u 3;
               trim = (\<lambda>t. Call ''strided_slice'' [t, int64_const [0], num_unique] [])
           in Inr (Wrapped (Tuple [trim (TupleGetItem u 0), trim (TupleGetItem u 1), TupleGetItem u 2, trim (TupleGetItem u 4)]) 4))))"

subsection \<open>\<open>LpPool\<close> and \<open>MaxUnpool\<close>\<close>

text \<open>The \<open>auto_pad\<close> branch of \<open>LpPool._impl_v1\<close>: the attribute is decoded in place,
  acted on, then popped.\<close>

definition lp_pool_auto_pad :: "oracles \<Rightarrow> expr \<Rightarrow> attr_dict \<Rightarrow> (expr \<times> attr_dict) result" where
  "lp_pool_auto_pad ora data attr =
     (let ndim = length (infer_shape ora data) in
      case map_of attr ''auto_pad'' of
        None \<Rightarrow> Inr (data, attr)
      | Some v \<Rightarrow> rbind (attr_str v) (\<lambda>ap.
          let attr1 = dict_set attr ''auto_pad'' (ABytes ap) in
          rbind (if ap = ''SAME_UPPER'' \<or> ap = ''SAME_LOWER'' then
                   (case (map_of attr1 ''strides'', map_of attr1 ''kernel_shape'') of
                      (Some st, Some ks) \<Rightarrow> rbind (attr_ints st) (\<lambda>strides. rbind (attr_ints ks) (\<lambda>kernel.
                         Inr (autopad ora data strides kernel (replicate ndim 1) (int ndim) ''constant'' False ap
                                (scalar_const ''float32'' 0), attr1)))
                    | (None, _) \<Rightarrow> Inl (KeyErr ''strides'')
                    | (_, None) \<Rightarrow> Inl (KeyErr ''kernel_shape''))
                 else if ap = ''VALID'' then Inr (data, dict_set attr1 ''pads'' (APy (PTuple (replicate (ndim - 2) (PInt 0)))))
                 else if ap = ''NOTSET'' then Inr (data, attr1)
                 else Inl (OpAttributeInvalid (''Value '' @ ap @ '' in attribute auto_pad of operator LpPool is invalid.'')))
            (\<lambda>(d, a). Inr (d, dict_pop a ''auto_pad''))))"

text \<open>\<open>LpPool._impl_v1\<close>: \<open>avg_pool\<close> of \<open>x ** p\<close>, counting the padding, times the
  kernel size, then \<open>abs\<close> and \<open>** (1 / p)\<close>.\<close>

definition lp_pool_cvt :: attr_cvt where
  "lp_pool_cvt =
     \<lparr>cvt_op = OpPicker ''avg_pool'' [],
      cvt_transforms = [(''kernel_shape'', TRename ''pool_size''), (''pads'', TRenameDefault ''padding'' (PInt 0))],
      cvt_excludes = [], cvt_disables = [], cvt_ignores = [''p''], cvt_extras = [(''count_include_pad'', PBool True)],
      cvt_check = Some dimension_constraint\<rparr>"

definition lp_pool_impl_v1 :: "oracles \<Rightarrow> plain_conv" where
  "lp_pool_impl_v1 ora params inputs attr =
     rbind (input_expr inputs 0) (\<lambda>data0.
     let dt = infer_dtype ora data0; dims = int (length (infer_shape ora data0)) - 2 in
     rbind (lp_pool_auto_pad ora data0 attr) (\<lambda>(data, attr2).
     rbind (case map_of attr2 ''storage_order'' of
              Some so \<Rightarrow> rbind (attr_int so) (\<lambda>s. onnx_storage_order2layout s dims ''LpPool'')
            | None \<Rightarrow> onnx_default_layout dims ''LpPool'') (\<lambda>layout.
     let attr3 = dict_set attr2 ''layout'' (ABytes layout) in
     rbind (attr_float attr3 ''p'' 2) (\<lambda>p_value.
     let p = float_const p_value dt; reci_p = float_const (1 / p_value) dt in
     rbind (attr_cvt_call lp_pool_cvt [Some (Call ''power'' [data, p] [])] attr3) (\<lambda>out.
     rbind (attr_req_ints attr3 ''kernel_shape'') (\<lambda>kernels.
     Inr (Single (Call ''power'' [bin_op ''multiply'' (Call ''abs'' [out] []) (scalar_const dt (prod_list kernels)), reci_p] []))))))))"

text \<open>\<open>MaxUnpool._impl_v11\<close>: the output shape \<open>strides * shape + kernel - strides\<close> on
  the spatial axes, replaced by the \<open>output_shape\<close> input when given, otherwise reduced
  by the sums of \<open>[0, 0, 0, 0] + pads\<close> read as pairs; zeros of that shape with the data
  scattered through them at the indices.\<close>

definition max_unpool_impl_v11 :: "oracles \<Rightarrow> plain_conv" where
  "max_unpool_impl_v11 ora params inputs attr =
     rbind (input_expr inputs 0) (\<lambda>data.
     let data_type = infer_dtype ora data in
     rbind (onnx_input_get inputs 1) (\<lambda>ind.
     rbind (onnx_input_get inputs 2) (\<lambda>output_shape.
     rbind (case map_of attr ''kernel_shape'' of Some v \<Rightarrow> attr_ints v | None \<Rightarrow> Inl (TypeErr ''len'')) (\<lambda>kernel_shape.
     rbind (attr_get_ints attr ''strides'' (replicate (length kernel_shape) 1)) (\<lambda>strides.
     let multiplier = concat0 (int64_const [1, 1]) (int64_const strides);
         total0 = bin_op ''multiply'' multiplier (shape_of_expr ora data ''int64'');
         total1 = bin_op ''add'' total0 (bin_op ''subtract'' (concat0 (int64_const [0, 0]) (int64_const kernel_shape))
                                                          (concat0 (int64_const [0, 0]) (int64_const strides)))
     in rbind (case output_shape of
                 Some os \<Rightarrow> Inr os
               | None \<Rightarrow> (case map_of attr ''pads'' of
                           None \<Rightarrow> Inr total1
                         | Some pv \<Rightarrow> rbind (attr_ints pv) (\<lambda>pads.
                             let pads2 = Call ''reshape'' [concat0 (int64_const [0, 0, 0, 0]) (int64_const pads)]
                                           [(''newshape'', PTuple [PInt (-1), PInt 2])];
                                 total_pad = Call ''sum'' [pads2] [(''axis'', PInt (-1))]
                             in Inr (bin_op ''subtract'' total1 total_pad)))) (\<lambda>total.
     rbind (need_expr ind) (\<lambda>indices.
     let flat = (\<lambda>t. Call ''reshape'' [t] [(''newshape'', PTuple [PInt (-1)])]);
         zeros_tensor = Call ''zeros'' [total] [(''dtype'', PStr data_type)];
         flat_tensor = Call ''scatter'' [flat zeros_tensor, flat indices, flat data] [(''axis'', PInt 0)]
     in Inr (Single (Call ''reshape'' [flat_tensor, total] [])))))))))"

subsection \<open>Values of shape computations\<close>

text \<open>Relay's arithmetic on 1-D \<open>int64\<close> shape tensors: constants, \<open>concatenate\<close> along
  axis 0, elementwise \<open>add\<close>, \<open>subtract\<close> and \<open>multiply\<close> of equal lengths,
  \<open>reshape(x, [-1, 2])\<close> into rows of two, and \<open>sum(x, axis=-1)\<close> of each row.\<close>

datatype ival = IV "int list" | IM "int list list"

fun pairs :: "int list \<Rightarrow> int list list" where
  "pairs (a # b # xs) = [a, b] # pairs xs"
| "pairs _ = []"

fun iv_of :: "ival \<Rightarrow> int list option" where
  "iv_of (IV xs) = Some xs"
| "iv_of (IM _) = None"

fun veval :: "expr \<Rightarrow> ival option" where
  "veval (Const a) = (case nd_shape a of [_] \<Rightarrow> Some (IV (nd_data a)) | _ \<Rightarrow> None)"
| "veval (Call f args kw) =
     (if f = ''concatenate'' \<and> kw = [(''axis'', PInt 0)] then
        (case args of
           [Tuple es] \<Rightarrow> map_option (\<lambda>xss. IV (concat xss)) (those (map (\<lambda>e. Option.bind (veval e) iv_of) es))
         | _ \<Rightarrow> None)
      else if f \<in> {''add'', ''subtract'', ''multiply''} \<and> kw = [] then
        (case args of
           [a, b] \<Rightarrow>
             (case (veval a, veval b) of
                (Some (IV xs), Some (IV ys)) \<Rightarrow>
                  if length xs = length ys
                  then Some (IV (map2 (if f = ''add'' then (+) else if f = ''subtract'' then (-) else (*)) xs ys))
                  else None
              | _ \<Rightarrow> None)
         | _ \<Rightarrow> None)
      else if f = ''reshape'' \<and> kw = [(''newshape'', PTuple [PInt (-1), PInt 2])] then
        (case args of [x] \<Rightarrow> (case veval x of Some (IV xs) \<Rightarrow> if even (length xs) then Some (IM (pairs xs)) else None | _ \<Rightarrow> None)
         | _ \<Rightarrow> None)
      else if f = ''sum'' \<and> kw = [(''axis'', PInt (-1))] then
        (case args of [x] \<Rightarrow> (case veval x of Some (IM rows) \<Rightarrow> Some (IV (map sum_list rows)) | _ \<Rightarrow> None) | _ \<Rightarrow> None)
      else None)"
| "veval _ = None"

subsection \<open>The ONNX functions\<close>

text \<open>ONNX's \<open>Shrink\<close> and \<open>Celu\<close> on one element.\<close>

definition shrink_spec :: "real \<Rightarrow> real \<Rightarrow> real \<Rightarrow> real" where
  "shrink_spec lambd bias x = (if x < - lambd then x + bias else if lambd < x then x - bias else 0)"

definition celu_spec :: "real \<Rightarrow> real \<Rightarrow> real" where
  "celu_spec alpha x = max 0 x + min 0 (alpha * (exp (x / alpha) - 1))"

subsection \<open>Lemmas\<close>

lemma veval_int64_const [simp]: "veval (int64_const xs) = Some (IV xs)"
  by (simp add: int64_const_def)

lemma veval_concat0: "veval a = Some (IV xs) \<Longrightarrow> veval b = Some (IV ys) \<Longrightarrow> veval (concat0 a b) = Some (IV (xs @ ys))"
  by (simp add: concat0_def)

lemma veval_bin: "veval a = Some (IV xs) \<Longrightarrow> veval b = Some (IV ys) \<Longrightarrow> length xs = length ys \<Longrightarrow>
   f \<in> {''add'', ''subtract'', ''multiply''} \<Longrightarrow>
   veval (bin_op f a b) = Some (IV (map2 (if f = ''add'' then (+) else if f = ''subtract'' then (-) else (*)) xs ys))"
  by (auto simp: bin_op_def)

lemma celu_impl_v12_refines:
  assumes "feval env x = Some (FR v)" and "attr_float attr ''alpha'' 1 = Inr alpha" and "alpha \<noteq> 0"
  shows "\<exists>e. celu_impl_v12 ora params [Some x] attr = Inr (Single e) \<and> feval env e = Some (FR (celu_spec alpha v))"
  using assms by (simp add: celu_impl_v12_def input_expr_def onnx_input_get_def bin_op_def float_const_def celu_spec_def Let_def)

lemma constant_impl_v9_no_value:
  "map_of attr ''value'' = None \<Longrightarrow> constant_impl_v9 params inputs attr = Inl (TypeErr ''module tvm has no attribute errors'')"
  by (simp add: constant_impl_v9_def)

lemma bit_shift_impl_v11_no_direction:
  "length inputs = 2 \<Longrightarrow> map_of attr ''direction'' = None \<Longrightarrow> bit_shift_impl_v11 params inputs attr = Inl (TypeErr ''decode'')"
  by (simp add: bit_shift_impl_v11_def)

subsection \<open>Properties\<close>

text \<open>C7 (refinement): for a non-negative \<open>lambd\<close>, the expression \<open>Shrink._impl_v9\<close>
  builds computes ONNX's \<open>Shrink\<close> at every element: \<open>x + bias\<close> below \<open>-lambd\<close>,
  \<open>x - bias\<close> above \<open>lambd\<close>, \<open>0\<close> between.\<close>

theorem shrink_impl_v9_refines:
  assumes "feval env x = Some (FR v)" and "attr_float attr ''lambd'' (1 / 2) = Inr lambd"
    and "attr_float attr ''bias'' 0 = Inr bias" and "0 \<le> lambd"
  shows "\<exists>e. shrink_impl_v9 ora params [Some x] attr = Inr (Single e) \<and> feval env e = Some (FR (shrink_spec lambd bias v))"
  using assms by (auto simp: shrink_impl_v9_def input_expr_def onnx_input_get_def bin_op_def float_const_def shrink_spec_def Let_def)

text \<open>C10 (functional): for a 4-D \<open>MaxUnpool\<close> with kernel \<open>[kh, kw]\<close>, strides
  \<open>[sh, sw]\<close> and \<open>pads = [t, l, b, r]\<close> (ONNX's order: the begins of the two axes, then
  their ends), \<open>MaxUnpool._impl_v11\<close> reshapes to \<open>[n, c, sh*h + kh - sh - (t + l),
  sw*w + kw - sw - (b + r)]\<close>: reading \<open>[0, 0, 0, 0] + pads\<close> as pairs subtracts the two
  begins from the height and the two ends from the width, where ONNX subtracts \<open>t + b\<close>
  and \<open>l + r\<close>.\<close>

theorem max_unpool_pads_pair_begins:
  assumes "infer_shape ora x = [Dim n, Dim c, Dim h, Dim w]"
    and "map_of attr ''kernel_shape'' = Some (AInts [kh, kw])" and "map_of attr ''strides'' = Some (AInts [sh, sw])"
    and "map_of attr ''pads'' = Some (AInts [t, l, b, r])"
  shows "\<exists>f s. max_unpool_impl_v11 ora params [Some x, Some i] attr = Inr (Single (Call ''reshape'' [f, s] []))
           \<and> veval s = Some (IV [n, c, sh * h + kh - sh - (t + l), sw * w + kw - sw - (b + r)])"
proof -
  have sh: "shape_of_expr ora x ''int64'' = int64_const [n, c, h, w]"
    using assms(1) by (simp add: shape_of_expr_def int64_const_def)
  show ?thesis
    using assms
    by (simp add: max_unpool_impl_v11_def input_expr_def onnx_input_get_def attr_get_ints_def sh need_expr_def
        bin_op_def concat0_def int64_const_def Let_def)
qed

subsection \<open>Witnesses\<close>

theorem shrink_impl_v9_refines_witness:
  "\<exists>e. shrink_impl_v9 (static_oracles []) [] [Some (Var ''x'' [] None)] [] = Inr (Single e)
       \<and> feval (map_of [(''x'', -2)]) e = Some (FR (shrink_spec (1 / 2) 0 (-2)))"
  by (rule shrink_impl_v9_refines) (simp_all add: attr_float_def)

theorem max_unpool_pads_pair_begins_witness:
  "\<exists>f s. max_unpool_impl_v11 (static_oracles [Dim 1, Dim 1, Dim 2, Dim 2]) [] [Some (Var ''x'' [] None), Some (Var ''i'' [] None)]
           [(''kernel_shape'', AInts [2, 2]), (''strides'', AInts [2, 2]), (''pads'', AInts [1, 0, 0, 1])] =
           Inr (Single (Call ''reshape'' [f, s] []))
         \<and> veval s = Some (IV [1, 1, 2 * 2 + 2 - 2 - (1 + 0), 2 * 2 + 2 - 2 - (0 + 1)])"
  by (rule max_unpool_pads_pair_begins) (simp_all add: static_oracles_def)

end
