(* ===== verification/Simple_Ops.thy ===== *)
theory Simple_Ops
  imports Misc_Ops
begin

text \<open>
  The short converter rules of \<open>onnx.py\<close> left after \<open>Misc_Ops\<close>: \<open>GlobalLpPool\<close>,
  \<open>ParametricSoftPlus\<close>, \<open>Prelu\<close>, \<open>DepthToSpace\<close>, \<open>SpaceToDepth\<close>, \<open>Scale\<close>,
  \<open>Affine\<close>, \<open>Gather\<close> and \<open>GatherElements\<close> with \<open>normalize_gather_indices\<close>,
  \<open>Scatter\<close>, \<open>ScatterND\<close>, \<open>Mean\<close>, \<open>Sign\<close>, \<open>Not\<close>, \<open>And\<close>, \<open>Or\<close>, \<open>Tile\<close>,
  \<open>Erf\<close>, \<open>Softplus\<close>, \<open>Einsum\<close> and the random generators \<open>RandomUniform\<close>,
  \<open>RandomNormal\<close>, \<open>RandomNormalLike\<close>.  A seed the code draws with
  \<open>np.random.randint(1e6)\<close> is kept as the symbolic call \<open>random_seed\<close>.
\<close>

subsection \<open>Pooling and activations\<close>

text \<open>\<open>GlobalLpPool._impl_v1\<close>: \<open>kernel_shape\<close> is the spatial part of the static input
  shape, then \<open>LpPool._impl_v1\<close>; a dynamic extent has no integer value.\<close>

definition global_lp_pool_impl_v1 :: "oracles \<Rightarrow> plain_conv" where
  "global_lp_pool_impl_v1 ora params inputs attr =
     rbind (input_expr inputs 0) (\<lambda>x.
     rbind (rmap dim_int (drop 2 (infer_shape ora x))) (\<lambda>ks.
     lp_pool_impl_v1 ora params inputs (dict_set attr ''kernel_shape'' (AInts ks))))"

text \<open>\<open>_expr.const(float(v))\<close>: a Python float is a \<open>float32\<close> constant.\<close>

definition py_const :: "real \<Rightarrow> expr" where
  "py_const r = float_const r ''float32''"

definition parametric_soft_plus_impl_v1 :: plain_conv where
  "parametric_soft_plus_impl_v1 params inputs attr =
     rbind (attr_float attr ''alpha'' 1) (\<lambda>a.
     rbind (attr_float attr ''beta'' 1) (\<lambda>b.
     rbind (input_expr inputs 0) (\<lambda>x.
     Inr (Single (bin_op ''multiply''
       (Call ''log'' [bin_op ''add'' (Call ''exp'' [bin_op ''multiply'' (py_const b) x] []) (py_const 1)] [])
       (py_const a))))))"

text \<open>\<open>Prelu._impl_v1\<close>: the slope broadcast to the input, both flattened, \<open>nn.prelu\<close> on
  axis 0, reshaped back to \<open>shape_of(x)\<close>.\<close>

definition prelu_impl_v1 :: "oracles \<Rightarrow> plain_conv" where
  "prelu_impl_v1 ora params inputs attr =
     (if length inputs \<noteq> 2 then Inl (AssertionErr ''Prelu need 2 inputs'')
      else rbind (input_expr inputs 0) (\<lambda>x. rbind (input_expr inputs 1) (\<lambda>slope.
           let input_shape = shape_of_expr ora x ''int64'';
               flat = (\<lambda>e. Call ''reshape'' [e] [(''newshape'', PTuple [PInt (-1)])]);
               alpha = flat (Call ''broadcast_to_like'' [slope, x] []);
               output = Call ''nn.prelu'' [flat x, alpha] [(''axis'', PInt 0)]
           in Inr (Single (Call ''reshape'' [output, input_shape] [])))))"

text \<open>\<open>Scale._impl_v1\<close> and \<open>Affine._impl_v1\<close>.\<close>

definition scale_impl_v1 :: plain_conv where
  "scale_impl_v1 params inputs attr =
     rbind (attr_float attr ''scale'' 1) (\<lambda>s.
     rbind (input_expr inputs 0) (\<lambda>x. Inr (Single (bin_op ''multiply'' x (py_const s)))))"

definition affine_impl_v1 :: plain_conv where
  "affine_impl_v1 params inputs attr =
     rbind (attr_float attr ''alpha'' 1) (\<lambda>a.
     rbind (attr_float attr ''beta'' 0) (\<lambda>b.
     rbind (input_expr inputs 0) (\<lambda>x.
     Inr (Single (bin_op ''add'' (bin_op ''multiply'' (py_const a) x) (py_const b))))))"

text \<open>\<open>Softplus._impl_v1\<close>: \<open>log(exp(x) + 1)\<close>.\<close>

definition softplus_impl_v1 :: "oracles \<Rightarrow> plain_conv" where
  "softplus_impl_v1 ora params inputs attr =
     rbind (input_expr inputs 0) (\<lambda>x.
     Inr (Single (Call ''log'' [bin_op ''add'' (Call ''exp'' [x] []) (int_const 1 (infer_dtype ora x))] [])))"

text \<open>Rules that apply one Relay operator to the first inputs: \<open>Sign\<close>, \<open>Erf\<close>,
  \<open>Not\<close> (one input), \<open>And\<close>, \<open>Or\<close> version 7, \<open>Tile\<close> version 6 (two).\<close>

definition first_inputs_op :: "string \<Rightarrow> nat \<Rightarrow> plain_conv" where
  "first_inputs_op name k params inputs attr =
     rbind (rmap (input_expr inputs \<circ> int) [0..<k]) (\<lambda>xs. Inr (Single (Call name xs [])))"

definition sign_impl_v1 :: plain_conv where
  "sign_impl_v1 = first_inputs_op ''sign'' 1"

definition erf_impl_v1 :: plain_conv where
  "erf_impl_v1 = first_inputs_op ''erf'' 1"

definition not_impl_v1 :: plain_conv where
  "not_impl_v1 = first_inputs_op ''logical_not'' 1"

definition and_impl_v1 :: plain_conv where
  "and_impl_v1 = first_inputs_op ''logical_and'' 2"

definition or_impl_v7 :: plain_conv where
  "or_impl_v7 = first_inputs_op ''logical_or'' 2"

definition tile_impl_v6 :: plain_conv where
  "tile_impl_v6 = first_inputs_op ''tile'' 2"

text \<open>\<open>Equal\<close> sets \<open>name = "equal"\<close> and inherits \<open>Elemwise._impl_v1\<close>.  \<open>Or\<close> and
  \<open>Tile\<close> define no \<open>_impl_v1\<close> and no \<open>name\<close>, so their version 1 is
  \<open>Elemwise._impl_v1\<close> with \<open>Elemwise.name = ""\<close>.\<close>

definition equal_impl_v1 :: plain_conv where
  "equal_impl_v1 = elemwise_impl_v1 ''equal''"

definition or_impl_v1 :: plain_conv where
  "or_impl_v1 = elemwise_impl_v1 []"

definition tile_impl_v1 :: plain_conv where
  "tile_impl_v1 = elemwise_impl_v1 []"

subsection \<open>Depth and space\<close>

text \<open>\<open>int(attr["blocksize"])\<close>.\<close>

definition block_size :: "attr_dict \<Rightarrow> int result" where
  "block_size attr =
     (case map_of attr ''blocksize'' of
        None \<Rightarrow> Inl (KeyErr ''blocksize'')
      | Some (AFloat r) \<Rightarrow> Inr (if 0 \<le> r then \<lfloor>r\<rfloor> else - \<lfloor>- r\<rfloor>)
      | Some v \<Rightarrow> attr_int v)"

definition depth_to_space_impl_v11 :: plain_conv where
  "depth_to_space_impl_v11 params inputs attr =
     rbind (block_size attr) (\<lambda>b.
     rbind (attr_get_str attr ''mode'' ''DCR'') (\<lambda>mode.
     rbind (input_expr inputs 0) (\<lambda>x.
     Inr (Single (Call ''nn.depth_to_space'' [x] [(''block_size'', PInt b), (''mode'', PStr mode)])))))"

definition space_to_depth_impl_v1 :: plain_conv where
  "space_to_depth_impl_v1 params inputs attr =
     rbind (block_size attr) (\<lambda>b.
     rbind (input_expr inputs 0) (\<lambda>x.
     Inr (Single (Call ''nn.space_to_depth'' [x] [(''block_size'', PInt b)]))))"

subsection \<open>Gather and scatter\<close>

text \<open>\<open>normalize_gather_indices\<close>: \<open>indices + s\<close>, \<open>s\<close> the extent of \<open>axis\<close>, where an
  index is negative.  When \<open>indices < 0\<close> folds to a constant of one element the
  choice is made at conversion time.\<close>

definition normalize_gather_indices :: "oracles \<Rightarrow> expr \<Rightarrow> expr \<Rightarrow> int \<Rightarrow> expr" where
  "normalize_gather_indices ora data indices axis =
     (let ind_dtype = infer_dtype ora indices;
          s = Call ''take'' [shape_of_expr ora data ind_dtype, scalar_const ''int64'' axis] [];
          cond = fold_constant ora (bin_op ''less'' indices (int_const 0 ind_dtype))
      in case cond of
           Const c \<Rightarrow>
             if length (nd_data c) = 1
             then (if nd_data c ! 0 \<noteq> 0 then bin_op ''add'' indices s else indices)
             else Call ''where'' [cond, bin_op ''add'' indices s, indices] []
         | _ \<Rightarrow> Call ''where'' [cond, bin_op ''add'' indices s, indices] [])"

definition gather_impl_v1 :: "oracles \<Rightarrow> plain_conv" where
  "gather_impl_v1 ora params inputs attr =
     rbind (attr_get_int attr ''axis'' 0) (\<lambda>axis.
     rbind (input_expr inputs 0) (\<lambda>data. rbind (input_expr inputs 1) (\<lambda>indices.
     Inr (Single (Call ''take'' [data, normalize_gather_indices ora data indices axis] [(''axis'', PInt axis)])))))"

definition gather_elements_impl_v1 :: "oracles \<Rightarrow> plain_conv" where
  "gather_elements_impl_v1 ora params inputs attr =
     rbind (input_expr inputs 0) (\<lambda>data. rbind (input_expr inputs 1) (\<lambda>indices.
     rbind (attr_get_int attr ''axis'' 0) (\<lambda>axis.
     Inr (Single (Call ''gather'' [data, normalize_gather_indices ora data indices axis] [(''axis'', PInt axis)])))))"

definition scatter_impl_v1 :: plain_conv where
  "scatter_impl_v1 params inputs attr =
     rbind (attr_get_int attr ''axis'' 0) (\<lambda>axis.
     rbind (rmap (input_expr inputs) [0, 1, 2]) (\<lambda>xs.
     Inr (Single (Call ''scatter'' xs [(''axis'', PInt axis)]))))"

text \<open>\<open>ScatterND._impl_v11\<close>: the last axis of the indices moved to the front,
  \<open>axes[-1:] + axes[:-1]\<close>.\<close>

definition scatter_nd_impl_v11 :: "oracles \<Rightarrow> plain_conv" where
  "scatter_nd_impl_v11 ora params inputs attr =
     rbind (input_expr inputs 1) (\<lambda>ind.
     let axes = [0..<length (infer_shape ora ind)];
         perm = drop (length axes - 1) axes @ take (length axes - 1) axes
     in rbind (input_expr inputs 0) (\<lambda>data. rbind (input_expr inputs 2) (\<lambda>upd.
        Inr (Single (Call ''scatter_nd'' [data, Call ''transpose'' [ind] [(''axes'', PTuple (map (PInt \<circ> int) perm))], upd]
                       [(''mode'', PStr ''update'')])))))"

subsection \<open>\<open>Mean\<close>, \<open>Einsum\<close> and the inherited \<open>Elemwise\<close> rules\<close>

text \<open>\<open>Mean._impl_v1\<close>: one input is returned; otherwise the inputs are stacked on a new
  axis 0 and averaged over it.\<close>

definition mean_impl_v1 :: plain_conv where
  "mean_impl_v1 params inputs attr =
     (if length inputs = 1 then rbind (input_expr inputs 0) (\<lambda>x. Inr (Single x))
      else rbind (relay_args inputs) (\<lambda>xs.
           Inr (Single (Call ''mean''
             [Call ''concatenate'' [Tuple (map (\<lambda>x. Call ''expand_dims'' [x] [(''axis'', PInt 0)]) xs)] [(''axis'', PInt 0)]]
             [(''axis'', PInt 0), (''keepdims'', PBool False)]))))"

definition einsum_impl_v12 :: plain_conv where
  "einsum_impl_v12 params inputs attr =
     rbind (case map_of attr ''equation'' of None \<Rightarrow> Inl (KeyErr ''equation'') | Some v \<Rightarrow> attr_str v) (\<lambda>equation.
     rbind (relay_args inputs) (\<lambda>xs. Inr (Single (Call ''einsum'' [Tuple xs] [(''equation'', PStr equation)]))))"

subsection \<open>Random generators\<close>

text \<open>\<open>attr.get("seed", None)\<close>, with \<open>np.random.randint(1e6)\<close> when absent, as the key
  \<open>_random.threefry_key(seed)\<close>.\<close>

definition random_key :: "attr_dict \<Rightarrow> expr" where
  "random_key attr =
     (case map_of attr ''seed'' of
        None \<Rightarrow> Call ''random.threefry_key'' [Call ''random_seed'' [] [(''high'', PInt 1000000)]] []
      | Some v \<Rightarrow> Call ''random.threefry_key'' [] [(''seed'', to_pyval v)])"

text \<open>\<open>assert dtype in ["float32", "float64"]\<close>.\<close>

definition float_dtype :: "string \<Rightarrow> string result" where
  "float_dtype dt =
     (if dt = ''float32'' \<or> dt = ''float64'' then Inr dt
      else Inl (AssertionErr ''Only float random value generation is currently supported.''))"

definition uniform :: "expr \<Rightarrow> pyval \<Rightarrow> string \<Rightarrow> pyval \<Rightarrow> pyval \<Rightarrow> expr" where
  "uniform key shape dt low high =
     Call ''random.uniform'' [key] [(''shape'', shape), (''dtype'', PStr dt), (''low'', low), (''high'', high)]"

definition random_uniform_impl_v1 :: plain_conv where
  "random_uniform_impl_v1 params inputs attr =
     rbind (attr_get_int attr ''dtype'' 1) (\<lambda>d. rbind (get_type d) (\<lambda>dtype0.
     case map_of attr ''shape'' of
       None \<Rightarrow> Inl (KeyErr ''shape'')
     | Some shape \<Rightarrow>
         rbind (float_dtype dtype0) (\<lambda>dtype.
         let output = uniform (random_key attr) (to_pyval shape) dtype
                        (attr_get_py attr ''low'' (PFloat 0)) (attr_get_py attr ''high'' (PFloat 1))
         in Inr (Single (TupleGetItem output 1)))))"

text \<open>The Box-Muller transform of two uniform draws, the second keyed by the key the
  first returns: \<open>sqrt(-2 log u1) cos(2 pi u2) * scale + mean\<close>.\<close>

definition box_muller :: "attr_dict \<Rightarrow> pyval \<Rightarrow> string \<Rightarrow> expr" where
  "box_muller attr shape dtype =
     (let output = uniform (random_key attr) shape dtype (PFloat 0) (PFloat 1);
          key = TupleGetItem output 0; u1 = TupleGetItem output 1;
          u2 = TupleGetItem (uniform key shape dtype (PFloat 0) (PFloat 1)) 1;
          vals = bin_op ''multiply'' (Call ''sqrt'' [bin_op ''multiply'' (py_const (-2)) (Call ''log'' [u1] [])] [])
                   (Call ''cos'' [bin_op ''multiply'' (py_const (2 * pi)) u2] [])
      in Call ''add'' [Call ''multiply'' [vals, Call ''const'' [] [(''value'', attr_get_py attr ''scale'' (PFloat 1))]] [],
                       Call ''const'' [] [(''value'', attr_get_py attr ''mean'' (PFloat 0))]] [])"

definition random_normal_impl_v1 :: plain_conv where
  "random_normal_impl_v1 params inputs attr =
     rbind (attr_get_int attr ''dtype'' 1) (\<lambda>d. rbind (get_type d) (\<lambda>dtype0.
     case map_of attr ''shape'' of
       None \<Rightarrow> Inl (KeyErr ''shape'')
     | Some shape \<Rightarrow> rbind (float_dtype dtype0) (\<lambda>dtype. Inr (Single (box_muller attr (to_pyval shape) dtype)))))"

definition random_normal_like_impl_v1 :: "oracles \<Rightarrow> plain_conv" where
  "random_normal_like_impl_v1 ora params inputs attr =
     rbind (input_expr inputs 0) (\<lambda>x.
     rbind (rmap dim_int (infer_shape ora x)) (\<lambda>in_shape.
     rbind (case map_of attr ''dtype'' of
              None \<Rightarrow> Inr (infer_dtype ora x)
            | Some v \<Rightarrow> rbind (attr_int v) get_type) (\<lambda>dtype0.
     rbind (float_dtype dtype0) (\<lambda>dtype.
     Inr (Single (box_muller attr (PTuple (map PInt in_shape)) dtype))))))"

subsection \<open>ONNX definitions\<close>

text \<open>\<open>ParametricSoftplus\<close> and \<open>Affine\<close> of the ONNX operator documentation
  (experimental operators), on one element.\<close>

definition parametric_softplus_spec :: "real \<Rightarrow> real \<Rightarrow> real \<Rightarrow> real" where
  "parametric_softplus_spec alpha beta x = alpha * ln (exp (beta * x) + 1)"

definition affine_spec :: "real \<Rightarrow> real \<Rightarrow> real \<Rightarrow> real" where
  "affine_spec alpha beta x = alpha * x + beta"

subsection \<open>Lemmas\<close>

text \<open>\<open>ParametricSoftPlus\<close> and \<open>Affine\<close> compute their ONNX definitions element by
  element.\<close>

lemma parametric_soft_plus_impl_v1_refines:
  assumes "feval env x = Some (FR v)" and "attr_float attr ''alpha'' 1 = Inr a" and "attr_float attr ''beta'' 1 = Inr b"
  shows "\<exists>e. parametric_soft_plus_impl_v1 params [Some x] attr = Inr (Single e)
           \<and> feval env e = Some (FR (parametric_softplus_spec a b v))"
proof -
  have "0 < exp (b * v) + 1" by (simp add: add_pos_pos)
  then show ?thesis
    using assms by (simp add: parametric_soft_plus_impl_v1_def input_expr_def onnx_input_get_def bin_op_def
        py_const_def float_const_def parametric_softplus_spec_def mult.commute)
qed

lemma affine_impl_v1_refines:
  assumes "feval env x = Some (FR v)" and "attr_float attr ''alpha'' 1 = Inr a" and "attr_float attr ''beta'' 0 = Inr b"
  shows "\<exists>e. affine_impl_v1 params [Some x] attr = Inr (Single e) \<and> feval env e = Some (FR (affine_spec a b v))"
  using assms by (simp add: affine_impl_v1_def input_expr_def onnx_input_get_def bin_op_def py_const_def float_const_def
      affine_spec_def)

text \<open>\<open>ScatterND\<close> moves the last axis of the indices to the front.\<close>

lemma scatter_nd_moves_last_axis:
  assumes "infer_shape ora i = ds" and "ds \<noteq> []"
  shows "scatter_nd_impl_v11 ora params [Some d, Some i, Some u] attr =
           Inr (Single (Call ''scatter_nd''
             [d, Call ''transpose'' [i] [(''axes'', PTuple (map (PInt \<circ> int) ((length ds - 1) # [0..<length ds - 1])))], u]
             [(''mode'', PStr ''update'')]))"
proof -
  have "drop (length ds - 1) [0..<length ds] = [length ds - 1]" using assms(2) by (cases "length ds") auto
  then show ?thesis
    using assms by (simp add: scatter_nd_impl_v11_def input_expr_def onnx_input_get_def take_upt)
qed

text \<open>When \<open>indices < 0\<close> folds to one constant element, the indices are shifted at
  conversion time or left as they are.\<close>

lemma normalize_gather_indices_static:
  assumes "fold_constant ora (bin_op ''less'' i (int_const 0 (infer_dtype ora i))) = Const c" and "nd_data c = [b]"
  shows "normalize_gather_indices ora d i axis =
           (if b \<noteq> 0 then bin_op ''add'' i (Call ''take'' [shape_of_expr ora d (infer_dtype ora i), scalar_const ''int64'' axis] [])
            else i)"
  using assms by (simp add: normalize_gather_indices_def Let_def)

end
