(* ===== verification/Import_Fuel.thy ===== *)
theory Import_Fuel
  imports Importer
begin

text \<open>
  Termination of the importer.  \<open>import_sub fuel\<close> imports a graph and hands the
  converters \<open>import_sub (fuel - 1)\<close> for the graphs of their attributes; it fails with
  \<open>FuelExhausted\<close> only when the fuel runs out.  The nesting depth of a graph
  (\<open>graph_depth\<close>: one more than the deepest graph held by an attribute of one of its
  nodes) bounds the fuel the Python code would need: with more fuel than the depth the
  importer never answers \<open>FuelExhausted\<close>, whatever the graph does otherwise.
  This needs of the class rules that they call the sub-importer only on graphs no
  deeper than the graphs of their attributes and never raise \<open>FuelExhausted\<close>
  themselves (\<open>env_fuel_safe\<close>); every step of the importer is shown not to raise it.
\<close>

primrec graph_depth :: "onnx_graph \<Rightarrow> nat"
  and node_depth :: "onnx_node \<Rightarrow> nat"
  and attr_proto_depth :: "attr_proto \<Rightarrow> nat" where
  "graph_depth (Graph ns inits ins outs) = foldr max (map node_depth ns) 0"
| "node_depth (Node op ins outs attrs name) = foldr max (map attr_proto_depth attrs) 0"
| "attr_proto_depth (AttrProto n f i s g fs ints ss t ts gs) =
     (case map_option graph_depth g of None \<Rightarrow> 0 | Some d \<Rightarrow> Suc d)"

text \<open>Every graph held by the attribute dict is shallower than \<open>d\<close>.\<close>

definition graphs_within :: "nat \<Rightarrow> attr_dict \<Rightarrow> bool" where
  "graphs_within d attrs \<longleftrightarrow> (\<forall>k g. (k, AGraph g) \<in> set attrs \<longrightarrow> Suc (graph_depth g) \<le> d)"

text \<open>A sub-importer that does not run out of fuel on graphs shallower than \<open>d\<close>.\<close>

definition sub_safe :: "nat \<Rightarrow> sub_import \<Rightarrow> bool" where
  "sub_safe d sub \<longleftrightarrow> (\<forall>sc g opset. Suc (graph_depth g) \<le> d \<longrightarrow> sub sc g opset \<noteq> Inl FuelExhausted)"

definition env_fuel_safe :: "env \<Rightarrow> bool" where
  "env_fuel_safe E \<longleftrightarrow>
     (\<forall>c v d sub sc ins attrs. sub_safe d sub \<longrightarrow> graphs_within d attrs \<longrightarrow>
        env_impl E c v sub sc ins attrs \<noteq> Inl FuelExhausted)"

definition nofe :: "'a result \<Rightarrow> bool" where
  "nofe r \<longleftrightarrow> r \<noteq> Inl FuelExhausted"

subsection \<open>Depth lemmas\<close>

lemma foldr_max_ge: "x \<in> set xs \<Longrightarrow> f x \<le> foldr max (map f xs) (0::nat)"
  by (induction xs) auto

lemma node_depth_le: "nd \<in> set (g_node g) \<Longrightarrow> node_depth nd \<le> graph_depth g"
  by (cases g) (auto intro: foldr_max_ge)

lemma attr_graph_depth:
  "a \<in> set (n_attribute nd) \<Longrightarrow> a_g a = Some g \<Longrightarrow> Suc (graph_depth g) \<le> node_depth nd"
proof -
  assume a: "a \<in> set (n_attribute nd)" and g: "a_g a = Some g"
  have "Suc (graph_depth g) = attr_proto_depth a" using g by (cases a) simp
  also have "\<dots> \<le> node_depth nd" using a by (cases nd) (auto intro: foldr_max_ge)
  finally show ?thesis .
qed

lemma graphs_within_dict_set:
  "graphs_within d attrs \<Longrightarrow> (\<forall>g. v = AGraph g \<longrightarrow> Suc (graph_depth g) \<le> d) \<Longrightarrow> graphs_within d (dict_set attrs k v)"
  unfolding graphs_within_def by (induction attrs) (auto split: if_splits)

lemma graphs_within_attr_assign:
  "graphs_within d attrs \<Longrightarrow> (\<forall>g. v = Some (AGraph g) \<longrightarrow> Suc (graph_depth g) \<le> d)
   \<Longrightarrow> graphs_within d (attr_assign attrs k v)"
  by (cases v) (auto simp: attr_assign_def intro: graphs_within_dict_set)

lemma graphs_within_attr_assign_list:
  "graphs_within d attrs \<Longrightarrow> attr_assign_list attrs k b v = Inr attrs' \<Longrightarrow> (\<forall>g. v \<noteq> AGraph g)
   \<Longrightarrow> graphs_within d attrs'"
  by (auto simp: attr_assign_list_def split: if_splits intro: graphs_within_dict_set)

lemma parse_one_attr_within:
  assumes "graphs_within d attrs" and "parse_one_attr attrs a = Inr attrs'"
    and "\<forall>g. a_g a = Some g \<longrightarrow> Suc (graph_depth g) \<le> d"
  shows "graphs_within d attrs'"
proof -
  let ?d1 = "attr_assign (attr_assign (attr_assign (attr_assign attrs (a_name a) (map_option AFloat (a_f a)))
               (a_name a) (map_option AInt (a_i a))) (a_name a) (map_option ABytes (a_s a)))
               (a_name a) (map_option AGraph (a_g a))"
  have d1: "graphs_within d ?d1"
    using assms(1,3) by (intro graphs_within_attr_assign) auto
  from assms(2) obtain d2 d3 d4 d6 where
    s2: "attr_assign_list ?d1 (a_name a) (a_floats a \<noteq> []) (AFloats (a_floats a)) = Inr d2"
    and s3: "attr_assign_list d2 (a_name a) (a_ints a \<noteq> []) (AInts (a_ints a)) = Inr d3"
    and s4: "attr_assign_list d3 (a_name a) (a_strings a \<noteq> []) (AStrings (a_strings a)) = Inr d4"
    and s6: "attr_assign_list (attr_assign d4 (a_name a) (map_option ATensor (a_t a))) (a_name a)
               (a_tensors a \<noteq> []) (ATensors (a_tensors a)) = Inr d6"
    and r: "attrs' = d6"
    unfolding parse_one_attr_def Let_def by (auto split: sum.splits if_splits)
  have "graphs_within d d2" using graphs_within_attr_assign_list[OF d1 s2] by simp
  then have "graphs_within d d3" using graphs_within_attr_assign_list[OF _ s3] by simp
  then have "graphs_within d d4" using graphs_within_attr_assign_list[OF _ s4] by simp
  then have "graphs_within d (attr_assign d4 (a_name a) (map_option ATensor (a_t a)))"
    by (intro graphs_within_attr_assign) auto
  then show ?thesis using graphs_within_attr_assign_list[OF _ s6] r by simp
qed

lemma parse_attrs_from_within:
  "graphs_within d attrs \<Longrightarrow> parse_attrs_from attrs protos = Inr attrs'
   \<Longrightarrow> (\<forall>a \<in> set protos. \<forall>g. a_g a = Some g \<longrightarrow> Suc (graph_depth g) \<le> d) \<Longrightarrow> graphs_within d attrs'"
proof (induction protos arbitrary: attrs)
  case (Cons a protos)
  then obtain attrs1 where a1: "parse_one_attr attrs a = Inr attrs1"
    and r: "parse_attrs_from attrs1 protos = Inr attrs'"
    by (auto split: sum.splits)
  have "graphs_within d attrs1" using parse_one_attr_within[OF Cons.prems(1) a1] Cons.prems(3) by simp
  then show ?case using Cons.IH[OF _ r] Cons.prems(3) by simp
qed simp

lemma parse_attr_within:
  "parse_attr (n_attribute nd) = Inr attrs \<Longrightarrow> node_depth nd \<le> d \<Longrightarrow> graphs_within d attrs"
  unfolding parse_attr_def
  by (rule parse_attrs_from_within[of d "[]"])
     (auto simp: graphs_within_def dest: attr_graph_depth)

subsection \<open>No step of the importer raises \<open>FuelExhausted\<close>\<close>

lemma nofe_Inr [simp]: "nofe (Inr x)"
  by (simp add: nofe_def)

lemma nofe_Inl [simp]: "nofe (Inl e) \<longleftrightarrow> e \<noteq> FuelExhausted"
  by (simp add: nofe_def)

lemma nofe_case_sum [simp]:
  "nofe (case m of Inl e \<Rightarrow> Inl e | Inr x \<Rightarrow> f x) \<longleftrightarrow> nofe m \<and> (\<forall>x. m = Inr x \<longrightarrow> nofe (f x))"
  by (cases m) simp_all

lemma nofe_rbind [simp]: "nofe (rbind m f) \<longleftrightarrow> nofe m \<and> (\<forall>x. m = Inr x \<longrightarrow> nofe (f x))"
  by (cases m) simp_all

lemma nofe_bind_initializers: "nofe (bind_initializers sc ts)"
  by (induction ts arbitrary: sc)
     (simp_all add: bind_initializer_def parse_array_def get_type_def split: option.split)

lemma nofe_bind_inputs: "nofe (bind_inputs sc vis)"
  by (induction vis arbitrary: sc)
     (simp_all add: bind_input_def get_info_def get_type_def Let_def split: option.split prod.split)

lemma nofe_check_supported: "nofe (check_supported opset nds)"
proof -
  obtain m where "get_convert_map opset = Inr m" using get_convert_map_ok by blast
  then show ?thesis by (simp add: check_supported_def)
qed

lemma nofe_gather_inputs: "nofe (gather_inputs sc ins)"
  by (induction ins) (simp_all add: lookup_input_def Let_def split: option.split)

lemma nofe_parse_attr: "nofe (parse_attrs_from attrs protos)"
  by (induction protos arbitrary: attrs)
     (simp_all add: parse_one_attr_def attr_assign_list_def Let_def)

lemma nofe_relay_args: "nofe (relay_args xs)"
  by (simp add: relay_args_def)

lemma nofe_cvt_loop: "nofe (cvt_loop c attrs kvs acc)"
  by (induction kvs arbitrary: acc) (auto simp: cvt_step_def Let_def split: option.split)

lemma nofe_run_check: "nofe (run_check chk attrs)"
  by (cases chk) (simp_all add: kernel_len_def split: option.split)

lemma nofe_cvt_op_name: "nofe (cvt_op_name n attrs)"
  by (cases n) (simp_all add: cvt_op_name_def dimension_picker_def kernel_len_def split: option.split)

lemma nofe_attr_cvt_kwargs: "nofe (attr_cvt_kwargs c attrs)"
proof -
  have "nofe (case cvt_check c of None \<Rightarrow> Inr True | Some (chk, _) \<Rightarrow> run_check chk attrs)"
    by (simp add: nofe_run_check split: option.split prod.split)
  then show ?thesis
    unfolding attr_cvt_kwargs_def
    using nofe_cvt_op_name[of "cvt_op c" attrs] nofe_cvt_loop[of c attrs attrs "[]"]
    by (auto simp: nofe_def split: sum.split bool.split)
qed

lemma nofe_attr_cvt_call: "nofe (attr_cvt_call c ins attrs)"
  using nofe_attr_cvt_kwargs[of c attrs] nofe_relay_args[of ins]
  by (auto simp: attr_cvt_call_def nofe_def split: sum.split prod.split)

lemma nofe_parse_attr_graph: "nofe (parse_attr protos)"
  by (simp add: parse_attr_def nofe_parse_attr)

lemma nofe_apply_rule:
  assumes "env_fuel_safe E" and "sub_safe d sub" and "graphs_within d attrs"
  shows "nofe (apply_rule E r sub sc ins attrs)"
proof (cases r)
  case (RImpl c v)
  then show ?thesis using assms unfolding env_fuel_safe_def nofe_def by simp
qed (simp_all add: nofe_relay_args nofe_attr_cvt_call)

lemma nofe_convert_operator:
  assumes "env_fuel_safe E" and "sub_safe d sub" and "graphs_within d attrs"
  shows "nofe (convert_operator E sub sc op_name ins attrs opset)"
proof -
  obtain m where m: "get_convert_map opset = Inr m" using get_convert_map_ok by blast
  show ?thesis
    using nofe_apply_rule[OF assms] by (simp add: convert_operator_def m nofe_relay_args split: option.split)
qed

lemma nofe_fold_out: "nofe (fold_out E op)"
  by (simp add: fold_out_def split: conv_out.split)

lemma nofe_reconcile_outputs: "nofe (reconcile_outputs op names)"
  by (simp add: reconcile_outputs_def valid_mask_def pick_outputs_def Let_def split: expr.split)

lemma nofe_bind_outputs: "nofe (bind_outputs sc op names)"
  by (simp add: bind_outputs_def split: conv_out.split)

lemma nofe_convert_node:
  assumes "env_fuel_safe E" and "sub_safe d sub" and "node_depth nd \<le> d"
  shows "nofe (convert_node E sub opset sc nd)"
proof -
  have op: "nofe (convert_operator E sub sc (n_op_type nd) ins (dict_set attr ''tvm_custom'' (ACustom n k)) opset)"
    if "parse_attr (n_attribute nd) = Inr attr" for attr ins n k
    using nofe_convert_operator[OF assms(1,2) graphs_within_dict_set[OF parse_attr_within[OF that assms(3)]]]
    by simp
  show ?thesis
    unfolding convert_node_def Let_def
    by (simp add: op nofe_parse_attr_graph nofe_gather_inputs nofe_fold_out nofe_reconcile_outputs
        nofe_bind_outputs split: prod.split)
qed

lemma nofe_convert_nodes:
  "env_fuel_safe E \<Longrightarrow> sub_safe d sub \<Longrightarrow> \<forall>nd \<in> set nds. node_depth nd \<le> d
   \<Longrightarrow> nofe (convert_nodes E sub opset sc nds)"
  by (induction nds arbitrary: sc) (simp_all add: nofe_convert_node)

lemma nofe_graph_outputs: "nofe (graph_outputs sc outs)"
proof -
  have "nofe (lookup_outputs sc outs)" by (induction outs) (simp_all split: option.split)
  then show ?thesis by (simp add: graph_outputs_def)
qed

lemma nofe_import_graph:
  assumes "env_fuel_safe E" and "sub_safe (graph_depth g) sub"
  shows "nofe (import_graph E sub sc g opset)"
proof -
  have "nofe (convert_nodes E sub opset sc2 (g_node g))" for sc2
    using nofe_convert_nodes[OF assms] node_depth_le by blast
  then show ?thesis
    unfolding import_graph_def
    by (simp add: nofe_bind_initializers nofe_bind_inputs check_user_shapes_def nofe_check_supported
        nofe_graph_outputs)
qed

text \<open>One unit of fuel per level of nesting is enough.\<close>

lemma import_sub_fuel_enough:
  assumes "graph_depth g < fuel" and "env_fuel_safe E"
  shows "import_sub fuel E sc g opset \<noteq> Inl FuelExhausted"
  using assms
proof (induction fuel arbitrary: sc g opset)
  case 0
  then show ?case by simp
next
  case (Suc f)
  have "sub_safe (graph_depth g) (import_sub f E)"
    unfolding sub_safe_def using Suc.IH Suc.prems by fastforce
  then have "nofe (import_graph E (import_sub f E) sc g opset)"
    using nofe_import_graph Suc.prems(2) by blast
  then show ?case by (simp add: nofe_def)
qed

end
