(* ===== verification/Onnx_Env.thy ===== *)
theory Onnx_Env
  imports Control_Flow Recurrent Resample Simple_Ops Import_Fuel
begin

text \<open>
  The converter classes of \<open>onnx.py\<close> that this development models, put together as
  an environment of the importer.  A subclass that only sets \<open>name\<close> (\<open>Absolute\<close>,
  \<open>Add\<close>, \<open>AveragePool\<close>, \<open>Div\<close>, \<open>MaxPool\<close>, \<open>Mul\<close>, \<open>Sub\<close> and the \<open>Reduce\<close>
  family) is its base class's rule at that name.  \<open>class_impl\<close> is
  \<open>getattr(cls, "_impl_v" + version)\<close> for the class and version \<open>get_converter\<close>
  chose: \<open>If\<close> and \<open>Loop\<close> receive the sub-importer and the scope, every other
  modelled rule is a \<open>plain_conv\<close> lifted with the scope unchanged, and a class this
  development does not model answers \<open>NotImplementedError\<close>.  \<open>onnx_env\<close> adds
  \<open>fold_constant\<close>.
  The lemmas show that this environment keeps the scope invariant of the importer
  (\<open>env_mono\<close>), so the importer's theorems that assume it apply, and that the
  importer given one unit of fuel per level of graph nesting never runs out of fuel.
\<close>

subsection \<open>Subclasses that set \<open>name\<close>\<close>

definition absolute_impl_v1 :: plain_conv where
  "absolute_impl_v1 = unary_impl_v1 ''abs''"

definition add_impl_v1 :: plain_conv where
  "add_impl_v1 = elemwise_impl_v1 ''add''"

definition average_pool_impl_v1 :: "oracles \<Rightarrow> plain_conv" where
  "average_pool_impl_v1 ora = pool_impl_v1 ora ''avg_pool''"

definition div_impl_v1 :: plain_conv where
  "div_impl_v1 = elemwise_impl_v1 ''divide''"

definition max_pool_impl_v1 :: "oracles \<Rightarrow> plain_conv" where
  "max_pool_impl_v1 ora = pool_impl_v1 ora ''max_pool''"

definition mul_impl_v1 :: plain_conv where
  "mul_impl_v1 = elemwise_impl_v1 ''multiply''"

definition sub_impl_v1 :: plain_conv where
  "sub_impl_v1 = elemwise_impl_v1 ''subtract''"

text \<open>\<open>ReduceMax\<close>, \<open>ReduceMin\<close>, \<open>ReduceSum\<close>, \<open>ReduceMean\<close>, \<open>ReduceProd\<close> and
  \<open>ReduceLogSumExp\<close> with their \<open>name\<close>.\<close>

definition reduce_classes :: "(string \<times> string) list" where
  "reduce_classes =
     [(''ReduceMax'', ''max''), (''ReduceMin'', ''min''), (''ReduceSum'', ''sum''), (''ReduceMean'', ''mean''),
      (''ReduceProd'', ''prod''), (''ReduceLogSumExp'', ''logsumexp'')]"

subsection \<open>The environment\<close>

text \<open>The converters of theory \<open>Misc_Ops\<close>, by class and version.\<close>

definition misc_rules :: "oracles \<Rightarrow> ((string \<times> int) \<times> plain_conv) list" where
  "misc_rules ora =
     [((''Mod'', 1), mod_impl_v1), ((''Shrink'', 9), shrink_impl_v9 ora), ((''HardSigmoid'', 1), hard_sigmoid_impl_v1),
      ((''Celu'', 12), celu_impl_v12 ora), ((''IsInf'', 10), is_inf_impl_v10 ora),
      ((''Maximum'', 1), max_min_impl_v1 ''maximum''), ((''Minimum'', 1), max_min_impl_v1 ''minimum''),
      ((''ReduceSumSquare'', 1), reduce_sum_square_impl_v1 ora), ((''ReduceL1'', 1), reduce_l1_impl_v1 ora),
      ((''ReduceL2'', 1), reduce_l2_impl_v1 ora), ((''ReduceLogSum'', 1), reduce_log_sum_impl_v1 ora),
      ((''ArgMax'', 13), arg_impl_v13 ''argmax''), ((''ArgMin'', 13), arg_impl_v13 ''argmin''),
      ((''Hardmax'', 1), hardmax_impl_v1 ora), ((''Hardmax'', 13), hardmax_impl_v13 ora),
      ((''OneHot'', 9), one_hot_impl_v9 ora), ((''ConstantOfShape'', 9), constant_of_shape_impl_v9),
      ((''Constant'', 9), constant_impl_v9), ((''EyeLike'', 9), eye_like_impl_v9 ora), ((''Range'', 1), range_impl_v1 ora),
      ((''NonZero'', 9), non_zero_impl_v9), ((''Cast'', 1), cast_impl_v1), ((''Cast'', 5), cast_impl_v5),
      ((''CumSum'', 1), cumsum_impl_v1), ((''GatherND'', 1), gather_nd_impl_v1 ora),
      ((''GatherND'', 12), gather_nd_impl_v12 ora), ((''Compress'', 11), compress_impl_v11),
      ((''TopK'', 1), topk_impl_v1 ora), ((''ReverseSequence'', 10), reverse_sequence_impl_v10),
      ((''LRN'', 1), lrn_impl_v1), ((''MaxRoiPool'', 1), max_roi_pool_impl_v1), ((''RoiAlign'', 1), roi_align_impl_v1 ora),
      ((''BitShift'', 11), bit_shift_impl_v11), ((''Unique'', 11), unique_impl_v11 ora),
      ((''LpPool'', 1), lp_pool_impl_v1 ora), ((''MaxUnpool'', 11), max_unpool_impl_v11 ora)]"

text \<open>The converters of theory \<open>Simple_Ops\<close>, by class and version.\<close>

definition simple_rules :: "oracles \<Rightarrow> ((string \<times> int) \<times> plain_conv) list" where
  "simple_rules ora =
     [((''GlobalLpPool'', 1), global_lp_pool_impl_v1 ora), ((''ParametricSoftPlus'', 1), parametric_soft_plus_impl_v1),
      ((''Prelu'', 1), prelu_impl_v1 ora), ((''DepthToSpace'', 11), depth_to_space_impl_v11),
      ((''SpaceToDepth'', 1), space_to_depth_impl_v1), ((''Scale'', 1), scale_impl_v1), ((''Affine'', 1), affine_impl_v1),
      ((''Gather'', 1), gather_impl_v1 ora), ((''GatherElements'', 1), gather_elements_impl_v1 ora),
      ((''Scatter'', 1), scatter_impl_v1), ((''ScatterND'', 11), scatter_nd_impl_v11 ora), ((''Mean'', 1), mean_impl_v1),
      ((''Sign'', 1), sign_impl_v1), ((''Equal'', 1), equal_impl_v1), ((''Not'', 1), not_impl_v1),
      ((''And'', 1), and_impl_v1), ((''Tile'', 1), tile_impl_v1), ((''Tile'', 6), tile_impl_v6), ((''Erf'', 1), erf_impl_v1),
      ((''Or'', 1), or_impl_v1), ((''Or'', 7), or_impl_v7), ((''Softplus'', 1), softplus_impl_v1 ora),
      ((''Einsum'', 12), einsum_impl_v12), ((''RandomUniform'', 1), random_uniform_impl_v1),
      ((''RandomNormal'', 1), random_normal_impl_v1), ((''RandomNormalLike'', 1), random_normal_like_impl_v1 ora)]"

definition plain_rules :: "oracles \<Rightarrow> ((string \<times> int) \<times> plain_conv) list" where
  "plain_rules ora =
     [((''Absolute'', 1), absolute_impl_v1), ((''Add'', 1), add_impl_v1),
      ((''AveragePool'', 1), average_pool_impl_v1 ora), ((''BatchNorm'', 1), batch_norm_impl_v1),
      ((''InstanceNorm'', 1), instance_norm_impl_v1), ((''Conv'', 1), conv_impl_v1 ora),
      ((''GlobalAveragePool'', 1), global_average_pool_impl_v1 ora),
      ((''GlobalMaxPool'', 1), global_max_pool_impl_v1 ora), ((''Div'', 1), div_impl_v1),
      ((''Elu'', 1), elu_impl_v1), ((''Gemm'', 1), gemm_impl_v1 ora), ((''MaxPool'', 1), max_pool_impl_v1 ora),
      ((''Mul'', 1), mul_impl_v1), ((''Pad'', 1), pad_impl_v1), ((''Pad'', 2), pad_impl_v2),
      ((''Pad'', 11), pad_impl_v11 ora), ((''Pow'', 13), pow_impl_v13 ora),
      ((''Reciprocal'', 1), reciprocal_impl_v1 ora), ((''Flatten'', 1), flatten_impl_v1 ora),
      ((''Reshape'', 1), reshape_impl_v1), ((''Reshape'', 5), reshape_impl_v5), ((''Concat'', 1), concat_impl_v1),
      ((''Selu'', 1), selu_impl_v1), ((''ScaledTanh'', 1), scaled_tanh_impl_v1),
      ((''Softsign'', 1), softsign_impl_v1), ((''Sub'', 1), sub_impl_v1), ((''Sum'', 1), sum_impl_v1),
      ((''ThresholdedRelu'', 1), thresholded_relu_impl_v1), ((''Shape'', 1), shape_impl_v1 ora),
      ((''Unsqueeze'', 1), unsqueeze_impl_v1), ((''Unsqueeze'', 13), unsqueeze_impl_v13 ora),
      ((''Squeeze'', 1), squeeze_impl_v1), ((''Squeeze'', 13), squeeze_impl_v13 ora),
      ((''Split'', 1), split_impl_v1), ((''Adagrad'', 1), adagrad_impl_v1 ora),
      ((''Adam'', 1), adam_impl_v1 ora), ((''Momentum'', 1), momentum_impl_v1 ora),
      ((''MatMul'', 1), matmul_impl_v1 True ora), ((''Slice'', 1), slice_impl_v1), ((''Slice'', 10), slice_impl_v10 ora),
      ((''Softmax'', 1), softmax_impl_v1 ora), ((''Softmax'', 13), softmax_impl_v13 ora),
      ((''LogSoftmax'', 1), log_softmax_impl_v1 ora), ((''LogSoftmax'', 13), log_softmax_impl_v13 ora),
      ((''Where'', 9), where_impl_v9 ora), ((''Expand'', 8), expand_impl_v8 ora), ((''Clip'', 11), clip_impl_v11),
      ((''ConvTranspose'', 1), conv_transpose_impl_v1 ora), ((''ConvTranspose'', 11), conv_transpose_impl_v11 ora),
      ((''LSTM'', 7), lstm_impl_v7 ora), ((''GRU'', 7), gru_impl_v7 ora),
      ((''Resize'', 10), resize_impl_v10 ora), ((''Resize'', 11), resize_impl_v11 ora),
      ((''Resize'', 13), resize_impl_v13 ora), ((''Upsample'', 9), upsample_impl_v9 ora)]
     @ concat (map (\<lambda>(c, n). [((c, 1), reduce_impl_v1 ora n), ((c, 12), reduce_impl_v12 ora n)]) reduce_classes)
     @ misc_rules ora @ simple_rules ora"

definition class_impl :: "oracles \<Rightarrow> string \<Rightarrow> int \<Rightarrow> converter" where
  "class_impl ora c v =
     (if c = ''If'' \<and> v = 1 then if_impl_v1 ora
      else if c = ''Loop'' \<and> v = 11 then loop_impl_v11 ora
      else case map_of (plain_rules ora) (c, v) of
             Some f \<Rightarrow> lift_plain f
           | None \<Rightarrow> (\<lambda>sub sc inputs attrs. Inl (NotImplementedErr c)))"

definition onnx_env :: "oracles \<Rightarrow> env" where
  "onnx_env ora = \<lparr>env_impl = class_impl ora, env_fold = fold_constant ora\<rparr>"

subsection \<open>Example graph\<close>

text \<open>A graph with one \<open>If\<close> node whose branches return the input \<open>x\<close>: nesting
  depth 1.\<close>

definition branch_body :: onnx_graph where
  "branch_body = Graph [] [] [] [ValueInfo ''x'' 1 []]"

definition if_graph :: onnx_graph where
  "if_graph =
     Graph [Node ''If'' [''c''] [''y'']
              [AttrProto ''then_branch'' None None None (Some branch_body) [] [] [] None [] [],
               AttrProto ''else_branch'' None None None (Some branch_body) [] [] [] None [] []] ''if1'']
       [] [ValueInfo ''c'' 9 [], ValueInfo ''x'' 1 []] [ValueInfo ''y'' 1 []]"

subsection \<open>The converters keep the scope and never raise \<open>FuelExhausted\<close>\<close>

lemma lift_plain_scope: "lift_plain f sub sc ins attrs = Inr (op, sc') \<Longrightarrow> sc' = sc"
  by (auto simp: lift_plain_def split: sum.splits)

lemma nofe_input_expr: "nofe (input_expr xs i)"
  by (simp add: input_expr_def onnx_input_get_def split: option.split)

lemma nofe_onnx_input_get: "nofe (onnx_input_get xs i)"
  by (simp add: onnx_input_get_def split: option.split)

lemma nofe_py_index: "nofe (py_index xs i)"
  by (simp add: py_index_def split: option.split)

lemma nofe_attr_int: "nofe (attr_int v)"
  by (cases v rule: attr_int.cases) simp_all

lemma nofe_attr_ints: "nofe (attr_ints v)"
  by (cases v) simp_all

lemma nofe_attr_str: "nofe (attr_str v)"
  by (cases v) simp_all

lemma nofe_relay_op_call: "nofe (relay_op_call n xs kw)"
  by (simp add: relay_op_call_def nofe_relay_args)

lemmas nofe_basic = nofe_input_expr nofe_onnx_input_get nofe_py_index nofe_attr_int nofe_attr_ints nofe_attr_str
  nofe_relay_op_call nofe_relay_args nofe_attr_cvt_call nofe_attr_cvt_kwargs

lemma nofe_unary: "nofe (unary_impl_v1 n params ins attr)"
  by (simp add: unary_impl_v1_def nofe_basic)

lemma nofe_elemwise: "nofe (elemwise_impl_v1 n params ins attr)"
  by (simp add: elemwise_impl_v1_def nofe_basic Let_def split: option.split)


lemma nofe_attr_get_ints: "nofe (attr_get_ints attr k d)"
  by (simp add: attr_get_ints_def nofe_basic split: option.split)

lemma nofe_attr_req_ints: "nofe (attr_req_ints attr k)"
  by (simp add: attr_req_ints_def nofe_basic split: option.split)

lemma nofe_layouts: "nofe (onnx_default_layout d n)" "nofe (onnx_storage_order2layout s d n)"
  by (simp_all add: onnx_default_layout_def onnx_storage_order2layout_def)

lemma nofe_get_pad_pair: "nofe (get_pad_pair a b c m)"
  by (simp add: get_pad_pair_def Let_def)

lemma nofe_same_pad_pairs: "nofe (same_pad_pairs attr shp m axes)"
  by (induction axes) (simp_all add: nofe_attr_get_ints nofe_attr_req_ints nofe_py_index nofe_get_pad_pair split: dim.split)

lemma nofe_pool: "nofe (pool_impl_v1 ora n params ins attr)"
proof -
  have "nofe (pool_auto_pad ora n d a ap)" for d a ap
    by (simp add: pool_auto_pad_def Let_def nofe_same_pad_pairs nofe_attr_get_ints nofe_attr_req_ints)
  then have "nofe (pool_run_calculation ora n ins attr)"
    by (simp add: pool_run_calculation_def Let_def nofe_basic nofe_layouts split: option.split prod.split)
  then show ?thesis by (simp add: pool_impl_v1_def nofe_basic split: prod.split)
qed

lemma nofe_norms: "nofe (batch_norm_impl_v1 params ins attr)" "nofe (instance_norm_impl_v1 params ins attr)"
  by (simp_all add: batch_norm_impl_v1_def instance_norm_impl_v1_def nofe_basic)

lemma nofe_pad_mode_of: "nofe (pad_mode_of attr)"
  by (simp add: pad_mode_of_def nofe_basic split: option.split)

lemma nofe_pads: "nofe (pad_attr_impl k op params ins attr)" "nofe (pad_impl_v11 ora params ins attr)"
  by (simp_all add: pad_attr_impl_def pad_impl_v11_def Let_def nofe_basic nofe_pad_mode_of split: option.split)

lemma nofe_reduce: "nofe (reduce_impl_v1 ora n params ins attr)" "nofe (reduce_impl_v12 ora n params ins attr)"
  by (simp_all add: reduce_impl_v1_def reduce_impl_v12_def reduce_run_calculation_def nofe_basic
        split: option.split expr.split list.split prod.split)


lemma nofe_py_ints: "nofe (py_ints vs)"
  by (induction vs rule: py_ints.induct) simp_all

lemma nofe_attr_int_list: "nofe (attr_int_list v)"
  by (cases v rule: attr_int_list.cases) (simp_all add: nofe_py_ints)

lemma nofe_attr_float: "nofe (attr_float attr k d)" "nofe (attr_int_get attr k i)"
  by (simp_all add: attr_float_def attr_int_get_def nofe_basic split: option.split attr_value.split pyval.split)

lemmas nofe_layer = nofe_basic nofe_attr_int_list nofe_attr_float nofe_attr_get_ints

lemma nofe_conv: "nofe (conv_impl_v1 ora params ins attr)"
proof -
  have ap: "nofe (conv_auto_pad ora d a n ap)" for d a n ap
    by (simp add: conv_auto_pad_def nofe_layer split: option.split)
  have c1: "nofe (conv1d_as_2d a)" for a
    by (simp add: conv1d_as_2d_def prepend_one_def nofe_layer split: option.split)
  have dp: "nofe (dimension_picker p s a)" for p s a
    by (simp add: dimension_picker_def kernel_len_def split: option.split)
  show ?thesis
    by (simp add: conv_impl_v1_def Let_def ap c1 dp nofe_layer split: option.split prod.split)
qed

lemma nofe_global_pools: "nofe (global_average_pool_impl_v1 ora params ins attr)"
  "nofe (global_max_pool_impl_v1 ora params ins attr)"
  by (simp_all add: global_average_pool_impl_v1_def global_max_pool_impl_v1_def Let_def nofe_layer)

lemma nofe_gemm: "nofe (gemm_impl_v1 ora params ins attr)"
  by (simp add: gemm_impl_v1_def infer_channels_def Let_def nofe_layer)

lemma nofe_shape_ops: "nofe (flatten_impl_v1 ora params ins attr)" "nofe (reshape_impl_v1 params ins attr)"
  "nofe (reshape_impl_v5 params ins attr)" "nofe (concat_impl_v1 params ins attr)"
  by (simp_all add: flatten_impl_v1_def reshape_impl_v1_def reshape_impl_v5_def concat_impl_v1_def Let_def nofe_layer
        split: option.split dim.split expr.split prod.split)

lemma nofe_sum: "nofe (sum_impl_v1 params ins attr)"
proof -
  have "nofe (sum_loop xs idx)" for xs idx
    by (induction xs idx rule: sum_loop.induct) (simp_all add: nofe_layer)
  then show ?thesis by (simp add: sum_impl_v1_def nofe_layer)
qed

lemma nofe_axes_ops: "nofe (unsqueeze_impl_v1 params ins attr)" "nofe (unsqueeze_impl_v13 ora params ins attr)"
  "nofe (squeeze_impl_v1 params ins attr)" "nofe (squeeze_impl_v13 ora params ins attr)"
  "nofe (split_impl_v1 params ins attr)"
  by (simp_all add: unsqueeze_impl_v1_def unsqueeze_impl_v13_def squeeze_impl_v1_def squeeze_impl_v13_def
        split_impl_v1_def relay_split_def Let_def nofe_layer
        split: option.split dim.split expr.split attr_value.split pyval.split)

lemma nofe_activations: "nofe (elu_impl_v1 params ins attr)" "nofe (pow_impl_v13 ora params ins attr)"
  "nofe (reciprocal_impl_v1 ora params ins attr)" "nofe (selu_impl_v1 params ins attr)"
  "nofe (scaled_tanh_impl_v1 params ins attr)" "nofe (softsign_impl_v1 params ins attr)"
  "nofe (thresholded_relu_impl_v1 params ins attr)" "nofe (shape_impl_v1 ora params ins attr)"
  by (simp_all add: elu_impl_v1_def pow_impl_v13_def reciprocal_impl_v1_def selu_impl_v1_def
        scaled_tanh_impl_v1_def softsign_impl_v1_def thresholded_relu_impl_v1_def shape_impl_v1_def
        Let_def nofe_layer nofe_unary)

lemma nofe_rmap: "(\<And>x. nofe (f x)) \<Longrightarrow> nofe (rmap f xs)"
  by (induction xs) simp_all

lemma nofe_optimizers: "nofe (adagrad_impl_v1 ora params ins attr)" "nofe (adam_impl_v1 ora params ins attr)"
  "nofe (momentum_impl_v1 ora params ins attr)"
proof -
  have n: "nofe (need_expr e)" "nofe (tensor_count ins m msg)" "nofe (attr_req_float attr k)" for e m msg k
    by (simp_all add: need_expr_def tensor_count_def attr_req_float_def Let_def nofe_layer split: option.split)
  have s: "nofe (adagrad_step d e c dt r t ins k i)" "nofe (adam_step a b e c cp dt r t ins k i)"
    "nofe (momentum_step md a b c dt r' t' ins k i)" for a b c cp d e dt r t r' t' k i md
    by (simp_all add: adagrad_step_def adam_step_def momentum_step_def Let_def n nofe_layer)
  show "nofe (adagrad_impl_v1 ora params ins attr)" "nofe (adam_impl_v1 ora params ins attr)"
    "nofe (momentum_impl_v1 ora params ins attr)"
    by (simp_all add: adagrad_impl_v1_def adam_impl_v1_def momentum_impl_v1_def Let_def n s nofe_rmap nofe_layer
        split: option.split)
qed

lemma nofe_tensor_ops: "nofe (softmax_impl_v1 ora params ins attr)" "nofe (softmax_impl_v13 ora params ins attr)"
  "nofe (log_softmax_impl_v1 ora params ins attr)" "nofe (log_softmax_impl_v13 ora params ins attr)"
  "nofe (where_impl_v9 ora params ins attr)" "nofe (expand_impl_v8 ora params ins attr)"
  "nofe (clip_impl_v11 params ins attr)" "nofe (slice_impl_v1 params ins attr)" "nofe (slice_impl_v10 ora params ins attr)"
  "nofe (matmul_impl_v1 nt ora params ins attr)"
  "nofe (conv_transpose_impl_v1 ora params ins attr)" "nofe (conv_transpose_impl_v11 ora params ins attr)"
proof -
  have d: "nofe (dim_int d)" "nofe (attr_get_int attr k i)" "nofe (need_expr e)" "nofe (attr_req attr k)"
    "nofe (const_item a)" "nofe (py_set xs i v)" for d attr k i e a xs v
    by (cases d) (simp_all add: attr_get_int_def need_expr_def attr_req_def const_item_def py_set_def Let_def nofe_layer
        split: option.split list.split)
  have s: "nofe (softmax_axes ora x attr j b)" "nofe (expand_shape ora dt u w)" "nofe (flatten_to_nd ora x xs j)"
    "nofe (clip_take_const ins attr k nm)" "nofe (clip_step ins r k nm)" for x attr j b dt u w xs ins k nm r
    by (simp_all add: softmax_axes_def expand_shape_def flatten_to_nd_def clip_take_const_def clip_step_def d Let_def nofe_layer
        split: option.split expr.split)
  have f: "nofe (slice_fill st en k axs ns ne)" for st en k axs ns ne
    by (induction st en k axs ns ne rule: slice_fill.induct) (simp_all add: d nofe_layer)
  have c: "nofe (slice_common st en axs)" "nofe (dims_static sh axs)" for st en axs sh
    by (simp_all add: slice_common_def dims_static_def f nofe_rmap Let_def nofe_layer split: prod.split)
  show "nofe (softmax_impl_v1 ora params ins attr)" "nofe (softmax_impl_v13 ora params ins attr)"
    "nofe (log_softmax_impl_v1 ora params ins attr)" "nofe (log_softmax_impl_v13 ora params ins attr)"
    "nofe (where_impl_v9 ora params ins attr)" "nofe (expand_impl_v8 ora params ins attr)"
    by (simp_all add: softmax_impl_v1_def softmax_impl_v13_def log_softmax_impl_v1_def log_softmax_impl_v13_def
        where_impl_v9_def expand_impl_v8_def Let_def s nofe_layer)
  show "nofe (clip_impl_v11 params ins attr)"
    by (simp add: clip_impl_v11_def clip_convert_attributes_def s d nofe_layer split: prod.split)
  show "nofe (slice_impl_v1 params ins attr)" "nofe (slice_impl_v10 ora params ins attr)"
    by (simp_all add: slice_impl_v1_def slice_impl_v10_def Let_def c d nofe_layer
        split: attr_value.split option.split prod.split)
  show "nofe (matmul_impl_v1 nt ora params ins attr)"
    by (simp add: matmul_impl_v1_def Let_def s d nofe_layer)
  have ct: "nofe (conv_transpose_prep ora ins attr)" "nofe (conv_transpose_out ins e attr)"
    "nofe (conv_transpose_auto_pad_v1 ora e attr n ap)" "nofe (conv_transpose_auto_pad_v11 attr n ap)" for e attr n ap
    by (simp_all add: conv_transpose_prep_def conv_transpose_out_def conv_transpose_auto_pad_v1_def
        conv_transpose_auto_pad_v11_def deconv_same_pads_def Let_def d nofe_rmap nofe_layer)
  show "nofe (conv_transpose_impl_v1 ora params ins attr)" "nofe (conv_transpose_impl_v11 ora params ins attr)"
    by (simp_all add: conv_transpose_impl_v1_def conv_transpose_impl_v11_def ct nofe_layer split: prod.split option.split)
qed

lemma nofe_if_impl_v1:
  assumes sub: "\<And>k g s op. map_of attrs k = Some (AGraph g) \<Longrightarrow> nofe (sub s g op)"
  shows "nofe (if_impl_v1 ora sub sc ins attrs)"
proof (cases "map_of attrs ''then_branch''")
  case None
  then show ?thesis by (simp add: if_impl_v1_def Let_def nofe_input_expr)
next
  case tb: (Some tv)
  show ?thesis
  proof (cases "map_of attrs ''else_branch''")
    case None
    then show ?thesis using tb by (cases tv) (simp_all add: if_impl_v1_def Let_def nofe_input_expr)
  next
    case eb: (Some ev)
    show ?thesis
    proof (cases "\<exists>g h. tv = AGraph g \<and> ev = AGraph h")
      case True
      then obtain g h where "tv = AGraph g" "ev = AGraph h" by blast
      then show ?thesis using tb eb sub[of "''then_branch''" g] sub[of "''else_branch''" h]
        by (simp add: if_impl_v1_def Let_def nofe_input_expr split: option.split prod.split)
    next
      case False
      then show ?thesis using tb eb
        by (simp add: if_impl_v1_def Let_def nofe_input_expr) (cases tv; cases ev; simp)
    qed
  qed
qed

lemma nofe_loop_get_var: "nofe (loop_get_var ora n v)"
  by (simp add: loop_get_var_def split: option.split)

lemma nofe_dep_vars: "nofe (dep_vars ora ins vs i)"
  by (induction vs arbitrary: i) (simp_all add: nofe_py_index nofe_loop_get_var)

lemma nofe_scan_decls: "nofe (scan_decls ora body first n idx)"
  by (induction idx) (simp_all add: nofe_py_index get_info_def get_type_def Let_def split: prod.split option.split)

lemma nofe_out_items: "nofe (out_item e i)" "nofe (out_count e)" "nofe (out_items e idx)"
proof -
  show oi: "nofe (out_item e i)" for i by (simp add: out_item_def nofe_py_index split: expr.split)
  show "nofe (out_count e)" by (simp add: out_count_def split: expr.split)
  show "nofe (out_items e idx)" by (induction idx) (simp_all add: oi)
qed

lemma nofe_loop_body_results: "nofe (loop_body_results ora dt hm vars svars n outs)"
  by (simp add: loop_body_results_def nofe_out_items Let_def del: upt_Suc)

lemma nofe_loop_build:
  assumes "\<And>s. nofe (sub s body opset)"
    and "\<And>s. nofe (sub s (Graph (g_node body) (g_initializer body) [] (g_output body)) opset)"
  shows "nofe (loop_build ora sub sc m cond deps body opset)"
  unfolding loop_build_def Let_def
  by (simp add: assms nofe_py_index nofe_loop_get_var nofe_dep_vars nofe_scan_decls nofe_loop_body_results
      nofe_relay_args split: prod.split option.split del: free_vars.simps)

lemma nofe_loop_impl_v11:
  assumes sub: "\<And>g s op. map_of attrs ''body'' = Some (AGraph g) \<Longrightarrow>
                  nofe (sub s g op) \<and> nofe (sub s (Graph (g_node g) (g_initializer g) [] (g_output g)) op)"
  shows "nofe (loop_impl_v11 ora sub sc ins attrs)"
  using sub
  by (auto simp: loop_impl_v11_def loop_convert_def Let_def intro!: nofe_loop_build
      split: option.split attr_value.split prod.split)


lemma nofe_recurrent: "nofe (lstm_impl_v7 ora params ins attr)" "nofe (gru_impl_v7 ora params ins attr)"
proof -
  have dm: "nofe (rnn_directions d)" "nofe (dim_int d)" for d
    by (cases d; simp)+
  have a: "nofe (take_param b v l)" "nofe (activation_helper n x y)" "nofe (rnn_directions d)" "nofe (unbind ora e)"
    "nofe (need_expr u)" "nofe (rnn_inputs ins ks)" for b v l n x y d e u ins ks
    by (simp_all add: take_param_def activation_helper_ok unbind_def need_expr_def rnn_inputs_def dm
        nofe_rmap nofe_layer split: option.split)
  have st: "nofe (act_step al be s n)" for al be s n
    by (simp add: act_step_def a split: prod.split)
  have f: "nofe (rfoldl (act_step al be) s ns)" for al be s ns
    by (induction ns arbitrary: s) (simp_all add: st)
  have r: "nofe (rnn_activations op attr v k)" for op attr v k
    by (simp add: rnn_activations_def f split: option.split attr_value.split prod.split)
  show "nofe (lstm_impl_v7 ora params ins attr)" "nofe (gru_impl_v7 ora params ins attr)"
    by (simp_all add: lstm_impl_v7_def gru_impl_v7_def Let_def a r nofe_layer split: option.split prod.split)
qed

lemma nofe_resample: "nofe (resize_impl_v10 ora params ins attr)" "nofe (resize_impl_v11 ora params ins attr)"
  "nofe (resize_impl_v13 ora params ins attr)" "nofe (upsample_impl_v9 ora params ins attr)"
proof -
  have a: "nofe (attr_req_str attr k)" "nofe (attr_get_str attr k d)" "nofe (resize_method m)" "nofe (need_expr u)"
    for attr k d m u
    by (simp_all add: attr_req_str_def attr_get_str_def resize_method_def need_expr_def nofe_layer split: option.split)
  have c: "nofe (resize_v11_13_common ora ins sz attr)" for sz
    by (simp add: resize_v11_13_common_def Let_def a nofe_layer split: option.split prod.split)
  show "nofe (resize_impl_v10 ora params ins attr)" "nofe (resize_impl_v11 ora params ins attr)"
    "nofe (resize_impl_v13 ora params ins attr)"
    by (simp_all add: resize_impl_v10_def resize_impl_v11_def resize_impl_v13_def Let_def a c nofe_layer
        split: option.split prod.split)
  have s1: "nofe (scales_of_attr v)" for v
    by (cases v rule: scales_of_attr.cases) simp_all
  have s2: "nofe (upsample_check sc)" for sc
    by (cases sc) (simp_all add: nofe_layer)
  have s3: "nofe (upsample_scale_args b sc)" for b sc
    by (cases b; cases sc) (simp_all add: nofe_layer)
  note s = s1 s2 s3
  have u: "nofe (upsample_scales params ins attr)"
    by (simp add: upsample_scales_def scales_of_input_def s nofe_layer split: option.split expr.split)
  show "nofe (upsample_impl_v9 ora params ins attr)"
    by (simp add: upsample_impl_v9_def Let_def s u nofe_layer split: option.split attr_value.split)
qed

lemma nofe_misc:
  "nofe (mod_impl_v1 params ins attr)" "nofe (max_min_impl_v1 op params ins attr)" "nofe (arg_impl_v13 op params ins attr)"
  "nofe (shrink_impl_v9 ora params ins attr)"
  "nofe (hard_sigmoid_impl_v1 params ins attr)"
  "nofe (celu_impl_v12 ora params ins attr)"
  "nofe (is_inf_impl_v10 ora params ins attr)"
  "nofe (reduce_sum_via ora pre post params ins attr)"
  "nofe (hardmax_impl_v1 ora params ins attr)"
  "nofe (hardmax_impl_v13 ora params ins attr)"
  "nofe (one_hot_impl_v9 ora params ins attr)"
  "nofe (constant_of_shape_impl_v9 params ins attr)"
  "nofe (constant_impl_v9 params ins attr)"
  "nofe (eye_like_impl_v9 ora params ins attr)"
  "nofe (range_impl_v1 ora params ins attr)"
  "nofe (non_zero_impl_v9 params ins attr)"
  "nofe (cast_impl_v1 params ins attr)"
  "nofe (cast_impl_v5 params ins attr)"
  "nofe (cumsum_impl_v1 params ins attr)"
  "nofe (gather_nd_common ora ins bd)"
  "nofe (compress_impl_v11 params ins attr)"
  "nofe (topk_impl_v1 ora params ins attr)"
  "nofe (reverse_sequence_impl_v10 params ins attr)"
  "nofe (lrn_impl_v1 params ins attr)"
  "nofe (max_roi_pool_impl_v1 params ins attr)"
  "nofe (roi_align_impl_v1 ora params ins attr)"
  "nofe (bit_shift_impl_v11 params ins attr)"
  "nofe (unique_impl_v11 ora params ins attr)"
  "nofe (lp_pool_impl_v1 ora params ins attr)"
  "nofe (max_unpool_impl_v11 ora params ins attr)"
proof -
  have b: "nofe (dim_int d)" "nofe (attr_get_int attr k i)" "nofe (need_expr u)" "nofe (get_type t)"
    for d attr k i u t
    by (cases d) (simp_all add: attr_get_int_def need_expr_def get_type_def nofe_layer split: option.split)
  have f: "nofe (fold_attr_cvt op acc xs)" for op acc xs
    by (induction op acc xs rule: fold_attr_cvt.induct) (simp_all add: nofe_attr_cvt_call)
  have h: "nofe (lp_pool_auto_pad ora d attr)" "nofe (infer_scalar params e)" "nofe (get_numpy tp)"
    for d attr params e tp
    by (simp_all add: lp_pool_auto_pad_def infer_scalar_def get_numpy_def b Let_def nofe_layer nofe_attr_req_ints
        split: option.split prod.split expr.split list.split)
  show "nofe (mod_impl_v1 params ins attr)" "nofe (max_min_impl_v1 op params ins attr)" "nofe (arg_impl_v13 op params ins attr)" "nofe (shrink_impl_v9 ora params ins attr)" "nofe (hard_sigmoid_impl_v1 params ins attr)" "nofe (celu_impl_v12 ora params ins attr)" "nofe (is_inf_impl_v10 ora params ins attr)" "nofe (reduce_sum_via ora pre post params ins attr)" "nofe (hardmax_impl_v1 ora params ins attr)" "nofe (hardmax_impl_v13 ora params ins attr)" "nofe (one_hot_impl_v9 ora params ins attr)" "nofe (constant_of_shape_impl_v9 params ins attr)" "nofe (constant_impl_v9 params ins attr)" "nofe (eye_like_impl_v9 ora params ins attr)" "nofe (range_impl_v1 ora params ins attr)" "nofe (non_zero_impl_v9 params ins attr)" "nofe (cast_impl_v1 params ins attr)" "nofe (cast_impl_v5 params ins attr)" "nofe (cumsum_impl_v1 params ins attr)" "nofe (gather_nd_common ora ins bd)" "nofe (compress_impl_v11 params ins attr)" "nofe (topk_impl_v1 ora params ins attr)" "nofe (reverse_sequence_impl_v10 params ins attr)" "nofe (lrn_impl_v1 params ins attr)" "nofe (max_roi_pool_impl_v1 params ins attr)" "nofe (roi_align_impl_v1 ora params ins attr)" "nofe (bit_shift_impl_v11 params ins attr)" "nofe (unique_impl_v11 ora params ins attr)" "nofe (lp_pool_impl_v1 ora params ins attr)" "nofe (max_unpool_impl_v11 ora params ins attr)"
    by (simp_all add: mod_impl_v1_def shrink_impl_v9_def hard_sigmoid_impl_v1_def celu_impl_v12_def is_inf_impl_v10_def reduce_sum_via_def hardmax_impl_v1_def hardmax_impl_v13_def one_hot_impl_v9_def constant_of_shape_impl_v9_def constant_impl_v9_def eye_like_impl_v9_def range_impl_v1_def non_zero_impl_v9_def cast_impl_v1_def cast_impl_v5_def cumsum_impl_v1_def gather_nd_common_def compress_impl_v11_def topk_impl_v1_def reverse_sequence_impl_v10_def lrn_impl_v1_def max_roi_pool_impl_v1_def roi_align_impl_v1_def bit_shift_impl_v11_def unique_impl_v11_def lp_pool_impl_v1_def max_unpool_impl_v11_def b f h max_min_impl_v1_def arg_impl_v13_def nofe_rmap Let_def nofe_layer nofe_attr_req_ints nofe_layouts
        split: option.split prod.split attr_value.split list.split)
qed
lemma nofe_simple:
  "nofe (global_lp_pool_impl_v1 ora params ins attr)"
  "nofe (prelu_impl_v1 ora params ins attr)"
  "nofe (softplus_impl_v1 ora params ins attr)"
  "nofe (gather_impl_v1 ora params ins attr)"
  "nofe (gather_elements_impl_v1 ora params ins attr)"
  "nofe (scatter_nd_impl_v11 ora params ins attr)"
  "nofe (random_normal_like_impl_v1 ora params ins attr)"
  "nofe (parametric_soft_plus_impl_v1 params ins attr)"
  "nofe (scale_impl_v1 params ins attr)"
  "nofe (affine_impl_v1 params ins attr)"
  "nofe (sign_impl_v1 params ins attr)"
  "nofe (erf_impl_v1 params ins attr)"
  "nofe (not_impl_v1 params ins attr)"
  "nofe (and_impl_v1 params ins attr)"
  "nofe (or_impl_v7 params ins attr)"
  "nofe (tile_impl_v6 params ins attr)"
  "nofe (depth_to_space_impl_v11 params ins attr)"
  "nofe (space_to_depth_impl_v1 params ins attr)"
  "nofe (scatter_impl_v1 params ins attr)"
  "nofe (mean_impl_v1 params ins attr)"
  "nofe (einsum_impl_v12 params ins attr)"
  "nofe (random_uniform_impl_v1 params ins attr)"
  "nofe (random_normal_impl_v1 params ins attr)"
proof -
  have b: "nofe (dim_int d)" "nofe (attr_get_int attr k i)" "nofe (get_type t)" "nofe (block_size attr)"
    "nofe (float_dtype dt)" "nofe (first_inputs_op n m params ins attr)" for d attr k i t dt n m params ins
    by (cases d) (simp_all add: attr_get_int_def get_type_def block_size_def float_dtype_def first_inputs_op_def
        nofe_rmap nofe_layer split: option.split attr_value.split)
  show "nofe (global_lp_pool_impl_v1 ora params ins attr)" "nofe (prelu_impl_v1 ora params ins attr)" "nofe (softplus_impl_v1 ora params ins attr)" "nofe (gather_impl_v1 ora params ins attr)" "nofe (gather_elements_impl_v1 ora params ins attr)" "nofe (scatter_nd_impl_v11 ora params ins attr)" "nofe (random_normal_like_impl_v1 ora params ins attr)" "nofe (parametric_soft_plus_impl_v1 params ins attr)" "nofe (scale_impl_v1 params ins attr)" "nofe (affine_impl_v1 params ins attr)" "nofe (sign_impl_v1 params ins attr)" "nofe (erf_impl_v1 params ins attr)" "nofe (not_impl_v1 params ins attr)" "nofe (and_impl_v1 params ins attr)" "nofe (or_impl_v7 params ins attr)" "nofe (tile_impl_v6 params ins attr)" "nofe (depth_to_space_impl_v11 params ins attr)" "nofe (space_to_depth_impl_v1 params ins attr)" "nofe (scatter_impl_v1 params ins attr)" "nofe (mean_impl_v1 params ins attr)" "nofe (einsum_impl_v12 params ins attr)" "nofe (random_uniform_impl_v1 params ins attr)" "nofe (random_normal_impl_v1 params ins attr)"
    by (simp_all add: global_lp_pool_impl_v1_def prelu_impl_v1_def softplus_impl_v1_def gather_impl_v1_def gather_elements_impl_v1_def scatter_nd_impl_v11_def random_normal_like_impl_v1_def parametric_soft_plus_impl_v1_def scale_impl_v1_def affine_impl_v1_def sign_impl_v1_def erf_impl_v1_def not_impl_v1_def and_impl_v1_def or_impl_v7_def tile_impl_v6_def depth_to_space_impl_v11_def space_to_depth_impl_v1_def scatter_impl_v1_def mean_impl_v1_def einsum_impl_v12_def random_uniform_impl_v1_def random_normal_impl_v1_def b nofe_misc nofe_rmap Let_def nofe_layer attr_get_str_def
        split: option.split)
qed

lemma nofe_plain_rules:
  "(cv, f) \<in> set (plain_rules ora) \<Longrightarrow> nofe (f p i a)"
  by (auto simp: plain_rules_def misc_rules_def simple_rules_def equal_impl_v1_def or_impl_v1_def tile_impl_v1_def reduce_classes_def reduce_sum_square_impl_v1_def reduce_l1_impl_v1_def
      reduce_l2_impl_v1_def reduce_log_sum_impl_v1_def gather_nd_impl_v1_def gather_nd_impl_v12_def absolute_impl_v1_def add_impl_v1_def average_pool_impl_v1_def
      div_impl_v1_def max_pool_impl_v1_def mul_impl_v1_def sub_impl_v1_def pad_impl_v1_def pad_impl_v2_def
      nofe_unary nofe_elemwise nofe_pool nofe_norms nofe_pads nofe_reduce nofe_conv nofe_global_pools nofe_gemm
      nofe_shape_ops nofe_sum nofe_axes_ops nofe_activations nofe_optimizers nofe_tensor_ops nofe_recurrent nofe_resample nofe_misc nofe_simple)

lemma onnx_env_fuel_safe: "env_fuel_safe (onnx_env ora)"
  unfolding env_fuel_safe_def
proof (intro allI impI)
  fix c :: string and v :: int and d sub sc ins attrs
  assume s: "sub_safe d sub" and w: "graphs_within d attrs"
  have depth: "graph_depth (Graph (g_node g) (g_initializer g) [] (g_output g)) = graph_depth g" for g
    by (cases g) simp
  have sub_ok: "nofe (sub s g op) \<and> nofe (sub s (Graph (g_node g) (g_initializer g) [] (g_output g)) op)"
    if "map_of attrs k = Some (AGraph g)" for k g s op
    using s w map_of_SomeD[OF that] depth by (auto simp: sub_safe_def graphs_within_def nofe_def)
  consider "c = ''If'' \<and> v = 1" | "\<not> (c = ''If'' \<and> v = 1)" "c = ''Loop'' \<and> v = 11"
    | "\<not> (c = ''If'' \<and> v = 1)" "\<not> (c = ''Loop'' \<and> v = 11)" by blast
  then have "nofe (class_impl ora c v sub sc ins attrs)"
  proof cases
    case 1
    then show ?thesis using nofe_if_impl_v1[of attrs sub] sub_ok by (simp add: class_impl_def)
  next
    case 2
    then show ?thesis using nofe_loop_impl_v11[of attrs sub] sub_ok by (simp add: class_impl_def)
  next
    case 3
    then show ?thesis
      by (auto simp: class_impl_def lift_plain_def dest: map_of_SomeD nofe_plain_rules split: option.split)
  qed
  then show "env_impl (onnx_env ora) c v sub sc ins attrs \<noteq> Inl FuelExhausted"
    by (simp add: onnx_env_def nofe_def)
qed


subsection \<open>Properties of the environment\<close>

text \<open>C35 (invariant): every modelled converter class keeps the bindings of the scope
  it receives: \<open>If\<close> and \<open>Loop\<close> only add the bindings of their bodies, the other
  rules return the scope unchanged.  So the importer's theorems that assume
  \<open>env_mono\<close> hold for this environment.\<close>

theorem onnx_env_mono: "env_mono (onnx_env ora)"
  unfolding env_mono_def onnx_env_def
  by (auto simp: class_impl_def dest: if_impl_v1_le loop_impl_v11_le lift_plain_scope split: option.splits if_splits)

text \<open>C36 (termination): the importer with the modelled converters, given more fuel than
  the nesting depth of the graph, never runs out of fuel: the recursion through the
  bodies of \<open>If\<close> and \<open>Loop\<close> ends.\<close>

theorem onnx_import_fuel_enough:
  assumes "graph_depth g < fuel"
  shows "import_sub fuel (onnx_env ora) sc g opset \<noteq> Inl FuelExhausted"
  using import_sub_fuel_enough[OF assms onnx_env_fuel_safe] .

theorem onnx_import_fuel_enough_witness:
  "import_sub 2 (onnx_env (static_oracles [])) (new_scope [] (DtypeStr ''float32'') False True) if_graph 13
     \<noteq> Inl FuelExhausted"
  by (rule onnx_import_fuel_enough) (simp add: if_graph_def branch_body_def)

end
