(* ===== verification/Relay_Eval.thy ===== *)
theory Relay_Eval
  imports Control_Flow
begin

text \<open>
  What the Relay expressions that the converters build compute, for the scalar fragment
  the loop of \<open>Loop._impl_v11\<close> is made of: integer and boolean scalars, tuples, the
  calls \<open>add\<close>, \<open>less\<close>, \<open>equal\<close> and \<open>logical_and\<close>, and Relay's while loop
  (\<open>tvm.relay.loops.while_loop\<close>).  This is Relay's semantics, outside this
  repository's sources, so it is modelled from the specification's description of
  \<open>Loop\<close> (iterate the body while the condition holds).  Loop variables are looked up
  by name.  A while loop may run forever, so \<open>run_while\<close> is a
  \<open>partial_function\<close> in the option monad: not returning is \<open>None\<close>.
  The lemma shows that the counted loop \<open>Loop\<close> builds from \<open>M\<close> and \<open>cond\<close>
  always exits, whatever the body computes for the condition, after at most \<open>M - i\<close>
  iterations, and after exactly that many when the condition stays true.
\<close>

datatype rval = RInt int | RBool bool | RTup "rval list"

definition call_val :: "string \<Rightarrow> rval list \<Rightarrow> rval option" where
  "call_val n vs =
     (case vs of
        [RInt a, RInt b] \<Rightarrow>
          if n = ''add'' then Some (RInt (a + b))
          else if n = ''less'' then Some (RBool (a < b))
          else if n = ''equal'' then Some (RBool (a = b))
          else None
      | [RBool a, RBool b] \<Rightarrow>
          if n = ''equal'' then Some (RBool (a = b))
          else if n = ''logical_and'' then Some (RBool (a \<and> b))
          else None
      | _ \<Rightarrow> None)"

text \<open>A scalar constant: \<open>bool\<close> data is a truth value, any other dtype an integer.\<close>

definition const_val :: "ndarray \<Rightarrow> rval option" where
  "const_val a =
     (case (nd_shape a, nd_data a) of
        ([], [x]) \<Rightarrow> Some (if nd_dtype a = ''bool'' then RBool (x \<noteq> 0) else RInt x)
      | _ \<Rightarrow> None)"

fun eval_expr :: "(string \<Rightarrow> rval option) \<Rightarrow> expr \<Rightarrow> rval option"
and eval_exprs :: "(string \<Rightarrow> rval option) \<Rightarrow> expr list \<Rightarrow> rval list option" where
  "eval_expr env (Var n _ _) = env n"
| "eval_expr env (Const a) = const_val a"
| "eval_expr env (Call n args kw) = (case eval_exprs env args of Some vs \<Rightarrow> call_val n vs | None \<Rightarrow> None)"
| "eval_expr env (Tuple es) = map_option RTup (eval_exprs env es)"
| "eval_expr env (TupleGetItem e i) =
     (case eval_expr env e of Some (RTup vs) \<Rightarrow> if i < length vs then Some (vs ! i) else None | _ \<Rightarrow> None)"
| "eval_expr env (IfE c t e) =
     (case eval_expr env c of
        Some (RBool True) \<Rightarrow> eval_expr env t
      | Some (RBool False) \<Rightarrow> eval_expr env e
      | _ \<Rightarrow> None)"
| "eval_expr env (WhileLoop vars c body inits) = None"
| "eval_exprs env [] = Some []"
| "eval_exprs env (e # es) =
     (case eval_expr env e of
        None \<Rightarrow> None
      | Some v \<Rightarrow> (case eval_exprs env es of None \<Rightarrow> None | Some vs \<Rightarrow> Some (v # vs)))"

text \<open>\<open>while_loop(cond, loop_vars, body)\<close> applied to initial values: the variables
  bound by name, the condition evaluated, the body evaluated while it holds.\<close>

partial_function (option) run_while :: "string list \<Rightarrow> expr \<Rightarrow> expr list \<Rightarrow> rval list \<Rightarrow> rval list option" where
  "run_while names c body vals =
     (let env = map_of (zip names vals) in
      case eval_expr env c of
        Some (RBool w) \<Rightarrow>
          if w then (case eval_exprs env body of Some vals' \<Rightarrow> run_while names c body vals' | None \<Rightarrow> None)
          else Some vals
      | _ \<Rightarrow> None)"

subsection \<open>The counted loop exits\<close>

lemma eval_exprs_append:
  "eval_exprs env (xs @ ys) =
     (case eval_exprs env xs of None \<Rightarrow> None
      | Some a \<Rightarrow> (case eval_exprs env ys of None \<Rightarrow> None | Some c \<Rightarrow> Some (a @ c)))"
  by (induction xs) (simp_all split: option.split)

text \<open>C37 (liveness): the while loop that \<open>Loop._impl_v11\<close> builds when both \<open>M\<close>
  and \<open>cond\<close> are given (condition \<open>cond_fn\<close>, a body that increments the count and
  passes \<open>max_count\<close> on) exits from every state, whatever boolean the body computes
  for the next condition and for the dependencies, after \<open>k \<le> M - i\<close> iterations: it
  returns the count \<open>i + k\<close> and \<open>M\<close> unchanged, and when the condition stays true
  it runs exactly \<open>M - i\<close> iterations (the final count is \<open>max i M\<close>).\<close>

theorem counted_while_exits:
  assumes names: "distinct (n0 # n1 # n2 # ns)" and dt: "dt \<noteq> ''bool''"
    and len: "length vs = length ns"
    and nc: "\<forall>env. \<exists>b. eval_expr env nc = Some (RBool b)"
    and dv: "\<forall>env. \<exists>ws. eval_exprs env nvs = Some ws \<and> length ws = length ns"
  shows "\<exists>k r. run_while (n0 # n1 # n2 # ns)
               (loop_cond True True (Var n0 s0 t0) (Var n1 s1 t1) (Var n2 s2 t2))
               ([Call ''add'' [Var n0 s0 t0, scalar_const dt 1] [], Var n1 s1 t1, nc] @ nvs)
               (RInt i # RInt m # RBool b # vs) = Some (RInt (i + int k) # RInt m # r)
             \<and> k \<le> nat (m - i)
             \<and> (b \<and> (\<forall>env. eval_expr env nc = Some (RBool True)) \<longrightarrow> i + int k = max i m)"
  using len
proof (induction "nat (m - i)" arbitrary: i b vs rule: less_induct)
  case less
  let ?names = "n0 # n1 # n2 # ns"
  let ?env = "map_of (zip ?names (RInt i # RInt m # RBool b # vs))"
  let ?c = "loop_cond True True (Var n0 s0 t0) (Var n1 s1 t1) (Var n2 s2 t2)"
  let ?b = "[Call ''add'' [Var n0 s0 t0, scalar_const dt 1] [], Var n1 s1 t1, nc] @ nvs"
  have e0: "?env n0 = Some (RInt i)" by simp
  have e1: "?env n1 = Some (RInt m)" using names by auto
  have e2: "?env n2 = Some (RBool b)" using names by auto
  have cond: "eval_expr ?env ?c = Some (RBool (b \<and> i < m))"
    using e0 e1 e2 by (simp add: loop_cond_def call_val_def const_val_def)
  show ?case
  proof (cases "b \<and> i < m")
    case False
    then have "run_while ?names ?c ?b (RInt i # RInt m # RBool b # vs) = Some (RInt (i + int 0) # RInt m # RBool b # vs)"
      by (subst run_while.simps) (simp only: Let_def cond, simp)
    with False show ?thesis by fastforce
  next
    case True
    from nc obtain b' where b': "eval_expr ?env nc = Some (RBool b')" by blast
    from dv obtain ws where ws: "eval_exprs ?env nvs = Some ws" "length ws = length ns" by blast
    have body: "eval_exprs ?env ?b = Some (RInt (i + 1) # RInt m # RBool b' # ws)"
      using e0 e1 b' ws dt by (simp add: eval_exprs_append call_val_def const_val_def scalar_const_def)
    have step: "run_while ?names ?c ?b (RInt i # RInt m # RBool b # vs)
                = run_while ?names ?c ?b (RInt (i + 1) # RInt m # RBool b' # ws)"
      by (rule trans[OF run_while.simps]) (simp only: Let_def cond body, simp add: True)
    have "nat (m - (i + 1)) < nat (m - i)" using True by simp
    from less.hyps[OF this ws(2)] obtain k r where
      run: "run_while ?names ?c ?b (RInt (i + 1) # RInt m # RBool b' # ws) = Some (RInt (i + 1 + int k) # RInt m # r)"
      and kb: "k \<le> nat (m - (i + 1))"
      and ex: "b' \<and> (\<forall>env. eval_expr env nc = Some (RBool True)) \<longrightarrow> i + 1 + int k = max (i + 1) m"
      by blast
    have "(\<forall>env. eval_expr env nc = Some (RBool True)) \<longrightarrow> b'" using b' by auto
    then have "b \<and> (\<forall>env. eval_expr env nc = Some (RBool True)) \<longrightarrow> i + int (Suc k) = max i m"
      using ex True by auto
    moreover have "Suc k \<le> nat (m - i)" using kb True by linarith
    moreover have "run_while ?names ?c ?b (RInt i # RInt m # RBool b # vs) = Some (RInt (i + int (Suc k)) # RInt m # r)"
      unfolding step run by (simp add: add.assoc)
    ultimately show ?thesis by blast
  qed
qed

theorem counted_while_exits_witness:
  "\<exists>k r. run_while (''i'' # ''max_count'' # ''cond'' # [])
        (loop_cond True True (Var ''i'' [] None) (Var ''max_count'' [] None) (Var ''cond'' [] None))
        ([Call ''add'' [Var ''i'' [] None, scalar_const ''int64'' 1] [], Var ''max_count'' [] None,
          Const \<lparr>nd_shape = [], nd_dtype = ''bool'', nd_data = [1]\<rparr>] @ [])
        (RInt 0 # RInt 3 # RBool True # []) = Some (RInt (0 + int k) # RInt 3 # r)
      \<and> k \<le> nat (3 - 0)
      \<and> (True \<and> (\<forall>env. eval_expr env (Const \<lparr>nd_shape = [], nd_dtype = ''bool'', nd_data = [1]\<rparr>) = Some (RBool True))
           \<longrightarrow> 0 + int k = max 0 3)"
  by (rule counted_while_exits) (auto simp: const_val_def)

end
