(* ===== verification/Spec2Isabelle.thy ===== *)
theory Spec2Isabelle
  imports Onnx_Env Relay_Eval
begin

text \<open>
  \<^bold>\<open>A model of TVM's ONNX importer.\<close>

  The program is \<open>src/python/tvm/relay/frontend/onnx.py\<close>: it reads an ONNX
  \<open>ModelProto\<close> and produces a Relay function and a dict of parameters.  Its parts,
  leaves first, and the theories that model them:

  \<^item> \<^bold>\<open>Python semantics\<close> (\<open>Py_Prelude\<close>).  Ordered dicts as association lists
    (\<open>dict_set\<close>, \<open>dict_pop\<close>, \<open>dict_update\<close>, read with \<open>map_of\<close>), Python list
    indexing with negative indices (\<open>py_nth\<close>, \<open>None\<close> for \<open>IndexError\<close>), the
    substring test \<open>py_in_str\<close> and \<open>str.strip\<close>.  The shared lemmas on these are in
    the collection \<open>pydict_simps\<close>.
  \<^item> \<^bold>\<open>Data\<close> (\<open>Onnx_Model\<close>).  The protobuf messages as one mutually recursive
    datatype (graphs nest in attributes), parsed attribute values, Python values, Relay
    expressions (\<open>expr\<close>, with \<open>If\<close> and the while loop), a converter's result
    (\<open>conv_out\<close>: one expression or a \<open>TupleWrapper\<close>), the exceptions as the
    datatype \<open>error\<close>, and the readers \<open>get_type\<close>, \<open>get_info\<close> and
    \<open>onnx_input\<close>.  Every fallible operation returns \<open>'a result = error + 'a\<close>,
    sequenced with \<open>rbind\<close>.
  \<^item> \<^bold>\<open>Attribute Transformer\<close> (\<open>Attr_Cvt\<close>).  \<open>AttrCvt\<close> and \<open>Renamer\<close> live
    in \<open>common.py\<close>, which is not among the sources; they are modelled from the
    specification (section 4.2).  The operator-name picker \<open>dimension_picker\<close> and
    the checks \<open>dimension_constraint\<close> and \<open>_broadcast_constraint\<close> of
    \<open>onnx.py\<close> are translated.
  \<^item> \<^bold>\<open>Versioned Operator Registry\<close> (\<open>Registry\<close>).
    \<open>OnnxOpConverter.get_converter\<close> literally (sorting, the index of the last copy
    of the opset, Python's index \<open>-1\<close>); the rule versions of every converter class,
    taken from its \<open>_impl_vN\<close> methods, inherited ones included; and
    \<open>_get_convert_map\<close> as a table of \<open>Renamer\<close>s, \<open>AttrCvt\<close>s and classes,
    resolved at an opset.
  \<^item> \<^bold>\<open>Attribute Table\<close> (\<open>Attributes\<close>).  \<open>GraphProto._parse_attr\<close> field by
    field, in the code's order; \<open>_parse_array\<close> and \<open>_fix_outputs\<close>.
  \<^item> \<^bold>\<open>Conversion Scope and Graph Importer\<close> (\<open>Importer\<close>).  The \<open>GraphProto\<close>
    object is the record \<open>scope\<close>, passed explicitly: a converter receives the scope
    that \<open>GraphProto.current\<close> would hold and returns it.  \<open>import_graph\<close> is
    \<open>GraphProto.from_onnx(get_output_expr=True)\<close>, one definition per step:
    \<open>bind_initializers\<close>, \<open>bind_inputs\<close>, \<open>check_user_shapes\<close>,
    \<open>check_supported\<close>, \<open>convert_nodes\<close> (per node \<open>convert_node\<close>: \<open>parse_attr\<close>,
    \<open>gather_inputs\<close>, \<open>convert_operator\<close>, \<open>fold_out\<close>, \<open>reconcile_outputs\<close>,
    \<open>bind_outputs\<close>) and \<open>graph_outputs\<close>; \<open>assemble\<close> and \<open>from_onnx_graph\<close>
    build the function and return the parameters; \<open>from_onnx_model\<close> is the
    module-level \<open>from_onnx\<close>.  \<open>Import_Fuel\<close> holds the termination argument.
  \<^item> \<^bold>\<open>Operator conversion rules\<close> (\<open>Converters\<close>, \<open>Layer_Ops\<close>).  The padding
    and layout helpers and the \<open>_impl_vN\<close> methods of \<open>Unary\<close>, \<open>Elemwise\<close>,
    \<open>Pool\<close>, \<open>BatchNorm\<close>, \<open>InstanceNorm\<close>, \<open>Pad\<close>, \<open>Reduce\<close>, \<open>Conv\<close>,
    \<open>GlobalAveragePool\<close>, \<open>GlobalMaxPool\<close>, \<open>Gemm\<close>, \<open>Flatten\<close>, \<open>Reshape\<close>,
    \<open>Concat\<close>, \<open>Sum\<close>, \<open>Unsqueeze\<close>, \<open>Squeeze\<close>, \<open>Split\<close>, \<open>Elu\<close>, \<open>Pow\<close>,
    \<open>Reciprocal\<close>, \<open>Selu\<close>, \<open>ScaledTanh\<close>, \<open>Softsign\<close>, \<open>ThresholdedRelu\<close> and
    \<open>Shape\<close>, at the level of the Relay expressions they build.  What a rule asks of
    Relay's type inference and of \<open>fold_constant\<close> is the record \<open>oracles\<close>.  A rule
    that only reads \<open>params\<close> is a \<open>plain_conv\<close>.  \<open>Reshape\<close> version 5 casts to
    \<open>int32\<close> through \<open>32 word\<close>.  \<open>Tensor_Ops\<close> adds \<open>Softmax\<close>, \<open>LogSoftmax\<close>,
    \<open>Where\<close>, \<open>Expand\<close>, \<open>Clip\<close> (version 11), \<open>Slice\<close> (versions 1 and 10, with
    \<open>Slice._common\<close>), \<open>ConvTranspose\<close> (versions 1 and 11) and \<open>MatMul\<close> (with \<open>use_nt_batch_matmul\<close> a parameter,
    \<open>True\<close> in the environment as in \<open>ONNX_DEFAULT_CONFIGS\<close>).
  \<^item> \<^bold>\<open>Training operators\<close> (\<open>Optimizers\<close>).  \<open>Adagrad\<close>, \<open>Adam\<close> and
    \<open>Momentum\<close>: each loop iteration is a step definition (\<open>adagrad_step\<close>, ...),
    the loop with its early exit on an exception is \<open>rmap\<close>, and the arithmetic the
    rules emit is given a meaning by \<open>feval\<close>, a pointwise evaluator over exact reals
    modelled from Relay's documented operator semantics (division by zero, the root
    of a negative number and a power of a non-positive base have no value; \<open>If\<close> is
    lazy).
  \<^item> \<^bold>\<open>Recurrent rules\<close> (\<open>Recurrent\<close>).  \<open>RNN\<close>'s activation helpers and
    \<open>LSTM._impl_v7\<close> and \<open>GRU._impl_v7\<close>: the default states, the loop over the
    \<open>activations\<close> with its counters \<open>alpha_loc\<close> and \<open>beta_loc\<close> (\<open>act_step\<close>, run
    by \<open>rfoldl\<close>, a \<open>for\<close> loop that stops at the first exception), the weight dict
    of each direction with the gate permutations (\<open>iofc_to_ifco\<close>, \<open>zrn_to_rzn\<close>)
    and the bidirectional cells.  \<open>lstm_cell\<close>, \<open>gru_cell\<close> and \<open>unbind\<close> are in
    \<open>common.py\<close> and stay opaque calls; \<open>teval\<close> evaluates \<open>split\<close>,
    \<open>squeeze\<close> and \<open>concatenate\<close> along axis 0 on nested lists, modelled from
    Relay's documentation.
  \<^item> \<^bold>\<open>Resampling rules\<close> (\<open>Resample\<close>).  \<open>Resize\<close> versions 10, 11 and 13
    with \<open>v11_13_common\<close>, and \<open>Upsample._impl_v9\<close> with its four sources of
    scales (attribute, \<open>params\<close>, a constant, a runtime tensor); \<open>scale_value\<close>
    evaluates a scale argument with Relay's \<open>take\<close>, which clips its index.
  \<^item> \<^bold>\<open>Further rules\<close> (\<open>Misc_Ops\<close>).  Thirty-six rule versions, among them
    \<open>Mod\<close>, \<open>Shrink\<close>, \<open>Celu\<close>, \<open>IsInf\<close>, \<open>Maximum\<close>/\<open>Minimum\<close>, the
    sum-based reductions, \<open>ArgMax\<close>/\<open>ArgMin\<close>, \<open>Hardmax\<close>, \<open>OneHot\<close>,
    \<open>Constant\<close>, \<open>EyeLike\<close>, \<open>Cast\<close>, \<open>CumSum\<close>, \<open>GatherND\<close>, \<open>TopK\<close>,
    \<open>RoiAlign\<close>, \<open>BitShift\<close>, \<open>Unique\<close>, \<open>LpPool\<close> and \<open>MaxUnpool\<close>;
    \<open>veval\<close> evaluates the \<open>int64\<close> shape arithmetic (constants, \<open>concatenate\<close>,
    elementwise \<open>add\<close>/\<open>subtract\<close>/\<open>multiply\<close>, \<open>reshape\<close> to pairs and
    \<open>sum\<close> over the last axis).
  \<^item> \<^bold>\<open>Short rules\<close> (\<open>Simple_Ops\<close>).  \<open>GlobalLpPool\<close>,
    \<open>ParametricSoftPlus\<close>, \<open>Prelu\<close>, \<open>DepthToSpace\<close>, \<open>SpaceToDepth\<close>,
    \<open>Scale\<close>, \<open>Affine\<close>, \<open>Gather\<close> and \<open>GatherElements\<close> (with
    \<open>normalize_gather_indices\<close>), \<open>Scatter\<close>, \<open>ScatterND\<close>, \<open>Mean\<close>,
    \<open>Sign\<close>, \<open>Equal\<close>, \<open>Not\<close>, \<open>And\<close>, \<open>Or\<close>, \<open>Tile\<close>, \<open>Erf\<close>,
    \<open>Softplus\<close>, \<open>Einsum\<close> and the random generators; a seed the code draws from
    \<open>numpy\<close> is the symbolic call \<open>random_seed\<close>.
  \<^item> \<^bold>\<open>Control-Flow Inliner\<close> (\<open>Control_Flow\<close>).  \<open>If._impl_v1\<close> and
    \<open>Loop._impl_v11\<close>: the child scopes, the loop variables, the scan outputs,
    \<open>cond_fn\<close>, \<open>body_fn\<close> and the merge of the bodies' bindings into the enclosing
    scope.
  \<^item> \<^bold>\<open>The converter table\<close> (\<open>Onnx_Env\<close>).  The subclasses that only set
    \<open>name\<close>, and \<open>class_impl\<close>: the method \<open>_impl_vN\<close> of each modelled class,
    listed in \<open>plain_rules\<close> (with \<open>misc_rules\<close> and \<open>simple_rules\<close>), \<open>If\<close> and \<open>Loop\<close> apart.
    Every listed rule is shown never to run out of fuel (\<open>nofe_plain_rules\<close>).
    \<open>onnx_env\<close> is the importer's environment built from them.
  \<^item> \<^bold>\<open>Relay's semantics\<close> (\<open>Relay_Eval\<close>), for the scalar fragment of the loop
    \<open>Loop\<close> builds: an evaluator and \<open>while_loop\<close> as a \<open>partial_function\<close>
    (option), modelled from the specification.

  \<^bold>\<open>Interfaces.\<close>  The importer calls two things it does not define, collected in the
  record \<open>env\<close>: the rules of the converter classes (\<open>env_impl class version\<close>, of
  the type \<open>converter\<close>) and \<open>fold_constant\<close>.  A converter receives a
  \<open>sub_import\<close>, the importer itself one level of nesting down, for the bodies of
  \<open>If\<close> and \<open>Loop\<close>.  The importer's theorems hold for every environment; those
  that need the class rules to keep the scope's bindings assume \<open>env_mono\<close>, and the
  termination argument assumes \<open>env_fuel_safe\<close>.  \<open>onnx_env\<close> discharges both.

  \<^bold>\<open>Fuel.\<close>  \<open>import_sub fuel\<close> ties the knot of the sub-importer by recursion on the
  fuel, and running out is the error value \<open>FuelExhausted\<close>.  The Python code has no
  bound.  One unit of fuel per level of graph nesting is enough
  (\<open>onnx_import_fuel_enough\<close>, with \<open>graph_depth\<close>); the examples use 1 or 2.
  The while loop of \<open>Relay_Eval\<close> needs no fuel: it is a \<open>partial_function\<close>,
  and the counted loop is proved to return.

  \<^bold>\<open>What is proved.\<close>
  \<^item> Registry: \<open>get_converter\<close> refines the specification's \<open>resolve\<close> (the largest
    version not above the opset) whenever such a version exists.  Below the smallest
    version it returns the newest rule instead of failing (a divergence from the
    specification, section 8).  A class without rules raises.
  \<^item> Attribute table: a round trip from a dict to attribute records and back, and the
    error paths.  Also what the code accepts that the specification leaves open: two
    scalar fields in one record, and a repeated name.
  \<^item> Importer: the upfront operator check fails exactly on the unregistered names and
    reports all of them; the round trips for one initializer, frozen or not; the scope
    invariant (bindings are never removed); the output arity reconciliation; three
    divergences (the function's parameters are all declared inputs, used or not,
    then the free initializer variables in the order of \<open>_params\<close>; the parameter dict holds
    every initializer, a single \<open>dtype\<close> string is ignored for declared inputs); and
    termination with enough fuel.
  \<^item> Rules: \<open>SAME\<close> padding gives the pooled size \<open>ceil(n / stride)\<close>; the storage
    order and layouts; the \<open>Pad\<close> round trip; \<open>Sum\<close>'s loop is the fold of
    \<open>add\<close>; negative \<open>Flatten\<close> axes; \<open>Unsqueeze\<close> refines the ONNX shape rule
    (its chain of \<open>expand_dims\<close>, under Relay's shape rule for \<open>expand_dims\<close>
    in \<open>shape_eval\<close>, gives rank \<open>r + k\<close> with a 1 at each listed axis); the arity of
    \<open>Split\<close>; the \<open>int32\<close> bounds of \<open>Reshape\<close>; and three defects:
    \<open>Reduce\<close> version 12 reduces over the
    first axis only, \<open>Elemwise\<close> detects convolutions by the printed text, and a 1-D
    \<open>Conv\<close> without \<open>group\<close> is taken for a grouped one and fails with
    \<open>auto_pad = VALID\<close>.  The lemmas of \<open>Tensor_Ops\<close> show three more
    defects: \<open>Expand\<close> never pads a lower-rank target shape (its \<open>elif\<close> repeats
    the \<open>if\<close>), and \<open>Clip\<close> version 11 drops a constant upper bound when the lower
    bound is not constant, and both bounds when only the lower one is; that
    \<open>Slice._common\<close> places each start and end at its axis; and that
    \<open>ConvTranspose\<close> version 11 fails on a \<open>group\<close> attribute (it sets
    \<open>groups\<close> too, which the attribute transformer refuses) and on \<open>SAME\<close> padding
    without \<open>strides\<close>.
  \<^item> Training operators: \<open>Momentum\<close> and \<open>Adam\<close> refine the update rules of the ONNX
    operator documentation (each output evaluates to the rule's value on the inputs'
    values); \<open>Adagrad\<close>'s loop body is shown to compute its rule.
  \<^item> Recurrent rules: the activation loop equals a closed form by position (each
    activation gets the next unused \<open>alpha\<close> and \<open>beta\<close> exactly when its kind takes
    one); the weights handed to \<open>lstm_cell\<close> hold, at each gate's place in the cell's
    order i-f-c-o, the block ONNX stores for that gate (order i-o-f-c), and likewise for
    the GRU's z-r-h; and both rules ignore the \<open>direction\<close> attribute, so a
    \<open>reverse\<close> one-direction LSTM runs forward.
  \<^item> Resampling rules: a 4-D \<open>Upsample\<close> with runtime scales takes the height scale at
    index 3, which is the width's (index 4 is clipped to 3); a 5-D one takes the depth
    scale from the channel entry; without \<open>mode\<close> both \<open>Upsample\<close> and \<open>Resize\<close>
    fail although ONNX defaults to \<open>nearest\<close>; \<open>Resize\<close> 11 and 13 agree on a
    scales-only node.
  \<^item> Further rules: \<open>Shrink\<close> (for a non-negative \<open>lambd\<close>) and \<open>Celu\<close> refine
    their ONNX definitions element by element; \<open>MaxUnpool\<close> subtracts the two begin
    pads from the height and the two end pads from the width; \<open>Constant\<close> without a
    value and \<open>BitShift\<close> without a direction fail with the wrong exception.
    \<open>ParametricSoftPlus\<close> and \<open>Affine\<close> refine their ONNX definitions; \<open>ScatterND\<close>
    moves the last axis of the indices to the front; \<open>normalize_gather_indices\<close>
    decides at conversion time when the sign test folds to one constant.
  \<^item> Control flow: what \<open>If\<close> builds; the branches' bindings leak into the enclosing
    scope (a divergence from the specification's scoping); \<open>Loop\<close> builds a counted
    while loop, fails when \<open>M\<close> or \<open>cond\<close> is absent, and the loop it builds exits
    after at most \<open>M - i\<close> iterations, exactly that many while the condition stays
    true.  \<open>Pad\<close> version 1 passes the function \<open>_op.nn.pad\<close> to \<open>AttrCvt\<close>
    where a name is expected; \<open>cvt_op_name\<close> models the \<open>TypeError\<close> Python
    raises there from the specification, so the lemma that it always fails rests on
    that modelling choice.

  \<^bold>\<open>Not modelled.\<close>
  \<^item> The remaining converter classes (the quantized operators \<open>QuantizeLinear\<close>,
    \<open>DequantizeLinear\<close>, \<open>DynamicQuantizeLinear\<close>, \<open>QLinearConv\<close> and the other
    \<open>QLinear*\<close>, \<open>ConvInteger\<close>, \<open>NonMaxSuppression\<close>, \<open>ATen\<close>, the two
    losses, and \<open>Clip\<close> version 1, whose \<open>-np.inf\<close> default has no value in the
    model): in \<open>onnx_env\<close> they answer \<open>NotImplementedError\<close>.
  \<^item> The tensor semantics of the rules: they build Relay expressions, which are kept
    as syntax; only the scalar loop fragment (\<open>Relay_Eval\<close>), the pointwise
    arithmetic of the training operators, \<open>Shrink\<close>, \<open>Celu\<close>,
    \<open>ParametricSoftPlus\<close> and \<open>Affine\<close> (\<open>feval\<close>,
    over exact reals, so floating-point rounding is not modelled), the axis-0 tensor
    plumbing of the recurrent rules (\<open>teval\<close>), the scale arguments of \<open>Upsample\<close>
    (\<open>scale_value\<close>) and the shape arithmetic of \<open>MaxUnpool\<close> (\<open>veval\<close>) are
    evaluated.
  \<^item> The numeric runtime (\<open>numpy\<close>, \<open>tvm.nd\<close>): tensors are shapes, a dtype name and
    integer data; floats are reals.
  \<^item> Relay's type inference and constant folding, beyond being the oracles of a rule;
    \<open>fold_constant\<close> of the loop function of \<open>Loop\<close> is the identity.
  \<^item> \<open>warnings.warn\<close>, recorded as a list of messages in the scope.
  \<^item> The Hexagon scheduling test under \<open>src/tests\<close>, which the specification puts
    out of scope.
\<close>

end
